(* ===== verification/Prelude.thy ===== *)
theory Prelude
  imports Main "HOL-Library.Monad_Syntax"
begin

text \<open>
  Shared vocabulary of the development: Go errors as values, the world-passing
  computations in which the handlers are written, the combinators that render the
  Go idiom \<^verbatim>\<open>x, err := f(); if err != nil { return nil, g(err) }\<close>, Go's
  \<^verbatim>\<open>map[string]string\<close>, the integer widths, and the generic lemmas on these.
\<close>

subsection \<open>Collections of rules used by all components\<close>

named_theorems gostr \<open>rewrite rules of the model of package strings\<close>
named_theorems goio \<open>rewrite rules of the world-passing combinators\<close>
named_theorems sim_intro \<open>syntax-directed rules that carry a simulation through a computation\<close>
named_theorems keeps_intro \<open>syntax-directed rules that carry an invariant through a computation\<close>
named_theorems yields_intro \<open>syntax-directed rules for a property of every result of a computation\<close>
named_theorems ok_iff \<open>a computation succeeds iff each of its parts does\<close>

subsection \<open>Errors\<close>

text \<open>The gRPC status codes used by the driver.\<close>

datatype code =
    InvalidArgument | NotFound | AlreadyExists | FailedPrecondition
  | Unimplemented | Internal | Unavailable

text \<open>
  An error is kept as the call that made it: \<open>Errorf fmt args\<close> for
  \<^verbatim>\<open>fmt.Errorf\<close>/\<^verbatim>\<open>errors.New\<close>, \<open>Status c fmt args\<close> for
  \<^verbatim>\<open>status.Errorf(c, fmt, args)\<close>, \<open>Foreign msg\<close> for an error of code outside the
  repository, known by its text only.  The errors of the standard library the node code tells
  apart have constructors of their own: \<open>NotExist\<close> for those that are \<^verbatim>\<open>os.ErrNotExist\<close>,
  \<open>DeadlineExceeded\<close> of a context, \<open>ExitError code stderr\<close> of a process, and
  \<open>Joined\<close> for \<^verbatim>\<open>errors.Join\<close>.  The format string is the one of the source.
\<close>

datatype goerror =
    Errorf string "goarg list"
  | Status code string "goarg list"
  | Foreign string
  | NotExist string
  | DeadlineExceeded
  | ExitError int string
  | Joined "goerror list"
and goarg = ArgS string | ArgI int | ArgE goerror

fun status_code :: "goerror \<Rightarrow> code option" where
  "status_code (Status c _ _) = Some c"
| "status_code _ = None"

type_synonym 'a result = "goerror + 'a"

abbreviation ok :: "'a result \<Rightarrow> bool" where
  "ok r \<equiv> \<exists>x. r = Inr x"

subsection \<open>Pure fallible computations\<close>

definition onOk :: "'a result \<Rightarrow> ('a \<Rightarrow> 'b result) \<Rightarrow> 'b result" where
  "onOk r k = (case r of Inl e \<Rightarrow> Inl e | Inr x \<Rightarrow> k x)"

lemma onOk_simps [simp]:
  "onOk (Inl e) k = Inl e"
  "onOk (Inr x) k = k x"
  by (simp_all add: onOk_def)

lemma onOk_ok_iff [ok_iff]: "onOk r k = Inr y \<longleftrightarrow> (\<exists>x. r = Inr x \<and> k x = Inr y)"
  by (cases r) auto

lemma onOk_err_iff: "onOk r k = Inl e \<longleftrightarrow> r = Inl e \<or> (\<exists>x. r = Inr x \<and> k x = Inl e)"
  by (cases r) auto

lemma onOk_split: "P (onOk r k) \<longleftrightarrow> (\<forall>e. r = Inl e \<longrightarrow> P (Inl e)) \<and> (\<forall>x. r = Inr x \<longrightarrow> P (k x))"
  by (cases r) auto

lemma if_err_ok_iff [ok_iff]:
  "(if b then Inl e else r) = Inr y \<longleftrightarrow> \<not> b \<and> r = Inr y"
  by simp

lemma onOk_cong [fundef_cong]:
  "r = r' \<Longrightarrow> (\<And>x. r' = Inr x \<Longrightarrow> k x = k' x) \<Longrightarrow> onOk r k = onOk r' k'"
  by (cases r') auto

text \<open>An error value checked for \<^verbatim>\<open>nil\<close> only: \<open>unit result\<close>.\<close>

definition reject_if :: "bool \<Rightarrow> goerror \<Rightarrow> unit result" where
  "reject_if b e = (if b then Inl e else Inr ())"

lemma reject_if_ok_iff [ok_iff, simp]: "reject_if b e = Inr u \<longleftrightarrow> \<not> b"
  by (simp add: reject_if_def)

subsection \<open>Computations on a world\<close>

text \<open>
  A handler talks to a backend; what the backend keeps is the world \<open>'w\<close>, threaded
  through every call.  A failing call may have changed the world, so the world is
  returned on both outcomes.
\<close>

type_synonym ('w, 'a) io = "'w \<Rightarrow> 'a result \<times> 'w"

definition return :: "'a \<Rightarrow> ('w, 'a) io" where
  "return x w = (Inr x, w)"

definition fail :: "goerror \<Rightarrow> ('w, 'a) io" where
  "fail e w = (Inl e, w)"

text \<open>\<open>call m f k\<close>: \<^verbatim>\<open>x, err := m; if err != nil { return nil, f(err) }; k(x)\<close>.\<close>

definition call :: "('w, 'a) io \<Rightarrow> (goerror \<Rightarrow> goerror) \<Rightarrow> ('a \<Rightarrow> ('w, 'b) io) \<Rightarrow> ('w, 'b) io" where
  "call m f k w = (case m w of (Inl e, w') \<Rightarrow> (Inl (f e), w') | (Inr x, w') \<Rightarrow> k x w')"

text \<open>\<open>attempt m k\<close>: the error is a value the continuation inspects.\<close>

definition attempt :: "('w, 'a) io \<Rightarrow> ('a result \<Rightarrow> ('w, 'b) io) \<Rightarrow> ('w, 'b) io" where
  "attempt m k w = (case m w of (r, w') \<Rightarrow> k r w')"

text \<open>\<open>check r k\<close>: \<^verbatim>\<open>x, err := r; if err != nil { return nil, err }; k(x)\<close>, for a pure \<open>r\<close>.\<close>

definition check :: "'a result \<Rightarrow> ('a \<Rightarrow> ('w, 'b) io) \<Rightarrow> ('w, 'b) io" where
  "check r k w = (case r of Inl e \<Rightarrow> (Inl e, w) | Inr x \<Rightarrow> k x w)"

lemma io_simps [goio, simp]:
  "return x w = (Inr x, w)"
  "fail e w = (Inl e, w)"
  "check (Inl e) k w = (Inl e, w)"
  "check (Inr x) k w = k x w"
  by (simp_all add: return_def fail_def check_def)

lemma call_ok_iff [ok_iff]:
  "call m f k w = (Inr y, w') \<longleftrightarrow> (\<exists>x w1. m w = (Inr x, w1) \<and> k x w1 = (Inr y, w'))"
  by (auto simp: call_def split: prod.splits sum.splits)

lemma check_ok_iff [ok_iff]:
  "check r k w = (Inr y, w') \<longleftrightarrow> (\<exists>x. r = Inr x \<and> k x w = (Inr y, w'))"
  by (auto simp: check_def split: sum.splits)

lemma attempt_ok_iff [ok_iff]:
  "attempt m k w = (Inr y, w') \<longleftrightarrow> (\<exists>r w1. m w = (r, w1) \<and> k r w1 = (Inr y, w'))"
  by (auto simp: attempt_def split: prod.splits)

lemma if_fail_ok_iff [ok_iff]:
  "(if b then fail e else m) w = (Inr y, w') \<longleftrightarrow> \<not> b \<and> m w = (Inr y, w')"
  by simp

text \<open>
  What a computation may do, as a Hoare-style judgement: from a world in which \<open>P\<close> holds
  the computation ends, with a result or an error, in a world in which \<open>P\<close> holds.
\<close>

definition keeps :: "('w \<Rightarrow> bool) \<Rightarrow> ('w, 'a) io \<Rightarrow> bool" where
  "keeps P m \<longleftrightarrow> (\<forall>w. P w \<longrightarrow> P (snd (m w)))"

lemma keeps_return [intro, simp, keeps_intro]: "keeps P (return x)"
  by (simp add: keeps_def)

lemma keeps_fail [intro, simp, keeps_intro]: "keeps P (fail e)"
  by (simp add: keeps_def)

lemma keeps_call [intro, keeps_intro]:
  "keeps P m \<Longrightarrow> (\<And>x. keeps P (k x)) \<Longrightarrow> keeps P (call m f k)"
  unfolding keeps_def call_def by (force split: prod.splits sum.splits)

lemma keeps_attempt [intro, keeps_intro]:
  "keeps P m \<Longrightarrow> (\<And>r. keeps P (k r)) \<Longrightarrow> keeps P (attempt m k)"
  unfolding keeps_def attempt_def by (force split: prod.splits)

lemma keeps_check [intro, keeps_intro]: "(\<And>x. keeps P (k x)) \<Longrightarrow> keeps P (check r k)"
  unfolding keeps_def check_def by (auto split: sum.splits)

lemma keeps_if [intro, keeps_intro]: "keeps P m \<Longrightarrow> keeps P n \<Longrightarrow> keeps P (if b then m else n)"
  by simp

lemma keepsD: "keeps P m \<Longrightarrow> P w \<Longrightarrow> m w = (r, w') \<Longrightarrow> P w'"
  unfolding keeps_def by (metis snd_conv)

text \<open>
  Simulation: \<open>sim f m n\<close> says that \<open>m\<close> on a world \<open>w\<close> gives the result that \<open>n\<close> gives
  on \<open>f w\<close>, and that the worlds stay related by \<open>f\<close>.
\<close>

definition sim :: "('v \<Rightarrow> 'w) \<Rightarrow> ('v, 'a) io \<Rightarrow> ('w, 'a) io \<Rightarrow> bool" where
  "sim f m n \<longleftrightarrow> (\<forall>v. fst (m v) = fst (n (f v)) \<and> f (snd (m v)) = snd (n (f v)))"

lemma simD: "sim f m n \<Longrightarrow> n (f v) = (fst (m v), f (snd (m v)))"
  by (simp add: sim_def prod_eq_iff)

lemma simI: "(\<And>v. n (f v) = (fst (m v), f (snd (m v)))) \<Longrightarrow> sim f m n"
  by (simp add: sim_def)

lemma sim_return [intro, simp, sim_intro]: "sim f (return x) (return x)"
  by (simp add: sim_def)

lemma sim_fail [intro, simp, sim_intro]: "sim f (fail e) (fail e)"
  by (simp add: sim_def)

lemma sim_call [intro, sim_intro]:
  assumes "sim f m n" and "\<And>x. sim f (k x) (l x)"
  shows "sim f (call m g k) (call n g l)"
proof (rule simI)
  fix v
  show "call n g l (f v) = (fst (call m g k v), f (snd (call m g k v)))"
    using simD [OF assms(1), of v] simD [OF assms(2)]
    by (cases "m v"; cases "fst (m v)") (auto simp: call_def)
qed

lemma sim_attempt [intro, sim_intro]:
  assumes "sim f m n" and "\<And>r. sim f (k r) (l r)"
  shows "sim f (attempt m k) (attempt n l)"
proof (rule simI)
  fix v
  show "attempt n l (f v) = (fst (attempt m k v), f (snd (attempt m k v)))"
    using simD [OF assms(1), of v] simD [OF assms(2)]
    by (cases "m v") (auto simp: attempt_def)
qed

lemma sim_check [intro, sim_intro]: "(\<And>x. sim f (k x) (l x)) \<Longrightarrow> sim f (check r k) (check r l)"
  by (cases r) (auto simp: sim_def check_def)

lemma sim_if [intro, sim_intro]:
  "sim f m n \<Longrightarrow> sim f m' n' \<Longrightarrow> sim f (if b then m else m') (if b then n else n')"
  by simp

lemma sim_case [sim_intro]:
  "(\<And>e. sim f (g e) (g' e)) \<Longrightarrow> (\<And>x. sim f (h x) (h' x)) \<Longrightarrow> sim f (case_sum g h r) (case_sum g' h' r)"
  "sim f m m' \<Longrightarrow> (\<And>x. sim f (k x) (k' x)) \<Longrightarrow> sim f (case_option m k o') (case_option m' k' o')"
  "(\<And>x y. sim f (p x y) (p' x y)) \<Longrightarrow> sim f (case_prod p xy) (case_prod p' xy)"
  by (auto split: sum.splits option.splits prod.splits)

lemma keeps_case [keeps_intro]:
  "(\<And>e. keeps P (g e)) \<Longrightarrow> (\<And>x. keeps P (h x)) \<Longrightarrow> keeps P (case_sum g h r)"
  "keeps P m \<Longrightarrow> (\<And>x. keeps P (k x)) \<Longrightarrow> keeps P (case_option m k o')"
  "(\<And>x y. keeps P (p x y)) \<Longrightarrow> keeps P (case_prod p xy)"
  by (auto split: sum.splits option.splits prod.splits)

text \<open>
  Partial correctness of the result: whenever the computation succeeds, its value satisfies \<open>Q\<close>.
\<close>

definition yields :: "('a \<Rightarrow> bool) \<Rightarrow> ('w, 'a) io \<Rightarrow> bool" where
  "yields Q m \<longleftrightarrow> (\<forall>w y w'. m w = (Inr y, w') \<longrightarrow> Q y)"

lemma yieldsD: "yields Q m \<Longrightarrow> m w = (Inr y, w') \<Longrightarrow> Q y"
  unfolding yields_def by blast

lemma yields_return: "Q x \<Longrightarrow> yields Q (return x)"
  by (simp add: yields_def)

lemma yields_fail [yields_intro]: "yields Q (fail e)"
  by (simp add: yields_def)

lemma yields_call [yields_intro]: "(\<And>x. yields Q (k x)) \<Longrightarrow> yields Q (call m f k)"
  by (auto simp: yields_def ok_iff)

lemma yields_attempt [yields_intro]: "(\<And>r. yields Q (k r)) \<Longrightarrow> yields Q (attempt m k)"
  by (auto simp: yields_def ok_iff)

lemma yields_check [yields_intro]: "(\<And>x. r = Inr x \<Longrightarrow> yields Q (k x)) \<Longrightarrow> yields Q (check r k)"
  by (auto simp: yields_def ok_iff)

lemma yields_if [yields_intro]: "yields Q m \<Longrightarrow> yields Q n \<Longrightarrow> yields Q (if b then m else n)"
  by simp

lemma yields_case [yields_intro]:
  "(\<And>e. yields Q (g e)) \<Longrightarrow> (\<And>x. yields Q (h x)) \<Longrightarrow> yields Q (case_sum g h r)"
  "yields Q m \<Longrightarrow> (\<And>x. yields Q (k x)) \<Longrightarrow> yields Q (case_option m k o')"
  "(\<And>x y. yields Q (p x y)) \<Longrightarrow> yields Q (case_prod p xy)"
  by (auto split: sum.splits option.splits prod.splits)

subsection \<open>Go maps from strings to strings\<close>

type_synonym smap = "string \<Rightarrow> string option"

text \<open>\<^verbatim>\<open>m[k]\<close>: the zero value when the key is absent (or the map is nil).\<close>

definition mget :: "smap \<Rightarrow> string \<Rightarrow> string" where
  "mget m k = (case m k of None \<Rightarrow> [] | Some v \<Rightarrow> v)"

lemma mget_simps [simp]:
  "mget (m(k \<mapsto> v)) k = v"
  "k \<noteq> k' \<Longrightarrow> mget (m(k' \<mapsto> v)) k = mget m k"
  "mget Map.empty k = []"
  by (simp_all add: mget_def)

subsection \<open>Integer widths\<close>

text \<open>Go's \<^verbatim>\<open>int\<close> is 64 bits wide on the driver's platforms.\<close>

definition int64_range :: "int \<Rightarrow> bool" where
  "int64_range i \<longleftrightarrow> - (2 ^ 63) \<le> i \<and> i < 2 ^ 63"

definition int32_range :: "int \<Rightarrow> bool" where
  "int32_range i \<longleftrightarrow> - (2 ^ 31) \<le> i \<and> i < 2 ^ 31"

text \<open>The conversion \<^verbatim>\<open>int32(x)\<close> keeps the low 32 bits, read as two's complement.\<close>

definition int32_of :: "int \<Rightarrow> int" where
  "int32_of x = (x + 2 ^ 31) mod 2 ^ 32 - 2 ^ 31"

lemma int32_of_range: "int32_range (int32_of x)"
  by (simp add: int32_of_def int32_range_def)

lemma int32_of_id [simp]: "int32_range x \<Longrightarrow> int32_of x = x"
  by (simp add: int32_of_def int32_range_def)

lemma int32_int64: "int32_range x \<Longrightarrow> int64_range x"
  by (simp add: int32_range_def int64_range_def)

end
