(* ===== verification/GoStrings.thy ===== *)
theory GoStrings
  imports Prelude
begin

text \<open>
  The parts of Go's packages \<^verbatim>\<open>strings\<close>, \<^verbatim>\<open>strconv\<close> and \<^verbatim>\<open>unicode\<close> that the driver uses.
  A Go string is a sequence of bytes; here it is a \<open>string\<close> (a list of 8-bit characters), a
  non-ASCII rune being its UTF-8 bytes.

  The functions that look at runes are exact on bytes: the UTF-8 lead byte of a rune never
  occurs inside another rune, so a rune occurs in a Go string (valid UTF-8 or not) exactly
  where its bytes occur.  \<^verbatim>\<open>ToLower\<close> is exact up to the identity of non-ASCII results: the
  only two non-ASCII runes whose lower case is ASCII are U+0130 and U+212A, and both are
  mapped; all other non-ASCII bytes are kept.  The driver compares lower-cased text with
  ASCII constants only.
\<close>

subsection \<open>Prefixes, suffixes, substrings\<close>

definition HasPrefix :: "string \<Rightarrow> string \<Rightarrow> bool" where
  "HasPrefix s p \<longleftrightarrow> take (length p) s = p"

definition HasSuffix :: "string \<Rightarrow> string \<Rightarrow> bool" where
  "HasSuffix s p \<longleftrightarrow> HasPrefix (rev s) (rev p)"

definition TrimPrefix :: "string \<Rightarrow> string \<Rightarrow> string" where
  "TrimPrefix s p = (if HasPrefix s p then drop (length p) s else s)"

fun Index :: "string \<Rightarrow> string \<Rightarrow> nat option" where
  "Index [] sub = (if sub = [] then Some 0 else None)"
| "Index (c # cs) sub =
     (if HasPrefix (c # cs) sub then Some 0 else map_option Suc (Index cs sub))"

definition Contains :: "string \<Rightarrow> string \<Rightarrow> bool" where
  "Contains s sub \<longleftrightarrow> Index s sub \<noteq> None"

text \<open>\<^verbatim>\<open>strings.Cut\<close>: before, after, found.\<close>

definition Cut :: "string \<Rightarrow> string \<Rightarrow> string \<times> string \<times> bool" where
  "Cut s sep =
     (case Index s sep of
        None \<Rightarrow> (s, [], False)
      | Some i \<Rightarrow> (take i s, drop (i + length sep) s, True))"

definition ContainsAny :: "string \<Rightarrow> string \<Rightarrow> bool" where
  "ContainsAny s chars \<longleftrightarrow> list_ex (\<lambda>c. c \<in> set chars) s"

subsection \<open>Splitting and joining\<close>

fun splitOn :: "char \<Rightarrow> string \<Rightarrow> string list" where
  "splitOn d [] = [[]]"
| "splitOn d (c # cs) =
     (if c = d then [] # splitOn d cs
      else case splitOn d cs of [] \<Rightarrow> [[c]] | w # ws \<Rightarrow> (c # w) # ws)"

fun Join :: "string list \<Rightarrow> string \<Rightarrow> string" where
  "Join [] sep = []"
| "Join [w] sep = w"
| "Join (w # v # ws) sep = w @ sep @ Join (v # ws) sep"

text \<open>\<^verbatim>\<open>strings.FieldsFunc\<close> for a predicate on ASCII bytes: the non-empty pieces.\<close>

fun fieldsAux :: "(char \<Rightarrow> bool) \<Rightarrow> string \<Rightarrow> string list" where
  "fieldsAux P [] = [[]]"
| "fieldsAux P (c # cs) =
     (if P c then [] # fieldsAux P cs
      else case fieldsAux P cs of [] \<Rightarrow> [[c]] | w # ws \<Rightarrow> (c # w) # ws)"

definition FieldsFunc :: "(char \<Rightarrow> bool) \<Rightarrow> string \<Rightarrow> string list" where
  "FieldsFunc P s = filter (\<lambda>w. w \<noteq> []) (fieldsAux P s)"

text \<open>\<^verbatim>\<open>strings.ReplaceAll\<close> of one byte.\<close>

definition ReplaceAll :: "string \<Rightarrow> char \<Rightarrow> string \<Rightarrow> string" where
  "ReplaceAll s c new = concat (map (\<lambda>x. if x = c then new else [x]) s)"

subsection \<open>Trimming\<close>

text \<open>\<^verbatim>\<open>TrimLeft\<close>, \<^verbatim>\<open>TrimRight\<close> and \<^verbatim>\<open>Trim\<close> for an ASCII cutset.\<close>

definition TrimLeft :: "string \<Rightarrow> string \<Rightarrow> string" where
  "TrimLeft s cutset = dropWhile (\<lambda>c. c \<in> set cutset) s"

definition TrimRight :: "string \<Rightarrow> string \<Rightarrow> string" where
  "TrimRight s cutset = rev (dropWhile (\<lambda>c. c \<in> set cutset) (rev s))"

definition Trim :: "string \<Rightarrow> string \<Rightarrow> string" where
  "Trim s cutset = TrimRight (TrimLeft s cutset) cutset"

text \<open>The UTF-8 bytes of the runes for which \<^verbatim>\<open>unicode.IsSpace\<close> holds.\<close>

definition space_runes :: "string list" where
  "space_runes =
     [[CHR 0x20], [CHR 0x09], [CHR 0x0A], [CHR 0x0B], [CHR 0x0C], [CHR 0x0D],
      [CHR 0xC2, CHR 0x85], [CHR 0xC2, CHR 0xA0], [CHR 0xE1, CHR 0x9A, CHR 0x80],
      [CHR 0xE2, CHR 0x80, CHR 0x80], [CHR 0xE2, CHR 0x80, CHR 0x81],
      [CHR 0xE2, CHR 0x80, CHR 0x82], [CHR 0xE2, CHR 0x80, CHR 0x83],
      [CHR 0xE2, CHR 0x80, CHR 0x84], [CHR 0xE2, CHR 0x80, CHR 0x85],
      [CHR 0xE2, CHR 0x80, CHR 0x86], [CHR 0xE2, CHR 0x80, CHR 0x87],
      [CHR 0xE2, CHR 0x80, CHR 0x88], [CHR 0xE2, CHR 0x80, CHR 0x89],
      [CHR 0xE2, CHR 0x80, CHR 0x8A], [CHR 0xE2, CHR 0x80, CHR 0xA8],
      [CHR 0xE2, CHR 0x80, CHR 0xA9], [CHR 0xE2, CHR 0x80, CHR 0xAF],
      [CHR 0xE2, CHR 0x81, CHR 0x9F], [CHR 0xE3, CHR 0x80, CHR 0x80]]"

definition first_match :: "string list \<Rightarrow> string \<Rightarrow> string option" where
  "first_match ps s = find (\<lambda>p. p \<noteq> [] \<and> HasPrefix s p) ps"

lemma first_match_SomeD:
  assumes "first_match ps s = Some p"
  shows "p \<in> set ps" "p \<noteq> []" "HasPrefix s p" "length p \<le> length s"
  using assms by (auto simp: first_match_def find_Some_iff HasPrefix_def) (metis nat_le_linear take_all)

text \<open>Remove patterns from the front for as long as one matches.\<close>

function stripAll :: "string list \<Rightarrow> string \<Rightarrow> string" where
  "stripAll ps s =
     (case first_match ps s of None \<Rightarrow> s | Some p \<Rightarrow> stripAll ps (drop (length p) s))"
  by pat_completeness auto
termination
proof (relation "measure (\<lambda>(ps, s). length s)")
  fix ps s p
  assume "first_match ps s = Some p"
  from first_match_SomeD [OF this] show "((ps, drop (length p) s), (ps, s)) \<in> measure (\<lambda>(ps, s). length s)"
    by (cases s) auto
qed simp

declare stripAll.simps [simp del]

definition TrimSpace :: "string \<Rightarrow> string" where
  "TrimSpace s = rev (stripAll (map rev space_runes) (rev (stripAll space_runes s)))"

text \<open>\<^verbatim>\<open>strings.ContainsFunc(s, unicode.IsSpace)\<close> and the control-character test of a range loop.\<close>

fun containsSpace :: "string \<Rightarrow> bool" where
  "containsSpace [] = False"
| "containsSpace (c # cs) = (first_match space_runes (c # cs) \<noteq> None \<or> containsSpace cs)"

definition byte :: "char \<Rightarrow> nat" where
  "byte c = of_char c"

text \<open>\<^verbatim>\<open>unicode.IsControl\<close>: U+0000 to U+001F, U+007F and U+0080 to U+009F (bytes C2 80 to C2 9F).\<close>

definition controlAt :: "string \<Rightarrow> bool" where
  "controlAt s =
     (case s of [] \<Rightarrow> False
      | c # cs \<Rightarrow> byte c < 32 \<or> byte c = 127 \<or>
          (byte c = 194 \<and> (case cs of [] \<Rightarrow> False | d # _ \<Rightarrow> 128 \<le> byte d \<and> byte d \<le> 159)))"

fun containsControl :: "string \<Rightarrow> bool" where
  "containsControl [] = False"
| "containsControl (c # cs) = (controlAt (c # cs) \<or> containsControl cs)"

subsection \<open>Case\<close>

definition lowerByte :: "char \<Rightarrow> char" where
  "lowerByte c = (if 65 \<le> byte c \<and> byte c \<le> 90 then char_of (byte c + 32) else c)"

fun ToLower :: "string \<Rightarrow> string" where
  "ToLower [] = []"
| "ToLower (c # cs) =
     (if c = CHR 0xC4 \<and> take 1 cs = [CHR 0xB0] then CHR ''i'' # ToLower (drop 1 cs)
      else if c = CHR 0xE2 \<and> take 2 cs = [CHR 0x84, CHR 0xAA] then CHR ''k'' # ToLower (drop 2 cs)
      else lowerByte c # ToLower cs)"

text \<open>
  \<^verbatim>\<open>strings.EqualFold\<close> through a folded form: ASCII letters to lower case, U+212A to k and
  U+017F to s; other runes are compared by their bytes.
\<close>

fun foldCase :: "string \<Rightarrow> string" where
  "foldCase [] = []"
| "foldCase (c # cs) =
     (if c = CHR 0xC5 \<and> take 1 cs = [CHR 0xBF] then CHR ''s'' # foldCase (drop 1 cs)
      else if c = CHR 0xE2 \<and> take 2 cs = [CHR 0x84, CHR 0xAA] then CHR ''k'' # foldCase (drop 2 cs)
      else lowerByte c # foldCase cs)"

definition EqualFold :: "string \<Rightarrow> string \<Rightarrow> bool" where
  "EqualFold s t \<longleftrightarrow> foldCase s = foldCase t"

subsection \<open>Numbers\<close>

definition digitChar :: "nat \<Rightarrow> char" where
  "digitChar n = char_of (48 + n)"

definition digitVal :: "char \<Rightarrow> nat option" where
  "digitVal c = (if 48 \<le> byte c \<and> byte c \<le> 57 then Some (byte c - 48) else None)"

fun showNat :: "nat \<Rightarrow> string" where
  "showNat n = (if n < 10 then [digitChar n] else showNat (n div 10) @ [digitChar (n mod 10)])"

declare showNat.simps [simp del]

text \<open>\<^verbatim>\<open>strconv.Itoa\<close> and \<^verbatim>\<open>strconv.FormatInt(i, 10)\<close>.\<close>

definition Itoa :: "int \<Rightarrow> string" where
  "Itoa i = (if i < 0 then CHR ''-'' # showNat (nat (- i)) else showNat (nat i))"

fun readDigits :: "nat \<Rightarrow> string \<Rightarrow> nat option" where
  "readDigits acc [] = Some acc"
| "readDigits acc (c # cs) =
     (case digitVal c of None \<Rightarrow> None | Some d \<Rightarrow> readDigits (10 * acc + d) cs)"

definition parseNat :: "string \<Rightarrow> nat option" where
  "parseNat s = (if s = [] then None else readDigits 0 s)"

text \<open>\<^verbatim>\<open>strconv.ParseInt(s, 10, 64)\<close> and \<^verbatim>\<open>strconv.Atoi\<close>; \<open>None\<close> for either kind of error.\<close>

definition ParseInt :: "string \<Rightarrow> int option" where
  "ParseInt s =
     (let (neg, ds) = (case s of [] \<Rightarrow> (False, [])
                       | c # cs \<Rightarrow> if c = CHR ''-'' then (True, cs)
                                   else if c = CHR ''+'' then (False, cs) else (False, s))
      in case parseNat ds of
           None \<Rightarrow> None
         | Some n \<Rightarrow> (let i = (if neg then - int n else int n)
                      in if int64_range i then Some i else None))"

abbreviation Atoi :: "string \<Rightarrow> int option" where
  "Atoi \<equiv> ParseInt"

text \<open>\<^verbatim>\<open>strconv.ParseUint(s, 10, 32)\<close>.\<close>

definition ParseUint32 :: "string \<Rightarrow> int option" where
  "ParseUint32 s =
     (case parseNat s of None \<Rightarrow> None | Some n \<Rightarrow> if n < 2 ^ 32 then Some (int n) else None)"

definition ParseBool :: "string \<Rightarrow> bool option" where
  "ParseBool s =
     (if s \<in> set [''1'', ''t'', ''T'', ''true'', ''TRUE'', ''True''] then Some True
      else if s \<in> set [''0'', ''f'', ''F'', ''false'', ''FALSE'', ''False''] then Some False
      else None)"

subsection \<open>Lemmas: prefixes and substrings\<close>

lemma HasPrefix_append [simp, gostr]: "HasPrefix (p @ s) p"
  by (simp add: HasPrefix_def)

lemma HasPrefix_iff: "HasPrefix s p \<longleftrightarrow> (\<exists>t. s = p @ t)"
  by (metis HasPrefix_append HasPrefix_def append_take_drop_id)

lemma HasPrefix_Nil [simp, gostr]: "HasPrefix s []"
  by (simp add: HasPrefix_def)

lemma HasPrefix_Nil2 [simp, gostr]: "HasPrefix [] p \<longleftrightarrow> p = []"
  by (auto simp: HasPrefix_def)

lemma HasPrefix_Cons [simp, gostr]: "HasPrefix (c # s) (d # p) \<longleftrightarrow> c = d \<and> HasPrefix s p"
  by (auto simp: HasPrefix_def)

lemma HasPrefix_append_mono: "HasPrefix s p \<Longrightarrow> HasPrefix (s @ t) p"
  by (auto simp: HasPrefix_iff)

lemma Index_SomeD:
  "Index s sub = Some i \<Longrightarrow> s = take i s @ sub @ drop (i + length sub) s"
proof (induction s arbitrary: i)
  case Nil
  then show ?case by (auto split: if_splits)
next
  case (Cons c cs)
  show ?case
  proof (cases "HasPrefix (c # cs) sub")
    case True
    then have "i = 0" using Cons.prems by simp
    then show ?thesis using True by (metis HasPrefix_def add_0 append_Nil append_take_drop_id take_0)
  next
    case False
    then obtain j where "i = Suc j" and "Index cs sub = Some j"
      using Cons.prems by auto
    then show ?thesis using Cons.IH by fastforce
  qed
qed

lemma Index_le: "Index s sub = Some i \<Longrightarrow> i + length sub \<le> length s"
proof (induction s arbitrary: i)
  case Nil
  then show ?case by (auto split: if_splits)
next
  case (Cons c cs)
  then show ?case
    by (fastforce split: if_splits simp: HasPrefix_iff dest: arg_cong [where f = length])
qed

text \<open>A single-byte separator is found at its first occurrence.\<close>

lemma Index_char_None [simp, gostr]: "Index s [c] = None \<longleftrightarrow> c \<notin> set s"
  by (induction s) auto

lemma Index_char_append [simp, gostr]: "c \<notin> set s \<Longrightarrow> Index (s @ c # t) [c] = Some (length s)"
  by (induction s) auto

lemma Cut_char_append [simp, gostr]: "c \<notin> set s \<Longrightarrow> Cut (s @ c # t) [c] = (s, t, True)"
  by (simp add: Cut_def)

lemma Index_char_absent [simp]: "c \<notin> set s \<Longrightarrow> Index s [c] = None"
  by simp

lemma Cut_char_absent [simp, gostr]: "c \<notin> set s \<Longrightarrow> Cut s [c] = (s, [], False)"
  unfolding Cut_def by (subst Index_char_absent) simp_all

lemma Contains_char [simp, gostr]: "Contains s [c] \<longleftrightarrow> c \<in> set s"
  unfolding Contains_def Index_char_None by simp

lemma ContainsAny_iff: "ContainsAny s cs \<longleftrightarrow> set s \<inter> set cs \<noteq> {}"
  by (auto simp: ContainsAny_def list_ex_iff)

subsection \<open>Lemmas: splitting and joining\<close>

lemma splitOn_not_Nil [simp, gostr]: "splitOn d s \<noteq> []"
  by (induction s) (auto split: list.splits)

lemma splitOn_absent [simp, gostr]: "d \<notin> set s \<Longrightarrow> splitOn d s = [s]"
  by (induction s) auto

lemma splitOn_append [gostr]: "d \<notin> set w \<Longrightarrow> splitOn d (w @ d # s) = w # splitOn d s"
  by (induction w) auto

lemma splitOn_pieces: "w \<in> set (splitOn d s) \<Longrightarrow> d \<notin> set w"
proof (induction s arbitrary: w)
  case (Cons c cs)
  then show ?case by (auto split: if_splits list.splits)
qed simp

lemma Join_splitOn: "Join (splitOn d s) [d] = s"
proof (induction s)
  case (Cons c cs)
  then show ?case
    by (cases "splitOn d cs"; cases "tl (splitOn d cs)") (auto split: list.splits)
qed simp

lemma splitOn_Join:
  "ws \<noteq> [] \<Longrightarrow> (\<forall>w\<in>set ws. d \<notin> set w) \<Longrightarrow> splitOn d (Join ws [d]) = ws"
  by (induction ws "[d]" rule: Join.induct) (auto simp: splitOn_append)

lemma Index_infix: "Index (a @ sub @ b) sub \<noteq> None"
proof (induction a)
  case Nil
  have "HasPrefix (sub @ b) sub" by simp
  then show ?case by (cases "sub @ b") auto
next
  case (Cons c a)
  then show ?case by auto
qed

lemma Contains_iff: "Contains s sub \<longleftrightarrow> (\<exists>a b. s = a @ sub @ b)"
proof
  assume "Contains s sub"
  then obtain i where "Index s sub = Some i" by (auto simp: Contains_def)
  then show "\<exists>a b. s = a @ sub @ b" using Index_SomeD by blast
next
  assume "\<exists>a b. s = a @ sub @ b"
  then show "Contains s sub" using Index_infix by (auto simp: Contains_def)
qed

lemma HasSuffix_iff: "HasSuffix s p \<longleftrightarrow> (\<exists>t. s = t @ p)"
  unfolding HasSuffix_def HasPrefix_iff by (metis rev_append rev_rev_ident)

text \<open>A piece of a split stands between separators or at an end.\<close>

lemma splitOn_context:
  "w \<in> set (splitOn d s) \<Longrightarrow>
     s = w \<or> (\<exists>b. s = w @ d # b) \<or> (\<exists>a. s = a @ d # w) \<or> (\<exists>a b. s = a @ d # w @ d # b)"
proof (induction "length s" arbitrary: s rule: less_induct)
  case less
  show ?case
  proof (cases "d \<in> set s")
    case False
    then show ?thesis using less.prems by simp
  next
    case True
    then obtain p t where s: "s = p @ d # t" "d \<notin> set p" by (meson split_list_first)
    then have "w = p \<or> w \<in> set (splitOn d t)" using less.prems by (simp add: splitOn_append)
    then show ?thesis
    proof
      assume "w = p"
      then show ?thesis using s by blast
    next
      assume "w \<in> set (splitOn d t)"
      then have "t = w \<or> (\<exists>b. t = w @ d # b) \<or> (\<exists>a. t = a @ d # w) \<or> (\<exists>a b. t = a @ d # w @ d # b)"
        using s less.hyps [of t] by simp
      then show ?thesis unfolding s(1) by (elim disjE exE) (auto, (metis append_Cons append_assoc)+)
    qed
  qed
qed

subsection \<open>Lemmas: trimming\<close>

lemma stripAll_stable [simp]: "first_match ps (stripAll ps s) = None"
proof (induction ps s rule: stripAll.induct)
  case (1 ps s)
  then show ?case by (subst stripAll.simps) (auto split: option.splits)
qed

lemma stripAll_id: "first_match ps s = None \<Longrightarrow> stripAll ps s = s"
  by (subst stripAll.simps) simp

lemma stripAll_step: "first_match ps s = Some p \<Longrightarrow> stripAll ps s = stripAll ps (drop (length p) s)"
  by (subst stripAll.simps) simp

lemma stripAll_suffix: "\<exists>t. s = t @ stripAll ps s"
proof (induction ps s rule: stripAll.induct)
  case (1 ps s)
  show ?case
  proof (cases "first_match ps s")
    case None
    then show ?thesis by (simp add: stripAll_id)
  next
    case (Some p)
    then obtain t where "drop (length p) s = t @ stripAll ps (drop (length p) s)"
      using "1.IH" by blast
    then have "s = (take (length p) s @ t) @ stripAll ps s"
      using stripAll_step [OF Some] append_take_drop_id [of "length p" s] by simp
    then show ?thesis by blast
  qed
qed

lemma first_match_None_iff: "first_match ps s = None \<longleftrightarrow> (\<forall>p\<in>set ps. p = [] \<or> \<not> HasPrefix s p)"
  by (auto simp: first_match_def find_None_iff)

lemma first_match_append_None: "first_match ps (s @ t) = None \<Longrightarrow> first_match ps s = None"
  by (auto simp: first_match_None_iff dest: HasPrefix_append_mono)

lemma TrimSpace_no_left: "first_match space_runes (TrimSpace s) = None"
proof -
  obtain t where "rev (stripAll space_runes s) = t @ stripAll (map rev space_runes) (rev (stripAll space_runes s))"
    using stripAll_suffix by blast
  then have "stripAll space_runes s = TrimSpace s @ rev t"
    unfolding TrimSpace_def by (metis rev_append rev_rev_ident)
  then show ?thesis
    using stripAll_stable [of space_runes s] first_match_append_None by metis
qed

lemma TrimSpace_no_right: "first_match (map rev space_runes) (rev (TrimSpace s)) = None"
  by (simp add: TrimSpace_def)

lemma TrimSpace_eq_iff:
  "TrimSpace s = s \<longleftrightarrow>
     first_match space_runes s = None \<and> first_match (map rev space_runes) (rev s) = None"
proof
  assume "TrimSpace s = s"
  then show "first_match space_runes s = None \<and> first_match (map rev space_runes) (rev s) = None"
    using TrimSpace_no_left [of s] TrimSpace_no_right [of s] by simp
next
  assume "first_match space_runes s = None \<and> first_match (map rev space_runes) (rev s) = None"
  then show "TrimSpace s = s" by (simp add: TrimSpace_def stripAll_id)
qed

lemma TrimSpace_idem [simp, gostr]: "TrimSpace (TrimSpace s) = TrimSpace s"
  unfolding TrimSpace_eq_iff using TrimSpace_no_left TrimSpace_no_right by simp

lemma TrimSpace_Nil [simp, gostr]: "TrimSpace [] = []"
proof -
  have "first_match space_runes [] = None" "first_match (map rev space_runes) [] = None"
    by (simp_all add: first_match_None_iff)
  then show ?thesis by (simp add: TrimSpace_def stripAll_id)
qed

lemma stripAll_subset: "set (stripAll ps s) \<subseteq> set s"
  using stripAll_suffix [of s ps] by (metis Un_upper2 set_append)

lemma TrimSpace_subset: "set (TrimSpace s) \<subseteq> set s"
  unfolding TrimSpace_def set_rev
  using stripAll_subset [of "map rev space_runes" "rev (stripAll space_runes s)"]
    stripAll_subset [of space_runes s] by (simp add: subset_trans)

text \<open>Text made of visible ASCII characters is not changed by trimming.\<close>

definition graphic :: "char \<Rightarrow> bool" where
  "graphic c \<longleftrightarrow> 33 \<le> byte c \<and> byte c \<le> 126"

lemma space_runes_ends_all:
  "list_all (\<lambda>p. p \<noteq> [] \<and> \<not> graphic (hd p) \<and> \<not> graphic (last p)) space_runes"
  by code_simp

lemma space_rune_ends:
  "p \<in> set space_runes \<Longrightarrow> p \<noteq> [] \<and> \<not> graphic (hd p) \<and> \<not> graphic (last p)"
  using space_runes_ends_all unfolding list_all_iff by blast

lemma no_match_graphic: "\<forall>c\<in>set s. graphic c \<Longrightarrow> first_match space_runes s = None"
proof -
  assume g: "\<forall>c\<in>set s. graphic c"
  have "\<not> HasPrefix s p" if "p \<in> set space_runes" for p
    using space_rune_ends [OF that] g by (cases p; cases s) auto
  then show ?thesis by (simp add: first_match_None_iff)
qed

lemma TrimSpace_graphic [gostr]:
  assumes "\<forall>c\<in>set s. graphic c"
  shows "TrimSpace s = s"
proof -
  have "\<not> HasPrefix (rev s) (rev p)" if "p \<in> set space_runes" for p
  proof
    assume "HasPrefix (rev s) (rev p)"
    then obtain t where "rev s = rev p @ t" by (auto simp: HasPrefix_iff)
    then have "set p \<subseteq> set s" by (metis Un_upper1 set_append set_rev)
    then show False using space_rune_ends [OF that] assms by (meson last_in_set subsetD)
  qed
  then have "first_match (map rev space_runes) (rev s) = None"
    by (simp add: first_match_None_iff)
  then show ?thesis using no_match_graphic [OF assms] by (simp add: TrimSpace_eq_iff)
qed

text \<open>A character of no space rune survives trimming, and a space rune does not match across it.\<close>

lemma stripAll_keeps:
  assumes "\<forall>p\<in>set ps. c \<notin> set p" "c \<in> set s"
  shows "c \<in> set (stripAll ps s)"
  using assms(2)
proof (induction "length s" arbitrary: s rule: less_induct)
  case less
  show ?case
  proof (cases "first_match ps s")
    case None
    then show ?thesis using less.prems by (simp add: stripAll_id)
  next
    case (Some p)
    note p = first_match_SomeD [OF Some]
    then obtain t where t: "s = p @ t" by (auto simp: HasPrefix_iff)
    have "c \<in> set t" using p(1) assms(1) less.prems t by auto
    then have "c \<in> set (stripAll ps t)" using p(2) t by (intro less.hyps) auto
    then show ?thesis using Some t by (subst stripAll.simps) simp
  qed
qed

lemma space_runes_bytes_all: "list_all (list_all (\<lambda>c. \<not> graphic c)) space_runes"
  by code_simp

lemma space_runes_bytes: "graphic c \<Longrightarrow> p \<in> set space_runes \<Longrightarrow> c \<notin> set p"
  using space_runes_bytes_all unfolding list_all_iff by blast

lemma TrimSpace_graphic_in:
  assumes "c \<in> set s" "graphic c"
  shows "c \<in> set (TrimSpace s)"
proof -
  have "\<forall>p\<in>set space_runes. c \<notin> set p" using space_runes_bytes [OF assms(2)] by blast
  then show ?thesis
    unfolding TrimSpace_def set_rev using assms(1) by (intro stripAll_keeps) (simp_all add: stripAll_keeps)
qed

lemma TrimSpace_nonblank: "c \<in> set s \<Longrightarrow> graphic c \<Longrightarrow> TrimSpace s \<noteq> []"
  using TrimSpace_graphic_in [of c s] by auto

lemma HasPrefix_delim: "d \<notin> set p \<Longrightarrow> HasPrefix (l @ d # r) p \<longleftrightarrow> HasPrefix l p"
proof (induction p arbitrary: l)
  case (Cons a p)
  then show ?case by (cases l) auto
qed simp

lemma first_match_delim:
  "\<forall>p\<in>set ps. d \<notin> set p \<Longrightarrow> first_match ps (l @ d # r) = None \<longleftrightarrow> first_match ps l = None"
  by (simp add: first_match_None_iff HasPrefix_delim)

lemma TrimSpace_delim:
  assumes "graphic d" "TrimSpace a = a" "TrimSpace b = b"
  shows "TrimSpace (a @ d # b) = a @ d # b"
proof -
  have "\<forall>p\<in>set space_runes. d \<notin> set p" "\<forall>p\<in>set (map rev space_runes). d \<notin> set p"
    using space_runes_bytes [OF assms(1)] by auto
  then show ?thesis
    using assms(2,3) first_match_delim [of space_runes d a b]
      first_match_delim [of "map rev space_runes" d "rev b" "rev a"]
    by (simp add: TrimSpace_eq_iff)
qed

lemma containsSpace_graphic [gostr]: "\<forall>c\<in>set s. graphic c \<Longrightarrow> \<not> containsSpace s"
  by (induction s) (auto simp: no_match_graphic [simplified])

subsection \<open>Lemmas: numbers\<close>

lemma byte_less [simp]: "byte c < 256"
  by (simp add: byte_def)

lemma byte_inject [simp]: "byte c = byte d \<longleftrightarrow> c = d"
  by (simp add: byte_def)

lemma byte_char_of [simp]: "n < 256 \<Longrightarrow> byte (char_of n) = n"
  by (simp add: byte_def)

lemma char_of_byte [simp]: "char_of (byte c) = c"
  by (simp add: byte_def)

lemma digitVal_digitChar [simp]: "n < 10 \<Longrightarrow> digitVal (digitChar n) = Some n"
  by (simp add: digitVal_def digitChar_def)

lemma readDigits_append:
  "readDigits acc (s @ t) = (case readDigits acc s of None \<Rightarrow> None | Some a \<Rightarrow> readDigits a t)"
  by (induction s arbitrary: acc) (auto split: option.splits)

lemma readDigits_showNat: "readDigits 0 (showNat n) = Some n"
proof (induction n rule: showNat.induct)
  case (1 n)
  show ?case
  proof (cases "n < 10")
    case True
    then show ?thesis by (simp add: showNat.simps [of n])
  next
    case False
    then show ?thesis using 1 by (simp add: showNat.simps [of n] readDigits_append)
  qed
qed

lemma showNat_not_Nil [simp]: "showNat n \<noteq> []"
  by (subst showNat.simps) simp

lemma parseNat_showNat [simp]: "parseNat (showNat n) = Some n"
  by (simp add: parseNat_def readDigits_showNat)

lemma showNat_digits: "c \<in> set (showNat n) \<Longrightarrow> 48 \<le> byte c \<and> byte c \<le> 57"
proof (induction n rule: showNat.induct)
  case (1 n)
  then show ?case
    by (cases "n < 10") (auto simp: showNat.simps [of n] digitChar_def)
qed

lemma showNat_head: "\<exists>c cs. showNat n = c # cs \<and> c \<noteq> CHR ''-'' \<and> c \<noteq> CHR ''+''"
proof -
  obtain c cs where s: "showNat n = c # cs"
    by (cases "showNat n") auto
  then have "48 \<le> byte c" using showNat_digits [of c n] by simp
  moreover have "byte CHR ''-'' = 45" "byte CHR ''+'' = 43"
    by (simp_all add: byte_def)
  ultimately show ?thesis using s by auto
qed

theorem ParseInt_Itoa [simp, gostr]: "int64_range i \<Longrightarrow> ParseInt (Itoa i) = Some i"
proof (cases "i < 0")
  case True
  assume "int64_range i"
  with True show ?thesis by (simp add: ParseInt_def Itoa_def)
next
  case False
  assume "int64_range i"
  moreover obtain c cs where "showNat (nat i) = c # cs" "c \<noteq> CHR ''-''" "c \<noteq> CHR ''+''"
    using showNat_head by blast
  ultimately show ?thesis using False parseNat_showNat [of "nat i"]
    by (simp add: ParseInt_def Itoa_def)
qed

lemma ParseInt_range: "ParseInt s = Some i \<Longrightarrow> int64_range i"
  by (auto simp: ParseInt_def Let_def split: option.splits if_splits prod.splits)

lemma Itoa_not_Nil [simp]: "Itoa i \<noteq> []"
  by (simp add: Itoa_def)

lemma Itoa_chars: "c \<in> set (Itoa i) \<Longrightarrow> c = CHR ''-'' \<or> (48 \<le> byte c \<and> byte c \<le> 57)"
  by (auto simp: Itoa_def split: if_splits dest: showNat_digits)

lemma Itoa_graphic: "\<forall>c\<in>set (Itoa i). graphic c"
proof
  fix c assume "c \<in> set (Itoa i)"
  then show "graphic c" using Itoa_chars [of c i] by (auto simp: graphic_def byte_def)
qed

lemma TrimSpace_Itoa [simp, gostr]: "TrimSpace (Itoa i) = Itoa i"
  by (rule TrimSpace_graphic) (rule Itoa_graphic)

lemma Itoa_inject: "int64_range i \<Longrightarrow> int64_range j \<Longrightarrow> Itoa i = Itoa j \<Longrightarrow> i = j"
  by (metis ParseInt_Itoa option.inject)

end
