(* ===== verification/GoNet.thy ===== *)
theory GoNet
  imports GoStrings
begin

text \<open>
  \<^verbatim>\<open>net.SplitHostPort\<close>, \<^verbatim>\<open>net.JoinHostPort\<close>, \<^verbatim>\<open>net.ParseIP\<close> and \<^verbatim>\<open>netip.ParseAddr\<close> of Go's
  standard library.  The driver asks of an address only whether it parses, and the URL
  parser also whether it is an IPv4 address, so the parsed value keeps the family and the
  zone and not the address bytes.
\<close>

subsection \<open>Host and port\<close>

fun LastIndex :: "string \<Rightarrow> char \<Rightarrow> nat option" where
  "LastIndex [] d = None"
| "LastIndex (c # cs) d =
     (case LastIndex cs d of Some i \<Rightarrow> Some (Suc i) | None \<Rightarrow> if c = d then Some 0 else None)"

definition SplitHostPort :: "string \<Rightarrow> (string \<times> string) option" where
  "SplitHostPort hp =
     (case LastIndex hp CHR '':'' of
        None \<Rightarrow> None
      | Some i \<Rightarrow>
          if hd hp = CHR ''['' then
            (case Index hp '']'' of
               None \<Rightarrow> None
             | Some e \<Rightarrow>
                 if e + 1 = length hp \<or> e + 1 \<noteq> i then None
                 else if CHR ''['' \<in> set (drop 1 hp) \<or> CHR '']'' \<in> set (drop (e + 1) hp) then None
                 else Some (take (e - 1) (drop 1 hp), drop (i + 1) hp))
          else if CHR '':'' \<in> set (take i hp) then None
          else if CHR ''['' \<in> set hp \<or> CHR '']'' \<in> set hp then None
          else Some (take i hp, drop (i + 1) hp))"

definition JoinHostPort :: "string \<Rightarrow> string \<Rightarrow> string" where
  "JoinHostPort host port =
     (if CHR '':'' \<in> set host then ''['' @ host @ '']:'' @ port else host @ '':'' @ port)"

subsection \<open>IP addresses\<close>

datatype ip_addr = IPv4 | IPv6 string

text \<open>One decimal field of a dotted quad: at most 255, no leading zero.\<close>

definition ipv4Field :: "string \<Rightarrow> bool" where
  "ipv4Field f \<longleftrightarrow>
     (case parseNat f of None \<Rightarrow> False | Some n \<Rightarrow> n \<le> 255) \<and> (length f = 1 \<or> hd f \<noteq> CHR ''0'')"

definition parseIPv4 :: "string \<Rightarrow> bool" where
  "parseIPv4 s \<longleftrightarrow> (let fs = splitOn CHR ''.'' s in length fs = 4 \<and> list_all ipv4Field fs)"

definition hexVal :: "char \<Rightarrow> nat option" where
  "hexVal c =
     (if 48 \<le> byte c \<and> byte c \<le> 57 then Some (byte c - 48)
      else if 97 \<le> byte c \<and> byte c \<le> 102 then Some (byte c - 87)
      else if 65 \<le> byte c \<and> byte c \<le> 70 then Some (byte c - 55)
      else None)"

text \<open>
  The field loop of \<^verbatim>\<open>netip.parseIPv6\<close>.  \<open>k\<close> is the number of 16-bit groups still free
  (the loop variable \<^verbatim>\<open>i\<close> is \<open>16 - 2 * k\<close>) and \<open>ell\<close> says whether an ellipsis was seen.
\<close>

fun ip6Fields :: "nat \<Rightarrow> bool \<Rightarrow> string \<Rightarrow> bool" where
  "ip6Fields 0 ell s \<longleftrightarrow> s = [] \<and> \<not> ell"
| "ip6Fields (Suc k) ell s \<longleftrightarrow>
     (let ds = takeWhile (\<lambda>c. hexVal c \<noteq> None) s; r = dropWhile (\<lambda>c. hexVal c \<noteq> None) s
      in if ds = [] \<or> 4 < length ds then False
         else case r of
           [] \<Rightarrow> (if k = 0 then \<not> ell else ell)
         | c # r' \<Rightarrow>
             if c = CHR ''.'' then
               (ell \<or> Suc k = 2) \<and> 2 \<le> Suc k \<and> parseIPv4 s \<and> (if Suc k = 2 then \<not> ell else ell)
             else if c \<noteq> CHR '':'' \<or> r' = [] then False
             else if hd r' = CHR '':'' then
               \<not> ell \<and> (if tl r' = [] then 0 < k else ip6Fields k True (tl r'))
             else ip6Fields k ell r')"

definition parseIPv6 :: "string \<Rightarrow> ip_addr option" where
  "parseIPv6 s =
     (let (addr, zone, zoned) = Cut s ''%''
      in if zoned \<and> zone = [] then None
         else if HasPrefix addr ''::'' then
           (if drop 2 addr = [] \<or> ip6Fields 8 True (drop 2 addr) then Some (IPv6 zone) else None)
         else if ip6Fields 8 False addr then Some (IPv6 zone) else None)"

fun ParseAddr_scan :: "string \<Rightarrow> string \<Rightarrow> ip_addr option" where
  "ParseAddr_scan whole [] = None"
| "ParseAddr_scan whole (c # cs) =
     (if c = CHR ''.'' then (if parseIPv4 whole then Some IPv4 else None)
      else if c = CHR '':'' then parseIPv6 whole
      else if c = CHR ''%'' then None
      else ParseAddr_scan whole cs)"

definition ParseAddr :: "string \<Rightarrow> ip_addr option" where
  "ParseAddr s = ParseAddr_scan s s"

text \<open>\<^verbatim>\<open>net.ParseIP(s) != nil\<close>.\<close>

definition ParseIP :: "string \<Rightarrow> bool" where
  "ParseIP s \<longleftrightarrow> (case ParseAddr s of None \<Rightarrow> False | Some IPv4 \<Rightarrow> True | Some (IPv6 zone) \<Rightarrow> zone = [])"

subsection \<open>Lemmas\<close>

lemma LastIndex_None [simp]: "LastIndex s d = None \<longleftrightarrow> d \<notin> set s"
  by (induction s) (auto split: option.splits)

lemma LastIndex_absent [simp]: "d \<notin> set s \<Longrightarrow> LastIndex s d = None"
  by simp

lemma LastIndex_append [simp]: "d \<notin> set t \<Longrightarrow> LastIndex (s @ d # t) d = Some (length s)"
  by (induction s) auto

lemma LastIndex_SomeD:
  "LastIndex s d = Some i \<Longrightarrow> i < length s \<and> s = take i s @ d # drop (Suc i) s \<and> d \<notin> set (drop (Suc i) s)"
proof (induction s arbitrary: i)
  case (Cons c cs)
  show ?case
  proof (cases "LastIndex cs d")
    case None
    then have "d \<notin> set cs" by simp
    then show ?thesis using Cons.prems None by (auto split: if_splits)
  next
    case (Some j)
    then show ?thesis using Cons by fastforce
  qed
qed simp

text \<open>A host without brackets joined with a port splits into the same pair.\<close>

lemma Index_char_Cons_ne: "c \<noteq> d \<Longrightarrow> Index (c # s) [d] = map_option Suc (Index s [d])"
  by simp

theorem SplitHostPort_Join:
  assumes "CHR ''['' \<notin> set host" "CHR '']'' \<notin> set host"
    and "CHR '':'' \<notin> set port" "CHR ''['' \<notin> set port" "CHR '']'' \<notin> set port"
  shows "SplitHostPort (JoinHostPort host port) = Some (host, port)"
proof (cases "CHR '':'' \<in> set host")
  case False
  have "LastIndex (host @ CHR '':'' # port) CHR '':'' = Some (length host)"
    using assms(3) by simp
  moreover have "hd (host @ CHR '':'' # port) \<noteq> CHR ''[''"
    using assms(1) by (cases host) auto
  ultimately show ?thesis using False assms by (simp add: SplitHostPort_def JoinHostPort_def)
next
  case True
  let ?hp = "CHR ''['' # host @ CHR '']'' # CHR '':'' # port"
  have "LastIndex ((CHR ''['' # host @ [CHR '']'']) @ CHR '':'' # port) CHR '':'' = Some (length (CHR ''['' # host @ [CHR '']'']))"
    using assms(3) by (rule LastIndex_append)
  then have l: "LastIndex ?hp CHR '':'' = Some (length host + 2)" by simp
  have "Index ?hp '']'' = Some (length host + 1)"
    using assms(2) Index_char_append [of "CHR '']''" host] by (simp add: Index_char_Cons_ne)
  then have "SplitHostPort ?hp = Some (host, port)"
    using l assms by (simp add: SplitHostPort_def)
  then show ?thesis using True by (simp add: JoinHostPort_def)
qed

lemma SplitHostPort_None: "CHR '':'' \<notin> set s \<Longrightarrow> SplitHostPort s = None"
  by (simp add: SplitHostPort_def)

end
