(* ===== verification/GoURL.thy ===== *)
theory GoURL
  imports GoNet "HOL-Library.List_Lexorder" "HOL-Library.Char_ord"
begin

text \<open>
  Package \<^verbatim>\<open>net/url\<close> of Go 1.26 as far as volume handles need it: percent-encoding, the
  parser of \<^verbatim>\<open>url.Parse\<close> (host, path and raw query of the result; the errors are one
  value), \<^verbatim>\<open>ParseQuery\<close> and \<^verbatim>\<open>Values.Encode\<close>.  A host with more than one colon outside
  brackets is refused, as Go 1.26 does by default.
\<close>

subsection \<open>Percent-encoding\<close>

datatype enc_mode = EncPath | EncPathSegment | EncHost | EncZone | EncUserPassword | EncQuery | EncFragment

definition alnum :: "char \<Rightarrow> bool" where
  "alnum c \<longleftrightarrow> (48 \<le> byte c \<and> byte c \<le> 57) \<or> (65 \<le> byte c \<and> byte c \<le> 90) \<or> (97 \<le> byte c \<and> byte c \<le> 122)"

definition shouldEscape :: "char \<Rightarrow> enc_mode \<Rightarrow> bool" where
  "shouldEscape c mode =
     (if alnum c then False
      else if (mode = EncHost \<or> mode = EncZone) \<and> c \<in> set ''!$&'' \<union> {CHR 0x27} \<union> set ''()*+,;=:[]<>'' \<union> {CHR 0x22} then False
      else if c \<in> set ''-_.~'' then False
      else if c \<in> set ''$&+,/:;=?@'' \<and> mode = EncPath then c = CHR ''?''
      else if c \<in> set ''$&+,/:;=?@'' \<and> mode = EncPathSegment then c \<in> set ''/;,?''
      else if c \<in> set ''$&+,/:;=?@'' \<and> mode = EncUserPassword then c \<in> set ''@/?:''
      else if c \<in> set ''$&+,/:;=?@'' \<and> mode = EncQuery then True
      else if c \<in> set ''$&+,/:;=?@'' \<and> mode = EncFragment then False
      else if mode = EncFragment \<and> c \<in> set ''!()*'' then False
      else True)"

definition hexDigit :: "nat \<Rightarrow> char" where
  "hexDigit n = (if n < 10 then char_of (48 + n) else char_of (55 + n))"

definition escapeByte :: "enc_mode \<Rightarrow> char \<Rightarrow> string" where
  "escapeByte mode c =
     (if shouldEscape c mode then
        (if c = CHR '' '' \<and> mode = EncQuery then ''+''
         else [CHR ''%'', hexDigit (byte c div 16), hexDigit (byte c mod 16)])
      else [c])"

definition escape :: "enc_mode \<Rightarrow> string \<Rightarrow> string" where
  "escape mode s = concat (map (escapeByte mode) s)"

abbreviation "PathEscape \<equiv> escape EncPathSegment"
abbreviation "QueryEscape \<equiv> escape EncQuery"

fun unescape :: "enc_mode \<Rightarrow> string \<Rightarrow> string option" where
  "unescape mode [] = Some []"
| "unescape mode (c # cs) =
     (if c = CHR ''%'' then
        (case cs of
           a # b # r \<Rightarrow>
             (case (hexVal a, hexVal b) of
                (Some x, Some y) \<Rightarrow>
                  if mode = EncHost \<and> x < 8 \<and> \<not> (a = CHR ''2'' \<and> b = CHR ''5'') then None
                  else if mode = EncZone \<and> \<not> (a = CHR ''2'' \<and> b = CHR ''5'') \<and> 16 * x + y \<noteq> 32
                          \<and> shouldEscape (char_of (16 * x + y)) EncHost then None
                  else map_option ((#) (char_of (16 * x + y))) (unescape mode r)
              | _ \<Rightarrow> None)
         | _ \<Rightarrow> None)
      else if c = CHR ''+'' \<and> mode = EncQuery then map_option ((#) CHR '' '') (unescape mode cs)
      else if (mode = EncHost \<or> mode = EncZone) \<and> byte c < 128 \<and> shouldEscape c mode then None
      else map_option ((#) c) (unescape mode cs))"

abbreviation "PathUnescape \<equiv> unescape EncPathSegment"
abbreviation "QueryUnescape \<equiv> unescape EncQuery"

subsection \<open>Parsing\<close>

record url =
  Host :: string
  Path :: string
  RawQuery :: string

fun getScheme_from :: "bool \<Rightarrow> string \<Rightarrow> string \<Rightarrow> (string \<times> string) option" where
  "getScheme_from first raw [] = Some ([], raw)"
| "getScheme_from first raw (c # cs) =
     (if (65 \<le> byte c \<and> byte c \<le> 90) \<or> (97 \<le> byte c \<and> byte c \<le> 122) then getScheme_from False raw cs
      else if (48 \<le> byte c \<and> byte c \<le> 57) \<or> c \<in> set ''+-.'' then
        (if first then Some ([], raw) else getScheme_from False raw cs)
      else if c = CHR '':'' then
        (if first then None else Some (take (length raw - length (c # cs)) raw, cs))
      else Some ([], raw))"

definition getScheme :: "string \<Rightarrow> (string \<times> string) option" where
  "getScheme raw = getScheme_from True raw raw"

definition validOptionalPort :: "string \<Rightarrow> bool" where
  "validOptionalPort p \<longleftrightarrow> (case p of [] \<Rightarrow> True | c # ds \<Rightarrow> c = CHR '':'' \<and> list_all (\<lambda>d. digitVal d \<noteq> None) ds)"

definition parseHost :: "string \<Rightarrow> string option" where
  "parseHost host =
     (case LastIndex host CHR ''['' of
        Some (Suc _) \<Rightarrow> None
      | Some 0 \<Rightarrow>
          (case LastIndex host CHR '']'' of
             None \<Rightarrow> None
           | Some close \<Rightarrow>
               if \<not> validOptionalPort (drop (close + 1) host) then None
               else (let hostname = take (close - 1) (drop 1 host);
                         plain = (case Index hostname ''%25'' of
                            None \<Rightarrow> unescape EncHost hostname
                          | Some z \<Rightarrow> (case (unescape EncHost (take z hostname), unescape EncZone (drop z hostname)) of
                                         (Some a, Some b) \<Rightarrow> Some (a @ b) | _ \<Rightarrow> None))
                     in case (unescape EncHost (drop (close + 1) host), plain) of
                          (Some port, Some h) \<Rightarrow>
                            (case ParseAddr h of
                               Some (IPv6 _) \<Rightarrow> Some (''['' @ h @ '']'' @ port) | _ \<Rightarrow> None)
                        | _ \<Rightarrow> None))
      | None \<Rightarrow>
          (case Index host '':'' of
             None \<Rightarrow> unescape EncHost host
           | Some i \<Rightarrow> if validOptionalPort (drop i host) then unescape EncHost host else None))"

definition validUserinfo :: "string \<Rightarrow> bool" where
  "validUserinfo s \<longleftrightarrow> list_all (\<lambda>c. alnum c \<or> c \<in> set ''-._:~!$&()*+,;=%@'' \<or> c = CHR 0x27) s"

definition parseAuthority :: "string \<Rightarrow> string option" where
  "parseAuthority authority =
     (case LastIndex authority CHR ''@'' of
        None \<Rightarrow> parseHost authority
      | Some i \<Rightarrow>
          (case parseHost (drop (i + 1) authority) of
             None \<Rightarrow> None
           | Some h \<Rightarrow>
               (let (user, pass, _) = Cut (take i authority) '':''
                in if validUserinfo (take i authority) \<and> unescape EncUserPassword user \<noteq> None
                      \<and> unescape EncUserPassword pass \<noteq> None then Some h else None)))"

definition countChar :: "char \<Rightarrow> string \<Rightarrow> nat" where
  "countChar c s = length (filter (\<lambda>x. x = c) s)"

definition parseURL :: "string \<Rightarrow> url option" where
  "parseURL raw =
     (if list_ex (\<lambda>c. byte c < 32 \<or> byte c = 127) raw then None
      else if raw = ''*'' then Some \<lparr>Host = [], Path = ''*'', RawQuery = []\<rparr>
      else case getScheme raw of
        None \<Rightarrow> None
      | Some (scheme, rest0) \<Rightarrow>
          (let (rest, query) =
                 (if HasSuffix rest0 ''?'' \<and> countChar CHR ''?'' rest0 = 1 then (butlast rest0, [])
                  else let (a, b, _) = Cut rest0 ''?'' in (a, b))
           in if \<not> HasPrefix rest ''/'' \<and> scheme \<noteq> [] then Some \<lparr>Host = [], Path = [], RawQuery = query\<rparr>
              else if \<not> HasPrefix rest ''/'' \<and> Contains (fst (Cut rest ''/'')) '':'' then None
              else if (scheme \<noteq> [] \<or> \<not> HasPrefix rest ''///'') \<and> HasPrefix rest ''//'' then
                (let after = drop 2 rest;
                     (authority, path) = (case Index after ''/'' of None \<Rightarrow> (after, [])
                                          | Some i \<Rightarrow> (take i after, drop i after))
                 in case (parseAuthority authority, unescape EncPath path) of
                      (Some h, Some p) \<Rightarrow> Some \<lparr>Host = h, Path = p, RawQuery = query\<rparr>
                    | _ \<Rightarrow> None)
              else map_option (\<lambda>p. \<lparr>Host = [], Path = p, RawQuery = query\<rparr>) (unescape EncPath rest)))"

text \<open>\<^verbatim>\<open>url.Parse\<close>: the fragment is cut off first and must unescape.\<close>

definition url_Parse :: "string \<Rightarrow> url option" where
  "url_Parse raw =
     (let (u, frag, _) = Cut raw ''#''
      in case parseURL u of
           None \<Rightarrow> None
         | Some r \<Rightarrow> if unescape EncFragment frag = None then None else Some r)"

subsection \<open>Query strings\<close>

text \<open>\<^verbatim>\<open>url.Values\<close> as the list of its pairs, in the order they were added.\<close>

type_synonym url_values = "(string \<times> string) list"

definition parsePair :: "string \<Rightarrow> url_values" where
  "parsePair piece =
     (if Contains piece '';'' \<or> piece = [] then []
      else let (k, v, _) = Cut piece ''=''
           in case (QueryUnescape k, QueryUnescape v) of (Some k', Some v') \<Rightarrow> [(k', v')] | _ \<Rightarrow> [])"

text \<open>\<^verbatim>\<open>u.Query()\<close>: pieces that do not parse are dropped.\<close>

definition ParseQuery :: "string \<Rightarrow> url_values" where
  "ParseQuery q = concat (map parsePair (splitOn CHR ''&'' q))"

definition qGet :: "url_values \<Rightarrow> string \<Rightarrow> string" where
  "qGet q k = (case map_of q k of None \<Rightarrow> [] | Some v \<Rightarrow> v)"

definition qHas :: "url_values \<Rightarrow> string \<Rightarrow> bool" where
  "qHas q k \<longleftrightarrow> map_of q k \<noteq> None"

definition qSet :: "string \<Rightarrow> string \<Rightarrow> url_values \<Rightarrow> url_values" where
  "qSet k v q = filter (\<lambda>(k', _). k' \<noteq> k) q @ [(k, v)]"

definition encodePair :: "string \<times> string \<Rightarrow> string" where
  "encodePair kv = QueryEscape (fst kv) @ ''='' @ QueryEscape (snd kv)"

text \<open>\<^verbatim>\<open>q.Encode()\<close>: sorted by key.\<close>

definition qEncode :: "url_values \<Rightarrow> string" where
  "qEncode q = Join (map encodePair (sort_key fst q)) ''&''"

subsection \<open>Lemmas: escaping\<close>

lemma hexVal_hexDigit [simp]: "n < 16 \<Longrightarrow> hexVal (hexDigit n) = Some n"
  by (auto simp: hexVal_def hexDigit_def)

lemma hexDigit_alnum: "n < 16 \<Longrightarrow> alnum (hexDigit n)"
  by (auto simp: alnum_def hexDigit_def)

lemma alnum_graphic: "alnum c \<Longrightarrow> graphic c"
  by (auto simp: alnum_def graphic_def)

lemma shouldEscape_percent [simp]: "shouldEscape CHR ''%'' m"
  by (simp add: shouldEscape_def alnum_def byte_def)

lemma shouldEscape_plus [simp]: "shouldEscape CHR ''+'' EncQuery"
  by (simp add: shouldEscape_def alnum_def byte_def)

lemma byte_split: "16 * (byte c div 16) + byte c mod 16 = byte c"
  by simp

lemma escape_simps [simp]:
  "escape m [] = []"
  "escape m (c # s) = escapeByte m c @ escape m s"
  "escape m (s @ t) = escape m s @ escape m t"
  by (simp_all add: escape_def)

definition text_mode :: "enc_mode \<Rightarrow> bool" where
  "text_mode m \<longleftrightarrow> m \<noteq> EncHost \<and> m \<noteq> EncZone"

lemma unescape_byte:
  assumes "text_mode m" and "m = EncQuery \<longleftrightarrow> m' = EncQuery"
  shows "unescape m (escapeByte m' c @ t) = map_option ((#) c) (unescape m t)"
proof -
  have "byte c div 16 < 16" "byte c mod 16 < 16"
    using byte_less [of c] by (simp_all add: less_mult_imp_div_less)
  then show ?thesis
    using assms byte_split [of c] by (auto simp: escapeByte_def text_mode_def)
qed

lemma unescape_escape_append:
  assumes "text_mode m" and "m = EncQuery \<longleftrightarrow> m' = EncQuery"
  shows "unescape m (escape m' s @ t) = map_option ((@) s) (unescape m t)"
  by (induction s) (auto simp: unescape_byte [OF assms] option.map_comp comp_def option.map_ident)

theorem unescape_escape:
  assumes "text_mode m" and "m = EncQuery \<longleftrightarrow> m' = EncQuery"
  shows "unescape m (escape m' s) = Some s"
  using unescape_escape_append [OF assms, of s "[]"] by simp

lemma escape_chars:
  assumes "c \<in> set (escape m s)"
  shows "c = CHR ''%'' \<or> (c = CHR ''+'' \<and> m = EncQuery) \<or> alnum c \<or> \<not> shouldEscape c m"
proof -
  obtain d where d: "d \<in> set s" "c \<in> set (escapeByte m d)"
    using assms by (auto simp: escape_def)
  have "byte d div 16 < 16" "byte d mod 16 < 16"
    using byte_less [of d] by (simp_all add: less_mult_imp_div_less)
  then show ?thesis
    using d(2) hexDigit_alnum by (auto simp: escapeByte_def split: if_splits)
qed

text \<open>Reserved characters never occur in escaped text.\<close>

lemma not_in_escape:
  assumes "shouldEscape c m" "\<not> alnum c" "c \<noteq> CHR ''%''" "c \<noteq> CHR ''+''"
  shows "c \<notin> set (escape m s)"
  using assms escape_chars by blast

lemma reserved_simps [simp]:
  "CHR ''/'' \<notin> set (PathEscape s)" "CHR ''?'' \<notin> set (PathEscape s)"
  "CHR ''#'' \<notin> set (PathEscape s)" "CHR ''&'' \<notin> set (QueryEscape s)"
  "CHR ''='' \<notin> set (QueryEscape s)" "CHR '';'' \<notin> set (QueryEscape s)"
  "CHR ''#'' \<notin> set (QueryEscape s)" "CHR ''?'' \<notin> set (QueryEscape s)"
  by (rule not_in_escape; simp add: shouldEscape_def alnum_def byte_def)+

definition ctl :: "char \<Rightarrow> bool" where
  "ctl c \<longleftrightarrow> byte c < 32 \<or> byte c = 127"

lemma punctuation_graphic:
  "list_all graphic (''!$&()*+,;=:[]<>-_.~/?@'' @ [CHR 0x27, CHR 0x22])"
  by code_simp

lemma unreserved_graphic:
  assumes "\<not> shouldEscape c m"
  shows "graphic c"
proof (rule ccontr)
  assume "\<not> graphic c"
  then have "\<not> alnum c" and "c \<notin> set (''!$&()*+,;=:[]<>-_.~/?@'' @ [CHR 0x27, CHR 0x22])"
    using alnum_graphic punctuation_graphic unfolding list_all_iff by blast+
  then have "shouldEscape c m" unfolding shouldEscape_def by simp
  with assms show False by simp
qed

lemma unreserved_not_ctl: "\<not> shouldEscape c m \<Longrightarrow> \<not> ctl c"
  using unreserved_graphic [of c m] by (auto simp: ctl_def graphic_def)

lemma escape_not_ctl: "c \<in> set (escape m s) \<Longrightarrow> \<not> ctl c"
  using escape_chars [of c m s] unreserved_not_ctl [of c m]
  by (auto simp: ctl_def alnum_def byte_def)

subsection \<open>Lemmas: query strings\<close>

lemma parsePair_encodePair [simp]: "parsePair (encodePair kv) = [kv]"
proof -
  have "Cut (QueryEscape (fst kv) @ CHR ''='' # QueryEscape (snd kv)) ''='' =
      (QueryEscape (fst kv), QueryEscape (snd kv), True)"
    by simp
  moreover have "unescape EncQuery (QueryEscape x) = Some x" for x
    by (rule unescape_escape) (simp_all add: text_mode_def)
  ultimately show ?thesis
    by (simp add: parsePair_def encodePair_def)
qed

lemma encodePair_no_amp: "CHR ''&'' \<notin> set (encodePair kv)"
  by (simp add: encodePair_def)

theorem ParseQuery_encode: "ParseQuery (qEncode q) = sort_key fst q"
proof (cases "q = []")
  case True
  then show ?thesis by (simp add: ParseQuery_def qEncode_def parsePair_def)
next
  case False
  then have "sort_key fst q \<noteq> []" by (metis length_0_conv length_sort)
  then have "splitOn CHR ''&'' (qEncode q) = map encodePair (sort_key fst q)"
    unfolding qEncode_def by (intro splitOn_Join) (auto simp: encodePair_no_amp)
  then show ?thesis
    by (simp add: ParseQuery_def comp_def)
qed

lemma map_of_sort_key:
  assumes "distinct (map fst q)"
  shows "map_of (sort_key fst q) = map_of q"
proof (rule map_of_eqI)
  show "set (map fst (sort_key fst q)) = set (map fst q)" by simp
next
  have "distinct (map fst (sort_key fst q))"
    using assms by (metis distinct_map distinct_sort list.set_map set_sort)
  then show "\<forall>k\<in>set (map fst (sort_key fst q)). map_of (sort_key fst q) k = map_of q k"
    using assms by (auto intro!: map_of_is_SomeI)
qed

lemma qSet_distinct: "distinct (map fst q) \<Longrightarrow> distinct (map fst (qSet k v q))"
  by (auto simp: qSet_def distinct_map_filter)

lemma map_of_qSet: "map_of (qSet k v q) = (map_of q)(k \<mapsto> v)"
proof
  fix x
  show "map_of (qSet k v q) x = ((map_of q)(k \<mapsto> v)) x"
    by (induction q) (auto simp: qSet_def map_add_def split: option.splits if_splits)
qed

text \<open>What a decoder reads back from an encoded query, key by key.\<close>

theorem qGet_encode:
  "distinct (map fst q) \<Longrightarrow> qGet (ParseQuery (qEncode q)) k = qGet q k"
  by (simp add: qGet_def ParseQuery_encode map_of_sort_key)

theorem qHas_encode:
  "distinct (map fst q) \<Longrightarrow> qHas (ParseQuery (qEncode q)) k = qHas q k"
  by (simp add: qHas_def ParseQuery_encode map_of_sort_key)

lemma qGet_qSet [simp]: "qGet (qSet k v q) k' = (if k' = k then v else qGet q k')"
  by (simp add: qGet_def map_of_qSet)

lemma qHas_qSet [simp]: "qHas (qSet k v q) k' \<longleftrightarrow> k' = k \<or> qHas q k'"
  by (simp add: qHas_def map_of_qSet)

lemma qEncode_chars:
  assumes "c \<in> set (qEncode q)"
  shows "\<not> ctl c \<and> c \<noteq> CHR ''#'' \<and> c \<noteq> CHR ''?''"
proof -
  have "set (Join ws ''&'') \<subseteq> insert CHR ''&'' (\<Union> (set ` set ws))" for ws
    by (induction ws "''&''" rule: Join.induct) auto
  then have "c = CHR ''&'' \<or> (\<exists>kv. c \<in> set (encodePair kv))"
    using assms unfolding qEncode_def by fastforce
  then have "c = CHR ''&'' \<or> c = CHR ''='' \<or> (\<exists>x. c \<in> set (QueryEscape x))"
    by (auto simp: encodePair_def)
  then show ?thesis
    by (auto simp: ctl_def byte_def dest: escape_not_ctl)
qed

subsection \<open>Lemmas: parsing what was built\<close>

definition letter :: "char \<Rightarrow> bool" where
  "letter c \<longleftrightarrow> (65 \<le> byte c \<and> byte c \<le> 90) \<or> (97 \<le> byte c \<and> byte c \<le> 122)"

lemma getScheme_from_letters:
  assumes "list_all letter sch" "sch \<noteq> [] \<or> \<not> first" "raw = pre @ sch @ CHR '':'' # r"
  shows "getScheme_from first raw (sch @ CHR '':'' # r) = Some (pre @ sch, r)"
  using assms
proof (induction sch arbitrary: pre first)
  case Nil
  then show ?case by (simp add: byte_def)
next
  case (Cons c sch)
  then have "getScheme_from False raw (sch @ CHR '':'' # r) = Some ((pre @ [c]) @ sch, r)"
    by (intro Cons.IH) auto
  then show ?case using Cons.prems by (simp add: letter_def)
qed

lemma getScheme_letters:
  "list_all letter sch \<Longrightarrow> sch \<noteq> [] \<Longrightarrow> getScheme (sch @ CHR '':'' # r) = Some (sch, r)"
  unfolding getScheme_def using getScheme_from_letters [of sch True _ "[]" r] by simp

text \<open>
  A host that survives \<^verbatim>\<open>url.Parse\<close>: its authority parses to itself and it has none of the
  characters that end an authority.
\<close>

definition host_ok :: "string \<Rightarrow> bool" where
  "host_ok h \<longleftrightarrow> parseAuthority h = Some h \<and> (\<forall>c\<in>set h. \<not> ctl c \<and> c \<notin> set ''/?#'')"

definition slashed :: "string list \<Rightarrow> string" where
  "slashed segs = concat (map ((#) CHR ''/'') segs)"

lemma slashed_simps [simp]:
  "slashed [] = []"
  "slashed (w # ws) = CHR ''/'' # w @ slashed ws"
  by (simp_all add: slashed_def)

lemma unescape_slashed: "unescape EncPath (slashed (map PathEscape segs)) = Some (slashed segs)"
proof (induction segs)
  case (Cons w segs)
  have "unescape EncPath (PathEscape w @ slashed (map PathEscape segs)) = Some (w @ slashed segs)"
    using Cons.IH by (simp add: unescape_escape_append text_mode_def)
  then show ?case by simp
qed simp

lemma slashed_set: "c \<in> set (slashed ws) \<Longrightarrow> c = CHR ''/'' \<or> (\<exists>w\<in>set ws. c \<in> set w)"
  by (induction ws) auto

lemma slash_not_ctl [simp]: "\<not> ctl CHR ''/''"
  by (simp add: ctl_def byte_def)

lemma slashed_escaped_chars:
  "c \<in> set (slashed (map PathEscape segs)) \<Longrightarrow> \<not> ctl c \<and> c \<noteq> CHR ''?'' \<and> c \<noteq> CHR ''#''"
  using slashed_set [of c "map PathEscape segs"] by (auto dest: escape_not_ctl)

lemma slashed_cases: "slashed ws = [] \<or> (\<exists>t. slashed ws = CHR ''/'' # t)"
  by (cases ws) auto

text \<open>A URI put together from a scheme, a host, escaped segments and an encoded query.\<close>

definition assembled :: "string \<Rightarrow> string \<Rightarrow> string list \<Rightarrow> string \<Rightarrow> string" where
  "assembled sch h segs q =
     sch @ ''://'' @ h @ slashed (map PathEscape segs) @ (if q = [] then [] else CHR ''?'' # q)"

lemma Index_slash_host:
  assumes "CHR ''/'' \<notin> set h"
  shows "(case Index (h @ slashed ws) ''/'' of None \<Rightarrow> (h @ slashed ws, [])
          | Some i \<Rightarrow> (take i (h @ slashed ws), drop i (h @ slashed ws))) = (h, slashed ws)"
  using assms slashed_cases [of ws] by auto

lemma not_suffix_query:
  assumes "q \<noteq> []" "CHR ''?'' \<notin> set q"
  shows "\<not> HasSuffix (s @ CHR ''?'' # q) ''?''"
proof -
  obtain c r where "rev q = c # r" using assms(1) by (cases "rev q") auto
  then show ?thesis using assms(2) by (auto simp: HasSuffix_def dest: arg_cong [where f = set])
qed

lemma not_suffix_absent: "CHR ''?'' \<notin> set s \<Longrightarrow> \<not> HasSuffix s ''?''"
  by (cases "rev s") (auto simp: HasSuffix_def dest: arg_cong [where f = set])

theorem url_Parse_assembled:
  assumes sch: "list_all letter sch" "sch \<noteq> []"
    and h: "host_ok h"
  shows "url_Parse (assembled sch h segs (qEncode q)) =
      Some \<lparr>Host = h, Path = slashed segs, RawQuery = qEncode q\<rparr>"
proof -
  let ?p = "slashed (map PathEscape segs)" and ?q = "qEncode q"
  let ?tail = "if ?q = [] then [] else CHR ''?'' # ?q"
  let ?rest0 = "CHR ''/'' # CHR ''/'' # h @ ?p @ ?tail"
  have q: "CHR ''?'' \<notin> set ?q" "CHR ''#'' \<notin> set ?q" "\<forall>c\<in>set ?q. \<not> ctl c"
    using qEncode_chars by blast+
  have p: "CHR ''?'' \<notin> set ?p" "CHR ''#'' \<notin> set ?p" "\<forall>c\<in>set ?p. \<not> ctl c"
    using slashed_escaped_chars by blast+
  have hc: "CHR ''/'' \<notin> set h" "CHR ''?'' \<notin> set h" "CHR ''#'' \<notin> set h" "\<forall>c\<in>set h. \<not> ctl c"
    using h unfolding host_ok_def by auto
  have s: "\<forall>c\<in>set sch. \<not> ctl c \<and> c \<noteq> CHR ''#''"
    using sch(1) by (auto simp: list_all_iff letter_def ctl_def byte_def)
  have raw: "assembled sch h segs ?q = sch @ CHR '':'' # ?rest0"
    by (simp add: assembled_def)
  have noctl: "\<not> list_ex (\<lambda>c. byte c < 32 \<or> byte c = 127) (assembled sch h segs ?q)"
    unfolding raw using q p hc s by (auto simp: list_ex_iff ctl_def byte_def)
  have nohash: "CHR ''#'' \<notin> set (assembled sch h segs ?q)"
    unfolding raw using q p hc s by auto
  have star: "assembled sch h segs ?q \<noteq> ''*''"
    by (auto simp: assembled_def append_eq_Cons_conv)
  have cutq: "(if HasSuffix ?rest0 ''?'' \<and> countChar CHR ''?'' ?rest0 = 1 then (butlast ?rest0, [])
      else let (a, b, _) = Cut ?rest0 ''?'' in (a, b)) = (CHR ''/'' # CHR ''/'' # h @ ?p, ?q)"
  proof (cases "?q = []")
    case True
    then show ?thesis
      using not_suffix_absent [of ?rest0] p hc Cut_char_absent [of "CHR ''?''" ?rest0] by auto
  next
    case False
    then have "\<not> HasSuffix ((CHR ''/'' # CHR ''/'' # h @ ?p) @ CHR ''?'' # ?q) ''?''"
      using q by (intro not_suffix_query) auto
    moreover have "Cut ((CHR ''/'' # CHR ''/'' # h @ ?p) @ CHR ''?'' # ?q) ''?''
        = (CHR ''/'' # CHR ''/'' # h @ ?p, ?q, True)"
      using p hc by (intro Cut_char_append) auto
    ultimately show ?thesis using False by simp
  qed
  have parsed: "parseURL (assembled sch h segs ?q) = Some \<lparr>Host = h, Path = slashed segs, RawQuery = ?q\<rparr>"
    unfolding parseURL_def using noctl star sch getScheme_letters [OF sch, of ?rest0] cutq
      Index_slash_host [OF hc(1), of "map PathEscape segs"] h unescape_slashed [of segs]
    by (simp add: raw host_ok_def)
  show ?thesis
    unfolding url_Parse_def using Cut_char_absent [OF nohash] parsed by simp
qed

text \<open>Registered names, with or without a numeric port, are such hosts.\<close>

definition hostChar :: "char \<Rightarrow> bool" where
  "hostChar c \<longleftrightarrow> alnum c \<or> c \<in> set ''-._''"

lemma delimiters_not_hostChar: "list_all (\<lambda>d. \<not> hostChar d) ''/?#[]@:%+''"
  by code_simp

lemma hostChar_plain:
  assumes "hostChar c"
  shows "\<not> ctl c \<and> c \<notin> set ''/?#[]@:%+'' \<and> \<not> shouldEscape c EncHost"
proof -
  have "\<not> shouldEscape c EncHost"
    using assms unfolding hostChar_def shouldEscape_def by auto
  moreover have "c \<notin> set ''/?#[]@:%+''"
    using assms delimiters_not_hostChar unfolding list_all_iff by blast
  ultimately show ?thesis using unreserved_not_ctl by blast
qed

lemma digit_alnum: "digitVal c \<noteq> None \<Longrightarrow> alnum c"
  by (auto simp: digitVal_def alnum_def split: if_splits)

lemma unescape_plain:
  "\<forall>c\<in>set s. c \<noteq> CHR ''%'' \<and> c \<noteq> CHR ''+'' \<and> \<not> shouldEscape c EncHost \<Longrightarrow> unescape EncHost s = Some s"
  by (induction s) auto

lemma parseAuthority_regname:
  assumes "list_all hostChar h" and "list_all (\<lambda>d. digitVal d \<noteq> None) ds"
  shows "parseAuthority h = Some h" and "parseAuthority (h @ CHR '':'' # ds) = Some (h @ CHR '':'' # ds)"
proof -
  have hc: "\<And>c. c \<in> set h \<Longrightarrow> c \<notin> set ''/?#[]@:%+'' \<and> \<not> shouldEscape c EncHost"
    using assms(1) hostChar_plain unfolding list_all_iff by blast
  have dc: "\<And>c. c \<in> set ds \<Longrightarrow> c \<notin> set ''/?#[]@:%+'' \<and> \<not> shouldEscape c EncHost"
    using assms(2) digit_alnum hostChar_plain unfolding list_all_iff hostChar_def by blast
  have colon: "\<not> shouldEscape CHR '':'' EncHost" by (simp add: shouldEscape_def)
  have "unescape EncHost h = Some h" using hc by (intro unescape_plain) auto
  moreover have "LastIndex h CHR ''['' = None" "LastIndex h CHR ''@'' = None" "Index h '':'' = None"
    using hc by auto
  ultimately show "parseAuthority h = Some h"
    unfolding parseAuthority_def parseHost_def by simp
  let ?hp = "h @ CHR '':'' # ds"
  have "unescape EncHost ?hp = Some ?hp"
    using hc dc colon by (intro unescape_plain) auto
  moreover have "LastIndex ?hp CHR ''['' = None" "LastIndex ?hp CHR ''@'' = None"
    using hc dc by auto
  moreover have "Index ?hp '':'' = Some (length h)"
    using hc by (intro Index_char_append) auto
  ultimately show "parseAuthority ?hp = Some ?hp"
    using assms(2) unfolding parseAuthority_def parseHost_def by (simp add: validOptionalPort_def)
qed

lemma host_ok_regname: "list_all hostChar h \<Longrightarrow> host_ok h"
  using parseAuthority_regname(1) [of h "[]"] hostChar_plain unfolding host_ok_def list_all_iff
  by auto

end
