(* ===== verification/GoCodec.thy ===== *)
theory GoCodec
  imports GoStrings "HOL-Library.Code_Target_Nat"
begin

text \<open>
  \<^verbatim>\<open>encoding/base64\<close> (\<^verbatim>\<open>RawURLEncoding\<close>), \<^verbatim>\<open>unicode/utf8\<close> and \<^verbatim>\<open>encoding/json\<close> of Go's standard
  library, as far as the driver's opaque identifiers need them: bytes to text and back,
  rune decoding, the JSON string and number syntax, a JSON reader, and the decoding of an
  object into the fields of a struct.
\<close>

subsection \<open>Base64, URL alphabet, no padding\<close>

definition b64Char :: "nat \<Rightarrow> char" where
  "b64Char n =
     (if n < 26 then char_of (65 + n)
      else if n < 52 then char_of (71 + n)
      else if n < 62 then char_of (n - 4)
      else if n = 62 then CHR ''-'' else CHR ''_'')"

definition b64Val :: "char \<Rightarrow> nat option" where
  "b64Val c =
     (if 65 \<le> byte c \<and> byte c \<le> 90 then Some (byte c - 65)
      else if 97 \<le> byte c \<and> byte c \<le> 122 then Some (byte c - 71)
      else if 48 \<le> byte c \<and> byte c \<le> 57 then Some (byte c + 4)
      else if c = CHR ''-'' then Some 62
      else if c = CHR ''_'' then Some 63
      else None)"

fun b64Encode :: "string \<Rightarrow> string" where
  "b64Encode (a # b # c # r) =
     [b64Char (byte a div 4), b64Char (byte a mod 4 * 16 + byte b div 16),
      b64Char (byte b mod 16 * 4 + byte c div 64), b64Char (byte c mod 64)] @ b64Encode r"
| "b64Encode [a, b] =
     [b64Char (byte a div 4), b64Char (byte a mod 4 * 16 + byte b div 16), b64Char (byte b mod 16 * 4)]"
| "b64Encode [a] = [b64Char (byte a div 4), b64Char (byte a mod 4 * 16)]"
| "b64Encode [] = []"

fun b64Groups :: "nat list \<Rightarrow> string option" where
  "b64Groups (p # q # r # s # t) =
     map_option (\<lambda>u. [char_of (p * 4 + q div 16), char_of (q mod 16 * 16 + r div 4),
                      char_of (r mod 4 * 64 + s)] @ u) (b64Groups t)"
| "b64Groups [p, q, r] = Some [char_of (p * 4 + q div 16), char_of (q mod 16 * 16 + r div 4)]"
| "b64Groups [p, q] = Some [char_of (p * 4 + q div 16)]"
| "b64Groups [p] = None"
| "b64Groups [] = Some []"

text \<open>Carriage returns and newlines are skipped; any other foreign byte is an error.\<close>

definition b64Decode :: "string \<Rightarrow> string option" where
  "b64Decode s =
     (let vs = map b64Val (filter (\<lambda>c. c \<noteq> CHR 0x0D \<and> c \<noteq> CHR 0x0A) s)
      in if None \<in> set vs then None else b64Groups (map the vs))"

subsection \<open>UTF-8\<close>

definition contByte :: "nat \<Rightarrow> nat \<Rightarrow> char \<Rightarrow> bool" where
  "contByte lo hi c \<longleftrightarrow> lo \<le> byte c \<and> byte c \<le> hi"

text \<open>\<^verbatim>\<open>utf8.DecodeRune\<close>: code point and width; \<open>None\<close> where Go returns \<^verbatim>\<open>(RuneError, 1)\<close>.\<close>

definition decodeRune :: "string \<Rightarrow> (nat \<times> nat) option" where
  "decodeRune s =
     (case s of
        [] \<Rightarrow> None
      | a # s1 \<Rightarrow>
          if byte a < 128 then Some (byte a, 1)
          else (case s1 of
            [] \<Rightarrow> None
          | b # s2 \<Rightarrow>
              if 194 \<le> byte a \<and> byte a \<le> 223 then
                (if contByte 128 191 b then Some ((byte a - 192) * 64 + (byte b - 128), 2) else None)
              else if 224 \<le> byte a \<and> byte a \<le> 239 then
                (case s2 of
                   [] \<Rightarrow> None
                 | c # _ \<Rightarrow>
                     if contByte (if byte a = 224 then 160 else 128) (if byte a = 237 then 159 else 191) b
                        \<and> contByte 128 191 c
                     then Some ((byte a - 224) * 4096 + (byte b - 128) * 64 + (byte c - 128), 3) else None)
              else if 240 \<le> byte a \<and> byte a \<le> 244 then
                (case s2 of
                   c # d # _ \<Rightarrow>
                     if contByte (if byte a = 240 then 144 else 128) (if byte a = 244 then 143 else 191) b
                        \<and> contByte 128 191 c \<and> contByte 128 191 d
                     then Some ((byte a - 240) * 262144 + (byte b - 128) * 4096 + (byte c - 128) * 64 + (byte d - 128), 4)
                     else None
                 | _ \<Rightarrow> None)
              else None))"

definition encodeRune :: "nat \<Rightarrow> string" where
  "encodeRune r =
     (if r < 128 then [char_of r]
      else if r < 2048 then [char_of (192 + r div 64), char_of (128 + r mod 64)]
      else if 1114111 < r \<or> (55296 \<le> r \<and> r \<le> 57343) then [CHR 0xEF, CHR 0xBF, CHR 0xBD]
      else if r < 65536 then [char_of (224 + r div 4096), char_of (128 + r div 64 mod 64), char_of (128 + r mod 64)]
      else [char_of (240 + r div 262144), char_of (128 + r div 4096 mod 64),
            char_of (128 + r div 64 mod 64), char_of (128 + r mod 64)])"

lemma decodeRune_width: "decodeRune s = Some (r, n) \<Longrightarrow> 0 < n \<and> n \<le> length s"
  by (auto simp: decodeRune_def split: list.splits if_splits)

function utf8Valid :: "string \<Rightarrow> bool" where
  "utf8Valid s \<longleftrightarrow> s = [] \<or> (case decodeRune s of None \<Rightarrow> False | Some (r, n) \<Rightarrow> utf8Valid (drop n s))"
  by pat_completeness auto
termination
  by (relation "measure length") (auto dest: decodeRune_width)

declare utf8Valid.simps [simp del]

subsection \<open>JSON: writing\<close>

abbreviation bsl :: char where "bsl \<equiv> CHR 0x5C"
abbreviation dq :: char where "dq \<equiv> CHR 0x22"

definition lowerHex :: "nat \<Rightarrow> char" where
  "lowerHex n = (if n < 10 then char_of (48 + n) else char_of (87 + n))"

definition escJson :: "char \<Rightarrow> string" where
  "escJson c =
     (if c = bsl \<or> c = dq then [bsl, c]
      else if byte c = 8 then [bsl, CHR ''b'']
      else if byte c = 12 then [bsl, CHR ''f'']
      else if byte c = 10 then [bsl, CHR ''n'']
      else if byte c = 13 then [bsl, CHR ''r'']
      else if byte c = 9 then [bsl, CHR ''t'']
      else if byte c < 32 \<or> c \<in> set ''<>&'' then
        bsl # ''u00'' @ [lowerHex (byte c div 16), lowerHex (byte c mod 16)]
      else [c])"

text \<open>The body of a string literal, as \<^verbatim>\<open>json.Marshal\<close> writes it (HTML escaping on).\<close>

function jsonBody :: "string \<Rightarrow> string" where
  "jsonBody s =
     (case s of
        [] \<Rightarrow> []
      | c # cs \<Rightarrow>
          if byte c < 128 then escJson c @ jsonBody cs
          else (case decodeRune s of
            None \<Rightarrow> bsl # ''ufffd'' @ jsonBody cs
          | Some (r, n) \<Rightarrow>
              (if r = 8232 then bsl # ''u2028'' else if r = 8233 then bsl # ''u2029'' else take n s)
              @ jsonBody (drop n s)))"
  by pat_completeness auto
termination
  by (relation "measure length") (auto dest: decodeRune_width)

declare jsonBody.simps [simp del]

definition jsonString :: "string \<Rightarrow> string" where
  "jsonString s = dq # jsonBody s @ [dq]"

text \<open>An object of already rendered values, in the order of the struct's fields.\<close>

definition jsonMember :: "string \<times> string \<Rightarrow> string" where
  "jsonMember kv = jsonString (fst kv) @ '':'' @ snd kv"

definition jsonObject :: "(string \<times> string) list \<Rightarrow> string" where
  "jsonObject kvs = ''{'' @ Join (map jsonMember kvs) '','' @ ''}''"

subsection \<open>JSON: reading\<close>

datatype json = JNull | JBool bool | JNum string | JStr string | JArr "json list" | JObj "(string \<times> json) list"

definition hexAny :: "char \<Rightarrow> nat option" where
  "hexAny c =
     (if 48 \<le> byte c \<and> byte c \<le> 57 then Some (byte c - 48)
      else if 97 \<le> byte c \<and> byte c \<le> 102 then Some (byte c - 87)
      else if 65 \<le> byte c \<and> byte c \<le> 70 then Some (byte c - 55)
      else None)"

definition hex4 :: "string \<Rightarrow> nat option" where
  "hex4 s =
     (case s of
        a # b # c # d # _ \<Rightarrow>
          (case (hexAny a, hexAny b, hexAny c, hexAny d) of
             (Some w, Some x, Some y, Some z) \<Rightarrow> Some (w * 4096 + x * 256 + y * 16 + z) | _ \<Rightarrow> None)
      | _ \<Rightarrow> None)"

definition simpleEsc :: "char \<Rightarrow> char option" where
  "simpleEsc e =
     (if e = dq \<or> e = bsl \<or> e = CHR ''/'' then Some e
      else if e = CHR ''b'' then Some CHR 0x08
      else if e = CHR ''f'' then Some CHR 0x0C
      else if e = CHR ''n'' then Some CHR 0x0A
      else if e = CHR ''r'' then Some CHR 0x0D
      else if e = CHR ''t'' then Some CHR 0x09
      else None)"

text \<open>The second half of a surrogate pair written as an escape.\<close>

definition lowSurrogate :: "nat \<Rightarrow> string \<Rightarrow> nat option" where
  "lowSurrogate hi s =
     (if take 2 s = [bsl, CHR ''u''] \<and> 55296 \<le> hi \<and> hi \<le> 56319 then
        (case hex4 (drop 2 s) of
           None \<Rightarrow> None
         | Some lo \<Rightarrow> if 56320 \<le> lo \<and> lo \<le> 57343
                      then Some ((hi - 55296) * 1024 + (lo - 56320) + 65536) else None)
      else None)"

definition prepend :: "string \<Rightarrow> (string \<times> string) option \<Rightarrow> (string \<times> string) option" where
  "prepend p x = (case x of None \<Rightarrow> None | Some (s, r) \<Rightarrow> Some (p @ s, r))"

lemma prepend_cong [fundef_cong]: "p = p' \<Longrightarrow> x = x' \<Longrightarrow> prepend p x = prepend p' x'"
  by simp

text \<open>The rest of a string literal after its opening quote.\<close>

function readString :: "string \<Rightarrow> (string \<times> string) option" where
  "readString s =
     (case s of
        [] \<Rightarrow> None
      | c # cs \<Rightarrow>
          if c = dq then Some ([], cs)
          else if byte c < 32 then None
          else if c = bsl then
            (case cs of
               [] \<Rightarrow> None
             | e # r \<Rightarrow>
                 (case simpleEsc e of
                    Some x \<Rightarrow> prepend [x] (readString r)
                  | None \<Rightarrow>
                      if e = CHR ''u'' then
                        (case hex4 r of
                           None \<Rightarrow> None
                         | Some u \<Rightarrow>
                             if 55296 \<le> u \<and> u \<le> 57343 then
                               (case lowSurrogate u (drop 4 r) of
                                  Some p \<Rightarrow> prepend (encodeRune p) (readString (drop 10 r))
                                | None \<Rightarrow> prepend (encodeRune 65533) (readString (drop 4 r)))
                             else prepend (encodeRune u) (readString (drop 4 r)))
                      else None))
          else if byte c < 128 then prepend [c] (readString cs)
          else (case decodeRune s of
                  None \<Rightarrow> prepend (encodeRune 65533) (readString cs)
                | Some (r, n) \<Rightarrow> prepend (take n s) (readString (drop n s))))"
  by pat_completeness auto
termination
  by (relation "measure length") (auto dest: decodeRune_width)

declare readString.simps [simp del]

definition isDigit :: "char \<Rightarrow> bool" where
  "isDigit c \<longleftrightarrow> digitVal c \<noteq> None"

definition readFraction :: "string \<Rightarrow> (string \<times> string) option" where
  "readFraction s =
     (if HasPrefix s ''.'' then
        (let ds = takeWhile isDigit (drop 1 s)
         in if ds = [] then None else Some (CHR ''.'' # ds, dropWhile isDigit (drop 1 s)))
      else Some ([], s))"

definition readExponent :: "string \<Rightarrow> (string \<times> string) option" where
  "readExponent s =
     (if HasPrefix s ''e'' \<or> HasPrefix s ''E'' then
        (let r = drop 1 s;
             sg = (if HasPrefix r ''+'' \<or> HasPrefix r ''-'' then take 1 r else []);
             ds = takeWhile isDigit (drop (length sg) r)
         in if ds = [] then None
            else Some (take 1 s @ sg @ ds, dropWhile isDigit (drop (length sg) r)))
      else Some ([], s))"

text \<open>A number literal; its text is kept.\<close>

definition readUnsigned :: "string \<Rightarrow> (string \<times> string) option" where
  "readUnsigned s =
     (let ip = (if HasPrefix s ''0'' then ''0'' else takeWhile isDigit s)
      in if ip = [] then None
         else case readFraction (drop (length ip) s) of
                None \<Rightarrow> None
              | Some (fr, s2) \<Rightarrow>
                  (case readExponent s2 of
                     None \<Rightarrow> None
                   | Some (ex, s3) \<Rightarrow> Some (ip @ fr @ ex, s3)))"

definition readNumber :: "string \<Rightarrow> (string \<times> string) option" where
  "readNumber s = (if HasPrefix s ''-'' then prepend ''-'' (readUnsigned (drop 1 s)) else readUnsigned s)"

definition skipWS :: "string \<Rightarrow> string" where
  "skipWS s = dropWhile (\<lambda>c. c \<in> {CHR '' '', CHR 0x09, CHR 0x0A, CHR 0x0D}) s"

text \<open>
  The value reader.  Each call consumes input, so a fuel of one more than the length of
  the input is enough; \<open>d\<close> is the nesting depth, limited to 10000 as in Go.
\<close>

fun readValue :: "nat \<Rightarrow> nat \<Rightarrow> string \<Rightarrow> (json \<times> string) option"
and readElems :: "nat \<Rightarrow> nat \<Rightarrow> string \<Rightarrow> (json list \<times> string) option"
and readMembers :: "nat \<Rightarrow> nat \<Rightarrow> string \<Rightarrow> ((string \<times> json) list \<times> string) option" where
  "readValue 0 d s = None"
| "readValue (Suc n) d s =
     (case skipWS s of
        [] \<Rightarrow> None
      | c # r \<Rightarrow>
          if c = dq then map_option (\<lambda>(x, t). (JStr x, t)) (readString r)
          else if c = CHR ''{'' then
            (if 10000 \<le> d then None
             else if HasPrefix (skipWS r) ''}'' then Some (JObj [], drop 1 (skipWS r))
             else map_option (\<lambda>(x, t). (JObj x, t)) (readMembers n (Suc d) r))
          else if c = CHR ''['' then
            (if 10000 \<le> d then None
             else if HasPrefix (skipWS r) '']'' then Some (JArr [], drop 1 (skipWS r))
             else map_option (\<lambda>(x, t). (JArr x, t)) (readElems n (Suc d) r))
          else if HasPrefix (c # r) ''true'' then Some (JBool True, drop 3 r)
          else if HasPrefix (c # r) ''false'' then Some (JBool False, drop 4 r)
          else if HasPrefix (c # r) ''null'' then Some (JNull, drop 3 r)
          else map_option (\<lambda>(x, t). (JNum x, t)) (readNumber (c # r)))"
| "readElems 0 d s = None"
| "readElems (Suc n) d s =
     (case readValue n d s of
        None \<Rightarrow> None
      | Some (v, t) \<Rightarrow>
          (case skipWS t of
             [] \<Rightarrow> None
           | c # r \<Rightarrow>
               if c = CHR '']'' then Some ([v], r)
               else if c = CHR '','' then map_option (\<lambda>(vs, u). (v # vs, u)) (readElems n d r)
               else None))"
| "readMembers 0 d s = None"
| "readMembers (Suc n) d s =
     (if \<not> HasPrefix (skipWS s) [dq] then None
      else case readString (drop 1 (skipWS s)) of
        None \<Rightarrow> None
      | Some (k, t) \<Rightarrow>
          if \<not> HasPrefix (skipWS t) '':'' then None
          else (case readValue n d (drop 1 (skipWS t)) of
             None \<Rightarrow> None
           | Some (v, u) \<Rightarrow>
               (case skipWS u of
                  [] \<Rightarrow> None
                | c # r \<Rightarrow>
                    if c = CHR ''}'' then Some ([(k, v)], r)
                    else if c = CHR '','' then map_option (\<lambda>(vs, w). ((k, v) # vs, w)) (readMembers n d r)
                    else None)))"

definition parseJSON :: "string \<Rightarrow> json option" where
  "parseJSON s =
     (case readValue (Suc (length s)) 0 s of
        None \<Rightarrow> None | Some (v, t) \<Rightarrow> if skipWS t = [] then Some v else None)"

subsection \<open>JSON: decoding an object into struct fields\<close>

text \<open>A key addresses the field of that name, or else one whose name is equal under case folding.\<close>

definition fieldOf :: "string list \<Rightarrow> string \<Rightarrow> string option" where
  "fieldOf names k = (if k \<in> set names then Some k else find (\<lambda>f. EqualFold f k) names)"

definition fieldValues :: "string list \<Rightarrow> (string \<times> json) list \<Rightarrow> string \<Rightarrow> json list" where
  "fieldValues names obj f = map snd (filter (\<lambda>(k, _). fieldOf names k = Some f) obj)"

text \<open>Later values overwrite earlier ones, null leaves a field alone, a wrong type is an error.\<close>

fun stringField :: "string \<Rightarrow> json list \<Rightarrow> string option" where
  "stringField acc [] = Some acc"
| "stringField acc (JStr s # vs) = stringField s vs"
| "stringField acc (JNull # vs) = stringField acc vs"
| "stringField acc (_ # vs) = None"

fun intField :: "(int \<Rightarrow> bool) \<Rightarrow> int \<Rightarrow> json list \<Rightarrow> int option" where
  "intField rng acc [] = Some acc"
| "intField rng acc (JNum l # vs) =
     (case ParseInt l of None \<Rightarrow> None | Some i \<Rightarrow> if rng i then intField rng i vs else None)"
| "intField rng acc (JNull # vs) = intField rng acc vs"
| "intField rng acc (_ # vs) = None"

text \<open>The members of the top-level value; null decodes to the zero struct.\<close>

definition objectMembers :: "json \<Rightarrow> (string \<times> json) list option" where
  "objectMembers v = (case v of JObj ms \<Rightarrow> Some ms | JNull \<Rightarrow> Some [] | _ \<Rightarrow> None)"

subsection \<open>Lemmas: base64\<close>

lemma b64Val_b64Char_all: "list_all (\<lambda>n. b64Val (b64Char n) = Some n) [0..<64]"
  by code_simp

lemma b64Val_b64Char [simp]: "n < 64 \<Longrightarrow> b64Val (b64Char n) = Some n"
  using b64Val_b64Char_all by (simp add: list_all_iff)

lemma b64Char_alphabet_all:
  "list_all (\<lambda>n. b64Char n \<notin> set '':/'' \<and> b64Char n \<noteq> CHR 0x0D \<and> b64Char n \<noteq> CHR 0x0A \<and> graphic (b64Char n)) [0..<64]"
  by code_simp

lemma b64Char_alphabet:
  "n < 64 \<Longrightarrow> b64Char n \<notin> set '':/'' \<and> b64Char n \<noteq> CHR 0x0D \<and> b64Char n \<noteq> CHR 0x0A \<and> graphic (b64Char n)"
  using b64Char_alphabet_all unfolding list_all_iff by simp

text \<open>The sextets of an encoding.\<close>

fun sextets :: "string \<Rightarrow> nat list" where
  "sextets (a # b # c # r) =
     [byte a div 4, byte a mod 4 * 16 + byte b div 16, byte b mod 16 * 4 + byte c div 64, byte c mod 64] @ sextets r"
| "sextets [a, b] = [byte a div 4, byte a mod 4 * 16 + byte b div 16, byte b mod 16 * 4]"
| "sextets [a] = [byte a div 4, byte a mod 4 * 16]"
| "sextets [] = []"

lemma b64Encode_sextets: "b64Encode s = map b64Char (sextets s)"
  by (induction s rule: sextets.induct) auto

text \<open>Two digits of base \<open>k\<close> put together and taken apart.\<close>

lemma digits_apart:
  fixes x y k :: nat
  assumes "x < k"
  shows "(y * k + x) div k = y" "(y * k + x) mod k = x"
  using assms by simp_all

lemma byte_div: "byte c div 4 < 64" "byte c div 16 < 16" "byte c div 64 < 4"
  using byte_less [of c] by (simp_all add: less_mult_imp_div_less)

lemma sextet_bounds:
  fixes a b c :: char
  shows "byte a div 4 < 64" "byte a mod 4 * 16 + byte b div 16 < 64"
    "byte b mod 16 * 4 + byte c div 64 < 64" "byte c mod 64 < 64"
    "byte a mod 4 * 16 < 64" "byte b mod 16 * 4 < 64"
proof -
  have "byte a mod 4 < 4" "byte b mod 16 < 16" by simp_all
  then show "byte a mod 4 * 16 + byte b div 16 < 64" "byte b mod 16 * 4 + byte c div 64 < 64"
    "byte a mod 4 * 16 < 64" "byte b mod 16 * 4 < 64"
    using byte_div [of b] byte_div [of c] by linarith+
qed (use byte_div in simp_all)

lemma sextets_less: "n \<in> set (sextets s) \<Longrightarrow> n < 64"
  by (induction s rule: sextets.induct) (auto intro: sextet_bounds)

lemma regroup:
  fixes a b c :: char
  shows "byte a div 4 * 4 + (byte a mod 4 * 16 + byte b div 16) div 16 = byte a"
    "(byte a mod 4 * 16 + byte b div 16) mod 16 * 16 + (byte b mod 16 * 4 + byte c div 64) div 4 = byte b"
    "(byte b mod 16 * 4 + byte c div 64) mod 4 * 64 + byte c mod 64 = byte c"
    "byte a div 4 * 4 + byte a mod 4 * 16 div 16 = byte a"
    "(byte a mod 4 * 16 + byte b div 16) mod 16 * 16 + byte b mod 16 * 4 div 4 = byte b"
  by (simp_all only: digits_apart [OF byte_div(2)] digits_apart [OF byte_div(3)]) simp_all

lemma b64Groups_sextets: "b64Groups (sextets s) = Some s"
  by (induction s rule: sextets.induct) (simp_all only: sextets.simps append_Cons append_Nil
      b64Groups.simps regroup char_of_byte option.map)

theorem b64_roundtrip: "b64Decode (b64Encode s) = Some s"
proof -
  have "filter (\<lambda>c. c \<noteq> CHR 0x0D \<and> c \<noteq> CHR 0x0A) (b64Encode s) = b64Encode s"
    unfolding b64Encode_sextets using b64Char_alphabet sextets_less by (auto simp: filter_id_conv)
  moreover have "map b64Val (b64Encode s) = map Some (sextets s)"
    unfolding b64Encode_sextets using sextets_less by simp
  ultimately show ?thesis
    by (simp add: b64Decode_def b64Groups_sextets comp_def)
qed

lemma b64Encode_chars: "c \<in> set (b64Encode s) \<Longrightarrow> c \<noteq> CHR '':'' \<and> c \<noteq> CHR ''/'' \<and> graphic c"
  unfolding b64Encode_sextets using b64Char_alphabet sextets_less by fastforce

lemma b64Encode_Nil [simp]: "b64Encode s = [] \<longleftrightarrow> s = []"
  by (cases s rule: b64Encode.cases) auto

subsection \<open>Lemmas: JSON strings\<close>

lemma prepend_Some [simp]: "prepend p (Some (s, r)) = Some (p @ s, r)"
  by (simp add: prepend_def)

lemma prepend_prepend [simp]: "prepend p (prepend q x) = prepend (p @ q) x"
  by (cases x) (auto simp: prepend_def)

lemma readString_dq: "readString (dq # t) = Some ([], t)"
  by (subst readString.simps) simp

lemma hexAny_lowerHex [simp]: "n < 16 \<Longrightarrow> hexAny (lowerHex n) = Some n"
  by (auto simp: hexAny_def lowerHex_def)

lemma readString_simple:
  "simpleEsc e = Some x \<Longrightarrow> readString (bsl # e # t) = prepend [x] (readString t)"
  by (subst readString.simps) (simp add: byte_def)

lemma readString_u00:
  assumes "v < 128"
  shows "readString (bsl # ''u00'' @ [lowerHex (v div 16), lowerHex (v mod 16)] @ t)
     = prepend [char_of v] (readString t)"
proof -
  have zero: "hexAny CHR ''0'' = Some 0" by (simp add: hexAny_def byte_def)
  have "hex4 (CHR ''0'' # CHR ''0'' # lowerHex (v div 16) # lowerHex (v mod 16) # t) = Some v"
    using assms zero by (simp add: hex4_def less_mult_imp_div_less)
  moreover have "simpleEsc CHR ''u'' = None" by (simp add: simpleEsc_def)
  ultimately show ?thesis
    using assms by (subst readString.simps) (simp add: byte_def encodeRune_def)
qed

lemma readString_plain:
  "c \<noteq> dq \<Longrightarrow> c \<noteq> bsl \<Longrightarrow> 32 \<le> byte c \<Longrightarrow> byte c < 128 \<Longrightarrow>
     readString (c # t) = prepend [c] (readString t)"
  by (subst readString.simps) simp

lemma byte_control:
  "byte c = 8 \<longleftrightarrow> c = CHR 0x08" "byte c = 9 \<longleftrightarrow> c = CHR 0x09" "byte c = 10 \<longleftrightarrow> c = CHR 0x0A"
  "byte c = 12 \<longleftrightarrow> c = CHR 0x0C" "byte c = 13 \<longleftrightarrow> c = CHR 0x0D"
proof -
  have "byte CHR 0x08 = 8" "byte CHR 0x09 = 9" "byte CHR 0x0A = 10" "byte CHR 0x0C = 12" "byte CHR 0x0D = 13"
    by (simp_all add: byte_def)
  then show "byte c = 8 \<longleftrightarrow> c = CHR 0x08" "byte c = 9 \<longleftrightarrow> c = CHR 0x09" "byte c = 10 \<longleftrightarrow> c = CHR 0x0A"
    "byte c = 12 \<longleftrightarrow> c = CHR 0x0C" "byte c = 13 \<longleftrightarrow> c = CHR 0x0D"
    by (metis byte_inject)+
qed

lemma readString_escJson:
  assumes "byte c < 128"
  shows "readString (escJson c @ t) = prepend [c] (readString t)"
proof -
  consider "c = bsl \<or> c = dq" | "byte c = 8" | "byte c = 12" | "byte c = 10" | "byte c = 13" | "byte c = 9"
    | (hex) "\<not> (c = bsl \<or> c = dq)" "byte c \<notin> {8, 9, 10, 12, 13}" "byte c < 32 \<or> c \<in> set ''<>&''"
    | (plain) "\<not> (c = bsl \<or> c = dq)" "byte c \<notin> {8, 9, 10, 12, 13}" "\<not> (byte c < 32 \<or> c \<in> set ''<>&'')"
    by blast
  then show ?thesis
  proof cases
    case hex
    then have "escJson c = bsl # ''u00'' @ [lowerHex (byte c div 16), lowerHex (byte c mod 16)]"
      by (auto simp: escJson_def)
    then show ?thesis using readString_u00 [OF assms, of t] by simp
  next
    case plain
    then show ?thesis using assms by (simp add: escJson_def readString_plain)
  qed (auto simp: escJson_def byte_control readString_simple simpleEsc_def)
qed

text \<open>The four widths of a valid encoding.\<close>

lemma decodeRune_intros:
  "byte a < 128 \<Longrightarrow> decodeRune (a # t) = Some (byte a, 1)"
  "194 \<le> byte a \<Longrightarrow> byte a \<le> 223 \<Longrightarrow> contByte 128 191 b \<Longrightarrow>
     decodeRune (a # b # t) = Some ((byte a - 192) * 64 + (byte b - 128), 2)"
  "224 \<le> byte a \<Longrightarrow> byte a \<le> 239 \<Longrightarrow>
     contByte (if byte a = 224 then 160 else 128) (if byte a = 237 then 159 else 191) b \<Longrightarrow> contByte 128 191 c \<Longrightarrow>
     decodeRune (a # b # c # t) = Some ((byte a - 224) * 4096 + (byte b - 128) * 64 + (byte c - 128), 3)"
  "240 \<le> byte a \<Longrightarrow> byte a \<le> 244 \<Longrightarrow>
     contByte (if byte a = 240 then 144 else 128) (if byte a = 244 then 143 else 191) b \<Longrightarrow>
     contByte 128 191 c \<Longrightarrow> contByte 128 191 d \<Longrightarrow>
     decodeRune (a # b # c # d # t) =
       Some ((byte a - 240) * 262144 + (byte b - 128) * 4096 + (byte c - 128) * 64 + (byte d - 128), 4)"
  by (simp_all add: decodeRune_def)

lemma decodeRune_cases:
  assumes "decodeRune s = Some (r, n)"
  obtains (one) a t where "s = a # t" "n = 1" "r = byte a" "byte a < 128"
  | (two) a b t where "s = a # b # t" "n = 2" "r = (byte a - 192) * 64 + (byte b - 128)"
      "194 \<le> byte a" "byte a \<le> 223" "contByte 128 191 b"
  | (three) a b c t where "s = a # b # c # t" "n = 3"
      "r = (byte a - 224) * 4096 + (byte b - 128) * 64 + (byte c - 128)" "224 \<le> byte a" "byte a \<le> 239"
      "contByte (if byte a = 224 then 160 else 128) (if byte a = 237 then 159 else 191) b" "contByte 128 191 c"
  | (four) a b c d t where "s = a # b # c # d # t" "n = 4"
      "r = (byte a - 240) * 262144 + (byte b - 128) * 4096 + (byte c - 128) * 64 + (byte d - 128)"
      "240 \<le> byte a" "byte a \<le> 244"
      "contByte (if byte a = 240 then 144 else 128) (if byte a = 244 then 143 else 191) b"
      "contByte 128 191 c" "contByte 128 191 d"
  using assms unfolding decodeRune_def
  by (simp split: list.split_asm if_split_asm del: if_split_asm)

lemma decodeRune_append:
  assumes "decodeRune s = Some (r, n)"
  shows "decodeRune (take n s @ t) = Some (r, n)"
  using assms by (cases rule: decodeRune_cases) (simp_all add: decodeRune_intros)

lemma readString_rune:
  assumes "decodeRune s = Some (r, n)" and "128 \<le> byte (hd s)"
  shows "readString (take n s @ t) = prepend (take n s) (readString t)"
proof -
  have w: "0 < n" "n \<le> length s" using decodeRune_width [OF assms(1)] by auto
  then obtain c cs where s: "s = c # cs" by (cases s) auto
  then obtain m where n: "n = Suc m" using w by (cases n) auto
  have "c \<noteq> dq" "c \<noteq> bsl" "\<not> byte c < 32" "\<not> byte c < 128"
    using assms(2) s by (auto simp: byte_def)
  moreover have "decodeRune (c # take m cs @ t) = Some (r, Suc m)"
    using decodeRune_append [OF assms(1), of t] s n by simp
  ultimately show ?thesis
    using s n w by (subst readString.simps) simp
qed

lemma readString_2028: "readString (bsl # ''u2028'' @ t) = prepend [CHR 0xE2, CHR 0x80, CHR 0xA8] (readString t)"
proof -
  have "hex4 (''2028'' @ t) = Some 8232" by (simp add: hex4_def hexAny_def byte_def)
  moreover have "encodeRune 8232 = [CHR 0xE2, CHR 0x80, CHR 0xA8]" by code_simp
  moreover have "simpleEsc CHR ''u'' = None" by (simp add: simpleEsc_def)
  ultimately show ?thesis by (subst readString.simps) (simp add: byte_def)
qed

lemma readString_2029: "readString (bsl # ''u2029'' @ t) = prepend [CHR 0xE2, CHR 0x80, CHR 0xA9] (readString t)"
proof -
  have "hex4 (''2029'' @ t) = Some 8233" by (simp add: hex4_def hexAny_def byte_def)
  moreover have "encodeRune 8233 = [CHR 0xE2, CHR 0x80, CHR 0xA9]" by code_simp
  moreover have "simpleEsc CHR ''u'' = None" by (simp add: simpleEsc_def)
  ultimately show ?thesis by (subst readString.simps) (simp add: byte_def)
qed

lemma three_apart:
  fixes x y z :: nat
  assumes "y < 64" "z < 64" "r = x * 4096 + y * 64 + z"
  shows "x = r div 4096" "y = r div 64 mod 64" "z = r mod 64"
proof -
  have r: "r = (x * 64 + y) * 64 + z" using assms(3) by simp
  then have d: "r div 64 = x * 64 + y" using digits_apart [OF assms(2)] by simp
  show "z = r mod 64" unfolding r by (rule digits_apart(2) [OF assms(2), symmetric])
  show "y = r div 64 mod 64" using d digits_apart [OF assms(1)] by simp
  have "r div 4096 = r div 64 div 64" by (simp add: div_mult2_eq [symmetric])
  then show "x = r div 4096" using d digits_apart [OF assms(1)] by simp
qed

lemma line_separator_bytes:
  assumes "decodeRune s = Some (r, n)" and "r = 8232 \<or> r = 8233"
  shows "take n s = [CHR 0xE2, CHR 0x80, char_of (r - 8064)]"
  using assms(1)
proof (cases rule: decodeRune_cases)
  case (three a b c t)
  have "byte b - 128 < 64" "byte c - 128 < 64" "128 \<le> byte b" "128 \<le> byte c"
    using three by (auto simp: contByte_def split: if_splits)
  moreover have "byte a - 224 = r div 4096" "byte b - 128 = r div 64 mod 64" "byte c - 128 = r mod 64"
    using three_apart [OF calculation(1,2) three(3)] by simp_all
  ultimately have "byte a = 226" "byte b = 128" "byte c = r - 8064"
    using three(4) assms(2) by auto
  then have "a = char_of (226::nat)" "b = char_of (128::nat)" "c = char_of (r - 8064)"
    by (metis char_of_byte)+
  moreover have "char_of (226::nat) = CHR 0xE2" "char_of (128::nat) = CHR 0x80"
    by code_simp+
  ultimately show ?thesis using three by simp
next
  case (two a b t)
  then have "r < 8232" by (auto simp: contByte_def)
  with assms(2) show ?thesis by simp
next
  case (four a b c d t)
  then have "byte a \<ge> 241 \<or> byte b - 128 \<ge> 16" by (auto simp: contByte_def split: if_splits)
  then have "r > 8233" using four(3) by auto
  with assms(2) show ?thesis by auto
qed (use assms(2) in auto)

theorem readString_jsonBody:
  "utf8Valid s \<Longrightarrow> readString (jsonBody s @ dq # t) = Some (s, t)"
proof (induction s rule: jsonBody.induct)
  case (1 s)
  show ?case
  proof (cases s)
    case Nil
    then show ?thesis by (simp add: jsonBody.simps [of "[]"] readString_dq)
  next
    case (Cons c cs)
    from "1.prems" Cons obtain r n where dec: "decodeRune s = Some (r, n)" and v: "utf8Valid (drop n s)"
      by (auto simp: utf8Valid.simps [of "c # cs"] split: option.splits)
    show ?thesis
    proof (cases "byte c < 128")
      case True
      then have "n = 1" using dec Cons by (simp add: decodeRune_def)
      then have "readString (jsonBody cs @ dq # t) = Some (cs, t)"
        using v Cons True "1.IH"(1) by simp
      then show ?thesis using True Cons
        by (subst jsonBody.simps) (simp add: readString_escJson)
    next
      case False
      then have ih: "readString (jsonBody (drop n s) @ dq # t) = Some (drop n s, t)"
        using "1.IH"(3) [OF Cons] dec v by simp
      have big: "128 \<le> byte (hd s)" using False Cons by simp
      have "char_of (168::nat) = CHR 0xA8" "char_of (169::nat) = CHR 0xA9"
        by code_simp+
      then have "readString (jsonBody s @ dq # t) = prepend (take n s) (readString (jsonBody (drop n s) @ dq # t))"
        using False Cons dec readString_rune [OF dec big] line_separator_bytes [OF dec]
          readString_2028 readString_2029
        by (subst jsonBody.simps) auto
      then show ?thesis using ih by simp
    qed
  qed
qed

subsection \<open>Lemmas: JSON numbers and flat objects\<close>

lemma showNat_head_nonzero: "0 < n \<Longrightarrow> hd (showNat n) \<noteq> CHR ''0''"
proof (induction n rule: showNat.induct)
  case (1 n)
  have zero: "byte CHR ''0'' = 48" by (simp add: byte_def)
  show ?case
  proof (cases "n < 10")
    case True
    then have "byte (digitChar n) \<noteq> 48" using "1.prems" by (simp add: digitChar_def)
    then show ?thesis using True zero by (auto simp: showNat.simps [of n])
  next
    case False
    then show ?thesis using "1.IH" by (simp add: showNat.simps [of n])
  qed
qed

lemma isDigit_showNat: "c \<in> set (showNat n) \<Longrightarrow> isDigit c"
  by (drule showNat_digits) (simp add: isDigit_def digitVal_def)

lemma takeWhile_showNat:
  "\<not> isDigit d \<Longrightarrow> takeWhile isDigit (showNat n @ d # t) = showNat n"
  by (simp add: takeWhile_append2 isDigit_showNat)

definition flatDelim :: "char \<Rightarrow> bool" where
  "flatDelim d \<longleftrightarrow> d = CHR '','' \<or> d = CHR ''}'' \<or> d = CHR '']''"

lemma flatDelim_not_digit: "flatDelim d \<Longrightarrow> \<not> isDigit d"
  by (auto simp: flatDelim_def isDigit_def digitVal_def byte_def)

lemma intPart_showNat:
  assumes "flatDelim d"
  shows "(if HasPrefix (showNat n @ d # t) ''0'' then ''0'' else takeWhile isDigit (showNat n @ d # t)) = showNat n"
proof (cases "n = 0")
  case True
  moreover have "showNat 0 = ''0''" by code_simp
  ultimately show ?thesis by simp
next
  case False
  obtain c cs where "showNat n = c # cs" by (cases "showNat n") auto
  moreover have "c \<noteq> CHR ''0''" using showNat_head_nonzero [of n] False calculation by simp
  ultimately have "\<not> HasPrefix (showNat n @ d # t) ''0''" by simp
  then show ?thesis using takeWhile_showNat flatDelim_not_digit [OF assms] by simp
qed

lemma readTail_delim:
  "flatDelim d \<Longrightarrow> readFraction (d # t) = Some ([], d # t) \<and> readExponent (d # t) = Some ([], d # t)"
  by (auto simp: readFraction_def readExponent_def flatDelim_def)

lemma readUnsigned_showNat:
  "flatDelim d \<Longrightarrow> readUnsigned (showNat n @ d # t) = Some (showNat n, d # t)"
  unfolding readUnsigned_def intPart_showNat by (simp add: readTail_delim)

lemma readNumber_Itoa:
  assumes "flatDelim d"
  shows "readNumber (Itoa i @ d # t) = Some (Itoa i, d # t)"
proof (cases "i < 0")
  case True
  then show ?thesis
    using readUnsigned_showNat [OF assms] by (simp add: readNumber_def Itoa_def)
next
  case False
  have "\<not> HasPrefix (showNat (nat i) @ d # t) ''-''"
    using showNat_head [of "nat i"] by auto
  then show ?thesis
    using False readUnsigned_showNat [OF assms] by (simp add: readNumber_def Itoa_def)
qed

text \<open>Flat values: strings of valid UTF-8 and rendered integers.\<close>

fun render :: "json \<Rightarrow> string" where
  "render (JStr s) = jsonString s"
| "render (JNum l) = l"
| "render _ = ''null''"

definition flat :: "json \<Rightarrow> bool" where
  "flat v \<longleftrightarrow> (\<exists>s. v = JStr s \<and> utf8Valid s) \<or> (\<exists>i. v = JNum (Itoa i))"

lemma flat_simps [simp]:
  "flat (JStr s) \<longleftrightarrow> utf8Valid s"
  "flat (JNum (Itoa i))"
  by (auto simp: flat_def)

lemma skipWS_graphic: "graphic c \<Longrightarrow> skipWS (c # t) = c # t"
  by (auto simp: skipWS_def graphic_def byte_def)

lemma graphic_punct [simp]:
  "graphic dq" "graphic CHR ''{''" "graphic CHR ''}''" "graphic CHR '':''" "graphic CHR '',''"
  by (simp_all add: graphic_def byte_def)

lemma Itoa_first: "\<exists>c cs. Itoa i = c # cs \<and> graphic c \<and> c \<noteq> dq \<and> c \<noteq> CHR ''{'' \<and> c \<noteq> CHR ''[''
    \<and> c \<noteq> CHR ''t'' \<and> c \<noteq> CHR ''f'' \<and> c \<noteq> CHR ''n''"
proof -
  obtain c cs where s: "Itoa i = c # cs" by (cases "Itoa i") auto
  then have "c = CHR ''-'' \<or> (48 \<le> byte c \<and> byte c \<le> 57)" using Itoa_chars [of c i] by simp
  moreover have "graphic c" using Itoa_graphic [of i] s by simp
  ultimately show ?thesis using s by (auto simp: byte_def)
qed

lemma readValue_flat:
  assumes "flat v" "flatDelim d"
  shows "readValue (Suc n) k (render v @ d # t) = Some (v, d # t)"
proof -
  consider s where "v = JStr s" "utf8Valid s" | i where "v = JNum (Itoa i)"
    using assms(1) by (auto simp: flat_def)
  then show ?thesis
  proof cases
    case (1 s)
    then show ?thesis
      using readString_jsonBody [of s "d # t"] by (simp add: jsonString_def skipWS_graphic)
  next
    case (2 i)
    obtain c cs where c: "Itoa i = c # cs" "graphic c" "c \<noteq> dq" "c \<noteq> CHR ''{''" "c \<noteq> CHR ''[''"
        "c \<noteq> CHR ''t''" "c \<noteq> CHR ''f''" "c \<noteq> CHR ''n''"
      using Itoa_first [of i] by blast
    have "readNumber (c # cs @ d # t) = Some (Itoa i, d # t)"
      using readNumber_Itoa [OF assms(2), of i t] c(1) by simp
    then show ?thesis using 2 c by (simp add: skipWS_graphic)
  qed
qed

definition members :: "(string \<times> json) list \<Rightarrow> (string \<times> string) list" where
  "members kvs = map (\<lambda>(k, v). (k, render v)) kvs"

lemma readMembers_flat:
  assumes "kvs \<noteq> []" "\<forall>(k, v)\<in>set kvs. utf8Valid k \<and> flat v" "length kvs < n"
  shows "readMembers n d (Join (map jsonMember (members kvs)) '','' @ CHR ''}'' # t) = Some (kvs, t)"
  using assms
proof (induction kvs arbitrary: n)
  case (Cons kv kvs)
  obtain k v where kv: "kv = (k, v)" by (cases kv)
  obtain m where n: "n = Suc (Suc m)" using Cons.prems(3) by (cases n; cases "n - 1") auto
  have uv: "utf8Valid k" "flat v" using Cons.prems(2) kv by auto
  have key: "readString (jsonBody k @ dq # u) = Some (k, u)" for u
    using readString_jsonBody [OF uv(1)] .
  have val: "readValue (Suc m) d (render v @ e # u) = Some (v, e # u)" if "flatDelim e" for e u
    using readValue_flat [OF uv(2) that] .
  show ?case
  proof (cases kvs)
    case Nil
    then show ?thesis
      using key val [of "CHR ''}''" t] kv n
      by (simp add: members_def jsonMember_def jsonString_def skipWS_graphic flatDelim_def)
  next
    case (Cons kv' kvs')
    then have "readMembers (Suc m) d (Join (map jsonMember (members kvs)) '','' @ CHR ''}'' # t) = Some (kvs, t)"
      using Cons.prems n by (intro Cons.IH) auto
    moreover have "Join (map jsonMember (members (kv # kvs))) '','' @ CHR ''}'' # t =
        dq # jsonBody k @ dq # CHR '':'' # render v @ CHR '','' #
          (Join (map jsonMember (members kvs)) '','' @ CHR ''}'' # t)"
      using Cons kv by (simp add: members_def jsonMember_def jsonString_def)
    ultimately show ?thesis
      using key val [of "CHR '',''"] kv n
      by (simp add: skipWS_graphic flatDelim_def del: readMembers.simps(2) readValue.simps(2))
        (simp add: readMembers.simps(2) skipWS_graphic)
  qed
qed simp

lemma length_Join_ge: "length (filter (\<lambda>w. w \<noteq> []) ws) \<le> length (Join ws sep)"
proof (induction ws sep rule: Join.induct)
  case (3 w v ws sep)
  then show ?case by (cases w) auto
qed (auto simp: Suc_le_eq)

theorem parseJSON_jsonObject:
  assumes "\<forall>(k, v)\<in>set kvs. utf8Valid k \<and> flat v"
  shows "parseJSON (jsonObject (members kvs)) = Some (JObj kvs)"
proof (cases "kvs = []")
  case True
  then show ?thesis
    by (simp add: parseJSON_def jsonObject_def members_def skipWS_graphic)
      (simp add: skipWS_def)
next
  case False
  let ?b = "Join (map jsonMember (members kvs)) '',''"
  have "filter (\<lambda>w. w \<noteq> []) (map jsonMember (members kvs)) = map jsonMember (members kvs)"
    by (auto simp: filter_id_conv jsonMember_def jsonString_def)
  then have "length kvs \<le> length ?b"
    using length_Join_ge [of "map jsonMember (members kvs)" "'',''"] by (simp add: members_def)
  then have "length kvs < length (jsonObject (members kvs))"
    by (simp add: jsonObject_def)
  then have rm: "readMembers (length (jsonObject (members kvs))) (Suc 0) (?b @ ''}'') = Some (kvs, [])"
    using readMembers_flat [OF False assms, of _ "Suc 0" "[]"] by simp
  obtain k v kvs' where "kvs = (k, v) # kvs'" using False by (cases kvs) auto
  then obtain r where b: "?b = dq # r"
    by (cases kvs') (auto simp: members_def jsonMember_def jsonString_def)
  have obj: "jsonObject (members kvs) = CHR ''{'' # ?b @ ''}''" by (simp add: jsonObject_def)
  have "\<not> HasPrefix (skipWS (?b @ ''}'')) ''}''" using b by (simp add: skipWS_graphic)
  then have "readValue (Suc (length (jsonObject (members kvs)))) 0 (jsonObject (members kvs)) = Some (JObj kvs, [])"
    using rm unfolding obj by (simp add: skipWS_graphic)
  then show ?thesis by (simp add: parseJSON_def skipWS_def)
qed

text \<open>ASCII text is valid UTF-8.\<close>

lemma utf8Valid_Cons: "byte c < 128 \<Longrightarrow> utf8Valid (c # s) = utf8Valid s"
  by (subst utf8Valid.simps) (simp add: decodeRune_intros)

lemma utf8Valid_Nil [simp]: "utf8Valid []"
  by (simp add: utf8Valid.simps [of "[]"])

lemma utf8Valid_ascii: "\<forall>c\<in>set s. byte c < 128 \<Longrightarrow> utf8Valid s"
  by (induction s) (simp_all add: utf8Valid_Cons)

end
