(* ===== verification/VolumeID.thy ===== *)
theory VolumeID
  imports Complex_Main GoURL GoCodec
begin

text \<open>
  Volume handles, \<^verbatim>\<open>pkg/iscsi/volumeid.go\<close>: the URI form of a volume handle, its encoder
  \<^verbatim>\<open>EncodeVolumeID\<close>, its decoder \<^verbatim>\<open>DecodeVolumeID\<close> with the checks of \<^verbatim>\<open>Validate\<close>, the protocol
  selector, and the small validated descriptions of shares.  The lemmas at the end show
  that what is encoded is what is decoded and that a decoded handle is always valid.
\<close>

subsection \<open>Data\<close>

type_synonym Protocol = string

abbreviation ProtocolISCSI :: Protocol where "ProtocolISCSI \<equiv> ''iscsi''"
abbreviation ProtocolNFS :: Protocol where "ProtocolNFS \<equiv> ''nfs''"
abbreviation ProtocolSMB :: Protocol where "ProtocolSMB \<equiv> ''smb''"

record VolumeID =
  vid_Name :: string
  vid_Protocol :: Protocol
  vid_ShareBackend :: string
  vid_SharePath :: string
  vid_TargetPortal :: string
  vid_TargetName :: string
  vid_TargetIQN :: string
  vid_LUN :: int
  vid_VHDXPath :: string
  vid_NfsServer :: string
  vid_NfsExportPath :: string
  vid_NfsAuthentication :: string
  vid_NfsMountAuthentication :: string
  vid_SmbServer :: string
  vid_SmbShareName :: string
  vid_CapacityBytes :: int
  vid_nameSpecified :: bool
  vid_lunSpecified :: bool

text \<open>The zero value of the struct.\<close>

definition zeroVolumeID :: VolumeID where
  "zeroVolumeID =
     \<lparr>vid_Name = [], vid_Protocol = [], vid_ShareBackend = [], vid_SharePath = [],
      vid_TargetPortal = [], vid_TargetName = [], vid_TargetIQN = [], vid_LUN = 0,
      vid_VHDXPath = [], vid_NfsServer = [], vid_NfsExportPath = [], vid_NfsAuthentication = [],
      vid_NfsMountAuthentication = [], vid_SmbServer = [], vid_SmbShareName = [],
      vid_CapacityBytes = 0, vid_nameSpecified = False, vid_lunSpecified = False\<rparr>"

subsection \<open>Path and host helpers\<close>

definition pathSegments :: "string \<Rightarrow> string list" where
  "pathSegments path =
     map (\<lambda>seg. case PathUnescape seg of Some d \<Rightarrow> d | None \<Rightarrow> seg)
       (filter (\<lambda>seg. seg \<noteq> []) (splitOn CHR ''/'' (Trim path ''/'')))"

definition splitPath :: "string \<Rightarrow> string list" where
  "splitPath path = pathSegments path"

definition defaultPort :: "string \<Rightarrow> string \<Rightarrow> string" where
  "defaultPort host port =
     (if host = [] then [] else if Contains host '':'' then host else JoinHostPort host port)"

definition hostOnly :: "string \<Rightarrow> string" where
  "hostOnly host = (case SplitHostPort host of Some (h, _) \<Rightarrow> h | None \<Rightarrow> host)"

subsection \<open>Encoding\<close>

definition shouldEncodeLUN :: "VolumeID \<Rightarrow> bool" where
  "shouldEncodeLUN v =
     (if vid_LUN v \<noteq> 0 then True else vid_VHDXPath v \<noteq> [] \<or> vid_CapacityBytes v \<noteq> 0)"

definition buildURI :: "Protocol \<Rightarrow> string \<Rightarrow> string list \<Rightarrow> url_values \<Rightarrow> string" where
  "buildURI protocol host segments q =
     (let escaped = map PathEscape (filter (\<lambda>s. s \<noteq> []) (map TrimSpace segments));
          uri = protocol @ ''://'' @ host;
          uri' = (if escaped \<noteq> [] then uri @ ''/'' @ Join escaped ''/'' else uri)
      in if qEncode q \<noteq> [] then uri' @ ''?'' @ qEncode q else uri')"

text \<open>\<open>q.Set(k, v)\<close> under \<^verbatim>\<open>if v != ""\<close>.\<close>

definition setNonEmpty :: "string \<Rightarrow> string \<Rightarrow> url_values \<Rightarrow> url_values" where
  "setNonEmpty k v q = (if v \<noteq> [] then qSet k v q else q)"

definition commonQuery :: "VolumeID \<Rightarrow> url_values" where
  "commonQuery v =
     setNonEmpty ''targetName'' (vid_TargetName v)
      (setNonEmpty ''sharePath'' (vid_SharePath v)
        (setNonEmpty ''shareBackend'' (vid_ShareBackend v)
          (setNonEmpty ''vhdxPath'' (vid_VHDXPath v)
            (setNonEmpty ''capacityBytes'' (if vid_CapacityBytes v \<noteq> 0 then Itoa (vid_CapacityBytes v) else [])
              (qSet ''name'' (vid_Name v) [])))))"

fun EncodeVolumeID :: "VolumeID option \<Rightarrow> string" where
  "EncodeVolumeID None = []"
| "EncodeVolumeID (Some v) =
     (let q = commonQuery v in
      if vid_Protocol v = ProtocolISCSI then
        buildURI ProtocolISCSI (TrimSpace (vid_TargetPortal v))
          (TrimSpace (vid_TargetIQN v) # (if shouldEncodeLUN v then [''lun'', Itoa (vid_LUN v)] else [])) q
      else if vid_Protocol v = ProtocolNFS then
        (let portal = TrimSpace (vid_TargetPortal v);
             host = (if portal = [] then TrimSpace (vid_NfsServer v) else portal);
             q1 = (if portal = [] then q else qSet ''targetPortal'' (vid_TargetPortal v) q);
             q2 = setNonEmpty ''nfsServer'' (vid_NfsServer v) q1;
             q3 = setNonEmpty ''nfsAuthentication'' (vid_NfsAuthentication v) q2;
             q4 = setNonEmpty ''nfsMountAuthentication'' (vid_NfsMountAuthentication v) q3
         in buildURI ProtocolNFS host (splitPath (vid_NfsExportPath v)) q4)
      else if vid_Protocol v = ProtocolSMB then
        buildURI ProtocolSMB (TrimSpace (vid_SmbServer v)) [TrimSpace (vid_SmbShareName v)]
          (setNonEmpty ''smbServer'' (vid_SmbServer v) q)
      else buildURI (vid_Protocol v) [] [] q)"

subsection \<open>Decoding\<close>

definition ParseProtocolFromVolumeID :: "string \<Rightarrow> Protocol result" where
  "ParseProtocolFromVolumeID id' =
     (if TrimSpace id' = [] then Inl (Errorf ''missing scheme'' [])
      else if CHR 0x00 \<in> set id' then Inl (Errorf ''invalid volume ID'' [])
      else case Index id' ''://'' of
        None \<Rightarrow> Inl (Errorf ''invalid scheme'' [])
      | Some sep \<Rightarrow>
          if sep = 0 then Inl (Errorf ''missing scheme'' [])
          else if sep + 3 \<ge> length id' then Inl (Errorf ''invalid volume ID'' [])
          else if HasPrefix (drop (sep + 3) id') ''/'' then Inr []
          else if take sep id' \<in> {ProtocolISCSI, ProtocolNFS, ProtocolSMB} then Inr (take sep id')
          else Inl (Errorf ''unknown protocol: %s'' [ArgS (take sep id')]))"

definition Validate :: "VolumeID option \<Rightarrow> unit result" where
  "Validate p =
     (case p of None \<Rightarrow> Inl (Errorf ''empty volume ID'' []) | Some v \<Rightarrow>
      if vid_nameSpecified v \<and> TrimSpace (vid_Name v) = [] then Inl (Errorf ''name is required'' [])
      else if vid_CapacityBytes v < 0 then Inl (Errorf ''capacityBytes must be non-negative'' [])
      else if vid_Protocol v = ProtocolISCSI then
        (if TrimSpace (vid_TargetPortal v) = [] then Inl (Errorf ''targetPortal is required'' [])
         else if TrimSpace (vid_TargetIQN v) = [] then Inl (Errorf ''targetIQN is required'' [])
         else if \<not> vid_lunSpecified v then Inl (Errorf ''LUN is required'' [])
         else Inr ())
      else if vid_Protocol v = ProtocolNFS then
        (if TrimSpace (vid_NfsServer v) = [] then Inl (Errorf ''nfsServer is required'' [])
         else if TrimSpace (vid_NfsExportPath v) = [] \<or> TrimSpace (vid_NfsExportPath v) = ''/''
           then Inl (Errorf ''nfsExportPath is required'' [])
         else Inr ())
      else if vid_Protocol v = ProtocolSMB then
        (if TrimSpace (vid_SmbServer v) = [] then Inl (Errorf ''smbServer is required'' [])
         else if TrimSpace (vid_SmbShareName v) = [] then Inl (Errorf ''smbShareName is required'' [])
         else Inr ())
      else Inl (Errorf ''unknown protocol: %s'' [ArgS (vid_Protocol v)]))"

text \<open>The loop over the path segments after the first: the text after the first \<^verbatim>\<open>lun\<close>.\<close>

fun findLun :: "string list \<Rightarrow> string option" where
  "findLun (a # b # r) = (if a = ''lun'' then Some b else findLun (b # r))"
| "findLun _ = None"

definition decodeCapacity :: "url_values \<Rightarrow> int result" where
  "decodeCapacity q =
     (let capRaw = TrimSpace (qGet q ''capacityBytes'') in
      if capRaw = [] then Inr 0
      else case ParseInt capRaw of
        None \<Rightarrow> Inl (Errorf ''invalid capacityBytes: %w'' [ArgE (Foreign ''strconv.ParseInt'')])
      | Some c \<Rightarrow> if c < 0 then Inl (Errorf ''capacityBytes must be non-negative'' []) else Inr c)"

text \<open>The protocol-specific part of the decoder, on the fields read so far.\<close>

definition decodeLocation :: "Protocol \<Rightarrow> url \<Rightarrow> url_values \<Rightarrow> VolumeID \<Rightarrow> VolumeID result" where
  "decodeLocation proto u q out =
     (if proto = ProtocolISCSI then
        (let parts = pathSegments (Path u);
             out1 = out\<lparr>vid_TargetPortal := defaultPort (Host u) ''3260''\<rparr>;
             out2 = (case parts of [] \<Rightarrow> out1 | p # _ \<Rightarrow> out1\<lparr>vid_TargetIQN := p\<rparr>)
         in case findLun (drop 1 parts) of
              None \<Rightarrow> Inr out2
            | Some l \<Rightarrow> (case Atoi l of
                None \<Rightarrow> Inl (Errorf ''invalid LUN: %w'' [ArgE (Foreign ''strconv.Atoi'')])
              | Some lun \<Rightarrow> Inr (out2\<lparr>vid_LUN := lun, vid_lunSpecified := True\<rparr>)))
      else if proto = ProtocolNFS then
        Inr (out\<lparr>vid_TargetPortal := qGet q ''targetPortal'',
                 vid_NfsServer := (if qGet q ''nfsServer'' = [] then hostOnly (Host u) else qGet q ''nfsServer''),
                 vid_NfsAuthentication := qGet q ''nfsAuthentication'',
                 vid_NfsMountAuthentication := qGet q ''nfsMountAuthentication'',
                 vid_NfsExportPath := Path u\<rparr>)
      else if proto = ProtocolSMB then
        Inr (out\<lparr>vid_SmbServer := (if qGet q ''smbServer'' = [] then hostOnly (Host u) else qGet q ''smbServer''),
                 vid_SmbShareName := (case pathSegments (Path u) of [] \<Rightarrow> vid_SmbShareName out | p # _ \<Rightarrow> p)\<rparr>)
      else Inr out)"

definition DecodeVolumeID :: "string \<Rightarrow> VolumeID result" where
  "DecodeVolumeID id' =
     (if TrimSpace id' = [] then Inl (Errorf ''empty volume ID'' [])
      else if CHR 0x00 \<in> set id' then Inl (Errorf ''invalid volume ID'' [])
      else onOk (ParseProtocolFromVolumeID id') (\<lambda>p.
        let proto = (if p = [] then take (case Index id' ''://'' of Some i \<Rightarrow> i | None \<Rightarrow> 0) id' else p) in
        case url_Parse id' of
          None \<Rightarrow> Inl (Errorf ''invalid volume ID: %w'' [ArgE (Foreign ''url.Parse'')])
        | Some u \<Rightarrow>
            let q = ParseQuery (RawQuery u);
                out0 = zeroVolumeID\<lparr>vid_Protocol := proto\<rparr>;
                out1 = (if qHas q ''name'' then out0\<lparr>vid_Name := qGet q ''name'', vid_nameSpecified := True\<rparr> else out0)
            in onOk (decodeCapacity q) (\<lambda>capacity.
               let out2 = out1\<lparr>vid_CapacityBytes := capacity, vid_VHDXPath := qGet q ''vhdxPath'',
                               vid_ShareBackend := qGet q ''shareBackend'', vid_SharePath := qGet q ''sharePath'',
                               vid_TargetName := qGet q ''targetName''\<rparr>
               in onOk (decodeLocation proto u q out2) (\<lambda>out.
                  onOk (Validate (Some out)) (\<lambda>_. Inr out)))))"

definition ValidateVolumeID :: "string \<Rightarrow> unit result" where
  "ValidateVolumeID id' =
     (if TrimSpace id' = [] then Inl (Errorf ''empty volume ID'' [])
      else if CHR 0x00 \<in> set id' then Inl (Errorf ''invalid volume ID'' [])
      else onOk (DecodeVolumeID id') (\<lambda>_. Inr ()))"

subsection \<open>Backend selection\<close>

text \<open>An interface value is a backend or nil.\<close>

record 'b BackendSelector =
  sel_iscsi :: "'b option"
  sel_nfs :: "'b option"
  sel_smb :: "'b option"

definition NewBackendSelector :: "'b option \<Rightarrow> 'b option \<Rightarrow> 'b option \<Rightarrow> 'b BackendSelector" where
  "NewBackendSelector iscsi nfs smb = \<lparr>sel_iscsi = iscsi, sel_nfs = nfs, sel_smb = smb\<rparr>"

definition Select :: "'b BackendSelector \<Rightarrow> Protocol \<Rightarrow> 'b result" where
  "Select s protocol =
     (let chosen = (if protocol = ProtocolISCSI then Some (sel_iscsi s)
                    else if protocol = ProtocolNFS then Some (sel_nfs s)
                    else if protocol = ProtocolSMB then Some (sel_smb s) else None)
      in case chosen of
           None \<Rightarrow> Inl (Status InvalidArgument ''unknown protocol: %s'' [ArgS protocol])
         | Some None \<Rightarrow> Inl (Status NotFound ''%s backend not configured'' [ArgS protocol])
         | Some (Some b) \<Rightarrow> Inr b)"

definition selectorProtocol :: "'b BackendSelector \<Rightarrow> string \<Rightarrow> Protocol result" where
  "selectorProtocol s volumeID = ParseProtocolFromVolumeID volumeID"

subsection \<open>LUN values of any type\<close>

text \<open>
  The dynamic types \<^verbatim>\<open>normalizeLUN\<close> distinguishes; a \<^verbatim>\<open>float64\<close> is a rational here, and the
  conversion to \<^verbatim>\<open>int\<close> truncates towards zero (JSON numbers in the range of \<^verbatim>\<open>int\<close>).
\<close>

datatype lun_any =
    LunNil | LunInt int | LunInt32 int | LunInt64 int | LunFloat64 rat
  | LunInt32Ptr "int option" | LunIntPtr "int option" | LunOther

fun normalizeLUN :: "lun_any \<Rightarrow> int \<times> bool" where
  "normalizeLUN LunNil = (0, False)"
| "normalizeLUN (LunInt v) = (v, True)"
| "normalizeLUN (LunInt32 v) = (v, True)"
| "normalizeLUN (LunInt64 v) = (v, True)"
| "normalizeLUN (LunFloat64 v) = ((if 0 \<le> v then \<lfloor>v\<rfloor> else \<lceil>v\<rceil>), True)"
| "normalizeLUN (LunInt32Ptr p) = (case p of None \<Rightarrow> (0, False) | Some v \<Rightarrow> (v, True))"
| "normalizeLUN (LunIntPtr p) = (case p of None \<Rightarrow> (0, False) | Some v \<Rightarrow> (v, True))"
| "normalizeLUN LunOther = (0, False)"

definition volumeInfoLUNString :: "lun_any \<Rightarrow> string" where
  "volumeInfoLUNString lun = (let (v, present) = normalizeLUN lun in if \<not> present then [] else Itoa v)"

subsection \<open>Descriptions of shares, exports and mappings\<close>

record NfsShareInfo =
  nsi_Name :: string
  nsi_Path :: string
  nsi_Permissions :: string
  nsi_Clients :: "string list"

record SmbShareInfo =
  ssi_Name :: string
  ssi_Path :: string
  ssi_Server :: string
  ssi_ACL :: "(string \<times> string) list"

record NfsExportInfo =
  nei_Server :: string
  nei_ExportPath :: string
  nei_Clients :: "string list"

record SmbMappingInfo =
  smi_Server :: string
  smi_Share :: string
  smi_User :: string

text \<open>The checks common to the \<^verbatim>\<open>Validate\<close> methods: each named field must not be blank.\<close>

fun requireAll :: "(string \<times> string) list \<Rightarrow> unit result" where
  "requireAll [] = Inr ()"
| "requireAll ((value, message) # rest) =
     (if TrimSpace value = [] then Inl (Errorf message []) else requireAll rest)"

definition NfsShareInfo_Validate :: "NfsShareInfo \<Rightarrow> unit result" where
  "NfsShareInfo_Validate i = requireAll [(nsi_Name i, ''name is required''), (nsi_Path i, ''path is required'')]"

definition SmbShareInfo_Validate :: "SmbShareInfo \<Rightarrow> unit result" where
  "SmbShareInfo_Validate i =
     requireAll [(ssi_Name i, ''name is required''), (ssi_Path i, ''path is required''),
                 (ssi_Server i, ''server is required'')]"

definition NfsExportInfo_Validate :: "NfsExportInfo \<Rightarrow> unit result" where
  "NfsExportInfo_Validate i =
     requireAll [(nei_Server i, ''server is required''), (nei_ExportPath i, ''exportPath is required'')]"

definition SmbMappingInfo_Validate :: "SmbMappingInfo \<Rightarrow> unit result" where
  "SmbMappingInfo_Validate i =
     requireAll [(smi_Server i, ''server is required''), (smi_Share i, ''share is required'')]"

subsection \<open>Lemmas: segments and URIs\<close>

text \<open>
  A path segment the handle keeps: not blank at its ends, no slash, and not changed by the
  second percent-decoding that \<^verbatim>\<open>pathSegments\<close> applies to an already decoded path.
\<close>

definition seg_ok :: "string \<Rightarrow> bool" where
  "seg_ok s \<longleftrightarrow> s \<noteq> [] \<and> TrimSpace s = s \<and> CHR ''/'' \<notin> set s \<and> (PathUnescape s = None \<or> PathUnescape s = Some s)"

lemma slash_graphic: "graphic CHR ''/''"
  by (simp add: graphic_def byte_def)

lemma slashed_Join: "ws \<noteq> [] \<Longrightarrow> slashed ws = CHR ''/'' # Join ws ''/''"
  by (induction ws "''/''" rule: Join.induct) auto

lemma Join_ends:
  assumes "ws \<noteq> []" "\<forall>w\<in>set ws. w \<noteq> [] \<and> CHR ''/'' \<notin> set w"
  shows "Join ws ''/'' \<noteq> [] \<and> hd (Join ws ''/'') \<noteq> CHR ''/'' \<and> last (Join ws ''/'') \<noteq> CHR ''/''"
  using assms
proof (induction ws "''/''" rule: Join.induct)
  case (2 w)
  then show ?case by simp (metis hd_in_set last_in_set)
next
  case (3 w v ws)
  then show ?case by simp (metis hd_in_set)
qed simp

lemma Trim_slashes:
  assumes "s \<noteq> []" "hd s \<noteq> CHR ''/''" "last s \<noteq> CHR ''/''"
  shows "Trim (CHR ''/'' # s) ''/'' = s"
proof -
  have "dropWhile (\<lambda>c. c = CHR ''/'') s = s" using assms(1,2) by (cases s) auto
  moreover have "dropWhile (\<lambda>c. c = CHR ''/'') (rev s) = rev s"
    using assms(1,3) by (cases s rule: rev_cases) auto
  ultimately show ?thesis by (simp add: Trim_def TrimLeft_def TrimRight_def)
qed

theorem pathSegments_slashed:
  assumes "\<forall>w\<in>set segs. seg_ok w"
  shows "pathSegments (slashed segs) = segs"
proof (cases "segs = []")
  case True
  then show ?thesis by (simp add: pathSegments_def Trim_def TrimLeft_def TrimRight_def)
next
  case False
  have ws: "\<forall>w\<in>set segs. w \<noteq> [] \<and> CHR ''/'' \<notin> set w" using assms by (auto simp: seg_ok_def)
  have "Trim (slashed segs) ''/'' = Join segs ''/''"
    unfolding slashed_Join [OF False] using Join_ends [OF False ws] by (intro Trim_slashes) auto
  then have "splitOn CHR ''/'' (Trim (slashed segs) ''/'') = segs"
    using False ws by (simp add: splitOn_Join)
  moreover have "filter (\<lambda>seg. seg \<noteq> []) segs = segs" using ws by (simp add: filter_id_conv)
  moreover have "map (\<lambda>seg. case PathUnescape seg of Some d \<Rightarrow> d | None \<Rightarrow> seg) segs = segs"
    using assms by (intro map_idI) (auto simp: seg_ok_def)
  ultimately show ?thesis by (simp add: pathSegments_def)
qed

lemma buildURI_assembled:
  assumes "\<forall>w\<in>set segs. TrimSpace w = w \<and> w \<noteq> []"
  shows "buildURI p h segs q = assembled p h segs (qEncode q)"
proof -
  have "map TrimSpace segs = segs" using assms by (intro map_idI) simp
  moreover have "filter (\<lambda>s. s \<noteq> []) segs = segs" using assms by (simp add: filter_id_conv)
  ultimately show ?thesis
    using slashed_Join [of "map PathEscape segs"] by (auto simp: buildURI_def assembled_def Let_def)
qed

lemma TrimSpace_slashed:
  assumes "TrimSpace w = w" "\<forall>w\<in>set segs. TrimSpace w = w"
  shows "TrimSpace (w @ slashed segs) = w @ slashed segs"
  using assms
proof (induction segs arbitrary: w)
  case (Cons v segs)
  then have "TrimSpace (v @ slashed segs) = v @ slashed segs" by simp
  then show ?case using Cons.prems TrimSpace_delim [OF slash_graphic, of w] by simp
qed simp

lemma assembled_graphic:
  assumes "list_all letter sch" "sch \<noteq> []"
  shows "TrimSpace (assembled sch h segs q) \<noteq> []"
proof -
  have "CHR '':'' \<in> set (assembled sch h segs q)" by (simp add: assembled_def)
  moreover have "graphic CHR '':''" by (simp add: graphic_def byte_def)
  ultimately show ?thesis by (rule TrimSpace_nonblank)
qed

lemma Index_scheme: "CHR '':'' \<notin> set sch \<Longrightarrow> Index (sch @ ''://'' @ r) ''://'' = Some (length sch)"
  by (induction sch) auto

lemma protocol_letters:
  assumes "p \<in> {ProtocolISCSI, ProtocolNFS, ProtocolSMB}"
  shows "list_all letter p" "p \<noteq> []" "CHR '':'' \<notin> set p"
  using assms by (auto simp: letter_def byte_def)

lemma ParseProtocol_assembled:
  assumes p: "p \<in> {ProtocolISCSI, ProtocolNFS, ProtocolSMB}" and h: "host_ok h" "h \<noteq> []"
  shows "ParseProtocolFromVolumeID (assembled p h segs (qEncode q)) = Inr p"
    and "CHR 0x00 \<notin> set (assembled p h segs (qEncode q))"
proof -
  let ?id = "assembled p h segs (qEncode q)"
  note l = protocol_letters [OF p]
  have zero: "ctl CHR 0x00" "CHR 0x00 \<notin> set p" using p by (auto simp: ctl_def byte_def)
  have "CHR 0x00 \<notin> set h" "CHR 0x00 \<notin> set (qEncode q)"
      "CHR 0x00 \<notin> set (slashed (map PathEscape segs))"
    using h(1) zero qEncode_chars slashed_escaped_chars unfolding host_ok_def by blast+
  then show z: "CHR 0x00 \<notin> set ?id" using zero(2) by (simp add: assembled_def)
  obtain c t where c: "h = c # t" "c \<noteq> CHR ''/''"
    using h by (cases h) (auto simp: host_ok_def)
  define r where "r = t @ slashed (map PathEscape segs) @ (if qEncode q = [] then [] else CHR ''?'' # qEncode q)"
  have id: "?id = p @ ''://'' @ c # r" by (simp add: assembled_def c(1) r_def)
  have "Index ?id ''://'' = Some (length p)" unfolding id by (rule Index_scheme [OF l(3)])
  then show "ParseProtocolFromVolumeID ?id = Inr p"
    using z assembled_graphic [OF l(1,2), of h segs "qEncode q"] l(2) p c(2)
    unfolding ParseProtocolFromVolumeID_def by (simp add: id HasPrefix_def)
qed

lemma decodeCapacity_encode:
  "distinct (map fst q) \<Longrightarrow> decodeCapacity (ParseQuery (qEncode q)) = decodeCapacity q"
  by (simp add: decodeCapacity_def qGet_encode)

lemma decodeLocation_encode:
  "distinct (map fst q) \<Longrightarrow> decodeLocation p u (ParseQuery (qEncode q)) out = decodeLocation p u q out"
  by (simp add: decodeLocation_def qGet_encode)

text \<open>Decoding an assembled handle reads the query that was encoded and the segments as given.\<close>

lemma DecodeVolumeID_assembled:
  assumes p: "p \<in> {ProtocolISCSI, ProtocolNFS, ProtocolSMB}" and h: "host_ok h" "h \<noteq> []"
    and q: "distinct (map fst q)" "qHas q ''name''" and c: "decodeCapacity q = Inr c"
  shows "DecodeVolumeID (assembled p h segs (qEncode q)) =
    onOk (decodeLocation p \<lparr>Host = h, Path = slashed segs, RawQuery = qEncode q\<rparr> q
            (zeroVolumeID\<lparr>vid_Protocol := p, vid_Name := qGet q ''name'', vid_nameSpecified := True,
               vid_CapacityBytes := c, vid_VHDXPath := qGet q ''vhdxPath'',
               vid_ShareBackend := qGet q ''shareBackend'', vid_SharePath := qGet q ''sharePath'',
               vid_TargetName := qGet q ''targetName''\<rparr>))
      (\<lambda>out. onOk (Validate (Some out)) (\<lambda>_. Inr out))"
  unfolding DecodeVolumeID_def
  using ParseProtocol_assembled [OF p h, of segs q] assembled_graphic [of p h segs "qEncode q"]
    protocol_letters [OF p] url_Parse_assembled [OF _ _ h(1), of p segs q] c q
  by (simp add: decodeCapacity_encode decodeLocation_encode qGet_encode qHas_encode)

subsection \<open>The handles that survive\<close>

text \<open>
  The values a handle carries faithfully: the fields that belong to the protocol, with the
  other protocols' fields at their zero value.
\<close>

definition commonOk :: "VolumeID \<Rightarrow> bool" where
  "commonOk v \<longleftrightarrow> vid_nameSpecified v \<and> TrimSpace (vid_Name v) \<noteq> [] \<and>
     0 \<le> vid_CapacityBytes v \<and> vid_CapacityBytes v < 2 ^ 63"

definition hostField :: "string \<Rightarrow> bool" where
  "hostField h \<longleftrightarrow> TrimSpace h \<noteq> [] \<and> host_ok (TrimSpace h)"

definition storableISCSI :: "VolumeID \<Rightarrow> bool" where
  "storableISCSI v \<longleftrightarrow> vid_Protocol v = ProtocolISCSI \<and> commonOk v \<and>
     hostField (vid_TargetPortal v) \<and> TrimSpace (vid_TargetPortal v) = vid_TargetPortal v \<and>
     CHR '':'' \<in> set (vid_TargetPortal v) \<and> seg_ok (vid_TargetIQN v) \<and>
     int64_range (vid_LUN v) \<and> vid_lunSpecified v \<and>
     vid_NfsServer v = [] \<and> vid_NfsExportPath v = [] \<and> vid_NfsAuthentication v = [] \<and>
     vid_NfsMountAuthentication v = [] \<and> vid_SmbServer v = [] \<and> vid_SmbShareName v = []"

text \<open>The parts of an absolute path between its slashes.\<close>

definition partsOf :: "string \<Rightarrow> string list" where
  "partsOf path = tl (splitOn CHR ''/'' path)"

definition storableNFS :: "VolumeID \<Rightarrow> bool" where
  "storableNFS v \<longleftrightarrow> vid_Protocol v = ProtocolNFS \<and> commonOk v \<and>
     (if vid_TargetPortal v = [] then hostField (vid_NfsServer v)
      else hostField (vid_TargetPortal v) \<and> TrimSpace (vid_NfsServer v) \<noteq> []) \<and>
     partsOf (vid_NfsExportPath v) \<noteq> [] \<and> list_all seg_ok (partsOf (vid_NfsExportPath v)) \<and>
     slashed (partsOf (vid_NfsExportPath v)) = vid_NfsExportPath v \<and>
     vid_TargetIQN v = [] \<and> vid_LUN v = 0 \<and> \<not> vid_lunSpecified v \<and>
     vid_SmbServer v = [] \<and> vid_SmbShareName v = []"

definition storableSMB :: "VolumeID \<Rightarrow> bool" where
  "storableSMB v \<longleftrightarrow> vid_Protocol v = ProtocolSMB \<and> commonOk v \<and>
     hostField (vid_SmbServer v) \<and> seg_ok (vid_SmbShareName v) \<and>
     vid_TargetPortal v = [] \<and> vid_TargetIQN v = [] \<and> vid_LUN v = 0 \<and> \<not> vid_lunSpecified v \<and>
     vid_NfsServer v = [] \<and> vid_NfsExportPath v = [] \<and> vid_NfsAuthentication v = [] \<and>
     vid_NfsMountAuthentication v = []"

definition storable :: "VolumeID \<Rightarrow> bool" where
  "storable v \<longleftrightarrow> storableISCSI v \<or> storableNFS v \<or> storableSMB v"

lemma setNonEmpty_simps [simp]:
  "qGet (setNonEmpty k v q) k' = (if k' = k \<and> v \<noteq> [] then v else qGet q k')"
  "qHas (setNonEmpty k v q) k' \<longleftrightarrow> (k' = k \<and> v \<noteq> []) \<or> qHas q k'"
  "distinct (map fst q) \<Longrightarrow> distinct (map fst (setNonEmpty k v q))"
  by (auto simp: setNonEmpty_def qSet_distinct)

lemma qGet_Nil [simp]: "qGet [] k = []" "\<not> qHas [] k"
  by (simp_all add: qGet_def qHas_def)

lemma commonQuery_distinct [simp]: "distinct (map fst (commonQuery v))"
  by (simp add: commonQuery_def qSet_distinct)

lemma commonQuery_get [simp]:
  "qHas (commonQuery v) ''name''"
  "qGet (commonQuery v) ''name'' = vid_Name v"
  "qGet (commonQuery v) ''vhdxPath'' = vid_VHDXPath v"
  "qGet (commonQuery v) ''shareBackend'' = vid_ShareBackend v"
  "qGet (commonQuery v) ''sharePath'' = vid_SharePath v"
  "qGet (commonQuery v) ''targetName'' = vid_TargetName v"
  "qGet (commonQuery v) ''capacityBytes'' = (if vid_CapacityBytes v \<noteq> 0 then Itoa (vid_CapacityBytes v) else [])"
  "k \<in> {''targetPortal'', ''nfsServer'', ''nfsAuthentication'', ''nfsMountAuthentication'', ''smbServer''}
     \<Longrightarrow> qGet (commonQuery v) k = []"
  by (auto simp: commonQuery_def)

lemma decodeCapacity_common:
  assumes "commonOk v" "qGet q ''capacityBytes'' = qGet (commonQuery v) ''capacityBytes''"
  shows "decodeCapacity q = Inr (vid_CapacityBytes v)"
proof -
  have "int64_range (vid_CapacityBytes v)" using assms(1) by (simp add: commonOk_def int64_range_def)
  then show ?thesis using assms by (simp add: decodeCapacity_def commonOk_def)
qed

lemma encode_decode_ISCSI:
  assumes "storableISCSI v" "vid_LUN v \<noteq> 0 \<or> vid_VHDXPath v \<noteq> [] \<or> vid_CapacityBytes v \<noteq> 0"
  shows "DecodeVolumeID (EncodeVolumeID (Some v)) = Inr v"
proof -
  note v = assms(1) [unfolded storableISCSI_def hostField_def]
  have "shouldEncodeLUN v" using assms by (auto simp: shouldEncodeLUN_def storableISCSI_def commonOk_def)
  note v = this v
  let ?h = "vid_TargetPortal v" and ?segs = "[vid_TargetIQN v, ''lun'', Itoa (vid_LUN v)]"
  have lun: "seg_ok ''lun''" by code_simp
  have itoa: "seg_ok (Itoa (vid_LUN v))"
  proof -
    have plain: "c \<noteq> CHR ''/'' \<and> c \<noteq> CHR ''%''" if "c \<in> set (Itoa (vid_LUN v))" for c
      using Itoa_chars [OF that] by (auto simp: byte_def)
    have "PathUnescape s = Some s" if "\<forall>c\<in>set s. c \<noteq> CHR ''%''" for s
      using that by (induction s) auto
    then show ?thesis using plain by (auto simp: seg_ok_def)
  qed
  have enc: "EncodeVolumeID (Some v) = assembled ProtocolISCSI ?h ?segs (qEncode (commonQuery v))"
    using v lun itoa by (simp add: buildURI_assembled seg_ok_def)
  have segs: "pathSegments (CHR ''/'' # vid_TargetIQN v @ CHR ''/'' # CHR ''l'' # CHR ''u'' # CHR ''n'' # CHR ''/'' # Itoa (vid_LUN v)) = ?segs"
    using pathSegments_slashed [of ?segs] v lun itoa by simp
  have "vid_TargetPortal v \<noteq> []" "host_ok (vid_TargetPortal v)" "TrimSpace (vid_TargetIQN v) \<noteq> []"
    using v by (auto simp: seg_ok_def)
  then show ?thesis
    unfolding enc using v segs decodeCapacity_common [of v "commonQuery v"]
    by (simp add: DecodeVolumeID_assembled decodeLocation_def defaultPort_def Validate_def commonOk_def
        zeroVolumeID_def)
qed

text \<open>
  The encoder leaves out LUN 0 of an iSCSI volume that has neither a VHDX path nor a
  capacity, and the decoder, which requires a LUN, then refuses the handle.
\<close>

lemma encode_decode_lun_zero:
  assumes "vid_Protocol v = ProtocolISCSI" "commonOk v" "hostField (vid_TargetPortal v)"
    and "seg_ok (vid_TargetIQN v)" "vid_LUN v = 0" "vid_VHDXPath v = []" "vid_CapacityBytes v = 0"
  shows "DecodeVolumeID (EncodeVolumeID (Some v)) = Inl (Errorf ''LUN is required'' [])"
proof -
  let ?h = "TrimSpace (vid_TargetPortal v)"
  have h: "host_ok ?h" "?h \<noteq> []" using assms(3) by (simp_all add: hostField_def)
  have enc: "EncodeVolumeID (Some v) = assembled ProtocolISCSI ?h [vid_TargetIQN v] (qEncode (commonQuery v))"
    using assms by (simp add: buildURI_assembled seg_ok_def shouldEncodeLUN_def)
  have "pathSegments (CHR ''/'' # vid_TargetIQN v) = [vid_TargetIQN v]"
    using pathSegments_slashed [of "[vid_TargetIQN v]"] assms(4) by simp
  moreover have "TrimSpace (defaultPort ?h ''3260'') \<noteq> []"
  proof (cases "CHR '':'' \<in> set ?h")
    case True
    then show ?thesis using h(2) by (simp add: defaultPort_def)
  next
    case False
    then have "CHR '':'' \<in> set (defaultPort ?h ''3260'')" using h(2) by (simp add: defaultPort_def JoinHostPort_def)
    moreover have "graphic CHR '':''" by (simp add: graphic_def byte_def)
    ultimately show ?thesis by (rule TrimSpace_nonblank)
  qed
  moreover have "TrimSpace (vid_TargetIQN v) \<noteq> []" using assms(4) by (simp add: seg_ok_def)
  ultimately show ?thesis
    unfolding enc using h assms decodeCapacity_common [of v "commonQuery v"]
    by (simp add: DecodeVolumeID_assembled decodeLocation_def Validate_def commonOk_def zeroVolumeID_def)
qed

lemma encode_decode_SMB:
  assumes "storableSMB v"
  shows "DecodeVolumeID (EncodeVolumeID (Some v)) = Inr v"
proof -
  note v = assms [unfolded storableSMB_def hostField_def]
  let ?q = "setNonEmpty ''smbServer'' (vid_SmbServer v) (commonQuery v)"
  have enc: "EncodeVolumeID (Some v) = assembled ProtocolSMB (TrimSpace (vid_SmbServer v)) [vid_SmbShareName v] (qEncode ?q)"
    using v by (simp add: buildURI_assembled seg_ok_def)
  have segs: "pathSegments (CHR ''/'' # vid_SmbShareName v) = [vid_SmbShareName v]"
    using pathSegments_slashed [of "[vid_SmbShareName v]"] v by simp
  have "seg_ok (vid_SmbShareName v) \<Longrightarrow> TrimSpace (vid_SmbShareName v) \<noteq> []" by (simp add: seg_ok_def)
  moreover have "vid_SmbServer v \<noteq> []" using v by auto
  ultimately show ?thesis
    unfolding enc using v segs decodeCapacity_common [of v ?q]
    by (simp add: DecodeVolumeID_assembled decodeLocation_def Validate_def commonOk_def zeroVolumeID_def)
qed

lemma encode_decode_NFS:
  assumes "storableNFS v"
  shows "DecodeVolumeID (EncodeVolumeID (Some v)) = Inr v"
proof -
  note v = assms [unfolded storableNFS_def hostField_def]
  define segs where "segs = partsOf (vid_NfsExportPath v)"
  define h where "h = (if vid_TargetPortal v = [] then TrimSpace (vid_NfsServer v) else TrimSpace (vid_TargetPortal v))"
  define q where "q = setNonEmpty ''nfsMountAuthentication'' (vid_NfsMountAuthentication v)
     (setNonEmpty ''nfsAuthentication'' (vid_NfsAuthentication v)
       (setNonEmpty ''nfsServer'' (vid_NfsServer v)
         (setNonEmpty ''targetPortal'' (vid_TargetPortal v) (commonQuery v))))"
  have segs: "segs \<noteq> []" "\<forall>w\<in>set segs. seg_ok w" "slashed segs = vid_NfsExportPath v"
    using v by (auto simp: segs_def list_all_iff)
  have parts: "pathSegments (vid_NfsExportPath v) = segs"
    using pathSegments_slashed [of segs] segs by simp
  have h: "host_ok h" "h \<noteq> []" "vid_NfsServer v \<noteq> []" "TrimSpace (vid_NfsServer v) \<noteq> []"
    using v by (auto simp: h_def split: if_splits)
  have portal: "vid_TargetPortal v \<noteq> [] \<Longrightarrow> TrimSpace (vid_TargetPortal v) \<noteq> []"
    using v by auto
  have "EncodeVolumeID (Some v) = buildURI ProtocolNFS h segs q"
    using v portal by (auto simp: h_def q_def parts splitPath_def setNonEmpty_def)
  then have enc: "EncodeVolumeID (Some v) = assembled ProtocolNFS h segs (qEncode q)"
    using segs(2) by (simp add: buildURI_assembled seg_ok_def)
  have path: "TrimSpace (vid_NfsExportPath v) = vid_NfsExportPath v"
    using TrimSpace_slashed [of "[]" segs] segs by (auto simp: seg_ok_def)
  have path': "vid_NfsExportPath v \<noteq> []" "vid_NfsExportPath v \<noteq> ''/''"
    unfolding segs(3) [symmetric] using segs(1,2) by (cases segs; auto simp: seg_ok_def)+
  show ?thesis
    unfolding enc using v h segs(3) path path' decodeCapacity_common [of v q]
    by (simp add: DecodeVolumeID_assembled decodeLocation_def Validate_def commonOk_def zeroVolumeID_def q_def)
qed

lemma Validate_protocol:
  "Validate (Some v) = Inr u \<Longrightarrow> vid_Protocol v \<in> {ProtocolISCSI, ProtocolNFS, ProtocolSMB}"
  by (auto simp: Validate_def split: if_splits)

lemma decodeLocation_protocol:
  "decodeLocation p u q out = Inr v \<Longrightarrow> vid_Protocol v = vid_Protocol out \<and> vid_CapacityBytes v = vid_CapacityBytes out"
  by (auto simp: decodeLocation_def Let_def split: if_splits option.splits list.splits)

lemma decodeCapacity_range: "decodeCapacity q = Inr c \<Longrightarrow> 0 \<le> c \<and> c < 2 ^ 63"
  by (auto simp: decodeCapacity_def Let_def int64_range_def dest!: ParseInt_range split: if_splits option.splits)

lemma ParseProtocol_ok:
  assumes "ParseProtocolFromVolumeID s = Inr p"
  shows "\<exists>sep. Index s ''://'' = Some sep \<and> 0 < sep \<and>
     (p = [] \<or> (p = take sep s \<and> p \<in> {ProtocolISCSI, ProtocolNFS, ProtocolSMB}))"
  using assms by (auto simp: ParseProtocolFromVolumeID_def split: if_splits option.splits)

lemma DecodeVolumeID_ok:
  assumes "DecodeVolumeID s = Inr v"
  shows "Validate (Some v) = Inr ()"
    and "vid_Protocol v @ ''://'' @ drop (length (vid_Protocol v) + 3) s = s"
    and "0 \<le> vid_CapacityBytes v \<and> vid_CapacityBytes v < 2 ^ 63"
    and "ValidateVolumeID s = Inr ()"
proof -
  obtain p where p: "ParseProtocolFromVolumeID s = Inr p" and s12: "TrimSpace s \<noteq> []" "CHR 0x00 \<notin> set s"
    using assms unfolding DecodeVolumeID_def by (auto simp: ok_iff split: if_splits)
  define proto where "proto = (if p = [] then take (case Index s ''://'' of Some i \<Rightarrow> i | None \<Rightarrow> 0) s else p)"
  obtain u where u: "url_Parse s = Some u"
    using assms p s12 unfolding DecodeVolumeID_def by (cases "url_Parse s") simp_all
  obtain c where c: "decodeCapacity (ParseQuery (RawQuery u)) = Inr c"
    using assms p s12 u unfolding DecodeVolumeID_def by (auto simp: ok_iff Let_def)
  obtain out where out: "decodeLocation proto u (ParseQuery (RawQuery u)) out = Inr v"
      "vid_Protocol out = proto" "vid_CapacityBytes out = c" and valid: "Validate (Some v) = Inr ()"
  proof -
    show thesis
      using assms p s12 u c unfolding DecodeVolumeID_def proto_def [symmetric] Let_def
      by (intro that) (auto simp: ok_iff proto_def [symmetric])
  qed
  obtain sep where sep: "Index s ''://'' = Some sep" "p = [] \<or> p = take sep s"
    using ParseProtocol_ok [OF p] by blast
  then have "vid_Protocol v = take sep s"
    using decodeLocation_protocol [OF out(1)] out(2) by (auto simp: proto_def)
  moreover have "sep \<le> length s" using Index_le [OF sep(1)] by simp
  ultimately show "vid_Protocol v @ ''://'' @ drop (length (vid_Protocol v) + 3) s = s"
    using Index_SomeD [OF sep(1)] by (simp add: numeral_3_eq_3 [symmetric] add.commute)
  show "Validate (Some v) = Inr ()" by (fact valid)
  show "0 \<le> vid_CapacityBytes v \<and> vid_CapacityBytes v < 2 ^ 63"
    using decodeCapacity_range [OF c] decodeLocation_protocol [OF out(1)] out(3) by simp
  show "ValidateVolumeID s = Inr ()" using assms s12 by (simp add: ValidateVolumeID_def)
qed

subsection \<open>Properties\<close>

text \<open>
  C1: every volume handle whose fields the URI form can carry is decoded to exactly the
  value that was encoded, for each of the three protocols, with one exception that is stated
  too: the encoder leaves out LUN 0 of an iSCSI volume that has neither a VHDX path nor a
  capacity, and the decoder, which requires a LUN, refuses that handle.
\<close>

theorem volume_id_roundtrip:
  assumes "storable v"
  shows "DecodeVolumeID (EncodeVolumeID (Some v)) =
    (if vid_Protocol v = ProtocolISCSI \<and> vid_LUN v = 0 \<and> vid_VHDXPath v = [] \<and> vid_CapacityBytes v = 0
     then Inl (Errorf ''LUN is required'' []) else Inr v)"
proof (cases "storableISCSI v")
  case True
  then show ?thesis using encode_decode_ISCSI [OF True] encode_decode_lun_zero [of v] by (auto simp: storableISCSI_def)
next
  case False
  then have "storableNFS v \<or> storableSMB v" using assms by (simp add: storable_def)
  then show ?thesis using encode_decode_NFS encode_decode_SMB by (auto simp: storableNFS_def storableSMB_def)
qed

text \<open>C1 at a concrete iSCSI volume with LUN 0 and a capacity, and at the same one without.\<close>

theorem volume_id_roundtrip_witness:
  "\<exists>v. vid_LUN v = 0 \<and> vid_CapacityBytes v > 0 \<and> DecodeVolumeID (EncodeVolumeID (Some v)) = Inr v \<and>
     DecodeVolumeID (EncodeVolumeID (Some (v\<lparr>vid_CapacityBytes := 0\<rparr>))) = Inl (Errorf ''LUN is required'' [])"
proof -
  let ?v = "zeroVolumeID\<lparr>vid_Name := ''pvc-1'', vid_Protocol := ''iscsi'', vid_TargetPortal := ''10.0.0.1:3260'',
      vid_TargetIQN := ''iqn.1991-05.com.microsoft:wss'', vid_CapacityBytes := 1073741824, vid_nameSpecified := True, vid_lunSpecified := True\<rparr>"
  let ?z = "?v\<lparr>vid_CapacityBytes := 0\<rparr>"
  have "storable ?v" "storable ?z" by code_simp+
  then show ?thesis using volume_id_roundtrip [of ?v] volume_id_roundtrip [of ?z] by (intro exI [of _ ?v]) (simp add: zeroVolumeID_def)
qed

text \<open>
  C2: a handle that decodes is valid, its text starts with the scheme of its protocol, its
  capacity is a non-negative 64-bit number and the stand-alone validator accepts it.
\<close>

theorem decoded_volume_id_valid:
  assumes "DecodeVolumeID s = Inr v"
  shows "Validate (Some v) = Inr () \<and> vid_Protocol v \<in> {ProtocolISCSI, ProtocolNFS, ProtocolSMB} \<and>
    HasPrefix s (vid_Protocol v @ ''://'') \<and> 0 \<le> vid_CapacityBytes v \<and> vid_CapacityBytes v < 2 ^ 63 \<and>
    ValidateVolumeID s = Inr ()"
proof -
  have "s = (vid_Protocol v @ ''://'') @ drop (length (vid_Protocol v) + 3) s"
    using DecodeVolumeID_ok(2) [OF assms] by simp
  then have "HasPrefix s (vid_Protocol v @ ''://'')" unfolding HasPrefix_iff by blast
  then show ?thesis
    using DecodeVolumeID_ok [OF assms] Validate_protocol [OF DecodeVolumeID_ok(1) [OF assms]] by blast
qed

text \<open>C2 at a concrete NFS handle.\<close>

theorem decoded_volume_id_valid_witness:
  "\<exists>v. DecodeVolumeID ''nfs://nas/export/a?capacityBytes=10&name=a'' = Inr v \<and> ValidateVolumeID ''nfs://nas/export/a?capacityBytes=10&name=a'' = Inr ()"
proof -
  let ?v = "zeroVolumeID\<lparr>vid_Name := ''a'', vid_Protocol := ''nfs'', vid_NfsServer := ''nas'',
      vid_NfsExportPath := ''/export/a'', vid_CapacityBytes := 10, vid_nameSpecified := True\<rparr>"
  have "DecodeVolumeID ''nfs://nas/export/a?capacityBytes=10&name=a'' = Inr ?v" by code_simp
  then show ?thesis using decoded_volume_id_valid by blast
qed

end
