(* ===== verification/GoTime.thy ===== *)
theory GoTime
  imports GoStrings
begin

text \<open>
  \<^verbatim>\<open>time.ParseDuration\<close> of Go's standard library; a duration is a number of nanoseconds.  A
  fraction is multiplied exactly, where Go uses \<^verbatim>\<open>float64\<close>, and truncated.
\<close>

abbreviation Second :: int where "Second \<equiv> 1000000000"

definition unitMap :: "(string \<times> nat) list" where
  "unitMap = [(''ns'', 1), (''us'', 1000), ([CHR 0xC2, CHR 0xB5, CHR ''s''], 1000),
     ([CHR 0xCE, CHR 0xBC, CHR ''s''], 1000), (''ms'', 1000000), (''s'', 1000000000),
     (''m'', 60 * 1000000000), (''h'', 3600 * 1000000000)]"

abbreviation decDigit :: "char \<Rightarrow> bool" where
  "decDigit c \<equiv> digitVal c \<noteq> None"

definition digitsVal :: "string \<Rightarrow> nat" where
  "digitsVal ds = (case readDigits 0 ds of None \<Rightarrow> 0 | Some n \<Rightarrow> n)"

text \<open>\<^verbatim>\<open>leadingFraction\<close>: digits after the value would overflow are dropped.\<close>

fun leadingFraction :: "nat \<Rightarrow> nat \<Rightarrow> string \<Rightarrow> nat \<times> nat" where
  "leadingFraction f scale [] = (f, scale)"
| "leadingFraction f scale (c # cs) =
     (if f > (2 ^ 63 - 1) div 10 \<or> 10 * f + digitsVal [c] > 2 ^ 63 then (f, scale)
      else leadingFraction (10 * f + digitsVal [c]) (10 * scale) cs)"

function durationFields :: "nat \<Rightarrow> string \<Rightarrow> nat option" where
  "durationFields d s =
     (if s = [] then Some d
      else let ds = takeWhile decDigit s;
               r1 = dropWhile decDigit s;
               dot = (r1 \<noteq> [] \<and> hd r1 = CHR ''.'');
               fs = (if dot then takeWhile decDigit (tl r1) else []);
               r2 = (if dot then dropWhile decDigit (tl r1) else r1);
               u = takeWhile (\<lambda>c. c \<noteq> CHR ''.'' \<and> \<not> decDigit c) r2;
               r3 = dropWhile (\<lambda>c. c \<noteq> CHR ''.'' \<and> \<not> decDigit c) r2
           in if ds = [] \<and> fs = [] \<or> u = [] \<or> digitsVal ds > 2 ^ 63 then None
              else case map_of unitMap u of
                None \<Rightarrow> None
              | Some unit \<Rightarrow>
                  if digitsVal ds > 2 ^ 63 div unit then None
                  else (let (f, scale) = leadingFraction 0 1 fs;
                            v = digitsVal ds * unit + f * unit div scale
                        in if v > 2 ^ 63 \<or> d + v > 2 ^ 63 then None else durationFields (d + v) r3))"
  by pat_completeness auto
termination
proof (relation "measure (\<lambda>(d, s). length s)", goal_cases)
  case (2 d s ds r1 dot fs r2 u r3 unit fsc f scale v)
  let ?P = "\<lambda>c. c \<noteq> CHR ''.'' \<and> \<not> decDigit c"
  have "length r2 \<le> length s"
    using 2(3-7) length_dropWhile_le [of decDigit s] length_dropWhile_le [of decDigit "tl r1"]
    by (auto split: if_splits)
  moreover have "length r2 = length u + length r3"
    using 2(7-8) by (metis length_append takeWhile_dropWhile_id)
  moreover have "u \<noteq> []" using 2 by blast
  ultimately show ?case by (cases u) simp_all
qed simp

declare durationFields.simps [simp del]

definition ParseDuration :: "string \<Rightarrow> int option" where
  "ParseDuration s =
     (let (neg, r) = (case s of [] \<Rightarrow> (False, [])
                      | c # cs \<Rightarrow> if c = CHR ''-'' then (True, cs) else if c = CHR ''+'' then (False, cs) else (False, s))
      in if r = ''0'' then Some 0 else if r = [] then None
         else case durationFields 0 r of
           None \<Rightarrow> None
         | Some d \<Rightarrow> if neg then Some (- int d) else if d > 2 ^ 63 - 1 then None else Some (int d))"

lemma ParseDuration_zero [simp]: "ParseDuration ''0'' = Some 0"
  by (simp add: ParseDuration_def)

subsection \<open>Points in time\<close>

text \<open>
  \<^verbatim>\<open>time.Time\<close> as JSON: the strict form of RFC 3339, of which \<^verbatim>\<open>parseRFC3339\<close> of Go's package
  \<^verbatim>\<open>time\<close> reads every text that is accepted.  A point in time is the number of nanoseconds
  since the beginning of the year 1 in UTC, so that the zero value is 0; the zone is not kept.
\<close>

definition leapYear :: "int \<Rightarrow> bool" where
  "leapYear y \<longleftrightarrow> y mod 4 = 0 \<and> (y mod 100 \<noteq> 0 \<or> y mod 400 = 0)"

definition daysIn :: "nat \<Rightarrow> int \<Rightarrow> nat" where
  "daysIn m y = (if m = 2 then (if leapYear y then 29 else 28) else if m \<in> set [4, 6, 9, 11] then 30 else 31)"

definition daysSince :: "int \<Rightarrow> nat \<Rightarrow> nat \<Rightarrow> int" where
  "daysSince y m d =
     365 * (y - 1) + (y - 1) div 4 - (y - 1) div 100 + (y - 1) div 400 +
     int (sum_list (map (\<lambda>k. daysIn k y) [1..<m])) + int d - 1"

definition uintField :: "string \<Rightarrow> nat \<Rightarrow> nat \<Rightarrow> nat \<Rightarrow> nat \<Rightarrow> nat option" where
  "uintField s from len lo hi =
     (let t = take len (drop from s) in
      if length t = len \<and> list_all decDigit t \<and> lo \<le> digitsVal t \<and> digitsVal t \<le> hi then Some (digitsVal t) else None)"

definition charAt :: "string \<Rightarrow> nat \<Rightarrow> char \<Rightarrow> bool" where
  "charAt s i c \<longleftrightarrow> i < length s \<and> s ! i = c"

text \<open>The seconds of the zone, from the text after the time.\<close>

definition zoneOffset :: "string \<Rightarrow> int option" where
  "zoneOffset s =
     (if s = ''Z'' then Some 0
      else if length s \<noteq> 6 \<or> \<not> charAt s 3 (CHR '':'') \<or> \<not> (charAt s 0 (CHR ''-'') \<or> charAt s 0 (CHR ''+'')) then None
      else case (uintField s 1 2 0 23, uintField s 4 2 0 59) of
        (Some hr, Some mm) \<Rightarrow> Some ((if charAt s 0 (CHR ''-'') then - 1 else 1) * int ((hr * 60 + mm) * 60))
      | _ \<Rightarrow> None)"

text \<open>A fraction is cut after nine digits.\<close>

definition fractionNanos :: "string \<Rightarrow> nat" where
  "fractionNanos ds = (let t = take 9 ds in digitsVal t * 10 ^ (9 - length t))"

definition parseRFC3339 :: "string \<Rightarrow> int option" where
  "parseRFC3339 s =
     (if \<not> (charAt s 4 (CHR ''-'') \<and> charAt s 7 (CHR ''-'') \<and> charAt s 10 (CHR ''T'') \<and> charAt s 13 (CHR '':'') \<and> charAt s 16 (CHR '':'')) then None
      else case (uintField s 0 4 0 9999, uintField s 5 2 1 12, uintField s 11 2 0 23, uintField s 14 2 0 59, uintField s 17 2 0 59) of
        (Some year, Some month, Some hour, Some mins, Some sec) \<Rightarrow>
          (case uintField s 8 2 1 (daysIn month (int year)) of
             None \<Rightarrow> None
           | Some day \<Rightarrow>
               (let rest = drop 19 s;
                    frac = (case rest of [] \<Rightarrow> [] | c # cs \<Rightarrow> if c = CHR ''.'' then takeWhile decDigit cs else []);
                    zone = (if frac = [] then rest else drop (Suc (length frac)) rest)
                in case zoneOffset zone of
                     None \<Rightarrow> None
                   | Some off \<Rightarrow>
                       Some ((((daysSince (int year) month day * 24 + int hour) * 60 + int mins) * 60 + int sec - off) * Second +
                             int (fractionNanos frac))))
      | _ \<Rightarrow> None)"

end
