(* ===== verification/Driver.thy ===== *)
theory Driver
  imports VolumeID GoTime
begin

text \<open>
  The driver object and what surrounds it: the \<^verbatim>\<open>Backend\<close> interface with the data it
  exchanges (\<^verbatim>\<open>pkg/iscsi/driver.go\<close>, the types of \<^verbatim>\<open>controllerserver.go\<close>), the constructors
  with the advertised capabilities, the choice of what a process serves, the WinRM
  configuration read from the environment, the identity service (\<^verbatim>\<open>identityserver.go\<close>),
  the defaults of leader election (\<^verbatim>\<open>leader_election.go\<close>) and the endpoint parser
  (\<^verbatim>\<open>utils.go\<close>).
\<close>

subsection \<open>CSI enumerations\<close>

datatype access_mode =
    AM_UNKNOWN | SINGLE_NODE_WRITER | SINGLE_NODE_READER_ONLY | MULTI_NODE_READER_ONLY
  | MULTI_NODE_SINGLE_WRITER | MULTI_NODE_MULTI_WRITER | SINGLE_NODE_SINGLE_WRITER
  | SINGLE_NODE_MULTI_WRITER

datatype rpc_type =
    RPC_CREATE_DELETE_VOLUME | RPC_PUBLISH_UNPUBLISH_VOLUME | RPC_GET_CAPACITY
  | RPC_EXPAND_VOLUME | RPC_GET_VOLUME | RPC_CREATE_DELETE_SNAPSHOT | RPC_LIST_SNAPSHOTS

subsection \<open>What a backend exchanges\<close>

text \<open>A point in time is its number of nanoseconds; the driver only passes it on.\<close>

record SnapshotInfo =
  si_SnapshotID :: string
  si_OriginalPath :: string
  si_SourceVolume :: string
  si_Description :: string
  si_CreatedAt :: int
  si_SizeBytes :: int
  si_ReadyToUse :: bool

record VolumeInfo =
  vi_VolumeName :: string
  vi_Protocol :: Protocol
  vi_TargetPortal :: string
  vi_TargetName :: string
  vi_TargetIQN :: string
  vi_LUN :: lun_any
  vi_VHDXPath :: string
  vi_SharePath :: string
  vi_NfsServer :: string
  vi_NfsExportPath :: string
  vi_SmbServer :: string
  vi_SmbShareName :: string
  vi_CapacityBytes :: int
  vi_CreatedAt :: int
  vi_SizeBytes :: int
  vi_Targets :: "string list"

definition zeroVolumeInfo :: VolumeInfo where
  "zeroVolumeInfo =
     \<lparr>vi_VolumeName = [], vi_Protocol = [], vi_TargetPortal = [], vi_TargetName = [], vi_TargetIQN = [],
      vi_LUN = LunNil, vi_VHDXPath = [], vi_SharePath = [], vi_NfsServer = [], vi_NfsExportPath = [],
      vi_SmbServer = [], vi_SmbShareName = [], vi_CapacityBytes = 0, vi_CreatedAt = 0, vi_SizeBytes = 0,
      vi_Targets = []\<rparr>"

definition SnapshotInfo_Validate :: "SnapshotInfo \<Rightarrow> unit result" where
  "SnapshotInfo_Validate s =
     requireAll [(si_SnapshotID s, ''snapshotID is required''), (si_SourceVolume s, ''sourceVolume is required'')]"

record TargetChapOptions =
  ChapUser :: string
  ChapSecret :: string
  ReverseChapUser :: string
  ReverseChapSecret :: string

definition zeroChap :: TargetChapOptions where
  "zeroChap = \<lparr>ChapUser = [], ChapSecret = [], ReverseChapUser = [], ReverseChapSecret = []\<rparr>"

definition Enabled :: "TargetChapOptions \<Rightarrow> bool" where
  "Enabled o' \<longleftrightarrow> TrimSpace (ChapUser o') \<noteq> [] \<or> TrimSpace (ChapSecret o') \<noteq> [] \<or>
     TrimSpace (ReverseChapUser o') \<noteq> [] \<or> TrimSpace (ReverseChapSecret o') \<noteq> []"

abbreviation fileShareBackendDirectory :: string where "fileShareBackendDirectory \<equiv> ''directory''"
abbreviation fileShareBackendVHDX :: string where "fileShareBackendVHDX \<equiv> ''vhdx''"

record NfsShareOptions =
  nfs_ClientType :: string
  nfs_Permission :: string
  nfs_AllowRootAccess :: "bool option"
  nfs_Authentication :: "string list"
  nfs_MountAuthentication :: string
  nfs_AnonymousUID :: "int option"
  nfs_AnonymousGID :: "int option"
  nfs_LanguageEncoding :: string
  nfs_EnableAnonymousAccess :: "bool option"
  nfs_EnableUnmappedAccess :: "bool option"

record SmbShareOptions =
  smb_NoAccess :: "string list"
  smb_Description :: string
  smb_EncryptData :: "bool option"
  smb_CompressData :: "bool option"
  smb_ContinuouslyAvailable :: "bool option"
  smb_CachingMode :: string
  smb_FolderEnumerationMode :: string
  smb_ConcurrentUserLimit :: int

text \<open>\<^verbatim>\<open>GetVolumeByName\<close> returns six values beside the error.\<close>

record VolumeByName =
  vbn_exists :: bool
  vbn_vhdxPath :: string
  vbn_sizeBytes :: int
  vbn_targetName :: string
  vbn_targetIQN :: string
  vbn_lun :: int

definition zeroVolumeByName :: VolumeByName where
  "zeroVolumeByName = \<lparr>vbn_exists = False, vbn_vhdxPath = [], vbn_sizeBytes = 0, vbn_targetName = [],
     vbn_targetIQN = [], vbn_lun = 0\<rparr>"

text \<open>
  The interface the controller calls.  Each method is a computation on the backend's world
  \<open>'w\<close>; the context argument carries no data.  With an error a method returns the zero
  values of its other results, so the computation returns the error alone.
\<close>

record 'w Backend =
  b_EnsureTarget :: "string \<Rightarrow> string \<Rightarrow> ('w, string) io"
  b_ConfigureTargetChap :: "string \<Rightarrow> TargetChapOptions \<Rightarrow> ('w, unit) io"
  b_CreateVirtualDisk :: "string \<Rightarrow> string \<Rightarrow> int \<Rightarrow> ('w, string \<times> int) io"
  b_MapDiskToTarget :: "string \<Rightarrow> string \<Rightarrow> ('w, int) io"
  b_UnmapDiskFromTarget :: "string \<Rightarrow> string \<Rightarrow> ('w, unit) io"
  b_DeleteVirtualDisk :: "string \<Rightarrow> ('w, unit) io"
  b_LookupTargetNameByIQN :: "string \<Rightarrow> ('w, string) io"
  b_DeleteTarget :: "string \<Rightarrow> ('w, unit) io"
  b_GetVolumeByName :: "string \<Rightarrow> string \<Rightarrow> ('w, VolumeByName) io"
  b_AllowInitiator :: "string \<Rightarrow> string \<Rightarrow> ('w, unit) io"
  b_DenyInitiator :: "string \<Rightarrow> string \<Rightarrow> ('w, unit) io"
  b_GetDirectoryFreeCapacity :: "string \<Rightarrow> ('w, int) io"
  b_CreateSnapshot :: "string \<Rightarrow> string \<Rightarrow> ('w, SnapshotInfo) io"
  b_DeleteSnapshot :: "string \<Rightarrow> ('w, unit) io"
  b_ListSnapshots :: "string \<Rightarrow> ('w, SnapshotInfo list) io"
  b_ExportSnapshotAsVirtualDisk :: "string \<Rightarrow> ('w, string) io"
  b_ResizeVirtualDisk :: "string \<Rightarrow> int \<Rightarrow> ('w, int) io"
  b_GetVolumeInfo :: "string \<Rightarrow> ('w, VolumeInfo) io"
  b_GetTargetInitiators :: "string \<Rightarrow> ('w, string list) io"
  b_CreateNfsShare :: "string \<Rightarrow> string \<Rightarrow> int \<Rightarrow> string list \<Rightarrow> NfsShareOptions list \<Rightarrow> ('w, VolumeInfo) io"
  b_GetNfsShare :: "string \<Rightarrow> string \<Rightarrow> ('w, bool \<times> VolumeInfo) io"
  b_DeleteNfsShare :: "string \<Rightarrow> string \<Rightarrow> ('w, unit) io"
  b_CreateSmbShare :: "string \<Rightarrow> string \<Rightarrow> int \<Rightarrow> string list \<Rightarrow> string list \<Rightarrow> string list \<Rightarrow> SmbShareOptions list \<Rightarrow> ('w, VolumeInfo) io"
  b_GetSmbShare :: "string \<Rightarrow> string \<Rightarrow> ('w, bool \<times> VolumeInfo) io"
  b_DeleteSmbShare :: "string \<Rightarrow> string \<Rightarrow> ('w, unit) io"
  b_ResizeFileShare :: "string \<Rightarrow> int \<Rightarrow> ('w, int) io"
  b_RestoreSnapshotAsFileShare :: "string \<Rightarrow> string \<Rightarrow> ('w, unit) io"
  b_MountFileShareVirtualDisk :: "string \<Rightarrow> string \<Rightarrow> ('w, unit) io"
  b_UnmountFileShareVirtualDisk :: "string \<Rightarrow> string \<Rightarrow> ('w, unit) io"

subsection \<open>The driver\<close>

type_synonym DriverMode = string

abbreviation DriverModeController :: DriverMode where "DriverModeController \<equiv> ''controller''"
abbreviation DriverModeNode :: DriverMode where "DriverModeNode \<equiv> ''node''"

text \<open>Durations are nanoseconds, as in Go.\<close>

record InternalKubernetesConfig =
  ik_Enabled :: bool
  ik_ControllerPublish :: bool
  ik_LivenessPort :: int
  ik_KubeletRegistrationPath :: string
  ik_ResyncPeriod :: int

record LeaderElectionConfig =
  le_Enabled :: bool
  le_LeaseName :: string
  le_LeaseNamespace :: string
  le_Identity :: string
  le_LeaseDuration :: int
  le_RenewDeadline :: int
  le_RetryPeriod :: int

record RunOptions =
  ro_Mode :: DriverMode
  ro_Debug :: bool
  ro_InternalKubernetes :: InternalKubernetesConfig
  ro_LeaderElection :: LeaderElectionConfig

record 'w driver =
  d_name :: string
  d_protocol :: Protocol
  d_fileShareBackend :: string
  d_mode :: DriverMode
  d_nodeID :: string
  d_version :: string
  d_endpoint :: string
  d_debug :: bool
  d_internalKubernetes :: InternalKubernetesConfig
  d_cap :: "access_mode list"
  d_cscap :: "rpc_type list"
  d_backend :: "'w Backend option"

abbreviation driverName :: string where "driverName \<equiv> ''windows-storage.csi.windows.microsoft.com''"
abbreviation version :: string where "version \<equiv> ''0.1.0''"

definition zeroInternalKubernetes :: InternalKubernetesConfig where
  "zeroInternalKubernetes = \<lparr>ik_Enabled = False, ik_ControllerPublish = False, ik_LivenessPort = 0,
     ik_KubeletRegistrationPath = [], ik_ResyncPeriod = 0\<rparr>"

definition zeroLeaderElection :: LeaderElectionConfig where
  "zeroLeaderElection = \<lparr>le_Enabled = False, le_LeaseName = [], le_LeaseNamespace = [], le_Identity = [],
     le_LeaseDuration = 0, le_RenewDeadline = 0, le_RetryPeriod = 0\<rparr>"

definition ParseDriverMode :: "string \<Rightarrow> DriverMode result" where
  "ParseDriverMode value =
     (let m = ToLower (TrimSpace value) in
      if m = DriverModeController then Inr DriverModeController
      else if m = DriverModeNode then Inr DriverModeNode
      else Inl (Errorf ''mode is required and must be one of: controller, node'' []))"

definition AddVolumeCapabilityAccessModes :: "access_mode list \<Rightarrow> 'w driver \<Rightarrow> 'w driver" where
  "AddVolumeCapabilityAccessModes vc d = d\<lparr>d_cap := vc\<rparr>"

definition AddControllerServiceCapabilities :: "rpc_type list \<Rightarrow> 'w driver \<Rightarrow> 'w driver" where
  "AddControllerServiceCapabilities cl d = d\<lparr>d_cscap := cl\<rparr>"

definition newNamedProtocolDriverWithShareBackend ::
    "string \<Rightarrow> Protocol \<Rightarrow> string \<Rightarrow> string \<Rightarrow> string \<Rightarrow> 'w driver" where
  "newNamedProtocolDriverWithShareBackend name protocol fileShareBackend nodeID endpoint =
     (let d = \<lparr>d_name = name, d_protocol = protocol, d_fileShareBackend = fileShareBackend, d_mode = [],
               d_nodeID = nodeID, d_version = version, d_endpoint = endpoint, d_debug = False,
               d_internalKubernetes = zeroInternalKubernetes, d_cap = [], d_cscap = [], d_backend = None\<rparr>;
          accessModes = [SINGLE_NODE_WRITER, SINGLE_NODE_SINGLE_WRITER, SINGLE_NODE_MULTI_WRITER] @
            (if protocol = [] \<or> protocol = ProtocolNFS \<or> protocol = ProtocolSMB
             then [MULTI_NODE_READER_ONLY, MULTI_NODE_SINGLE_WRITER, MULTI_NODE_MULTI_WRITER] else []);
          d1 = AddVolumeCapabilityAccessModes accessModes d;
          controllerCaps = [RPC_CREATE_DELETE_VOLUME, RPC_PUBLISH_UNPUBLISH_VOLUME, RPC_GET_CAPACITY,
                            RPC_EXPAND_VOLUME, RPC_GET_VOLUME];
          caps1 = (if protocol = [] \<or> protocol = ProtocolISCSI \<or> fileShareBackend = fileShareBackendVHDX
                   then controllerCaps @ [RPC_CREATE_DELETE_SNAPSHOT] else controllerCaps);
          caps2 = (if protocol = [] \<or> protocol = ProtocolISCSI \<or> fileShareBackend = fileShareBackendVHDX
                   then caps1 @ [RPC_LIST_SNAPSHOTS] else caps1)
      in AddControllerServiceCapabilities caps2 d1)"

definition newNamedProtocolDriver :: "string \<Rightarrow> Protocol \<Rightarrow> string \<Rightarrow> string \<Rightarrow> 'w driver" where
  "newNamedProtocolDriver name protocol nodeID endpoint =
     newNamedProtocolDriverWithShareBackend name protocol
       (if protocol = ProtocolNFS \<or> protocol = ProtocolSMB then fileShareBackendDirectory else []) nodeID endpoint"

definition driverNameForProtocol :: "Protocol \<Rightarrow> string result" where
  "driverNameForProtocol protocol =
     (if protocol = ProtocolISCSI then Inr driverName
      else if protocol = ProtocolNFS then Inr driverName
      else if protocol = ProtocolSMB then Inr driverName
      else Inl (Errorf ''unknown protocol: %s'' [ArgS protocol]))"

definition driverConfigForName :: "string \<Rightarrow> (Protocol \<times> string) result" where
  "driverConfigForName name =
     (if TrimSpace name = driverName then Inr ([], [])
      else Inl (Errorf ''unknown CSI driver name: %s'' [ArgS name]))"

definition protocolForDriverName :: "string \<Rightarrow> Protocol result" where
  "protocolForDriverName name = onOk (driverConfigForName name) (\<lambda>(protocol, _). Inr protocol)"

definition NewProtocolDriver :: "Protocol \<Rightarrow> string \<Rightarrow> string \<Rightarrow> 'w driver" where
  "NewProtocolDriver protocol nodeID endpoint =
     (case driverNameForProtocol protocol of
        Inl _ \<Rightarrow> newNamedProtocolDriver driverName ProtocolISCSI nodeID endpoint
      | Inr name \<Rightarrow> newNamedProtocolDriver name protocol nodeID endpoint)"

definition NewNamedDriver :: "string \<Rightarrow> string \<Rightarrow> string \<Rightarrow> 'w driver" where
  "NewNamedDriver name nodeID endpoint =
     (let (protocol, backend) = (case driverConfigForName name of Inl _ \<Rightarrow> (ProtocolISCSI, []) | Inr pb \<Rightarrow> pb)
      in newNamedProtocolDriverWithShareBackend name protocol backend nodeID endpoint)"

definition NewDriver :: "string \<Rightarrow> string \<Rightarrow> 'w driver" where
  "NewDriver nodeID endpoint = NewNamedDriver driverName nodeID endpoint"

subsection \<open>Leader election\<close>

text \<open>The environment is the function \<^verbatim>\<open>os.Getenv\<close>; an unset variable reads as empty.\<close>

type_synonym environment = "string \<Rightarrow> string"

abbreviation defaultLeaderElectionLeaseDuration :: int where "defaultLeaderElectionLeaseDuration \<equiv> 15 * Second"
abbreviation defaultLeaderElectionRenewDeadline :: int where "defaultLeaderElectionRenewDeadline \<equiv> 10 * Second"
abbreviation defaultLeaderElectionRetryPeriod :: int where "defaultLeaderElectionRetryPeriod \<equiv> 2 * Second"

definition electionIdentity :: "environment \<Rightarrow> string result \<Rightarrow> string \<Rightarrow> string result" where
  "electionIdentity getenv hostname identity =
     (let i0 = TrimSpace identity;
          i1 = (if i0 = [] then TrimSpace (getenv ''POD_NAME'') else i0)
      in if i1 \<noteq> [] then Inr i1
         else case hostname of
           Inl e \<Rightarrow> Inl (Errorf ''get hostname for leader election identity: %w'' [ArgE e])
         | Inr h \<Rightarrow> if TrimSpace h = [] then Inl (Errorf ''leader election identity is required'' []) else Inr (TrimSpace h))"

definition withDefaults :: "environment \<Rightarrow> string result \<Rightarrow> LeaderElectionConfig \<Rightarrow> 'w driver \<Rightarrow> LeaderElectionConfig result" where
  "withDefaults getenv hostname config d =
     (let lease = (if TrimSpace (le_LeaseName config) = [] then d_name d else TrimSpace (le_LeaseName config));
          ns0 = TrimSpace (le_LeaseNamespace config);
          ns = (if ns0 = [] then TrimSpace (getenv ''POD_NAMESPACE'') else ns0)
      in if ns = [] then Inl (Errorf ''leader election namespace is required'' [])
         else onOk (electionIdentity getenv hostname (le_Identity config)) (\<lambda>identity.
           let lease_d = (if le_LeaseDuration config = 0 then defaultLeaderElectionLeaseDuration else le_LeaseDuration config);
               renew_d = (if le_RenewDeadline config = 0 then defaultLeaderElectionRenewDeadline else le_RenewDeadline config);
               retry_p = (if le_RetryPeriod config = 0 then defaultLeaderElectionRetryPeriod else le_RetryPeriod config)
           in if lease_d \<le> 0 \<or> renew_d \<le> 0 \<or> retry_p \<le> 0
                then Inl (Errorf ''leader election durations must be positive'' [])
              else if lease_d \<le> renew_d
                then Inl (Errorf ''leader election lease duration must be greater than renew deadline'' [])
              else if renew_d \<le> retry_p
                then Inl (Errorf ''leader election renew deadline must be greater than retry period'' [])
              else Inr \<lparr>le_Enabled = le_Enabled config, le_LeaseName = lease, le_LeaseNamespace = ns,
                        le_Identity = identity, le_LeaseDuration = lease_d, le_RenewDeadline = renew_d,
                        le_RetryPeriod = retry_p\<rparr>))"

subsection \<open>What a process runs\<close>

text \<open>
  \<^verbatim>\<open>RunWithOptions\<close> up to the point where it blocks: it serves a role with the driver as
  configured, runs the election and serves the controller when it wins, or ends the process.
\<close>

datatype 'w run_action =
    ServeController "'w driver"
  | ServeNode "'w driver"
  | ElectThenServeController LeaderElectionConfig "'w driver"
  | Fatalf string "goarg list"

definition runControllerWithLeaderElection :: "environment \<Rightarrow> string result \<Rightarrow> 'w driver \<Rightarrow> LeaderElectionConfig \<Rightarrow> 'w run_action" where
  "runControllerWithLeaderElection getenv hostname d config =
     (case withDefaults getenv hostname config d of
        Inl e \<Rightarrow> Fatalf ''invalid leader election config: %v'' [ArgE e]
      | Inr config' \<Rightarrow> ElectThenServeController config' d)"

definition RunWithOptions :: "environment \<Rightarrow> string result \<Rightarrow> 'w driver \<Rightarrow> RunOptions \<Rightarrow> 'w run_action" where
  "RunWithOptions getenv hostname d opts =
     (let d' = d\<lparr>d_mode := ro_Mode opts, d_debug := ro_Debug opts, d_internalKubernetes := ro_InternalKubernetes opts\<rparr>
      in if le_Enabled (ro_LeaderElection opts) \<and> ro_Mode opts \<noteq> DriverModeController
           then Fatalf ''leader election is only supported in controller mode'' []
         else if ro_Mode opts = DriverModeController then
           (if le_Enabled (ro_LeaderElection opts)
            then runControllerWithLeaderElection getenv hostname d' (ro_LeaderElection opts)
            else ServeController d')
         else if ro_Mode opts = DriverModeNode then ServeNode d'
         else Fatalf ''invalid driver mode: %q'' [ArgS (ro_Mode opts)])"

definition Run :: "environment \<Rightarrow> string result \<Rightarrow> 'w driver \<Rightarrow> DriverMode \<Rightarrow> 'w run_action" where
  "Run getenv hostname d mode =
     RunWithOptions getenv hostname d
       \<lparr>ro_Mode = mode, ro_Debug = False, ro_InternalKubernetes = zeroInternalKubernetes,
        ro_LeaderElection = zeroLeaderElection\<rparr>"

subsection \<open>The WinRM configuration\<close>

record WinRMEndpoint =
  ep_Host :: string
  ep_Port :: int
  ep_HTTPS :: bool
  ep_Insecure :: bool
  ep_Timeout :: int

record WinRMBackend =
  wb_Endpoint :: "WinRMEndpoint option"
  wb_User :: string
  wb_Pass :: string
  wb_Auth :: string
  wb_PSModuleImport :: string
  wb_Timeout :: int
  wb_Debug :: bool

abbreviation maxTCPPort :: int where "maxTCPPort \<equiv> 65535"

definition NewWinRMBackend :: "string \<Rightarrow> int \<Rightarrow> bool \<Rightarrow> bool \<Rightarrow> string \<Rightarrow> string \<Rightarrow> int \<Rightarrow> WinRMBackend" where
  "NewWinRMBackend host port https insecure user pass timeout =
     (let t = (if timeout \<le> 0 then 60 * Second else timeout)
      in \<lparr>wb_Endpoint = Some \<lparr>ep_Host = host, ep_Port = port, ep_HTTPS = https, ep_Insecure = insecure, ep_Timeout = t\<rparr>,
          wb_User = user, wb_Pass = pass, wb_Auth = ''basic'', wb_PSModuleImport = ''Import-Module IscsiTarget'',
          wb_Timeout = t, wb_Debug = False\<rparr>)"

definition normalizeWinRMAuth :: "string \<Rightarrow> string" where
  "normalizeWinRMAuth auth =
     (let a = ToLower (TrimSpace auth) in
      if a = [] \<or> a = ''basic'' then ''basic'' else if a = ''ntlm'' \<or> a = ''negotiate'' then ''ntlm'' else a)"

definition getenvDefault :: "environment \<Rightarrow> string \<Rightarrow> string \<Rightarrow> string" where
  "getenvDefault getenv k def = (if TrimSpace (getenv k) \<noteq> [] then TrimSpace (getenv k) else def)"

text \<open>The words \<^verbatim>\<open>parseBoolEnv\<close> and \<^verbatim>\<open>parseBoolParam\<close> accept, in lower case.\<close>

definition boolWord :: "string \<Rightarrow> bool option" where
  "boolWord raw =
     (if ToLower raw \<in> set [''1'', ''true'', ''yes'', ''y'', ''on''] then Some True
      else if ToLower raw \<in> set [''0'', ''false'', ''no'', ''n'', ''off''] then Some False
      else None)"

definition parseBoolEnv :: "environment \<Rightarrow> string \<Rightarrow> bool \<Rightarrow> bool result" where
  "parseBoolEnv getenv name def =
     (let raw = TrimSpace (getenv name) in
      if raw = [] then Inr def
      else case boolWord raw of
        Some b \<Rightarrow> Inr b
      | None \<Rightarrow> Inl (Errorf ''%s must be a boolean'' [ArgS name]))"

definition winRMPort :: "environment \<Rightarrow> bool \<Rightarrow> int result" where
  "winRMPort getenv useTLS =
     (let portStr = getenvDefault getenv ''WINRM_PORT'' [] in
      if portStr = [] then Inr (if useTLS then 5986 else 5985)
      else case Atoi portStr of
        Some p \<Rightarrow> if p \<le> 0 \<or> p > maxTCPPort then Inl (Errorf ''invalid WINRM_PORT: %q'' [ArgS portStr]) else Inr p
      | None \<Rightarrow> Inl (Errorf ''invalid WINRM_PORT: %q'' [ArgS portStr]))"

definition winRMTimeout :: "environment \<Rightarrow> int result" where
  "winRMTimeout getenv =
     (let t = TrimSpace (getenv ''WINRM_TIMEOUT'') in
      if t = [] then Inr (60 * Second)
      else case ParseDuration t of
        Some dur \<Rightarrow> if dur \<le> 0 then Inl (Errorf ''invalid WINRM_TIMEOUT: %q'' [ArgS t]) else Inr dur
      | None \<Rightarrow> Inl (Errorf ''invalid WINRM_TIMEOUT: %q'' [ArgS t]))"

definition newWinRMBackendFromEnv :: "environment \<Rightarrow> WinRMBackend result" where
  "newWinRMBackendFromEnv getenv =
     (let host = getenvDefault getenv ''WINRM_HOST'' [] in
      if host = [] then Inl (Errorf ''WINRM_HOST is required'' [])
      else onOk (parseBoolEnv getenv ''WINRM_TLS'' False) (\<lambda>useTLS.
           onOk (parseBoolEnv getenv ''WINRM_INSECURE'' True) (\<lambda>insecure.
           onOk (winRMPort getenv useTLS) (\<lambda>port.
             let user = getenvDefault getenv ''WINRM_USER'' []; pass = getenv ''WINRM_PASSWORD'' in
             if user = [] \<or> pass = [] then Inl (Errorf ''WINRM_USER and WINRM_PASSWORD are required'' [])
             else onOk (winRMTimeout getenv) (\<lambda>timeout.
               let b = NewWinRMBackend host port useTLS insecure user pass timeout;
                   auth = normalizeWinRMAuth (getenvDefault getenv ''WINRM_AUTH'' ''basic'');
                   imp = TrimSpace (getenv ''WINRM_PS_IMPORT'') in
               if auth = ''basic'' \<or> auth = ''ntlm'' then
                 Inr (if imp \<noteq> [] then b\<lparr>wb_Auth := auth, wb_PSModuleImport := imp\<rparr> else b\<lparr>wb_Auth := auth\<rparr>)
               else Inl (Errorf ''unsupported WINRM_AUTH %q; supported values are basic and ntlm'' [ArgS (getenv ''WINRM_AUTH'')]))))))"

subsection \<open>Identity service\<close>

definition GetPluginInfo :: "'w driver \<Rightarrow> (string \<times> string) result" where
  "GetPluginInfo d =
     (if d_name d = [] then Inl (Status Unavailable ''Driver name not configured'' [])
      else if d_version d = [] then Inl (Status Unavailable ''Driver is missing version'' [])
      else Inr (d_name d, d_version d))"

datatype plugin_capability = CONTROLLER_SERVICE

definition GetPluginCapabilities :: "'w driver \<Rightarrow> plugin_capability list result" where
  "GetPluginCapabilities d = Inr (if d_mode d = DriverModeController then [CONTROLLER_SERVICE] else [])"

subsection \<open>Endpoints\<close>

definition ParseEndpoint :: "string \<Rightarrow> (string \<times> string) result" where
  "ParseEndpoint ep =
     (if HasPrefix (ToLower ep) ''unix://'' \<or> HasPrefix (ToLower ep) ''tcp://'' then
        (let (scheme, addr, _) = Cut ep ''://''
         in if addr \<noteq> [] then Inr (scheme, addr) else Inl (Errorf ''invalid endpoint: %v'' [ArgS ep]))
      else Inl (Errorf ''invalid endpoint: %v'' [ArgS ep]))"

text \<open>The network and the address \<^verbatim>\<open>serve\<close> listens on (\<^verbatim>\<open>server.go\<close>).\<close>

definition listenAddress :: "string \<Rightarrow> (string \<times> string) result" where
  "listenAddress endpoint =
     onOk (ParseEndpoint endpoint) (\<lambda>(proto, addr). Inr (proto, if proto = ''unix'' then ''/'' @ addr else addr))"

subsection \<open>Lemmas\<close>

lemma electionIdentity_ok: "electionIdentity getenv hostname i = Inr j \<Longrightarrow> j \<noteq> [] \<and> TrimSpace j = j"
  by (auto simp: electionIdentity_def Let_def split: if_splits sum.splits)

lemma winRMPort_ok: "winRMPort getenv tls = Inr p \<Longrightarrow> 1 \<le> p \<and> p \<le> maxTCPPort"
  by (auto simp: winRMPort_def Let_def split: if_splits option.splits)

lemma winRMTimeout_ok: "winRMTimeout getenv = Inr t \<Longrightarrow> 0 < t"
  by (auto simp: winRMTimeout_def Let_def split: if_splits option.splits)

lemma ParseEndpoint_parts: "ParseEndpoint ep = Inr (sch, addr) \<Longrightarrow> ep = sch @ ''://'' @ addr \<and> addr \<noteq> []"
  by (auto simp: ParseEndpoint_def Cut_def split: if_splits option.splits dest: Index_SomeD)

lemma ToLower_scheme: "ToLower (''unix://'' @ a) = ''unix://'' @ ToLower a" "ToLower (''tcp://'' @ a) = ''tcp://'' @ ToLower a"
  by (simp_all add: lowerByte_def byte_def)

lemma ParseEndpoint_build:
  assumes "sch \<in> {''unix'', ''tcp''}" "a \<noteq> []"
  shows "ParseEndpoint (sch @ ''://'' @ a) = Inr (sch, a)"
proof -
  have "Cut (sch @ ''://'' @ a) ''://'' = (sch, a, True)"
    using assms(1) Index_scheme [of sch a] by (auto simp: Cut_def)
  then show ?thesis using assms ToLower_scheme [of a] by (auto simp: ParseEndpoint_def)
qed

subsection \<open>Properties\<close>

text \<open>
  Whatever configuration it is given, an accepted leader-election configuration has a
  namespace and an identity, and its timings satisfy lease > renew > retry > 0.
\<close>

theorem leader_election_timings:
  assumes "withDefaults getenv hostname config d = Inr c"
  shows "le_LeaseDuration c > le_RenewDeadline c \<and> le_RenewDeadline c > le_RetryPeriod c \<and> le_RetryPeriod c > 0 \<and>
    le_LeaseNamespace c \<noteq> [] \<and> le_Identity c \<noteq> [] \<and> (d_name d \<noteq> [] \<longrightarrow> le_LeaseName c \<noteq> []) \<and>
    (le_LeaseDuration config \<noteq> 0 \<longrightarrow> le_LeaseDuration c = le_LeaseDuration config)"
  using assms unfolding withDefaults_def
  by (auto simp: Let_def ok_iff dest!: electionIdentity_ok split: if_splits)

text \<open>Instance at the default timings of a pod.\<close>

theorem leader_election_timings_witness:
  "\<exists>c. withDefaults (\<lambda>k. if k = ''POD_NAMESPACE'' then ''kube-system'' else if k = ''POD_NAME'' then ''csi-0'' else [])
         (Inl (Foreign ''os.Hostname'')) zeroLeaderElection (NewDriver ''n'' ''e'') = Inr c \<and> le_RetryPeriod c > 0"
proof -
  let ?env = "\<lambda>k::string. if k = ''POD_NAMESPACE'' then ''kube-system'' else if k = ''POD_NAME'' then ''csi-0'' else []"
  have t: "TrimSpace ''kube-system'' = ''kube-system''" "TrimSpace ''csi-0'' = ''csi-0''" by code_simp+
  have "\<exists>c. withDefaults ?env (Inl (Foreign ''os.Hostname'')) zeroLeaderElection (NewDriver ''n'' ''e'') = Inr c"
    using t by (simp add: withDefaults_def electionIdentity_def zeroLeaderElection_def)
  then show ?thesis using leader_election_timings by blast
qed

text \<open>
  A process serves the role its mode names, leader election runs only for a controller,
  and any other mode ends the process; the driver it serves carries the options.
\<close>

theorem run_modes:
  "(case RunWithOptions getenv hostname d opts of
      ServeController d' \<Rightarrow> ro_Mode opts = DriverModeController \<and> \<not> le_Enabled (ro_LeaderElection opts)
        \<and> d_mode d' = DriverModeController \<and> d_debug d' = ro_Debug opts \<and> d_name d' = d_name d
    | ServeNode d' \<Rightarrow> ro_Mode opts = DriverModeNode \<and> \<not> le_Enabled (ro_LeaderElection opts)
        \<and> GetPluginCapabilities d' = Inr []
    | ElectThenServeController c d' \<Rightarrow> ro_Mode opts = DriverModeController \<and> le_Enabled (ro_LeaderElection opts)
        \<and> le_LeaseDuration c > le_RenewDeadline c \<and> GetPluginCapabilities d' = Inr [CONTROLLER_SERVICE]
    | Fatalf fmt args \<Rightarrow> (ro_Mode opts \<noteq> DriverModeController \<and> ro_Mode opts \<noteq> DriverModeNode)
        \<or> le_Enabled (ro_LeaderElection opts))"
  by (auto simp: RunWithOptions_def runControllerWithLeaderElection_def Let_def GetPluginCapabilities_def
      withDefaults_def onOk_def split: sum.splits if_splits)

text \<open>
  A WinRM configuration accepted from the environment names a host, a port between 1 and
  65535, credentials, a positive timeout and one of the two supported authentication schemes.
\<close>

theorem winrm_env_config:
  assumes "newWinRMBackendFromEnv getenv = Inr b"
  shows "\<exists>ep. wb_Endpoint b = Some ep \<and> ep_Host ep \<noteq> [] \<and> 1 \<le> ep_Port ep \<and> ep_Port ep \<le> 65535 \<and>
    ep_Timeout ep > 0 \<and> wb_Timeout b = ep_Timeout ep \<and> wb_Auth b \<in> {''basic'', ''ntlm''} \<and>
    wb_User b \<noteq> [] \<and> wb_Pass b = getenv ''WINRM_PASSWORD'' \<and> wb_Pass b \<noteq> [] \<and> wb_PSModuleImport b \<noteq> []"
  using assms unfolding newWinRMBackendFromEnv_def
  by (auto simp: Let_def ok_iff NewWinRMBackend_def dest!: winRMPort_ok winRMTimeout_ok split: if_splits)

text \<open>Instance at the smallest environment that is accepted.\<close>

theorem winrm_env_config_witness:
  "\<exists>b ep. newWinRMBackendFromEnv (\<lambda>k. if k = ''WINRM_HOST'' then ''wss'' else if k = ''WINRM_USER'' then ''admin''
        else if k = ''WINRM_PASSWORD'' then ''pw'' else []) = Inr b \<and> wb_Endpoint b = Some ep \<and> ep_Port ep \<le> 65535"
proof -
  let ?env = "\<lambda>k::string. if k = ''WINRM_HOST'' then ''wss'' else if k = ''WINRM_USER'' then ''admin''
        else if k = ''WINRM_PASSWORD'' then ''pw'' else []"
  have t: "TrimSpace ''wss'' = ''wss''" "TrimSpace ''admin'' = ''admin''"
      "normalizeWinRMAuth ''basic'' = ''basic''" by code_simp+
  have "\<exists>b. newWinRMBackendFromEnv ?env = Inr b"
    using t by (simp add: newWinRMBackendFromEnv_def getenvDefault_def parseBoolEnv_def winRMPort_def winRMTimeout_def)
  then show ?thesis using winrm_env_config by blast
qed

text \<open>
  An endpoint splits into its scheme and a non-empty address that make it up again, and
  every endpoint of the two schemes with an address is accepted; a unix socket gets its
  leading slash.  The scheme keeps its spelling.
\<close>

theorem endpoint_parts:
  "(\<forall>sch addr. ParseEndpoint ep = Inr (sch, addr) \<longrightarrow> ep = sch @ ''://'' @ addr \<and> addr \<noteq> []) \<and>
   (a \<noteq> [] \<longrightarrow> listenAddress (''unix://'' @ a) = Inr (''unix'', ''/'' @ a) \<and> listenAddress (''tcp://'' @ a) = Inr (''tcp'', a))"
  using ParseEndpoint_parts [of ep] ParseEndpoint_build [of "''unix''" a] ParseEndpoint_build [of "''tcp''" a]
  by (simp add: listenAddress_def)

text \<open>Instance at concrete endpoints, one of them with an upper-case scheme.\<close>

theorem endpoint_parts_witness:
  "listenAddress ''unix://csi/csi.sock'' = Inr (''unix'', ''/csi/csi.sock'') \<and>
   ParseEndpoint ''UNIX:///x'' = Inr (''UNIX'', ''/x'') \<and> ''UNIX:///x'' = ''UNIX'' @ ''://'' @ ''/x''"
proof -
  have e: "ParseEndpoint ''UNIX:///x'' = Inr (''UNIX'', ''/x'')" by code_simp
  show ?thesis using endpoint_parts [of "''UNIX:///x''" "''csi/csi.sock''"] e by simp
qed

end
