(* ===== verification/Params.thy ===== *)
theory Params
  imports Driver
begin

text \<open>
  The request-independent half of \<^verbatim>\<open>pkg/iscsi/controllerserver.go\<close>: the legacy volume and
  snapshot handles (base64 of JSON), the parsing and validation of storage-class parameters
  and secrets, and the values derived from them.
\<close>

subsection \<open>Legacy handles\<close>

record volID =
  id_VolumeName :: string
  id_TargetPortal :: string
  id_TargetName :: string
  id_TargetIQN :: string
  id_LUN :: int
  id_VHDXPath :: string
  id_SizeBytes :: int

record snapID =
  sid_SnapshotID :: string
  sid_OriginalPath :: string

text \<open>The members in the order of the struct; \<^verbatim>\<open>targetName\<close> has \<^verbatim>\<open>omitempty\<close>.\<close>

definition volIDMembers :: "volID \<Rightarrow> (string \<times> json) list" where
  "volIDMembers v =
     [(''name'', JStr (id_VolumeName v)), (''targetPortal'', JStr (id_TargetPortal v))] @
     (if id_TargetName v \<noteq> [] then [(''targetName'', JStr (id_TargetName v))] else []) @
     [(''targetIQN'', JStr (id_TargetIQN v)), (''lun'', JNum (Itoa (id_LUN v))),
      (''vhdxPath'', JStr (id_VHDXPath v)), (''sizeBytes'', JNum (Itoa (id_SizeBytes v)))]"

definition encodeVolID :: "volID \<Rightarrow> string" where
  "encodeVolID v = b64Encode (jsonObject (members (volIDMembers v)))"

definition volIDFields :: "string list" where
  "volIDFields = [''name'', ''targetPortal'', ''targetName'', ''targetIQN'', ''lun'', ''vhdxPath'', ''sizeBytes'']"

definition unmarshalVolID :: "string \<Rightarrow> volID option" where
  "unmarshalVolID data =
     do { v \<leftarrow> parseJSON data;
          ms \<leftarrow> objectMembers v;
          let f = fieldValues volIDFields ms;
          name \<leftarrow> stringField [] (f ''name'');
          portal \<leftarrow> stringField [] (f ''targetPortal'');
          target \<leftarrow> stringField [] (f ''targetName'');
          iqn \<leftarrow> stringField [] (f ''targetIQN'');
          lun \<leftarrow> intField int32_range 0 (f ''lun'');
          vhdx \<leftarrow> stringField [] (f ''vhdxPath'');
          size \<leftarrow> intField int64_range 0 (f ''sizeBytes'');
          Some \<lparr>id_VolumeName = name, id_TargetPortal = portal, id_TargetName = target, id_TargetIQN = iqn,
                id_LUN = lun, id_VHDXPath = vhdx, id_SizeBytes = size\<rparr> }"

definition decodeVolID :: "string \<Rightarrow> volID result" where
  "decodeVolID s =
     (case b64Decode s of
        None \<Rightarrow> Inl (Foreign ''base64.DecodeString'')
      | Some data \<Rightarrow> (case unmarshalVolID data of None \<Rightarrow> Inl (Foreign ''json.Unmarshal'') | Some v \<Rightarrow> Inr v))"

definition snapIDMembers :: "snapID \<Rightarrow> (string \<times> json) list" where
  "snapIDMembers s = [(''snapshotId'', JStr (sid_SnapshotID s)), (''originalPath'', JStr (sid_OriginalPath s))]"

definition encodeSnapID :: "snapID \<Rightarrow> string" where
  "encodeSnapID s = b64Encode (jsonObject (members (snapIDMembers s)))"

definition unmarshalSnapID :: "string \<Rightarrow> snapID option" where
  "unmarshalSnapID data =
     do { v \<leftarrow> parseJSON data;
          ms \<leftarrow> objectMembers v;
          let f = fieldValues [''snapshotId'', ''originalPath''] ms;
          sid \<leftarrow> stringField [] (f ''snapshotId'');
          path \<leftarrow> stringField [] (f ''originalPath'');
          Some \<lparr>sid_SnapshotID = sid, sid_OriginalPath = path\<rparr> }"

definition decodeSnapID :: "string \<Rightarrow> snapID result" where
  "decodeSnapID s =
     (case b64Decode s of
        None \<Rightarrow> Inl (Foreign ''base64.DecodeString'')
      | Some data \<Rightarrow> (case unmarshalSnapID data of None \<Rightarrow> Inl (Foreign ''json.Unmarshal'') | Some v \<Rightarrow> Inr v))"

subsection \<open>Scalar parameters\<close>

text \<open>
  \<open>getStringParam\<close> is \<open>None\<close> when the second result is false; the first result is then the
  empty string, which \<open>orEmpty\<close> gives where the code ignores the second.
\<close>

definition getStringParam :: "smap \<Rightarrow> string \<Rightarrow> string option" where
  "getStringParam params key =
     (let v = TrimSpace (mget params key) in if params key \<noteq> None \<and> v \<noteq> [] then Some v else None)"

definition orEmpty :: "string option \<Rightarrow> string" where
  "orEmpty o' = (case o' of None \<Rightarrow> [] | Some v \<Rightarrow> v)"

record CapacityRange =
  cr_required :: int
  cr_limit :: int

definition requiredBytesFromRange :: "CapacityRange option \<Rightarrow> int \<Rightarrow> int result" where
  "requiredBytesFromRange cr minGiB =
     (let mn = minGiB * 2 ^ 30 in
      case cr of None \<Rightarrow> Inr mn
      | Some r \<Rightarrow>
          (let req = cr_required r; lim = cr_limit r in
           if req > 0 \<and> lim > 0 then
             (if req > lim then Inl (Status InvalidArgument ''requiredBytes > limitBytes'' [])
              else if req < mn then Inr mn else Inr req)
           else if req > 0 then (if req < mn then Inr mn else Inr req)
           else if lim > 0 then (if lim < mn then Inr mn else Inr lim)
           else Inr mn))"

definition parseBoolParam :: "smap \<Rightarrow> string \<Rightarrow> bool option result" where
  "parseBoolParam params key =
     (case getStringParam params key of None \<Rightarrow> Inr None
      | Some raw \<Rightarrow> (case boolWord raw of
            Some b \<Rightarrow> Inr (Some b)
          | None \<Rightarrow> Inl (Status InvalidArgument ''parameter %s must be a boolean'' [ArgS key])))"

definition parseIntParam :: "smap \<Rightarrow> string \<Rightarrow> int option result" where
  "parseIntParam params key =
     (case getStringParam params key of None \<Rightarrow> Inr None
      | Some raw \<Rightarrow> (case Atoi raw of
            Some v \<Rightarrow> Inr (Some v)
          | None \<Rightarrow> Inl (Status InvalidArgument ''parameter %s must be an integer'' [ArgS key])))"

definition parseUint32Param :: "smap \<Rightarrow> string \<Rightarrow> int result" where
  "parseUint32Param params key =
     (case getStringParam params key of None \<Rightarrow> Inr 0
      | Some raw \<Rightarrow> (case ParseUint32 raw of
            Some v \<Rightarrow> Inr v
          | None \<Rightarrow> Inl (Status InvalidArgument ''parameter %s must be a non-negative integer'' [ArgS key])))"

definition validateTCPPort :: "string \<Rightarrow> int \<Rightarrow> unit result" where
  "validateTCPPort key port =
     reject_if (port < 1 \<or> port > maxTCPPort) (Status InvalidArgument ''parameter %s must be between 1 and 65535'' [ArgS key])"

definition parseTCPPortParam :: "smap \<Rightarrow> string \<Rightarrow> int \<Rightarrow> int result" where
  "parseTCPPortParam params key fallback =
     (case getStringParam params key of
        None \<Rightarrow> onOk (validateTCPPort key fallback) (\<lambda>_. Inr fallback)
      | Some raw \<Rightarrow> (case Atoi raw of
            None \<Rightarrow> Inl (Status InvalidArgument ''parameter %s must be an integer between 1 and 65535'' [ArgS key])
          | Some port \<Rightarrow> onOk (validateTCPPort key port) (\<lambda>_. Inr port)))"

definition validateTargetPortal :: "string \<Rightarrow> unit result" where
  "validateTargetPortal value =
     (let portal = TrimSpace value in
      if portal = [] then Inl (Status InvalidArgument ''parameter targetPortal is required'' [])
      else if Contains portal ''://'' \<or> ContainsAny portal [CHR ''/'', bsl] then
        Inl (Status InvalidArgument ''parameter targetPortal must be a host, IP address, or host:port, not a URL or path'' [])
      else if containsSpace portal then
        Inl (Status InvalidArgument ''parameter targetPortal must not contain whitespace'' [])
      else case SplitHostPort portal of
        Some (host, portStr) \<Rightarrow>
          if TrimSpace host = [] then Inl (Status InvalidArgument ''parameter targetPortal host must not be empty'' [])
          else (case Atoi portStr of
                  None \<Rightarrow> Inl (Status InvalidArgument ''parameter targetPortal port must be an integer between 1 and 65535'' [])
                | Some port \<Rightarrow> validateTCPPort ''targetPortal port'' port)
      | None \<Rightarrow>
          if Contains portal '':'' \<and> \<not> ParseIP portal then
            Inl (Status InvalidArgument ''parameter targetPortal with a port must be formatted as host:port or [ipv6]:port'' [])
          else Inr ())"

subsection \<open>Windows paths\<close>

definition isASCIIAlpha :: "char \<Rightarrow> bool" where
  "isASCIIAlpha b \<longleftrightarrow> (65 \<le> byte b \<and> byte b \<le> 90) \<or> (97 \<le> byte b \<and> byte b \<le> 122)"

abbreviation isSlash :: "char \<Rightarrow> bool" where
  "isSlash c \<equiv> c = bsl \<or> c = CHR ''/''"

definition longPathPrefix :: string where
  "longPathPrefix = [bsl, bsl, CHR ''?'', bsl]"

definition isWindowsAbsolutePath :: "string \<Rightarrow> bool" where
  "isWindowsAbsolutePath path0 =
     (let path = TrimPrefix path0 longPathPrefix in
      if 3 \<le> length path \<and> isASCIIAlpha (path ! 0) \<and> path ! 1 = CHR '':'' \<and> isSlash (path ! 2) then True
      else if HasPrefix path [bsl, bsl] \<or> HasPrefix path ''//'' then
        (let parts = FieldsFunc isSlash (TrimLeft path [bsl, CHR ''/''])
         in 2 \<le> length parts \<and> TrimSpace (parts ! 0) \<noteq> [] \<and> TrimSpace (parts ! 1) \<noteq> [])
      else False)"

definition hasInvalidWindowsPathChar :: "string \<Rightarrow> bool" where
  "hasInvalidWindowsPathChar path \<longleftrightarrow>
     containsControl path \<or> list_ex (\<lambda>c. c \<in> set ''<>|?*'' \<or> c = dq) path \<or>
     list_ex (\<lambda>i. path ! i = CHR '':'' \<and> i \<noteq> 1) [0..<length path]"

definition validateWindowsPathParam :: "string \<Rightarrow> string \<Rightarrow> bool \<Rightarrow> unit result" where
  "validateWindowsPathParam key value required =
     (let path = TrimSpace value in
      if path = [] then
        (if required then Inl (Status InvalidArgument ''parameter %s is required'' [ArgS key]) else Inr ())
      else if \<not> isWindowsAbsolutePath path then
        Inl (Status InvalidArgument ''parameter %s must be an absolute Windows path or UNC path'' [ArgS key])
      else (let normalized = TrimPrefix (ReplaceAll path CHR ''/'' [bsl]) longPathPrefix in
            if Contains normalized ([bsl] @ ''..'' @ [bsl]) \<or> HasSuffix normalized ([bsl] @ ''..'')
               \<or> HasPrefix normalized (''..'' @ [bsl])
              then Inl (Status InvalidArgument (''parameter %s must not contain '' @ [CHR 0x27] @ ''..'' @ [CHR 0x27] @ '' path segments'') [ArgS key])
            else if hasInvalidWindowsPathChar normalized
              then Inl (Status InvalidArgument ''parameter %s contains invalid Windows path characters'' [ArgS key])
            else Inr ()))"

definition joinWindowsPath :: "string \<Rightarrow> string \<Rightarrow> string" where
  "joinWindowsPath parent0 child0 =
     (let parent = TrimRight (TrimSpace parent0) [bsl, CHR ''/''];
          child = TrimLeft (TrimSpace child0) [bsl, CHR ''/'']
      in if parent = [] then child else if child = [] then parent else parent @ [bsl] @ child)"

subsection \<open>iSCSI names\<close>

definition iqnPrefixPattern :: "string \<Rightarrow> bool" where
  "iqnPrefixPattern s \<longleftrightarrow>
     (let r = drop 4 s in
      HasPrefix s ''iqn.'' \<and> 9 \<le> length r \<and> list_all isDigit (take 4 r) \<and> r ! 4 = CHR ''-'' \<and>
      isDigit (r ! 5) \<and> isDigit (r ! 6) \<and> r ! 7 = CHR ''.'' \<and> alnum (r ! 8) \<and>
      list_all (\<lambda>c. alnum c \<or> c = CHR ''.'' \<or> c = CHR ''-'') (drop 9 r))"

definition validateIQNPrefix :: "string \<Rightarrow> unit result" where
  "validateIQNPrefix prefix =
     (let value = TrimSpace prefix in
      if value = [] then Inr ()
      else reject_if (containsSpace value \<or> Contains value '':'' \<or> \<not> iqnPrefixPattern value)
        (Status InvalidArgument (''parameter iqnPrefix must look like iqn.yyyy-mm.reverse.domain and must not contain whitespace or '' @ [CHR 0x27] @ '':'' @ [CHR 0x27]) []))"

definition validateIQNValue :: "string \<Rightarrow> string \<Rightarrow> unit result" where
  "validateIQNValue key value =
     (let iqn = TrimSpace value in
      if iqn = [] then Inl (Status InvalidArgument ''%s must not be empty'' [ArgS key])
      else let (prefix, suffix, found) = Cut iqn '':'' in
           if \<not> found \<or> TrimSpace suffix = [] then
             Inl (Status InvalidArgument ''%s must look like iqn.yyyy-mm.reverse.domain:name'' [ArgS key])
           else case validateIQNPrefix prefix of
             Inl _ \<Rightarrow> Inl (Status InvalidArgument ''%s must look like iqn.yyyy-mm.reverse.domain:name'' [ArgS key])
           | Inr _ \<Rightarrow>
               reject_if (containsSpace suffix \<or> ContainsAny suffix [CHR ''/'', bsl]
                          \<or> hasInvalidWindowsPathChar (ReplaceAll suffix CHR '':'' []))
                 (Status InvalidArgument ''%s suffix contains unsupported characters'' [ArgS key]))"

definition validateISCSITargetName :: "string \<Rightarrow> unit result" where
  "validateISCSITargetName name =
     (let value = TrimSpace name in
      if value = [] then Inl (Status InvalidArgument ''iSCSI target name must not be empty'' [])
      else if length value > 223 then
        Inl (Status InvalidArgument ''iSCSI target name must be no more than 223 characters'' [])
      else if HasPrefix (ToLower value) ''iqn.'' then validateIQNValue ''iSCSI target IQN'' value
      else reject_if (containsSpace value \<or> hasInvalidWindowsPathChar value \<or> ContainsAny value [CHR ''/'', bsl])
        (Status InvalidArgument ''iSCSI target name %q contains unsupported characters'' [ArgS name]))"

subsection \<open>NFS and SMB options\<close>

text \<open>\<^verbatim>\<open>splitCSVParam\<close> of \<^verbatim>\<open>backend_fileshare.go\<close>.\<close>

definition splitCSVParam :: "string \<Rightarrow> string list" where
  "splitCSVParam value = filter (\<lambda>p. p \<noteq> []) (map TrimSpace (splitOn CHR '','' value))"

definition normalizeNfsPermission :: "string \<Rightarrow> string result" where
  "normalizeNfsPermission value =
     (let v = ToLower (TrimSpace value) in
      if v \<in> set [[], ''rw'', ''readwrite'', ''read-write''] then Inr ''readwrite''
      else if v \<in> set [''ro'', ''readonly'', ''read-only''] then Inr ''readonly''
      else Inl (Status InvalidArgument ''parameter nfsPermission must be readonly/ro or readwrite/rw'' []))"

definition normalizeNfsAuthenticationFlavor :: "string \<Rightarrow> string result" where
  "normalizeNfsAuthenticationFlavor value =
     (let v = ToLower (TrimSpace value) in
      if v = ''sys'' then Inr ''sys''
      else if v \<in> set [''krb5'', ''kerberos''] then Inr ''krb5''
      else if v \<in> set [''krb5i'', ''kerberos-integrity''] then Inr ''krb5i''
      else if v \<in> set [''krb5p'', ''kerberos-privacy''] then Inr ''krb5p''
      else Inl (Status InvalidArgument ''parameter nfsAuthentication must contain only sys, krb5, krb5i, or krb5p'' []))"

text \<open>The loop over the raw values: the flavours seen so far, in order and without repeats.\<close>

fun collectFlavors :: "string list \<Rightarrow> string list \<Rightarrow> string list result" where
  "collectFlavors auth [] = Inr auth"
| "collectFlavors auth (raw # rest) =
     onOk (normalizeNfsAuthenticationFlavor raw) (\<lambda>n.
       collectFlavors (if n \<in> set auth then auth else auth @ [n]) rest)"

definition normalizeNfsAuthentication :: "string \<Rightarrow> string list result" where
  "normalizeNfsAuthentication value =
     (let rawValues = splitCSVParam value in if rawValues = [] then Inr [] else collectFlavors [] rawValues)"

definition nfsKerberosError :: goerror where
  "nfsKerberosError = Status InvalidArgument ''parameter nfsKerberos must be a boolean or one of krb5, krb5i, krb5p'' []"

definition nfsKerberosAuthentication :: "string \<Rightarrow> (string list \<times> string) result" where
  "nfsKerberosAuthentication value0 =
     (let value = TrimSpace value0 in
      if value = [] then Inr ([], [])
      else case ParseBool value of
        Some parsed \<Rightarrow> Inr (if \<not> parsed then ([], []) else ([''krb5''], ''krb5''))
      | None \<Rightarrow> (case normalizeNfsAuthenticationFlavor value of
            Inl _ \<Rightarrow> Inl nfsKerberosError
          | Inr flavor \<Rightarrow> if flavor = ''sys'' then Inl nfsKerberosError else Inr ([flavor], flavor)))"

definition flavorRank :: "string \<Rightarrow> nat" where
  "flavorRank v = (if v = ''sys'' then 1 else if v = ''krb5'' then 2 else if v = ''krb5i'' then 3
                   else if v = ''krb5p'' then 4 else 0)"

definition preferredNfsMountAuthentication :: "string list \<Rightarrow> string" where
  "preferredNfsMountAuthentication auth =
     fold (\<lambda>value best. if flavorRank value > flavorRank best then value else best) auth []"

definition nfsAuthenticationParam :: "smap \<Rightarrow> string" where
  "nfsAuthenticationParam params =
     (case getStringParam params ''nfsAuthentication'' of Some v \<Rightarrow> v
      | None \<Rightarrow> orEmpty (getStringParam params ''nfsauthentication''))"

definition normalizeNfsClientType :: "string \<Rightarrow> string result" where
  "normalizeNfsClientType value =
     (let v = ToLower (TrimSpace value) in
      if v \<in> set [[], ''host''] then Inr ''host''
      else if v \<in> set [''clientgroup'', ''client-group''] then Inr ''clientgroup''
      else if v \<in> set [''netgroup'', ''net-group''] then Inr ''netgroup''
      else Inl (Status InvalidArgument ''parameter nfsClientType must be host, clientgroup, or netgroup'' []))"

definition normalizeSmbCachingMode :: "string \<Rightarrow> string result" where
  "normalizeSmbCachingMode value =
     (let v = ToLower (TrimSpace value) in
      if v = [] then Inr []
      else if v = ''none'' then Inr ''None''
      else if v = ''manual'' then Inr ''Manual''
      else if v = ''documents'' then Inr ''Documents''
      else if v = ''programs'' then Inr ''Programs''
      else if v \<in> set [''branchcache'', ''branch-cache''] then Inr ''BranchCache''
      else Inl (Status InvalidArgument ''parameter smbCachingMode must be None, Manual, Documents, Programs, or BranchCache'' []))"

definition normalizeSmbFolderEnumerationMode :: "string \<Rightarrow> string result" where
  "normalizeSmbFolderEnumerationMode value =
     (let v = ToLower (TrimSpace value) in
      if v = [] then Inr []
      else if v \<in> set [''accessbased'', ''access-based''] then Inr ''AccessBased''
      else if v = ''unrestricted'' then Inr ''Unrestricted''
      else Inl (Status InvalidArgument ''parameter smbFolderEnumerationMode must be AccessBased or Unrestricted'' []))"

text \<open>The server authentication flavours and the mount flavour of \<^verbatim>\<open>nfsOptionsFromParams\<close>.\<close>

definition nfsFlavorsFromParams :: "smap \<Rightarrow> (string list \<times> string) result" where
  "nfsFlavorsFromParams params =
     onOk (normalizeNfsAuthentication (nfsAuthenticationParam params)) (\<lambda>authentication.
     onOk (case getStringParam params ''nfsMountAuthentication'' of
             None \<Rightarrow> Inr []
           | Some v \<Rightarrow> (case normalizeNfsAuthenticationFlavor v of
                 Inl _ \<Rightarrow> Inl (Status InvalidArgument ''parameter nfsMountAuthentication must be one of sys, krb5, krb5i, or krb5p'' [])
               | Inr f \<Rightarrow> Inr f)) (\<lambda>mountAuthentication.
     onOk (if authentication = [] then nfsKerberosAuthentication (mget params ''nfsKerberos'')
           else Inr (authentication, mountAuthentication)) (\<lambda>(authentication, mountAuthentication).
     Inr (authentication,
          if mountAuthentication = [] then preferredNfsMountAuthentication authentication else mountAuthentication))))"

definition nfsOptionsFromParams :: "smap \<Rightarrow> NfsShareOptions result" where
  "nfsOptionsFromParams params =
     onOk (parseBoolParam params ''nfsAllowRootAccess'') (\<lambda>allowRootAccess.
     onOk (parseBoolParam params ''nfsEnableAnonymousAccess'') (\<lambda>enableAnonymousAccess.
     onOk (parseBoolParam params ''nfsEnableUnmappedAccess'') (\<lambda>enableUnmappedAccess.
     onOk (parseIntParam params ''nfsAnonymousUid'') (\<lambda>anonymousUID.
     onOk (parseIntParam params ''nfsAnonymousGid'') (\<lambda>anonymousGID.
     onOk (normalizeNfsPermission (mget params ''nfsPermission'')) (\<lambda>permission.
     onOk (nfsFlavorsFromParams params) (\<lambda>(authentication, mountAuthentication).
     onOk (normalizeNfsClientType (mget params ''nfsClientType'')) (\<lambda>clientType.
     Inr \<lparr>nfs_ClientType = clientType, nfs_Permission = permission, nfs_AllowRootAccess = allowRootAccess,
          nfs_Authentication = authentication, nfs_MountAuthentication = mountAuthentication,
          nfs_AnonymousUID = anonymousUID, nfs_AnonymousGID = anonymousGID,
          nfs_LanguageEncoding = TrimSpace (mget params ''nfsLanguageEncoding''),
          nfs_EnableAnonymousAccess = enableAnonymousAccess, nfs_EnableUnmappedAccess = enableUnmappedAccess\<rparr>))))))))"

definition smbOptionsFromParams :: "smap \<Rightarrow> SmbShareOptions result" where
  "smbOptionsFromParams params =
     onOk (parseBoolParam params ''smbEncryptData'') (\<lambda>encryptData.
     onOk (parseBoolParam params ''smbCompressData'') (\<lambda>compressData.
     onOk (parseBoolParam params ''smbContinuouslyAvailable'') (\<lambda>continuouslyAvailable.
     onOk (parseUint32Param params ''smbConcurrentUserLimit'') (\<lambda>concurrentUserLimit.
     onOk (normalizeSmbCachingMode (mget params ''smbCachingMode'')) (\<lambda>cachingMode.
     onOk (normalizeSmbFolderEnumerationMode (mget params ''smbFolderEnumerationMode'')) (\<lambda>folderEnumerationMode.
     Inr \<lparr>smb_NoAccess = splitCSVParam (mget params ''smbNoAccess''),
          smb_Description = TrimSpace (mget params ''smbDescription''), smb_EncryptData = encryptData,
          smb_CompressData = compressData, smb_ContinuouslyAvailable = continuouslyAvailable,
          smb_CachingMode = cachingMode, smb_FolderEnumerationMode = folderEnumerationMode,
          smb_ConcurrentUserLimit = concurrentUserLimit\<rparr>))))))"

subsection \<open>Choices that depend on the driver\<close>

text \<open>\<^verbatim>\<open>cs.Driver\<close> may be nil in these three.\<close>

definition fileShareBackendFromParams :: "'w driver option \<Rightarrow> smap \<Rightarrow> string result" where
  "fileShareBackendFromParams drv params =
     (let fixed = (case drv of None \<Rightarrow> [] | Some d \<Rightarrow> d_fileShareBackend d);
          defaultBackend = (if fixed \<noteq> [] then fixed else fileShareBackendDirectory);
          backend = (case getStringParam params ''shareBackend'' of None \<Rightarrow> defaultBackend | Some raw \<Rightarrow> ToLower raw)
      in if backend \<noteq> fileShareBackendDirectory \<and> backend \<noteq> fileShareBackendVHDX then
           Inl (Status InvalidArgument ''parameter shareBackend must be %q or %q''
                  [ArgS fileShareBackendDirectory, ArgS fileShareBackendVHDX])
         else if fixed \<noteq> [] \<and> backend \<noteq> fixed then
           Inl (Status InvalidArgument ''driver %s only supports shareBackend=%s''
                  [ArgS (case drv of None \<Rightarrow> [] | Some d \<Rightarrow> d_name d), ArgS fixed])
         else Inr backend)"

definition protocolFromParams :: "'w driver option \<Rightarrow> smap \<Rightarrow> Protocol result" where
  "protocolFromParams drv params =
     (let raw = ToLower (TrimSpace (mget params ''protocol''));
          fixed = (case drv of None \<Rightarrow> [] | Some d \<Rightarrow> d_protocol d)
      in if raw = [] then (if fixed \<noteq> [] then Inr fixed else Inr ProtocolISCSI)
         else if raw \<in> {ProtocolISCSI, ProtocolNFS, ProtocolSMB} then
           (if fixed \<noteq> [] \<and> raw \<noteq> fixed then
              Inl (Status InvalidArgument ''protocol %s does not match CSI driver %s''
                     [ArgS raw, ArgS (case drv of None \<Rightarrow> [] | Some d \<Rightarrow> d_name d)])
            else Inr raw)
         else Inl (Status InvalidArgument ''unsupported protocol: %s'' [ArgS raw]))"

definition supportsAccessModeForProtocol :: "'w driver option \<Rightarrow> access_mode \<Rightarrow> Protocol \<Rightarrow> bool" where
  "supportsAccessModeForProtocol drv mode protocol =
     (if mode \<in> {SINGLE_NODE_WRITER, SINGLE_NODE_SINGLE_WRITER, SINGLE_NODE_MULTI_WRITER} then True
      else if mode \<in> {MULTI_NODE_READER_ONLY, MULTI_NODE_SINGLE_WRITER, MULTI_NODE_MULTI_WRITER} then
        (if protocol \<noteq> [] then protocol = ProtocolNFS \<or> protocol = ProtocolSMB
         else case drv of None \<Rightarrow> False
              | Some d \<Rightarrow> d_protocol d = [] \<or> d_protocol d = ProtocolNFS \<or> d_protocol d = ProtocolSMB)
      else False)"

subsection \<open>Volume identities\<close>

definition maxInt64 :: "int \<Rightarrow> int \<Rightarrow> int" where
  "maxInt64 a b = (if a > b then a else b)"

fun firstNonEmpty :: "string list \<Rightarrow> string" where
  "firstNonEmpty [] = []"
| "firstNonEmpty (v # vs) = (if TrimSpace v \<noteq> [] then v else firstNonEmpty vs)"

definition fileShareVolumeID :: "string \<Rightarrow> Protocol \<Rightarrow> string \<Rightarrow> VolumeInfo \<Rightarrow> int \<Rightarrow> VolumeID" where
  "fileShareVolumeID name protocol backend info capacityBytes =
     (let vid = zeroVolumeID\<lparr>vid_Name := name, vid_Protocol := protocol, vid_ShareBackend := backend,
                             vid_CapacityBytes := capacityBytes\<rparr>;
          vid1 = (if protocol = ProtocolNFS then
                    vid\<lparr>vid_NfsServer := vi_NfsServer info, vid_NfsExportPath := vi_NfsExportPath info\<rparr>
                  else if protocol = ProtocolSMB then
                    vid\<lparr>vid_SmbServer := vi_SmbServer info, vid_SmbShareName := vi_SmbShareName info\<rparr>
                  else vid)
      in if backend = fileShareBackendVHDX then
           vid1\<lparr>vid_VHDXPath := vi_VHDXPath info, vid_SharePath := vi_SharePath info\<rparr>
         else vid1\<lparr>vid_VHDXPath := vi_VHDXPath info, vid_SharePath := vi_VHDXPath info\<rparr>)"

definition applyNfsOptionsToVolumeID :: "VolumeID \<Rightarrow> NfsShareOptions \<Rightarrow> VolumeID" where
  "applyNfsOptionsToVolumeID vid opts =
     (if vid_Protocol vid \<noteq> ProtocolNFS then vid
      else let vid1 = (if nfs_Authentication opts \<noteq> [] then
                         vid\<lparr>vid_NfsAuthentication := Join (nfs_Authentication opts) '',''\<rparr> else vid)
           in if nfs_MountAuthentication opts \<noteq> [] then
                vid1\<lparr>vid_NfsMountAuthentication := nfs_MountAuthentication opts\<rparr> else vid1)"

text \<open>A handle is a URI or, failing that, the legacy form, which is always iSCSI.\<close>

definition decodeAnyVolumeID :: "string \<Rightarrow> (VolumeID \<times> volID) result" where
  "decodeAnyVolumeID s =
     (case DecodeVolumeID s of
        Inr v \<Rightarrow>
          Inr (v, \<lparr>id_VolumeName = vid_Name v, id_TargetPortal = vid_TargetPortal v,
                   id_TargetName = vid_TargetName v, id_TargetIQN = vid_TargetIQN v,
                   id_LUN = int32_of (vid_LUN v), id_VHDXPath = vid_VHDXPath v,
                   id_SizeBytes = vid_CapacityBytes v\<rparr>)
      | Inl _ \<Rightarrow>
          onOk (decodeVolID s) (\<lambda>legacy.
            Inr (zeroVolumeID\<lparr>vid_Name := id_VolumeName legacy, vid_Protocol := ProtocolISCSI,
                   vid_TargetPortal := id_TargetPortal legacy, vid_TargetName := id_TargetName legacy,
                   vid_TargetIQN := id_TargetIQN legacy, vid_LUN := id_LUN legacy,
                   vid_VHDXPath := id_VHDXPath legacy, vid_CapacityBytes := id_SizeBytes legacy\<rparr>, legacy)))"

definition iscsiTargetForVolume :: "smap \<Rightarrow> string \<Rightarrow> string \<times> string" where
  "iscsiTargetForVolume params volName =
     (case getStringParam params ''iqnPrefix'' of
        Some iqnPrefix \<Rightarrow> (let targetIQN = iqnPrefix @ '':'' @ volName in (targetIQN, targetIQN))
      | None \<Rightarrow> (volName, []))"

definition targetNameFromVolID :: "volID \<Rightarrow> string" where
  "targetNameFromVolID i = firstNonEmpty [id_TargetName i, id_TargetIQN i]"

definition targetPortalAddress :: "string \<Rightarrow> int \<Rightarrow> string" where
  "targetPortalAddress targetPortal0 portalPort =
     (let targetPortal = TrimSpace targetPortal0 in
      if targetPortal = [] then []
      else if SplitHostPort targetPortal \<noteq> None then targetPortal
      else JoinHostPort targetPortal (Itoa portalPort))"

definition withIscsiVolumeContextParams :: "smap \<Rightarrow> smap \<Rightarrow> smap" where
  "withIscsiVolumeContextParams ctx params =
     (case getStringParam params ''iface'' of None \<Rightarrow> ctx | Some iface \<Rightarrow> ctx(''iface'' \<mapsto> iface))"

definition volumeContextForVolumeID :: "VolumeID \<Rightarrow> smap" where
  "volumeContextForVolumeID v =
     (if vid_Protocol v = ProtocolNFS then
        (let ctx = [''protocol'' \<mapsto> ProtocolNFS, ''server'' \<mapsto> vid_NfsServer v, ''nfsServer'' \<mapsto> vid_NfsServer v,
                    ''exportPath'' \<mapsto> vid_NfsExportPath v, ''nfsExportPath'' \<mapsto> vid_NfsExportPath v];
             ctx1 = (if vid_NfsAuthentication v \<noteq> [] then ctx(''nfsAuthentication'' \<mapsto> vid_NfsAuthentication v) else ctx)
         in if vid_NfsMountAuthentication v \<noteq> []
            then ctx1(''nfsMountAuthentication'' \<mapsto> vid_NfsMountAuthentication v) else ctx1)
      else if vid_Protocol v = ProtocolSMB then
        [''protocol'' \<mapsto> ProtocolSMB, ''server'' \<mapsto> vid_SmbServer v, ''smbServer'' \<mapsto> vid_SmbServer v,
         ''share'' \<mapsto> vid_SmbShareName v, ''smbShareName'' \<mapsto> vid_SmbShareName v]
      else
        (let ctx = [''targetPortal'' \<mapsto> vid_TargetPortal v, ''iqn'' \<mapsto> vid_TargetIQN v, ''lun'' \<mapsto> Itoa (vid_LUN v)]
         in if TrimSpace (vid_TargetName v) \<noteq> [] then ctx(''targetName'' \<mapsto> vid_TargetName v) else ctx))"

subsection \<open>CHAP secrets\<close>

abbreviation chapSecretMinLength :: nat where "chapSecretMinLength \<equiv> 12"
abbreviation chapSecretMaxLength :: nat where "chapSecretMaxLength \<equiv> 16"

definition validateSecretPrintable :: "string \<Rightarrow> string \<Rightarrow> unit result" where
  "validateSecretPrintable key value =
     reject_if (containsControl value) (Status InvalidArgument ''%s must not contain control characters'' [ArgS key])"

definition validateChapSecretValue :: "string \<Rightarrow> string \<Rightarrow> unit result" where
  "validateChapSecretValue key value =
     onOk (validateSecretPrintable key value) (\<lambda>_.
       reject_if (length value < chapSecretMinLength \<or> length value > chapSecretMaxLength)
         (Status InvalidArgument ''%s must be between 12 and 16 characters'' [ArgS key]))"

definition validateChapUsernameValue :: "string \<Rightarrow> string \<Rightarrow> unit result" where
  "validateChapUsernameValue key value =
     onOk (validateSecretPrintable key value) (\<lambda>_.
     onOk (reject_if (length value > 223) (Status InvalidArgument ''%s must be no more than 223 characters'' [ArgS key])) (\<lambda>_.
       reject_if (containsSpace value) (Status InvalidArgument ''%s must not contain whitespace'' [ArgS key])))"

definition validateChapCredentialPair :: "smap \<Rightarrow> string \<Rightarrow> string \<Rightarrow> (string \<times> string \<times> bool) result" where
  "validateChapCredentialPair secrets userKey passwordKey =
     (let user = TrimSpace (mget secrets userKey); password = TrimSpace (mget secrets passwordKey) in
      if user = [] \<and> password = [] then Inr ([], [], False)
      else if user = [] \<or> password = [] then
        Inl (Status InvalidArgument ''%s and %s must both be set'' [ArgS userKey, ArgS passwordKey])
      else onOk (validateChapUsernameValue userKey user) (\<lambda>_.
           onOk (validateChapSecretValue passwordKey password) (\<lambda>_.
           Inr (user, password, True))))"

definition validateChapSecrets :: "smap \<Rightarrow> unit result" where
  "validateChapSecrets secrets =
     onOk (validateChapCredentialPair secrets ''discovery.sendtargets.auth.username'' ''discovery.sendtargets.auth.password'') (\<lambda>(_, _, discoveryConfigured).
     onOk (validateChapCredentialPair secrets ''discovery.sendtargets.auth.username_in'' ''discovery.sendtargets.auth.password_in'') (\<lambda>(_, _, discoveryReverseConfigured).
     if discoveryReverseConfigured \<and> \<not> discoveryConfigured then
       Inl (Status InvalidArgument ''discovery reverse CHAP requires discovery.sendtargets.auth.username and discovery.sendtargets.auth.password'' [])
     else
     onOk (validateChapCredentialPair secrets ''node.session.auth.username'' ''node.session.auth.password'') (\<lambda>(_, _, sessionConfigured).
     onOk (validateChapCredentialPair secrets ''node.session.auth.username_in'' ''node.session.auth.password_in'') (\<lambda>(_, _, reverseConfigured).
     reject_if (reverseConfigured \<and> \<not> sessionConfigured)
       (Status InvalidArgument ''reverse CHAP requires node.session.auth.username and node.session.auth.password'' [])))))"

definition targetChapOptionsFromSecrets :: "smap \<Rightarrow> TargetChapOptions result" where
  "targetChapOptionsFromSecrets secrets =
     onOk (validateChapSecrets secrets) (\<lambda>_.
     let chapUser = TrimSpace (mget secrets ''node.session.auth.username'');
         chapSecret = TrimSpace (mget secrets ''node.session.auth.password'');
         reverseChapUser = TrimSpace (mget secrets ''node.session.auth.username_in'');
         reverseChapSecret = TrimSpace (mget secrets ''node.session.auth.password_in'') in
     onOk (if chapUser \<noteq> [] \<or> chapSecret \<noteq> [] then
             (if chapUser = [] \<or> chapSecret = [] then
                Inl (Status InvalidArgument ''node.session.auth.username and node.session.auth.password must both be set for Windows target CHAP'' [])
              else Inr (zeroChap\<lparr>ChapUser := chapUser, ChapSecret := chapSecret\<rparr>))
           else Inr zeroChap) (\<lambda>opts.
     if reverseChapUser \<noteq> [] \<or> reverseChapSecret \<noteq> [] then
       (if reverseChapUser = [] \<or> reverseChapSecret = [] then
          Inl (Status InvalidArgument ''node.session.auth.username_in and node.session.auth.password_in must both be set for Windows target reverse CHAP'' [])
        else if ChapUser opts = [] then
          Inl (Status InvalidArgument ''reverse CHAP requires node.session.auth.username and node.session.auth.password'' [])
        else Inr (opts\<lparr>ReverseChapUser := reverseChapUser, ReverseChapSecret := reverseChapSecret\<rparr>))
     else Inr opts))"

subsection \<open>Lemmas: legacy handles\<close>

text \<open>What JSON text can carry: valid UTF-8 in the strings, the field widths in the numbers.\<close>

definition volID_ok :: "volID \<Rightarrow> bool" where
  "volID_ok v \<longleftrightarrow> utf8Valid (id_VolumeName v) \<and> utf8Valid (id_TargetPortal v) \<and> utf8Valid (id_TargetName v) \<and>
     utf8Valid (id_TargetIQN v) \<and> utf8Valid (id_VHDXPath v) \<and> int32_range (id_LUN v) \<and> int64_range (id_SizeBytes v)"

definition snapID_ok :: "snapID \<Rightarrow> bool" where
  "snapID_ok s \<longleftrightarrow> utf8Valid (sid_SnapshotID s) \<and> utf8Valid (sid_OriginalPath s)"

lemma field_keys_utf8:
  "list_all utf8Valid [''name'', ''targetPortal'', ''targetName'', ''targetIQN'', ''lun'', ''vhdxPath'', ''sizeBytes'',
     ''snapshotId'', ''originalPath'']"
  by code_simp

lemma fieldValues_volID:
  "fieldValues volIDFields (volIDMembers v) ''name'' = [JStr (id_VolumeName v)]"
  "fieldValues volIDFields (volIDMembers v) ''targetPortal'' = [JStr (id_TargetPortal v)]"
  "fieldValues volIDFields (volIDMembers v) ''targetName'' = (if id_TargetName v \<noteq> [] then [JStr (id_TargetName v)] else [])"
  "fieldValues volIDFields (volIDMembers v) ''targetIQN'' = [JStr (id_TargetIQN v)]"
  "fieldValues volIDFields (volIDMembers v) ''lun'' = [JNum (Itoa (id_LUN v))]"
  "fieldValues volIDFields (volIDMembers v) ''vhdxPath'' = [JStr (id_VHDXPath v)]"
  "fieldValues volIDFields (volIDMembers v) ''sizeBytes'' = [JNum (Itoa (id_SizeBytes v))]"
  by (simp_all add: fieldValues_def volIDFields_def volIDMembers_def fieldOf_def)

lemma decode_encode_volID:
  assumes "volID_ok v"
  shows "decodeVolID (encodeVolID v) = Inr v"
proof -
  have "\<forall>(k, j)\<in>set (volIDMembers v). utf8Valid k \<and> flat j"
    using assms field_keys_utf8 by (auto simp: volIDMembers_def volID_ok_def)
  then have "parseJSON (jsonObject (members (volIDMembers v))) = Some (JObj (volIDMembers v))"
    by (rule parseJSON_jsonObject)
  moreover have "int64_range (id_LUN v)" using assms by (simp add: volID_ok_def int32_int64)
  ultimately have "unmarshalVolID (jsonObject (members (volIDMembers v))) = Some v"
    using assms by (simp add: unmarshalVolID_def objectMembers_def fieldValues_volID volID_ok_def)
  then show ?thesis by (simp add: decodeVolID_def encodeVolID_def b64_roundtrip)
qed

lemma decode_encode_snapID:
  assumes "snapID_ok s"
  shows "decodeSnapID (encodeSnapID s) = Inr s"
proof -
  have "\<forall>(k, j)\<in>set (snapIDMembers s). utf8Valid k \<and> flat j"
    using assms field_keys_utf8 by (auto simp: snapIDMembers_def snapID_ok_def)
  then have "parseJSON (jsonObject (members (snapIDMembers s))) = Some (JObj (snapIDMembers s))"
    by (rule parseJSON_jsonObject)
  then have "unmarshalSnapID (jsonObject (members (snapIDMembers s))) = Some s"
    by (simp add: unmarshalSnapID_def objectMembers_def fieldValues_def snapIDMembers_def fieldOf_def)
  then show ?thesis by (simp add: decodeSnapID_def encodeSnapID_def b64_roundtrip)
qed

text \<open>Base64 text has no colon, so a legacy handle is never read as a URI.\<close>

lemma DecodeVolumeID_no_colon:
  assumes "CHR '':'' \<notin> set s"
  shows "\<exists>e. DecodeVolumeID s = Inl e"
proof -
  have "Index s ''://'' = None" using assms by (induction s) auto
  then have "\<not> ok (ParseProtocolFromVolumeID s)" by (auto simp: ParseProtocolFromVolumeID_def)
  then show ?thesis unfolding DecodeVolumeID_def
    by (cases "ParseProtocolFromVolumeID s") auto
qed

lemma encodeVolID_no_colon: "CHR '':'' \<notin> set (encodeVolID v)"
  unfolding encodeVolID_def using b64Encode_chars by blast

lemma decodeAny_legacy:
  assumes "volID_ok v"
  shows "\<exists>w. decodeAnyVolumeID (encodeVolID v) = Inr (w, v) \<and> vid_Protocol w = ProtocolISCSI \<and>
    vid_TargetIQN w = id_TargetIQN v \<and> vid_VHDXPath w = id_VHDXPath v \<and> vid_ShareBackend w = []"
  using DecodeVolumeID_no_colon [OF encodeVolID_no_colon, of v] decode_encode_volID [OF assms]
  by (auto simp: decodeAnyVolumeID_def zeroVolumeID_def)

lemma decodeAny_uri:
  assumes "DecodeVolumeID s = Inr v"
  shows "\<exists>i. decodeAnyVolumeID s = Inr (v, i) \<and> id_VHDXPath i = vid_VHDXPath v \<and> id_TargetName i = vid_TargetName v"
  using assms by (simp add: decodeAnyVolumeID_def)

lemma decodeAny_protocol:
  assumes "decodeAnyVolumeID s = Inr (v, i)"
  shows "vid_Protocol v \<in> {ProtocolISCSI, ProtocolNFS, ProtocolSMB}"
  using assms DecodeVolumeID_ok(1) [THEN Validate_protocol]
  by (auto simp: decodeAnyVolumeID_def ok_iff split: sum.splits)

subsection \<open>Lemmas: parameters\<close>

lemma getStringParam_Some: "getStringParam params k = Some v \<Longrightarrow> v \<noteq> [] \<and> TrimSpace v = v"
  by (auto simp: getStringParam_def Let_def split: if_splits)

lemma validateTCPPort_ok [simp]: "validateTCPPort k p = Inr u \<longleftrightarrow> 1 \<le> p \<and> p \<le> maxTCPPort"
  by (auto simp: validateTCPPort_def)

lemma parseTCPPortParam_ok:
  "parseTCPPortParam params k fb = Inr p \<Longrightarrow> 1 \<le> p \<and> p \<le> maxTCPPort"
  by (auto simp: parseTCPPortParam_def ok_iff split: option.splits)

lemma flavor_ok:
  "normalizeNfsAuthenticationFlavor v = Inr f \<Longrightarrow> f \<in> set [''sys'', ''krb5'', ''krb5i'', ''krb5p'']"
  by (auto simp: normalizeNfsAuthenticationFlavor_def Let_def split: if_splits)

lemma collectFlavors_ok:
  "collectFlavors auth raws = Inr out \<Longrightarrow> distinct auth \<Longrightarrow> set auth \<subseteq> set [''sys'', ''krb5'', ''krb5i'', ''krb5p''] \<Longrightarrow>
     distinct out \<and> set out \<subseteq> set [''sys'', ''krb5'', ''krb5i'', ''krb5p''] \<and> set auth \<subseteq> set out \<and> (raws \<noteq> [] \<longrightarrow> out \<noteq> [])"
proof (induction raws arbitrary: auth)
  case (Cons raw raws)
  then obtain n where n: "normalizeNfsAuthenticationFlavor raw = Inr n"
      "collectFlavors (if n \<in> set auth then auth else auth @ [n]) raws = Inr out"
    by (auto simp: ok_iff)
  let ?a = "if n \<in> set auth then auth else auth @ [n]"
  have "distinct ?a" "set ?a \<subseteq> set [''sys'', ''krb5'', ''krb5i'', ''krb5p'']" "set auth \<subseteq> set ?a" "n \<in> set ?a"
    using Cons.prems flavor_ok [OF n(1)] by auto
  then show ?case using Cons.IH [OF n(2)] by auto
qed simp

lemma preferred_fold:
  "let b = fold (\<lambda>value best. if flavorRank value > flavorRank best then value else best) auth acc
   in (b = acc \<or> b \<in> set auth) \<and> flavorRank acc \<le> flavorRank b \<and> (\<forall>a\<in>set auth. flavorRank a \<le> flavorRank b)"
proof (induction auth arbitrary: acc)
  case (Cons v auth)
  let ?acc = "if flavorRank v > flavorRank acc then v else acc"
  show ?case using Cons.IH [of ?acc] by (auto simp: Let_def split: if_splits)
qed simp

lemma flavorRank_pos: "f \<in> set [''sys'', ''krb5'', ''krb5i'', ''krb5p''] \<Longrightarrow> 0 < flavorRank f"
  by (auto simp: flavorRank_def)

lemma preferred_best:
  assumes "auth \<noteq> []" "set auth \<subseteq> set [''sys'', ''krb5'', ''krb5i'', ''krb5p'']"
  shows "preferredNfsMountAuthentication auth \<in> set auth"
    and "\<forall>a\<in>set auth. flavorRank a \<le> flavorRank (preferredNfsMountAuthentication auth)"
proof -
  let ?b = "preferredNfsMountAuthentication auth"
  have b: "?b = [] \<or> ?b \<in> set auth" "\<forall>a\<in>set auth. flavorRank a \<le> flavorRank ?b"
    using preferred_fold [of auth "[]"] by (simp_all add: preferredNfsMountAuthentication_def Let_def)
  obtain a where "a \<in> set auth" using assms(1) by (cases auth) auto
  then have "0 < flavorRank a" "flavorRank a \<le> flavorRank ?b" using assms(2) flavorRank_pos b(2) by blast+
  then have "?b \<noteq> []" by (auto simp: flavorRank_def)
  then show "?b \<in> set auth" using b(1) by blast
  show "\<forall>a\<in>set auth. flavorRank a \<le> flavorRank ?b" by (rule b(2))
qed

subsection \<open>Lemmas: paths, portals and secrets\<close>

lemma no_dotdot_segment:
  assumes "\<not> Contains n ([bsl] @ ''..'' @ [bsl])" "\<not> HasSuffix n ([bsl] @ ''..'')" "\<not> HasPrefix n (''..'' @ [bsl])"
    and "''..'' \<in> set (splitOn bsl n)"
  shows "n = ''..''"
  using splitOn_context [OF assms(4)] assms(1-3)
  by (auto simp: Contains_iff HasSuffix_iff)

lemma validateTargetPortal_split:
  assumes "validateTargetPortal p = Inr ()" "SplitHostPort (TrimSpace p) = Some (h, s)"
  shows "TrimSpace h \<noteq> [] \<and> (\<exists>n. Atoi s = Some n \<and> 1 \<le> n \<and> n \<le> maxTCPPort)"
  using assms by (auto simp: validateTargetPortal_def Let_def split: if_splits option.splits)

lemma validateTargetPortal_nonblank: "validateTargetPortal p = Inr () \<Longrightarrow> TrimSpace p \<noteq> []"
  by (auto simp: validateTargetPortal_def Let_def split: if_splits)

lemma Itoa_plain: "CHR '':'' \<notin> set (Itoa i)" "CHR ''['' \<notin> set (Itoa i)" "CHR '']'' \<notin> set (Itoa i)"
  using Itoa_chars [of "CHR '':''" i] Itoa_chars [of "CHR ''[''" i] Itoa_chars [of "CHR '']''" i]
  by (auto simp: byte_def)

lemma credentialPair_ok:
  assumes "validateChapCredentialPair secrets u p = Inr (a, b, c)"
  shows "(TrimSpace (mget secrets u) = [] \<longleftrightarrow> \<not> c) \<and> (TrimSpace (mget secrets p) = [] \<longleftrightarrow> \<not> c) \<and>
    (c \<longrightarrow> length (TrimSpace (mget secrets u)) \<le> 223 \<and> \<not> containsSpace (TrimSpace (mget secrets u)) \<and>
       \<not> containsControl (TrimSpace (mget secrets u)) \<and> \<not> containsControl (TrimSpace (mget secrets p)) \<and>
       12 \<le> length (TrimSpace (mget secrets p)) \<and> length (TrimSpace (mget secrets p)) \<le> 16)"
  using assms
  by (auto simp: validateChapCredentialPair_def Let_def ok_iff validateChapUsernameValue_def
      validateChapSecretValue_def validateSecretPrintable_def split: if_splits)

lemma validateChapSecrets_ok:
  assumes "validateChapSecrets secrets = Inr ()"
  obtains a b c a' b' c' where
    "validateChapCredentialPair secrets ''node.session.auth.username'' ''node.session.auth.password'' = Inr (a, b, c)"
    "validateChapCredentialPair secrets ''node.session.auth.username_in'' ''node.session.auth.password_in'' = Inr (a', b', c')"
    "c' \<longrightarrow> c"
  using assms unfolding validateChapSecrets_def by (auto simp: ok_iff split: if_splits)

lemma chapOptions_eq:
  assumes "targetChapOptionsFromSecrets secrets = Inr opts"
  shows "opts = \<lparr>ChapUser = TrimSpace (mget secrets ''node.session.auth.username''),
      ChapSecret = TrimSpace (mget secrets ''node.session.auth.password''),
      ReverseChapUser = TrimSpace (mget secrets ''node.session.auth.username_in''),
      ReverseChapSecret = TrimSpace (mget secrets ''node.session.auth.password_in'')\<rparr>"
proof -
  define u p ru rp where d:
    "u = TrimSpace (mget secrets ''node.session.auth.username'')"
    "p = TrimSpace (mget secrets ''node.session.auth.password'')"
    "ru = TrimSpace (mget secrets ''node.session.auth.username_in'')"
    "rp = TrimSpace (mget secrets ''node.session.auth.password_in'')"
  have v: "validateChapSecrets secrets = Inr ()"
    using assms unfolding targetChapOptionsFromSecrets_def by (auto simp: ok_iff)
  show ?thesis
    using assms v unfolding targetChapOptionsFromSecrets_def d [symmetric] Let_def
    by (simp add: zeroChap_def split: if_splits)
qed

lemma normalizeNfsAuthentication_ok:
  assumes "normalizeNfsAuthentication v = Inr out"
  shows "distinct out" and "set out \<subseteq> set [''sys'', ''krb5'', ''krb5i'', ''krb5p'']"
  using assms collectFlavors_ok [of "[]" "splitCSVParam v" out]
  by (auto simp: normalizeNfsAuthentication_def Let_def split: if_splits)

lemma nfsKerberos_ok:
  assumes "nfsKerberosAuthentication v = Inr (auth, mount)"
  shows "(auth = [] \<and> mount = []) \<or> (auth = [mount] \<and> mount \<in> set [''sys'', ''krb5'', ''krb5i'', ''krb5p''])"
    and "TrimSpace v = [] \<Longrightarrow> auth = [] \<and> mount = []"
  using assms flavor_ok [of "TrimSpace v"]
  by (auto simp: nfsKerberosAuthentication_def Let_def split: if_splits option.splits sum.splits)

text \<open>The two ways to the flavours: listed in \<^verbatim>\<open>nfsAuthentication\<close>, or through \<^verbatim>\<open>nfsKerberos\<close>.\<close>

lemma nfsFlavors_cases:
  assumes "nfsFlavorsFromParams params = Inr (auth, mount)"
  obtains m where "normalizeNfsAuthentication (nfsAuthenticationParam params) = Inr auth" "auth \<noteq> []"
      "case getStringParam params ''nfsMountAuthentication'' of None \<Rightarrow> m = [] | Some v \<Rightarrow> normalizeNfsAuthenticationFlavor v = Inr m"
      "mount = (if m = [] then preferredNfsMountAuthentication auth else m)"
    | m where "normalizeNfsAuthentication (nfsAuthenticationParam params) = Inr []"
      "nfsKerberosAuthentication (mget params ''nfsKerberos'') = Inr (auth, m)"
      "mount = (if m = [] then preferredNfsMountAuthentication auth else m)"
proof -
  obtain as0 where as0: "normalizeNfsAuthentication (nfsAuthenticationParam params) = Inr as0"
    using assms unfolding nfsFlavorsFromParams_def by (auto simp: ok_iff)
  let ?m = "case getStringParam params ''nfsMountAuthentication'' of None \<Rightarrow> Inr []
     | Some v \<Rightarrow> (case normalizeNfsAuthenticationFlavor v of
           Inl _ \<Rightarrow> Inl (Status InvalidArgument ''parameter nfsMountAuthentication must be one of sys, krb5, krb5i, or krb5p'' [])
         | Inr f \<Rightarrow> Inr f)"
  obtain m where m: "?m = Inr m"
    using assms as0 unfolding nfsFlavorsFromParams_def by (auto simp: ok_iff)
  have m': "case getStringParam params ''nfsMountAuthentication'' of None \<Rightarrow> m = [] | Some v \<Rightarrow> normalizeNfsAuthenticationFlavor v = Inr m"
    using m by (auto split: option.splits sum.splits)
  show thesis
  proof (cases "as0 = []")
    case True
    then show thesis using assms as0 m that(2) unfolding nfsFlavorsFromParams_def by (auto simp: ok_iff)
  next
    case False
    then show thesis using assms as0 m m' that(1) unfolding nfsFlavorsFromParams_def by auto
  qed
qed

subsection \<open>Properties\<close>

text \<open>
  C4: a legacy volume handle with valid UTF-8 fields and in-range numbers decodes to the
  record it was made from, through the decoder that tries the URI form first.
\<close>

theorem legacy_volume_id_roundtrip:
  assumes "volID_ok v"
  shows "decodeVolID (encodeVolID v) = Inr v \<and>
    (\<exists>w. decodeAnyVolumeID (encodeVolID v) = Inr (w, v) \<and> vid_Protocol w = ProtocolISCSI \<and>
       vid_TargetIQN w = id_TargetIQN v \<and> vid_VHDXPath w = id_VHDXPath v)"
  using decode_encode_volID [OF assms] decodeAny_legacy [OF assms] by blast

text \<open>C4 at a concrete record.\<close>

theorem legacy_volume_id_roundtrip_witness:
  "\<exists>v. volID_ok v \<and> id_LUN v = 7 \<and> decodeVolID (encodeVolID v) = Inr v"
proof -
  let ?v = "\<lparr>id_VolumeName = ''pvc-1'', id_TargetPortal = ''10.0.0.1:3260'', id_TargetName = [], id_TargetIQN = ''iqn.x:y'',
      id_LUN = 7, id_VHDXPath = ''D:a.vhdx'', id_SizeBytes = 1073741824\<rparr>"
  have "volID_ok ?v" by code_simp
  then show ?thesis using legacy_volume_id_roundtrip [of ?v] by (intro exI [of _ ?v]) simp
qed

text \<open>A snapshot handle with valid UTF-8 fields decodes to the record it was made from.\<close>

theorem snapshot_id_roundtrip: "snapID_ok s \<Longrightarrow> decodeSnapID (encodeSnapID s) = Inr s"
  by (rule decode_encode_snapID)

text \<open>Instance at a concrete record.\<close>

theorem snapshot_id_roundtrip_witness:
  "\<exists>s. snapID_ok s \<and> sid_SnapshotID s = ''{1-2}'' \<and> decodeSnapID (encodeSnapID s) = Inr s"
proof -
  let ?s = "\<lparr>sid_SnapshotID = ''{1-2}'', sid_OriginalPath = ''D:a.vhdx''\<rparr>"
  have "snapID_ok ?s" by code_simp
  then show ?thesis using snapshot_id_roundtrip [of ?s] by (intro exI [of _ ?s]) simp
qed

text \<open>
  C40: the size chosen for a volume is at least the 1 GiB minimum and the required bytes; it
  respects the limit unless the limit is below the minimum, in which case it exceeds it.
\<close>

theorem required_bytes_bounds:
  assumes "requiredBytesFromRange (Some r) 1 = Inr n"
  shows "2 ^ 30 \<le> n \<and> cr_required r \<le> n \<and> (cr_limit r \<ge> 2 ^ 30 \<longrightarrow> n \<le> cr_limit r) \<and>
    (0 < cr_limit r \<and> cr_limit r < 2 ^ 30 \<longrightarrow> n > cr_limit r)"
  using assms by (auto simp: requiredBytesFromRange_def Let_def split: if_splits)

text \<open>C40 at a range whose limit is below 1 GiB.\<close>

theorem required_bytes_bounds_witness:
  "requiredBytesFromRange (Some \<lparr>cr_required = 5, cr_limit = 10\<rparr>) 1 = Inr (2 ^ 30) \<and> (2 ^ 30 :: int) > 10"
  using required_bytes_bounds [of "\<lparr>cr_required = 5, cr_limit = 10\<rparr>" "2 ^ 30"]
  by (simp add: requiredBytesFromRange_def)

text \<open>
  The address given to nodes for an accepted portal without brackets splits into a
  non-blank host and a port between 1 and 65535.
\<close>

theorem target_portal_address_wellformed:
  assumes "validateTargetPortal p = Inr ()" "1 \<le> port" "port \<le> maxTCPPort"
    and "CHR ''['' \<notin> set p" "CHR '']'' \<notin> set p"
  shows "\<exists>h s n. SplitHostPort (targetPortalAddress p port) = Some (h, s) \<and> TrimSpace h \<noteq> [] \<and>
    Atoi s = Some n \<and> 1 \<le> n \<and> n \<le> maxTCPPort"
proof (cases "SplitHostPort (TrimSpace p)")
  case (Some hs)
  then obtain h s where "SplitHostPort (TrimSpace p) = Some (h, s)" by (cases hs) auto
  then show ?thesis
    using validateTargetPortal_split [OF assms(1)] validateTargetPortal_nonblank [OF assms(1)]
    by (auto simp: targetPortalAddress_def)
next
  case None
  let ?p = "TrimSpace p"
  have "CHR ''['' \<notin> set ?p" "CHR '']'' \<notin> set ?p" using assms(4,5) TrimSpace_subset by blast+
  then have "SplitHostPort (JoinHostPort ?p (Itoa port)) = Some (?p, Itoa port)"
    by (intro SplitHostPort_Join Itoa_plain)
  moreover have "targetPortalAddress p port = JoinHostPort ?p (Itoa port)"
    using None validateTargetPortal_nonblank [OF assms(1)] by (simp add: targetPortalAddress_def)
  moreover have "int64_range port" using assms(2,3) by (simp add: int64_range_def)
  ultimately show ?thesis
    using assms(2,3) validateTargetPortal_nonblank [OF assms(1)] by simp
qed

text \<open>Instance at an IPv6 portal without a port.\<close>

theorem target_portal_address_wellformed_witness:
  "validateTargetPortal ''fe80::1'' = Inr () \<and>
   (\<exists>h s n. SplitHostPort (targetPortalAddress ''fe80::1'' 3260) = Some (h, s) \<and> Atoi s = Some n \<and> n \<le> maxTCPPort)"
proof -
  have v: "validateTargetPortal ''fe80::1'' = Inr ()" by code_simp
  show ?thesis using v target_portal_address_wellformed [OF v, of 3260] by auto
qed

text \<open>
  C38: a Windows path parameter that is accepted, written with backslashes and without a
  long-path prefix, has no dot-dot segment, no control or reserved character and a colon at
  most after the drive letter; the one exception is the bare text of two dots.
\<close>

theorem windows_path_safe:
  assumes "validateWindowsPathParam key value required = Inr ()" "TrimSpace value \<noteq> []"
    and "n = TrimPrefix (ReplaceAll (TrimSpace value) CHR ''/'' [bsl]) longPathPrefix"
  shows "(n = ''..'' \<or> ''..'' \<notin> set (splitOn bsl n)) \<and> \<not> containsControl n \<and> isWindowsAbsolutePath (TrimSpace value) \<and>
    (\<forall>i < length n. n ! i \<notin> set ''<>|?*'' \<and> n ! i \<noteq> dq \<and> (n ! i = CHR '':'' \<longrightarrow> i = 1))"
proof -
  have ok: "\<not> Contains n ([bsl] @ ''..'' @ [bsl])" "\<not> HasSuffix n ([bsl] @ ''..'')" "\<not> HasPrefix n (''..'' @ [bsl])"
      "\<not> hasInvalidWindowsPathChar n" "isWindowsAbsolutePath (TrimSpace value)"
    using assms unfolding validateWindowsPathParam_def assms(3) by (auto simp: Let_def split: if_splits)
  have "\<forall>i < length n. n ! i \<notin> set ''<>|?*'' \<and> n ! i \<noteq> dq \<and> (n ! i = CHR '':'' \<longrightarrow> i = 1)"
    using ok(4) unfolding hasInvalidWindowsPathChar_def by (fastforce simp: list_ex_iff in_set_conv_nth)
  then show ?thesis
    using no_dotdot_segment [OF ok(1-3)] ok(4,5) by (auto simp: hasInvalidWindowsPathChar_def)
qed

text \<open>C38 at a UNC path, and at the path of the exception, which is accepted.\<close>

theorem windows_path_safe_witness:
  "validateWindowsPathParam ''p'' ''//?/..'' True = Inr () \<and>
   TrimPrefix (ReplaceAll (TrimSpace ''//?/..'') CHR ''/'' [bsl]) longPathPrefix = ''..'' \<and>
   \<not> containsControl (TrimPrefix (ReplaceAll (TrimSpace ''//nas/vols/x'') CHR ''/'' [bsl]) longPathPrefix)"
proof -
  have v: "validateWindowsPathParam ''p'' ''//nas/vols/x'' True = Inr ()" "TrimSpace ''//nas/vols/x'' \<noteq> []" by code_simp+
  have e: "validateWindowsPathParam ''p'' ''//?/..'' True = Inr ()"
      "TrimPrefix (ReplaceAll (TrimSpace ''//?/..'') CHR ''/'' [bsl]) longPathPrefix = ''..''" by code_simp+
  show ?thesis using windows_path_safe [OF v refl] e by blast
qed

text \<open>
  C37: CHAP options built from accepted secrets are complete pairs within the length limits,
  reverse CHAP comes only with forward CHAP, and CHAP is switched on exactly when a user is
  configured.
\<close>

theorem chap_options_wellformed:
  assumes "targetChapOptionsFromSecrets secrets = Inr opts"
  shows "(ChapUser opts = [] \<longleftrightarrow> ChapSecret opts = []) \<and> (ReverseChapUser opts = [] \<longleftrightarrow> ReverseChapSecret opts = []) \<and>
    (ReverseChapUser opts \<noteq> [] \<longrightarrow> ChapUser opts \<noteq> []) \<and>
    (ChapSecret opts \<noteq> [] \<longrightarrow> 12 \<le> length (ChapSecret opts) \<and> length (ChapSecret opts) \<le> 16) \<and>
    (ReverseChapSecret opts \<noteq> [] \<longrightarrow> 12 \<le> length (ReverseChapSecret opts) \<and> length (ReverseChapSecret opts) \<le> 16) \<and>
    \<not> containsSpace (ChapUser opts) \<and> length (ChapUser opts) \<le> 223 \<and> (Enabled opts \<longleftrightarrow> ChapUser opts \<noteq> [])"
proof -
  have v: "validateChapSecrets secrets = Inr ()"
    using assms unfolding targetChapOptionsFromSecrets_def by (auto simp: ok_iff)
  obtain a b c a' b' c' where p:
    "validateChapCredentialPair secrets ''node.session.auth.username'' ''node.session.auth.password'' = Inr (a, b, c)"
    "validateChapCredentialPair secrets ''node.session.auth.username_in'' ''node.session.auth.password_in'' = Inr (a', b', c')"
    and cc: "c' \<longrightarrow> c"
    by (rule validateChapSecrets_ok [OF v])
  have o: "opts = \<lparr>ChapUser = TrimSpace (mget secrets ''node.session.auth.username''),
      ChapSecret = TrimSpace (mget secrets ''node.session.auth.password''),
      ReverseChapUser = TrimSpace (mget secrets ''node.session.auth.username_in''),
      ReverseChapSecret = TrimSpace (mget secrets ''node.session.auth.password_in'')\<rparr>"
    by (rule chapOptions_eq [OF assms])
  show ?thesis
    unfolding o using cc credentialPair_ok [OF p(1)] credentialPair_ok [OF p(2)]
    by (cases c; cases c') (simp_all add: Enabled_def)
qed

text \<open>C37 at a secret of exactly twelve characters.\<close>

theorem chap_options_wellformed_witness:
  "\<exists>opts. targetChapOptionsFromSecrets [''node.session.auth.username'' \<mapsto> ''u'', ''node.session.auth.password'' \<mapsto> ''abcdefghijkl''] = Inr opts \<and>
     (Enabled opts \<longleftrightarrow> ChapUser opts \<noteq> []) \<and> ChapSecret opts = ''abcdefghijkl''"
proof -
  let ?o = "zeroChap\<lparr>ChapUser := ''u'', ChapSecret := ''abcdefghijkl''\<rparr>"
  have "targetChapOptionsFromSecrets [''node.session.auth.username'' \<mapsto> ''u'', ''node.session.auth.password'' \<mapsto> ''abcdefghijkl''] = Inr ?o"
    by code_simp
  from chap_options_wellformed [OF this] this show ?thesis by (intro exI [of _ ?o]) simp
qed

text \<open>
  C39: the NFS authentication flavours are among the four supported ones, without repeats;
  the mount flavour is empty exactly when there are none, it is the explicit one or the
  strongest configured one; and without \<^verbatim>\<open>nfsAuthentication\<close> and \<^verbatim>\<open>nfsKerberos\<close> an explicit
  \<^verbatim>\<open>nfsMountAuthentication\<close> is dropped.
\<close>

theorem nfs_flavors:
  assumes "nfsFlavorsFromParams params = Inr (auth, mount)"
  shows "distinct auth \<and> set auth \<subseteq> set [''sys'', ''krb5'', ''krb5i'', ''krb5p''] \<and> (mount = [] \<longleftrightarrow> auth = []) \<and>
    (getStringParam params ''nfsMountAuthentication'' = None \<longrightarrow> auth \<noteq> [] \<longrightarrow>
       mount \<in> set auth \<and> (\<forall>a\<in>set auth. flavorRank a \<le> flavorRank mount)) \<and>
    (nfsAuthenticationParam params = [] \<longrightarrow> TrimSpace (mget params ''nfsKerberos'') = [] \<longrightarrow> auth = [] \<and> mount = [])"
proof -
  show ?thesis
  using assms
  proof (cases rule: nfsFlavors_cases)
    case (1 m)
    note auth = normalizeNfsAuthentication_ok [OF 1(1)]
    have "nfsAuthenticationParam params \<noteq> []"
      using 1(1,2) TrimSpace_Nil by (auto simp: normalizeNfsAuthentication_def splitCSVParam_def)
    moreover have "mount \<noteq> []"
      using 1 preferred_best(1) [OF 1(2) auth(2)] auth(2) by (auto simp: split: if_splits)
    moreover have "getStringParam params ''nfsMountAuthentication'' = None \<Longrightarrow>
        mount \<in> set auth \<and> (\<forall>a\<in>set auth. flavorRank a \<le> flavorRank mount)"
      using 1(3,4) preferred_best [OF 1(2) auth(2)] by simp
    ultimately show ?thesis using auth 1(2) by blast
  next
    case (2 m)
    have "preferredNfsMountAuthentication [] = []" by (simp add: preferredNfsMountAuthentication_def)
    then show ?thesis using nfsKerberos_ok [OF 2(2)] 2(3) by auto
  qed
qed

text \<open>C39 at an explicit mount flavour that is dropped.\<close>

theorem nfs_flavors_witness:
  "nfsFlavorsFromParams [''nfsMountAuthentication'' \<mapsto> ''krb5p''] = Inr ([], []) \<and>
   nfsFlavorsFromParams [''nfsAuthentication'' \<mapsto> ''sys,krb5p,sys''] = Inr ([''sys'', ''krb5p''], ''krb5p'') \<and>
   flavorRank ''sys'' \<le> flavorRank ''krb5p''"
proof -
  have a: "nfsFlavorsFromParams [''nfsMountAuthentication'' \<mapsto> ''krb5p''] = Inr ([], [])" by code_simp
  have b: "nfsFlavorsFromParams [''nfsAuthentication'' \<mapsto> ''sys,krb5p,sys''] = Inr ([''sys'', ''krb5p''], ''krb5p'')"
    by code_simp
  have "getStringParam [''nfsAuthentication'' \<mapsto> ''sys,krb5p,sys''] ''nfsMountAuthentication'' = None" by code_simp
  then show ?thesis using a b nfs_flavors [OF b] by simp
qed

end
