(* ===== verification/Controller.thy ===== *)
theory Controller
  imports Params
begin

text \<open>
  The CSI controller service, \<^verbatim>\<open>pkg/iscsi/controllerserver.go\<close>: every RPC handler as a
  computation on the world of a backend.  A handler takes the driver (\<^verbatim>\<open>cs.Driver\<close>), the
  backend that \<^verbatim>\<open>serveController\<close> installed in it before the server was started
  (\<^verbatim>\<open>cs.Driver.backend\<close>) and the request.  Log output has no effect on the results and is left
  out here.
\<close>

subsection \<open>Requests and responses\<close>

text \<open>Of a volume capability the controller reads the access mode only; a missing one is unknown.\<close>

type_synonym volume_capability = access_mode

text \<open>A content source is a snapshot, by its id, or another kind of source.\<close>

datatype content_source = FromSnapshot string | FromOther string

record CreateVolumeRequest =
  cvr_Name :: string
  cvr_CapacityRange :: "CapacityRange option"
  cvr_VolumeCapabilities :: "volume_capability list"
  cvr_Parameters :: smap
  cvr_Secrets :: smap
  cvr_VolumeContentSource :: "content_source option"

record Volume =
  vol_VolumeId :: string
  vol_CapacityBytes :: int
  vol_VolumeContext :: smap
  vol_ContentSource :: "content_source option"

record PublishRequest =
  pub_VolumeId :: string
  pub_NodeId :: string
  pub_VolumeCapability :: volume_capability
  pub_Secrets :: smap

datatype validate_response = Confirmed "volume_capability list" | Message string

record Snapshot =
  snap_SnapshotId :: string
  snap_SourceVolumeId :: string
  snap_CreationTime :: int
  snap_SizeBytes :: int
  snap_ReadyToUse :: bool

record ExpandResponse =
  exp_CapacityBytes :: int
  exp_NodeExpansionRequired :: bool

record GetVolumeResponse =
  gv_Volume :: Volume
  gv_PublishedNodeIds :: "string list"
  gv_Abnormal :: bool
  gv_Message :: string

abbreviation invalid :: "string \<Rightarrow> goerror" where
  "invalid msg \<equiv> Status InvalidArgument msg []"

abbreviation wrapped :: "code \<Rightarrow> string \<Rightarrow> goerror \<Rightarrow> goerror" where
  "wrapped c fmt e \<equiv> Status c fmt [ArgE e]"

subsection \<open>CHAP and target names\<close>

definition configureTargetChapFromSecrets :: "'w Backend \<Rightarrow> string \<Rightarrow> smap \<Rightarrow> ('w, unit) io" where
  "configureTargetChapFromSecrets b targetName secrets =
     check (targetChapOptionsFromSecrets secrets) (\<lambda>opts.
       if \<not> Enabled opts then return ()
       else call (b_ConfigureTargetChap b targetName opts) (wrapped Internal ''ConfigureTargetChap: %v'') return)"

definition deleteTargetNameForVolume :: "'w Backend \<Rightarrow> volID \<Rightarrow> ('w, string) io" where
  "deleteTargetNameForVolume b i =
     (if TrimSpace (id_TargetName i) \<noteq> [] then return (TrimSpace (id_TargetName i))
      else if TrimSpace (id_TargetIQN i) = [] then return []
      else call (b_LookupTargetNameByIQN b (TrimSpace (id_TargetIQN i))) (wrapped Internal ''LookupTargetNameByIQN: %v'')
             (\<lambda>targetName. return (TrimSpace targetName)))"

subsection \<open>CreateVolume: iSCSI\<close>

text \<open>The checks of the iSCSI branch, before the backend is called, and what they compute.\<close>

record iscsiPlan =
  ip_parentDir :: string
  ip_size :: int
  ip_targetName :: string
  ip_requestedIQN :: string
  ip_portal :: string

definition checkPortalPorts :: "smap \<Rightarrow> string \<Rightarrow> int \<Rightarrow> unit result" where
  "checkPortalPorts params targetPortal portalPort =
     (if getStringParam params ''portalPort'' = None then Inr ()
      else case SplitHostPort targetPortal of
        None \<Rightarrow> Inr ()
      | Some (_, portValue) \<Rightarrow>
          (case Atoi portValue of
             None \<Rightarrow> Inl (invalid ''parameter targetPortal port must be an integer between 1 and 65535'')
           | Some targetPortalPort \<Rightarrow>
               reject_if (portalPort \<noteq> targetPortalPort)
                 (Status InvalidArgument ''parameter portalPort %d conflicts with targetPortal port %d''
                   [ArgI portalPort, ArgI targetPortalPort])))"

definition planIscsiVolume :: "CreateVolumeRequest \<Rightarrow> iscsiPlan result" where
  "planIscsiVolume req =
     (let params = cvr_Parameters req in
      case getStringParam params ''targetPortal'' of
        None \<Rightarrow> Inl (invalid ''parameter targetPortal is required'')
      | Some targetPortal \<Rightarrow>
          onOk (validateTargetPortal targetPortal) (\<lambda>_.
          onOk (parseTCPPortParam params ''portalPort'' 3260) (\<lambda>portalPort.
          onOk (checkPortalPorts params targetPortal portalPort) (\<lambda>_.
          let parentDir = orEmpty (getStringParam params ''vhdxParentPath'') in
          onOk (validateWindowsPathParam ''vhdxParentPath'' parentDir False) (\<lambda>_.
          onOk (case getStringParam params ''iqnPrefix'' of None \<Rightarrow> Inr () | Some p \<Rightarrow> validateIQNPrefix p) (\<lambda>_.
          onOk (requiredBytesFromRange (cvr_CapacityRange req) 1) (\<lambda>sz.
          let (targetName, requestedTargetIQN) = iscsiTargetForVolume params (cvr_Name req) in
          onOk (validateISCSITargetName targetName) (\<lambda>_.
          Inr \<lparr>ip_parentDir = parentDir, ip_size = sz, ip_targetName = targetName,
               ip_requestedIQN = requestedTargetIQN, ip_portal = targetPortalAddress targetPortal portalPort\<rparr>))))))))"

text \<open>The response for an iSCSI volume, common to the three ways of making one.\<close>

definition iscsiVolume :: "CreateVolumeRequest \<Rightarrow> iscsiPlan \<Rightarrow> string \<Rightarrow> string \<Rightarrow> int \<Rightarrow> string \<Rightarrow> int \<Rightarrow> Volume" where
  "iscsiVolume req plan targetName targetIQN lun vhdxPath sizeBytes =
     \<lparr>vol_VolumeId = encodeVolID \<lparr>id_VolumeName = cvr_Name req, id_TargetPortal = ip_portal plan, id_TargetName = targetName,
        id_TargetIQN = targetIQN, id_LUN = lun, id_VHDXPath = vhdxPath, id_SizeBytes = sizeBytes\<rparr>,
      vol_CapacityBytes = sizeBytes,
      vol_VolumeContext = withIscsiVolumeContextParams
        [''targetPortal'' \<mapsto> ip_portal plan, ''iqn'' \<mapsto> targetIQN, ''lun'' \<mapsto> Itoa lun] (cvr_Parameters req),
      vol_ContentSource = None\<rparr>"

definition ensureTargetFor :: "'w Backend \<Rightarrow> string \<Rightarrow> string \<Rightarrow> string \<Rightarrow> (string \<Rightarrow> ('w, 'a) io) \<Rightarrow> ('w, 'a) io" where
  "ensureTargetFor b fmt targetName requestedIQN k =
     call (b_EnsureTarget b targetName requestedIQN) (wrapped Internal fmt) (\<lambda>targetIQN.
       if targetIQN = [] then
         fail (Status Internal ''EnsureTarget returned an empty target IQN for target %q'' [ArgS targetName])
       else k targetIQN)"

definition createIscsiFromSnapshot :: "'w Backend \<Rightarrow> CreateVolumeRequest \<Rightarrow> iscsiPlan \<Rightarrow> string \<Rightarrow> ('w, Volume) io" where
  "createIscsiFromSnapshot b req plan snapshotId =
     (case decodeSnapID snapshotId of
        Inl e \<Rightarrow> fail (wrapped InvalidArgument ''invalid snapshotId: %v'' e)
      | Inr sid \<Rightarrow>
          call (b_ExportSnapshotAsVirtualDisk b (sid_SnapshotID sid)) (wrapped Internal ''ExportSnapshotAsVirtualDisk: %v'') (\<lambda>exportedPath.
          ensureTargetFor b ''EnsureTarget: %v'' (ip_targetName plan) (ip_requestedIQN plan) (\<lambda>targetIQN.
          call (configureTargetChapFromSecrets b (ip_targetName plan) (cvr_Secrets req)) id (\<lambda>_.
          call (b_MapDiskToTarget b (ip_targetName plan) exportedPath) (wrapped Internal ''MapDiskToTarget(exported): %v'') (\<lambda>lun.
          attempt (b_GetVolumeInfo b exportedPath) (\<lambda>r.
            let vi = (case r of Inl _ \<Rightarrow> zeroVolumeInfo | Inr vi \<Rightarrow> vi);
                vol = iscsiVolume req plan (ip_targetName plan) targetIQN lun exportedPath (vi_SizeBytes vi)
            in return (vol\<lparr>vol_VolumeContext := withIscsiVolumeContextParams
                 [''targetPortal'' \<mapsto> ip_portal plan, ''iqn'' \<mapsto> targetIQN, ''lun'' \<mapsto> Itoa lun, ''source'' \<mapsto> ''snapshot'']
                 (cvr_Parameters req), vol_ContentSource := cvr_VolumeContentSource req\<rparr>)))))))"

definition createIscsiExisting :: "'w Backend \<Rightarrow> CreateVolumeRequest \<Rightarrow> iscsiPlan \<Rightarrow> VolumeByName \<Rightarrow> ('w, Volume) io" where
  "createIscsiExisting b req plan e =
     (if ip_size plan > 0 \<and> vbn_sizeBytes e > 0 \<and> ip_size plan > vbn_sizeBytes e then
        fail (Status AlreadyExists ''volume %q exists smaller (%dB) than requested (%dB)''
               [ArgS (cvr_Name req), ArgI (vbn_sizeBytes e), ArgI (ip_size plan)])
      else
        (let targetName = (if vbn_targetName e = [] then ip_targetName plan else vbn_targetName e) in
         ensureTargetFor b ''EnsureTarget(existing): %v'' targetName
             (firstNonEmpty [vbn_targetIQN e, ip_requestedIQN plan]) (\<lambda>targetIQN.
           if vbn_lun e < 0 then
             call (b_MapDiskToTarget b targetName (vbn_vhdxPath e)) (wrapped Internal ''MapDiskToTarget(existing): %v'') (\<lambda>lun.
               return (iscsiVolume req plan targetName targetIQN lun (vbn_vhdxPath e) (vbn_sizeBytes e)))
           else return (iscsiVolume req plan targetName targetIQN (vbn_lun e) (vbn_vhdxPath e) (vbn_sizeBytes e)))))"

definition createIscsiNew :: "'w Backend \<Rightarrow> CreateVolumeRequest \<Rightarrow> iscsiPlan \<Rightarrow> ('w, Volume) io" where
  "createIscsiNew b req plan =
     call (b_CreateVirtualDisk b (cvr_Name req) (ip_parentDir plan) (ip_size plan)) (wrapped Internal ''CreateVirtualDisk: %v'') (\<lambda>(vhdxPath, actual).
     ensureTargetFor b ''EnsureTarget: %v'' (ip_targetName plan) (ip_requestedIQN plan) (\<lambda>targetIQN.
     call (configureTargetChapFromSecrets b (ip_targetName plan) (cvr_Secrets req)) id (\<lambda>_.
     call (b_MapDiskToTarget b (ip_targetName plan) vhdxPath) (wrapped Internal ''MapDiskToTarget: %v'') (\<lambda>lun.
     return (iscsiVolume req plan (ip_targetName plan) targetIQN lun vhdxPath actual)))))"

definition createIscsiVolume :: "'w Backend \<Rightarrow> CreateVolumeRequest \<Rightarrow> ('w, Volume) io" where
  "createIscsiVolume b req =
     check (planIscsiVolume req) (\<lambda>plan.
       case cvr_VolumeContentSource req of
         Some (FromSnapshot snapshotId) \<Rightarrow> createIscsiFromSnapshot b req plan snapshotId
       | _ \<Rightarrow>
           call (b_GetVolumeByName b (cvr_Name req) (ip_parentDir plan)) (wrapped Internal ''GetVolumeByName: %v'') (\<lambda>e.
             if vbn_exists e then createIscsiExisting b req plan e else createIscsiNew b req plan))"

subsection \<open>CreateVolume: file shares\<close>

text \<open>The requested share parameters that NFS and SMB have in common.\<close>

definition shareParent :: "smap \<Rightarrow> string result" where
  "shareParent params =
     (case getStringParam params ''shareParentPath'' of
        None \<Rightarrow> Inl (invalid ''parameter shareParentPath is required'')
      | Some parentDir \<Rightarrow> onOk (validateWindowsPathParam ''shareParentPath'' parentDir True) (\<lambda>_. Inr parentDir))"

definition nfsVolume :: "CreateVolumeRequest \<Rightarrow> string \<Rightarrow> NfsShareOptions \<Rightarrow> string \<Rightarrow> VolumeInfo \<Rightarrow> int \<Rightarrow> Volume" where
  "nfsVolume req nfsServer nfsOpts shareBackend info0 sz =
     (let info = (if nfsServer \<noteq> [] then info0\<lparr>vi_NfsServer := nfsServer\<rparr> else info0);
          capacityBytes = maxInt64 (vi_CapacityBytes info) sz;
          volumeID = applyNfsOptionsToVolumeID
            (fileShareVolumeID (cvr_Name req) ProtocolNFS shareBackend info capacityBytes) nfsOpts
      in \<lparr>vol_VolumeId = EncodeVolumeID (Some volumeID), vol_CapacityBytes = capacityBytes,
          vol_VolumeContext = volumeContextForVolumeID volumeID,
          vol_ContentSource = cvr_VolumeContentSource req\<rparr>)"

definition smbVolume :: "CreateVolumeRequest \<Rightarrow> string \<Rightarrow> string \<Rightarrow> VolumeInfo \<Rightarrow> int \<Rightarrow> Volume" where
  "smbVolume req smbServer shareBackend info0 sz =
     (let info = (if smbServer \<noteq> [] then info0\<lparr>vi_SmbServer := smbServer\<rparr> else info0);
          capacityBytes = maxInt64 (vi_CapacityBytes info) sz
      in \<lparr>vol_VolumeId = EncodeVolumeID (Some (fileShareVolumeID (cvr_Name req) ProtocolSMB shareBackend info capacityBytes)),
          vol_CapacityBytes = capacityBytes,
          vol_VolumeContext = volumeContextForVolumeID
            (zeroVolumeID\<lparr>vid_Protocol := ProtocolSMB, vid_SmbServer := vi_SmbServer info, vid_SmbShareName := vi_SmbShareName info\<rparr>),
          vol_ContentSource = cvr_VolumeContentSource req\<rparr>)"

text \<open>The virtual disk behind a new VHDX-backed share: restored, found or created.\<close>

definition obtainVHDX :: "'w Backend \<Rightarrow> CreateVolumeRequest \<Rightarrow> string \<Rightarrow> int \<Rightarrow> VolumeByName \<Rightarrow> (string \<times> int \<Rightarrow> ('w, 'a) io) \<Rightarrow> ('w, 'a) io" where
  "obtainVHDX b req vhdxParentDir sz existing k =
     (case cvr_VolumeContentSource req of
        Some (FromSnapshot snapshotId) \<Rightarrow>
          (case decodeSnapID snapshotId of
             Inl e \<Rightarrow> fail (wrapped InvalidArgument ''invalid snapshotId: %v'' e)
           | Inr sid \<Rightarrow>
               call (b_ExportSnapshotAsVirtualDisk b (sid_SnapshotID sid)) (wrapped Internal ''ExportSnapshotAsVirtualDisk: %v'') (\<lambda>vhdxPath.
               attempt (b_GetVolumeInfo b vhdxPath) (\<lambda>r.
                 k (vhdxPath, case r of Inl _ \<Rightarrow> vbn_sizeBytes existing | Inr vi \<Rightarrow> vi_SizeBytes vi))))
      | _ \<Rightarrow>
          if vbn_vhdxPath existing = [] then
            call (b_CreateVirtualDisk b (cvr_Name req) vhdxParentDir sz) (wrapped Internal ''CreateVirtualDisk: %v'') k
          else k (vbn_vhdxPath existing, vbn_sizeBytes existing))"

text \<open>The share exists already: its VHDX must exist too and is mounted again.\<close>

definition remountExisting :: "'w Backend \<Rightarrow> string \<Rightarrow> string \<Rightarrow> string \<Rightarrow> string \<Rightarrow> VolumeByName \<Rightarrow> VolumeInfo \<Rightarrow> (VolumeInfo \<Rightarrow> ('w, 'a) io) \<Rightarrow> ('w, 'a) io" where
  "remountExisting b fmt name vhdxParentDir sharePath existing info k =
     (let path = firstNonEmpty [vi_SharePath info, vi_VHDXPath info, sharePath] in
      if vbn_vhdxPath existing = [] then
        fail (Status FailedPrecondition fmt [ArgS name, ArgS (joinWindowsPath vhdxParentDir (name @ ''.vhdx''))])
      else
        call (b_MountFileShareVirtualDisk b (vbn_vhdxPath existing) path) (wrapped Internal ''MountFileShareVirtualDisk(existing): %v'') (\<lambda>_.
          k (info\<lparr>vi_SharePath := path, vi_VHDXPath := vbn_vhdxPath existing, vi_SizeBytes := vbn_sizeBytes existing,
                  vi_CapacityBytes := maxInt64 (vi_CapacityBytes info) (vbn_sizeBytes existing)\<rparr>)))"

definition createVHDXBackedNfsVolume ::
    "'w Backend \<Rightarrow> CreateVolumeRequest \<Rightarrow> string \<Rightarrow> string \<Rightarrow> string \<Rightarrow> int \<Rightarrow> NfsShareOptions \<Rightarrow> ('w, Volume) io" where
  "createVHDXBackedNfsVolume b req name shareParentDir nfsServer sz nfsOpts =
     (let params = cvr_Parameters req;
          vhdxParentDir = orEmpty (getStringParam params ''vhdxParentPath'');
          sharePath = joinWindowsPath shareParentDir name in
      check (validateWindowsPathParam ''vhdxParentPath'' vhdxParentDir False) (\<lambda>_.
      call (b_GetNfsShare b name shareParentDir) (wrapped Internal ''GetNfsShare: %v'') (\<lambda>(exists, info).
      call (b_GetVolumeByName b name vhdxParentDir) (wrapped Internal ''GetVolumeByName: %v'') (\<lambda>existing.
      if \<not> exists then
        obtainVHDX b req vhdxParentDir sz existing (\<lambda>(vhdxPath, actual).
        call (b_MountFileShareVirtualDisk b vhdxPath sharePath) (wrapped Internal ''MountFileShareVirtualDisk: %v'') (\<lambda>_.
        call (b_CreateNfsShare b name shareParentDir (maxInt64 sz actual) (splitCSVParam (mget params ''nfsClientName'')) [nfsOpts])
             (wrapped Internal ''CreateNfsShare: %v'') (\<lambda>info.
        return (nfsVolume req nfsServer nfsOpts fileShareBackendVHDX
          (info\<lparr>vi_VHDXPath := vhdxPath, vi_SharePath := sharePath, vi_SizeBytes := actual,
                vi_CapacityBytes := maxInt64 (vi_CapacityBytes info) actual\<rparr>) sz))))
      else
        remountExisting b ''NFS share %q exists but VHDX %q was not found'' name vhdxParentDir sharePath existing info (\<lambda>info.
          return (nfsVolume req nfsServer nfsOpts fileShareBackendVHDX info sz))))))"

definition createNfsVolume :: "'d driver \<Rightarrow> 'w Backend \<Rightarrow> CreateVolumeRequest \<Rightarrow> ('w, Volume) io" where
  "createNfsVolume d b req =
     (let params = cvr_Parameters req; name = cvr_Name req;
          nfsServer = orEmpty (getStringParam params ''nfsServer'') in
      check (shareParent params) (\<lambda>parentDir.
      check (fileShareBackendFromParams (Some d) params) (\<lambda>shareBackend.
      check (nfsOptionsFromParams params) (\<lambda>nfsOpts.
      check (requiredBytesFromRange (cvr_CapacityRange req) 1) (\<lambda>sz.
      if shareBackend = fileShareBackendVHDX then
        createVHDXBackedNfsVolume b req name parentDir nfsServer sz nfsOpts
      else case cvr_VolumeContentSource req of
        Some (FromSnapshot _) \<Rightarrow> fail (invalid ''directory-backed NFS volumes do not support restore from snapshots'')
      | _ \<Rightarrow>
          call (b_GetNfsShare b name parentDir) (wrapped Internal ''GetNfsShare: %v'') (\<lambda>(exists, info).
            if \<not> exists then
              call (b_CreateNfsShare b name parentDir sz (splitCSVParam (mget params ''nfsClientName'')) [nfsOpts])
                   (wrapped Internal ''CreateNfsShare: %v'') (\<lambda>info.
                return (nfsVolume req nfsServer nfsOpts shareBackend info sz))
            else return (nfsVolume req nfsServer nfsOpts shareBackend info sz)))))))"

definition createVHDXBackedSmbVolume ::
    "'w Backend \<Rightarrow> CreateVolumeRequest \<Rightarrow> string \<Rightarrow> string \<Rightarrow> string \<Rightarrow> int \<Rightarrow> SmbShareOptions \<Rightarrow> ('w, Volume) io" where
  "createVHDXBackedSmbVolume b req name shareParentDir smbServer sz smbOpts =
     (let params = cvr_Parameters req;
          vhdxParentDir = orEmpty (getStringParam params ''vhdxParentPath'');
          sharePath = joinWindowsPath shareParentDir name in
      check (validateWindowsPathParam ''vhdxParentPath'' vhdxParentDir False) (\<lambda>_.
      call (b_GetSmbShare b name shareParentDir) (wrapped Internal ''GetSmbShare: %v'') (\<lambda>(exists, info).
      call (b_GetVolumeByName b name vhdxParentDir) (wrapped Internal ''GetVolumeByName: %v'') (\<lambda>existing.
      if \<not> exists then
        obtainVHDX b req vhdxParentDir sz existing (\<lambda>(vhdxPath, actual).
        call (b_MountFileShareVirtualDisk b vhdxPath sharePath) (wrapped Internal ''MountFileShareVirtualDisk: %v'') (\<lambda>_.
        call (b_CreateSmbShare b name shareParentDir (maxInt64 sz actual) (splitCSVParam (mget params ''smbFullAccess''))
                (splitCSVParam (mget params ''smbChangeAccess'')) (splitCSVParam (mget params ''smbReadAccess'')) [smbOpts])
             (wrapped Internal ''CreateSmbShare: %v'') (\<lambda>info.
        return (smbVolume req smbServer fileShareBackendVHDX
          (info\<lparr>vi_VHDXPath := vhdxPath, vi_SharePath := sharePath, vi_SizeBytes := actual,
                vi_CapacityBytes := maxInt64 (vi_CapacityBytes info) actual\<rparr>) sz))))
      else
        remountExisting b ''SMB share %q exists but VHDX %q was not found'' name vhdxParentDir sharePath existing info (\<lambda>info.
          return (smbVolume req smbServer fileShareBackendVHDX info sz))))))"

definition createSmbVolume :: "'d driver \<Rightarrow> 'w Backend \<Rightarrow> CreateVolumeRequest \<Rightarrow> ('w, Volume) io" where
  "createSmbVolume d b req =
     (let params = cvr_Parameters req; name = cvr_Name req;
          smbServer = orEmpty (getStringParam params ''smbServer'') in
      check (shareParent params) (\<lambda>parentDir.
      check (fileShareBackendFromParams (Some d) params) (\<lambda>shareBackend.
      check (smbOptionsFromParams params) (\<lambda>smbOpts.
      check (requiredBytesFromRange (cvr_CapacityRange req) 1) (\<lambda>sz.
      if shareBackend = fileShareBackendVHDX then
        createVHDXBackedSmbVolume b req name parentDir smbServer sz smbOpts
      else case cvr_VolumeContentSource req of
        Some (FromSnapshot _) \<Rightarrow> fail (invalid ''directory-backed SMB volumes do not support restore from snapshots'')
      | _ \<Rightarrow>
          call (b_GetSmbShare b name parentDir) (wrapped Internal ''GetSmbShare: %v'') (\<lambda>(exists, info).
            if \<not> exists then
              call (b_CreateSmbShare b name parentDir sz (splitCSVParam (mget params ''smbFullAccess''))
                      (splitCSVParam (mget params ''smbChangeAccess'')) (splitCSVParam (mget params ''smbReadAccess'')) [smbOpts])
                   (wrapped Internal ''CreateSmbShare: %v'') (\<lambda>info.
                return (smbVolume req smbServer shareBackend info sz))
            else return (smbVolume req smbServer shareBackend info sz)))))))"

definition CreateVolume :: "'d driver \<Rightarrow> 'w Backend \<Rightarrow> CreateVolumeRequest \<Rightarrow> ('w, Volume) io" where
  "CreateVolume d b req =
     (if cvr_Name req = [] then fail (invalid ''volume name is required'')
      else if cvr_VolumeCapabilities req = [] then fail (invalid ''volume capabilities are required'')
      else check (protocolFromParams (Some d) (cvr_Parameters req)) (\<lambda>protocol.
        if list_ex (\<lambda>vc. \<not> supportsAccessModeForProtocol (Some d) vc protocol) (cvr_VolumeCapabilities req) then
          fail (invalid ''access mode is not supported by this driver'')
        else if (case cvr_VolumeContentSource req of Some (FromOther _) \<Rightarrow> True | _ \<Rightarrow> False) then
          fail (invalid ''only snapshot volume content sources are supported'')
        else if protocol = ProtocolNFS then createNfsVolume d b req
        else if protocol = ProtocolSMB then createSmbVolume d b req
        else createIscsiVolume b req))"

subsection \<open>Deleting, publishing, querying\<close>

text \<open>The file-share half of \<^verbatim>\<open>DeleteVolume\<close>; NFS and SMB differ in the last call.\<close>

definition deleteFileShare :: "'w Backend \<Rightarrow> VolumeID \<Rightarrow> (string \<Rightarrow> ('w, unit) io) \<Rightarrow> ('w, unit) io" where
  "deleteFileShare b decoded deleteShare =
     (let sharePath = firstNonEmpty [vid_SharePath decoded, vid_VHDXPath decoded] in
      if vid_ShareBackend decoded = fileShareBackendVHDX \<and> vid_VHDXPath decoded \<noteq> [] then
        call (b_UnmountFileShareVirtualDisk b (vid_VHDXPath decoded) sharePath) (wrapped Internal ''UnmountFileShareVirtualDisk: %v'') (\<lambda>_.
        call (b_DeleteVirtualDisk b (vid_VHDXPath decoded)) (wrapped Internal ''DeleteVirtualDisk: %v'') (\<lambda>_.
        deleteShare sharePath))
      else deleteShare sharePath)"

definition deleteIscsiVolume :: "'w Backend \<Rightarrow> volID \<Rightarrow> ('w, unit) io" where
  "deleteIscsiVolume b i =
     call (if targetNameFromVolID i \<noteq> [] \<and> id_VHDXPath i \<noteq> [] then
             call (b_UnmapDiskFromTarget b (targetNameFromVolID i) (id_VHDXPath i)) (wrapped Internal ''UnmapDiskFromTarget: %v'') return
           else return ()) id (\<lambda>_.
     if id_VHDXPath i \<noteq> [] then
       call (deleteTargetNameForVolume b i) id (\<lambda>deleteTargetName.
       call (b_DeleteVirtualDisk b (id_VHDXPath i)) (wrapped Internal ''DeleteVirtualDisk: %v'') (\<lambda>_.
       if deleteTargetName \<noteq> [] then
         call (b_DeleteTarget b deleteTargetName) (wrapped Internal ''DeleteTarget: %v'') return
       else return ()))
     else return ())"

definition DeleteVolume :: "'w Backend \<Rightarrow> string \<Rightarrow> ('w, unit) io" where
  "DeleteVolume b volumeId =
     (if volumeId = [] then fail (invalid ''volume_id is required'')
      else case decodeAnyVolumeID volumeId of
        Inl _ \<Rightarrow> return ()
      | Inr (decoded, i) \<Rightarrow>
          if vid_Protocol decoded = ProtocolNFS then
            deleteFileShare b decoded (\<lambda>sharePath.
              call (b_DeleteNfsShare b (vid_Name decoded) sharePath) (wrapped Internal ''DeleteNfsShare: %v'') return)
          else if vid_Protocol decoded = ProtocolSMB then
            deleteFileShare b decoded (\<lambda>sharePath.
              call (b_DeleteSmbShare b (vid_Name decoded) sharePath) (wrapped Internal ''DeleteSmbShare: %v'') return)
          else deleteIscsiVolume b i)"

definition requireVolumeAndNode :: "string \<Rightarrow> string \<Rightarrow> unit result" where
  "requireVolumeAndNode volumeId nodeId =
     (if volumeId = [] \<and> nodeId = [] then Inl (invalid ''volume_id and node_id are required'')
      else if volumeId = [] then Inl (invalid ''volume_id are required'')
      else if nodeId = [] then Inl (invalid ''node_id are required'')
      else Inr ())"

abbreviation isFileShare :: "VolumeID \<Rightarrow> bool" where
  "isFileShare v \<equiv> vid_Protocol v = ProtocolNFS \<or> vid_Protocol v = ProtocolSMB"

definition ControllerPublishVolume :: "'d driver \<Rightarrow> 'w Backend \<Rightarrow> PublishRequest \<Rightarrow> ('w, smap) io" where
  "ControllerPublishVolume d b req =
     check (requireVolumeAndNode (pub_VolumeId req) (pub_NodeId req)) (\<lambda>_.
     case decodeAnyVolumeID (pub_VolumeId req) of
       Inl e \<Rightarrow> fail (wrapped NotFound ''invalid volume_id: %v'' e)
     | Inr (decoded, i) \<Rightarrow>
         if \<not> supportsAccessModeForProtocol (Some d) (pub_VolumeCapability req) (vid_Protocol decoded) then
           fail (Status FailedPrecondition ''access mode is not supported by this driver'' [])
         else if isFileShare decoded then return (volumeContextForVolumeID decoded)
         else if \<not> HasPrefix (pub_NodeId req) ''iqn.'' then
           fail (Status InvalidArgument ''node_id must be an initiator IQN, got %q'' [ArgS (pub_NodeId req)])
         else if targetNameFromVolID i = [] \<or> id_TargetIQN i = [] then
           fail (invalid ''volume_id is missing target name or target IQN'')
         else
           call (configureTargetChapFromSecrets b (targetNameFromVolID i) (pub_Secrets req)) id (\<lambda>_.
           call (b_AllowInitiator b (targetNameFromVolID i) (pub_NodeId req)) (wrapped Internal ''AllowInitiator: %v'') (\<lambda>_.
           return [''targetPortal'' \<mapsto> id_TargetPortal i, ''iqn'' \<mapsto> id_TargetIQN i, ''lun'' \<mapsto> Itoa (id_LUN i)])))"

definition ControllerUnpublishVolume :: "'w Backend \<Rightarrow> string \<Rightarrow> string \<Rightarrow> ('w, unit) io" where
  "ControllerUnpublishVolume b volumeId nodeId =
     check (requireVolumeAndNode volumeId nodeId) (\<lambda>_.
     case decodeAnyVolumeID volumeId of
       Inl _ \<Rightarrow> return ()
     | Inr (decoded, i) \<Rightarrow>
         if isFileShare decoded then return ()
         else if targetNameFromVolID i \<noteq> [] then
           call (b_DenyInitiator b (targetNameFromVolID i) nodeId) (wrapped Internal ''DenyInitiator: %v'') return
         else return ())"

definition ValidateVolumeCapabilities :: "'d driver \<Rightarrow> string \<Rightarrow> volume_capability list \<Rightarrow> validate_response result" where
  "ValidateVolumeCapabilities d volumeId caps =
     (if volumeId = [] \<or> caps = [] then Inl (invalid ''volume_id and volume_capabilities are required'')
      else case decodeAnyVolumeID volumeId of
        Inl e \<Rightarrow> Inl (wrapped NotFound ''invalid volume_id: %v'' e)
      | Inr (decoded, _) \<Rightarrow>
          if list_ex (\<lambda>vc. \<not> supportsAccessModeForProtocol (Some d) vc (vid_Protocol decoded)) caps
          then Inr (Message ''access mode is not supported by this driver'')
          else Inr (Confirmed caps))"

definition ListVolumes :: "Volume list result" where
  "ListVolumes = Inr []"

definition GetCapacity :: "'d driver \<Rightarrow> 'w Backend \<Rightarrow> smap \<Rightarrow> ('w, int) io" where
  "GetCapacity d b params =
     check (protocolFromParams (Some d) params) (\<lambda>protocol.
     let shareParentDir = orEmpty (getStringParam params ''shareParentPath'');
         vhdxParentDir = orEmpty (getStringParam params ''vhdxParentPath'') in
     check (if protocol = ProtocolNFS \<or> protocol = ProtocolSMB then
              onOk (fileShareBackendFromParams (Some d) params) (\<lambda>shareBackend.
                if shareBackend \<noteq> fileShareBackendVHDX then Inr (True, shareParentDir) else Inr (False, vhdxParentDir))
            else Inr (False, vhdxParentDir)) (\<lambda>(shareParentRequired, parentDir).
     check (validateWindowsPathParam ''shareParentPath'' shareParentDir shareParentRequired) (\<lambda>_.
     check (validateWindowsPathParam ''vhdxParentPath'' vhdxParentDir False) (\<lambda>_.
     call (b_GetDirectoryFreeCapacity b parentDir) (wrapped Internal ''GetDirectoryFreeCapacity: %v'') return))))"

definition ControllerGetCapabilities :: "'d driver \<Rightarrow> rpc_type list result" where
  "ControllerGetCapabilities d = Inr (d_cscap d)"

subsection \<open>Snapshots\<close>

text \<open>The backing path of a snapshot's source volume.\<close>

definition snapshotSourcePath :: "string \<Rightarrow> string result" where
  "snapshotSourcePath sourceVolumeId =
     (case decodeAnyVolumeID sourceVolumeId of
        Inl e \<Rightarrow> Inl (wrapped NotFound ''invalid source_volume_id: %v'' e)
      | Inr (decoded, vid) \<Rightarrow>
          if isFileShare decoded \<and> vid_ShareBackend decoded \<noteq> fileShareBackendVHDX then
            Inl (Status FailedPrecondition ''directory-backed NFS/SMB volumes do not support snapshots'' [])
          else (let sourcePath = (if vid_VHDXPath decoded = [] then id_VHDXPath vid else vid_VHDXPath decoded) in
                if sourcePath = [] then
                  Inl (Status InvalidArgument ''source volume %q does not include a backend path'' [ArgS sourceVolumeId])
                else Inr sourcePath))"

definition snapshotEntry :: "string \<Rightarrow> SnapshotInfo \<Rightarrow> Snapshot" where
  "snapshotEntry sourceVolumeId s =
     \<lparr>snap_SnapshotId = encodeSnapID \<lparr>sid_SnapshotID = si_SnapshotID s, sid_OriginalPath = si_OriginalPath s\<rparr>,
      snap_SourceVolumeId = sourceVolumeId, snap_CreationTime = si_CreatedAt s, snap_SizeBytes = si_SizeBytes s,
      snap_ReadyToUse = True\<rparr>"

definition CreateSnapshot :: "'w Backend \<Rightarrow> string \<Rightarrow> string \<Rightarrow> ('w, Snapshot) io" where
  "CreateSnapshot b sourceVolumeId name =
     (if sourceVolumeId = [] then fail (invalid ''source_volume_id required'')
      else check (snapshotSourcePath sourceVolumeId) (\<lambda>sourcePath.
           call (b_CreateSnapshot b sourcePath (TrimSpace name)) (wrapped Internal ''CreateSnapshot: %v'') (\<lambda>s.
           return (snapshotEntry sourceVolumeId s))))"

definition DeleteSnapshot :: "'w Backend \<Rightarrow> string \<Rightarrow> ('w, unit) io" where
  "DeleteSnapshot b snapshotId =
     (if snapshotId = [] then fail (invalid ''snapshot_id required'')
      else case decodeSnapID snapshotId of
        Inl _ \<Rightarrow> return ()
      | Inr sid \<Rightarrow> attempt (b_DeleteSnapshot b (sid_SnapshotID sid)) (\<lambda>_. return ()))"

definition ListSnapshots :: "'d driver \<Rightarrow> 'w Backend \<Rightarrow> string \<Rightarrow> string \<Rightarrow> ('w, Snapshot list) io" where
  "ListSnapshots d b snapshotId sourceVolumeId =
     (if d_protocol d \<noteq> [] \<and> d_protocol d \<noteq> ProtocolISCSI \<and> d_fileShareBackend d \<noteq> fileShareBackendVHDX then
        fail (Status Unimplemented ''ListSnapshots is only supported for iSCSI and VHDX-backed file-share snapshots'' [])
      else if snapshotId \<noteq> [] then
        (case decodeSnapID snapshotId of
           Inl e \<Rightarrow> fail (wrapped NotFound ''invalid snapshot_id: %v'' e)
         | Inr sid \<Rightarrow>
             call (b_ListSnapshots b (sid_OriginalPath sid)) (wrapped Internal ''ListSnapshots: %v'') (\<lambda>all.
               return (case find (\<lambda>s. EqualFold (si_SnapshotID s) (sid_SnapshotID sid)) all of
                         None \<Rightarrow> [] | Some s \<Rightarrow> [snapshotEntry [] s])))
      else if sourceVolumeId \<noteq> [] then
        check (snapshotSourcePath sourceVolumeId) (\<lambda>sourcePath.
          call (b_ListSnapshots b sourcePath) (wrapped Internal ''ListSnapshots: %v'') (\<lambda>snaps.
            return (map (snapshotEntry []) snaps)))
      else return [])"

subsection \<open>Expansion and lookup\<close>

definition ControllerExpandVolume :: "'w Backend \<Rightarrow> string \<Rightarrow> CapacityRange option \<Rightarrow> ('w, ExpandResponse) io" where
  "ControllerExpandVolume b volumeId capRange =
     (case capRange of None \<Rightarrow> fail (invalid ''volume_id and capacity_range are required'')
      | Some r \<Rightarrow>
        if volumeId = [] then fail (invalid ''volume_id and capacity_range are required'')
        else case decodeAnyVolumeID volumeId of
          Inl e \<Rightarrow> fail (wrapped NotFound ''invalid volume_id: %v'' e)
        | Inr (decoded, i) \<Rightarrow>
            (let want = cr_required r in
             if want \<le> 0 then fail (invalid ''required_bytes must be > 0'')
             else if isFileShare decoded then
               (if vid_VHDXPath decoded = [] then
                  fail (Status InvalidArgument ''volume %q does not include a backing path'' [ArgS volumeId])
                else if vid_ShareBackend decoded = fileShareBackendVHDX then
                  call (b_ResizeVirtualDisk b (vid_VHDXPath decoded) want) (wrapped Internal ''ResizeVirtualDisk: %v'') (\<lambda>actual.
                  call (b_MountFileShareVirtualDisk b (vid_VHDXPath decoded) (vid_SharePath decoded)) (wrapped Internal ''MountFileShareVirtualDisk: %v'') (\<lambda>_.
                  return \<lparr>exp_CapacityBytes = actual, exp_NodeExpansionRequired = False\<rparr>))
                else
                  call (b_ResizeFileShare b (vid_VHDXPath decoded) want) (wrapped Internal ''ResizeFileShare: %v'') (\<lambda>actual.
                  return \<lparr>exp_CapacityBytes = actual, exp_NodeExpansionRequired = False\<rparr>))
             else
               call (b_ResizeVirtualDisk b (id_VHDXPath i) want) (wrapped Internal ''ResizeVirtualDisk: %v'') (\<lambda>actual.
               return \<lparr>exp_CapacityBytes = actual, exp_NodeExpansionRequired = True\<rparr>)))"

definition ControllerGetVolume :: "'w Backend \<Rightarrow> string \<Rightarrow> ('w, GetVolumeResponse) io" where
  "ControllerGetVolume b volumeId =
     (if volumeId = [] then fail (invalid ''volume_id required'')
      else case decodeAnyVolumeID volumeId of
        Inl e \<Rightarrow> fail (wrapped NotFound ''invalid volume_id: %v'' e)
      | Inr (decoded, i) \<Rightarrow>
          if isFileShare decoded then
            return \<lparr>gv_Volume = \<lparr>vol_VolumeId = volumeId, vol_CapacityBytes = vid_CapacityBytes decoded,
                      vol_VolumeContext = volumeContextForVolumeID decoded, vol_ContentSource = None\<rparr>,
                    gv_PublishedNodeIds = [], gv_Abnormal = False, gv_Message = ''OK''\<rparr>
          else
            call (b_GetVolumeInfo b (id_VHDXPath i)) (wrapped Internal ''GetVolumeInfo: %v'') (\<lambda>vi.
              if vi_VHDXPath vi = [] then fail (Status NotFound ''volume not found'' [])
              else attempt (b_GetTargetInitiators b (targetNameFromVolID i)) (\<lambda>r.
                return \<lparr>gv_Volume = \<lparr>vol_VolumeId = volumeId, vol_CapacityBytes = vi_SizeBytes vi,
                          vol_VolumeContext = [''vhdxPath'' \<mapsto> id_VHDXPath i, ''iqn'' \<mapsto> id_TargetIQN i,
                                               ''lun'' \<mapsto> volumeInfoLUNString (vi_LUN vi)],
                          vol_ContentSource = None\<rparr>,
                        gv_PublishedNodeIds = (case r of Inl _ \<Rightarrow> [] | Inr published \<Rightarrow> published),
                        gv_Abnormal = False, gv_Message = ''OK''\<rparr>)))"

end
