(* ===== verification/BackendInterface.thy ===== *)
theory BackendInterface
  imports Driver
begin

text \<open>
  The contract between the controller and a backend, as two interfaces over the methods of
  \<^verbatim>\<open>Backend\<close> (\<^verbatim>\<open>pkg/iscsi/driver.go\<close>): a backend that simulates another one, and a backend
  whose every method keeps an invariant of its world.  What the handlers inherit from them is
  proved once, for all backends, in theory \<^verbatim>\<open>ControllerRefinement\<close>.
\<close>

subsection \<open>One backend simulates another\<close>

locale backend_simulation =
  fixes f :: "'v \<Rightarrow> 'w" and B :: "'v Backend" and C :: "'w Backend"
  assumes sim_EnsureTarget: "\<And>a0 a1. sim f (b_EnsureTarget B a0 a1) (b_EnsureTarget C a0 a1)"
    and sim_ConfigureTargetChap: "\<And>a0 a1. sim f (b_ConfigureTargetChap B a0 a1) (b_ConfigureTargetChap C a0 a1)"
    and sim_CreateVirtualDisk: "\<And>a0 a1 a2. sim f (b_CreateVirtualDisk B a0 a1 a2) (b_CreateVirtualDisk C a0 a1 a2)"
    and sim_MapDiskToTarget: "\<And>a0 a1. sim f (b_MapDiskToTarget B a0 a1) (b_MapDiskToTarget C a0 a1)"
    and sim_UnmapDiskFromTarget: "\<And>a0 a1. sim f (b_UnmapDiskFromTarget B a0 a1) (b_UnmapDiskFromTarget C a0 a1)"
    and sim_DeleteVirtualDisk: "\<And>a0. sim f (b_DeleteVirtualDisk B a0) (b_DeleteVirtualDisk C a0)"
    and sim_LookupTargetNameByIQN: "\<And>a0. sim f (b_LookupTargetNameByIQN B a0) (b_LookupTargetNameByIQN C a0)"
    and sim_DeleteTarget: "\<And>a0. sim f (b_DeleteTarget B a0) (b_DeleteTarget C a0)"
    and sim_GetVolumeByName: "\<And>a0 a1. sim f (b_GetVolumeByName B a0 a1) (b_GetVolumeByName C a0 a1)"
    and sim_AllowInitiator: "\<And>a0 a1. sim f (b_AllowInitiator B a0 a1) (b_AllowInitiator C a0 a1)"
    and sim_DenyInitiator: "\<And>a0 a1. sim f (b_DenyInitiator B a0 a1) (b_DenyInitiator C a0 a1)"
    and sim_GetDirectoryFreeCapacity: "\<And>a0. sim f (b_GetDirectoryFreeCapacity B a0) (b_GetDirectoryFreeCapacity C a0)"
    and sim_CreateSnapshot: "\<And>a0 a1. sim f (b_CreateSnapshot B a0 a1) (b_CreateSnapshot C a0 a1)"
    and sim_DeleteSnapshot: "\<And>a0. sim f (b_DeleteSnapshot B a0) (b_DeleteSnapshot C a0)"
    and sim_ListSnapshots: "\<And>a0. sim f (b_ListSnapshots B a0) (b_ListSnapshots C a0)"
    and sim_ExportSnapshotAsVirtualDisk: "\<And>a0. sim f (b_ExportSnapshotAsVirtualDisk B a0) (b_ExportSnapshotAsVirtualDisk C a0)"
    and sim_ResizeVirtualDisk: "\<And>a0 a1. sim f (b_ResizeVirtualDisk B a0 a1) (b_ResizeVirtualDisk C a0 a1)"
    and sim_GetVolumeInfo: "\<And>a0. sim f (b_GetVolumeInfo B a0) (b_GetVolumeInfo C a0)"
    and sim_GetTargetInitiators: "\<And>a0. sim f (b_GetTargetInitiators B a0) (b_GetTargetInitiators C a0)"
    and sim_CreateNfsShare: "\<And>a0 a1 a2 a3 a4. sim f (b_CreateNfsShare B a0 a1 a2 a3 a4) (b_CreateNfsShare C a0 a1 a2 a3 a4)"
    and sim_GetNfsShare: "\<And>a0 a1. sim f (b_GetNfsShare B a0 a1) (b_GetNfsShare C a0 a1)"
    and sim_DeleteNfsShare: "\<And>a0 a1. sim f (b_DeleteNfsShare B a0 a1) (b_DeleteNfsShare C a0 a1)"
    and sim_CreateSmbShare: "\<And>a0 a1 a2 a3 a4 a5 a6. sim f (b_CreateSmbShare B a0 a1 a2 a3 a4 a5 a6) (b_CreateSmbShare C a0 a1 a2 a3 a4 a5 a6)"
    and sim_GetSmbShare: "\<And>a0 a1. sim f (b_GetSmbShare B a0 a1) (b_GetSmbShare C a0 a1)"
    and sim_DeleteSmbShare: "\<And>a0 a1. sim f (b_DeleteSmbShare B a0 a1) (b_DeleteSmbShare C a0 a1)"
    and sim_ResizeFileShare: "\<And>a0 a1. sim f (b_ResizeFileShare B a0 a1) (b_ResizeFileShare C a0 a1)"
    and sim_RestoreSnapshotAsFileShare: "\<And>a0 a1. sim f (b_RestoreSnapshotAsFileShare B a0 a1) (b_RestoreSnapshotAsFileShare C a0 a1)"
    and sim_MountFileShareVirtualDisk: "\<And>a0 a1. sim f (b_MountFileShareVirtualDisk B a0 a1) (b_MountFileShareVirtualDisk C a0 a1)"
    and sim_UnmountFileShareVirtualDisk: "\<And>a0 a1. sim f (b_UnmountFileShareVirtualDisk B a0 a1) (b_UnmountFileShareVirtualDisk C a0 a1)"
begin

lemmas methods [sim_intro] =
    sim_EnsureTarget sim_ConfigureTargetChap sim_CreateVirtualDisk sim_MapDiskToTarget
    sim_UnmapDiskFromTarget sim_DeleteVirtualDisk sim_LookupTargetNameByIQN sim_DeleteTarget
    sim_GetVolumeByName sim_AllowInitiator sim_DenyInitiator sim_GetDirectoryFreeCapacity
    sim_CreateSnapshot sim_DeleteSnapshot sim_ListSnapshots sim_ExportSnapshotAsVirtualDisk
    sim_ResizeVirtualDisk sim_GetVolumeInfo sim_GetTargetInitiators sim_CreateNfsShare sim_GetNfsShare
    sim_DeleteNfsShare sim_CreateSmbShare sim_GetSmbShare sim_DeleteSmbShare sim_ResizeFileShare
    sim_RestoreSnapshotAsFileShare sim_MountFileShareVirtualDisk sim_UnmountFileShareVirtualDisk

end

subsection \<open>A backend keeps an invariant\<close>

locale backend_invariant =
  fixes P :: "'w \<Rightarrow> bool" and B :: "'w Backend"
  assumes keeps_EnsureTarget: "\<And>a0 a1. keeps P (b_EnsureTarget B a0 a1)"
    and keeps_ConfigureTargetChap: "\<And>a0 a1. keeps P (b_ConfigureTargetChap B a0 a1)"
    and keeps_CreateVirtualDisk: "\<And>a0 a1 a2. keeps P (b_CreateVirtualDisk B a0 a1 a2)"
    and keeps_MapDiskToTarget: "\<And>a0 a1. keeps P (b_MapDiskToTarget B a0 a1)"
    and keeps_UnmapDiskFromTarget: "\<And>a0 a1. keeps P (b_UnmapDiskFromTarget B a0 a1)"
    and keeps_DeleteVirtualDisk: "\<And>a0. keeps P (b_DeleteVirtualDisk B a0)"
    and keeps_LookupTargetNameByIQN: "\<And>a0. keeps P (b_LookupTargetNameByIQN B a0)"
    and keeps_DeleteTarget: "\<And>a0. keeps P (b_DeleteTarget B a0)"
    and keeps_GetVolumeByName: "\<And>a0 a1. keeps P (b_GetVolumeByName B a0 a1)"
    and keeps_AllowInitiator: "\<And>a0 a1. keeps P (b_AllowInitiator B a0 a1)"
    and keeps_DenyInitiator: "\<And>a0 a1. keeps P (b_DenyInitiator B a0 a1)"
    and keeps_GetDirectoryFreeCapacity: "\<And>a0. keeps P (b_GetDirectoryFreeCapacity B a0)"
    and keeps_CreateSnapshot: "\<And>a0 a1. keeps P (b_CreateSnapshot B a0 a1)"
    and keeps_DeleteSnapshot: "\<And>a0. keeps P (b_DeleteSnapshot B a0)"
    and keeps_ListSnapshots: "\<And>a0. keeps P (b_ListSnapshots B a0)"
    and keeps_ExportSnapshotAsVirtualDisk: "\<And>a0. keeps P (b_ExportSnapshotAsVirtualDisk B a0)"
    and keeps_ResizeVirtualDisk: "\<And>a0 a1. keeps P (b_ResizeVirtualDisk B a0 a1)"
    and keeps_GetVolumeInfo: "\<And>a0. keeps P (b_GetVolumeInfo B a0)"
    and keeps_GetTargetInitiators: "\<And>a0. keeps P (b_GetTargetInitiators B a0)"
    and keeps_CreateNfsShare: "\<And>a0 a1 a2 a3 a4. keeps P (b_CreateNfsShare B a0 a1 a2 a3 a4)"
    and keeps_GetNfsShare: "\<And>a0 a1. keeps P (b_GetNfsShare B a0 a1)"
    and keeps_DeleteNfsShare: "\<And>a0 a1. keeps P (b_DeleteNfsShare B a0 a1)"
    and keeps_CreateSmbShare: "\<And>a0 a1 a2 a3 a4 a5 a6. keeps P (b_CreateSmbShare B a0 a1 a2 a3 a4 a5 a6)"
    and keeps_GetSmbShare: "\<And>a0 a1. keeps P (b_GetSmbShare B a0 a1)"
    and keeps_DeleteSmbShare: "\<And>a0 a1. keeps P (b_DeleteSmbShare B a0 a1)"
    and keeps_ResizeFileShare: "\<And>a0 a1. keeps P (b_ResizeFileShare B a0 a1)"
    and keeps_RestoreSnapshotAsFileShare: "\<And>a0 a1. keeps P (b_RestoreSnapshotAsFileShare B a0 a1)"
    and keeps_MountFileShareVirtualDisk: "\<And>a0 a1. keeps P (b_MountFileShareVirtualDisk B a0 a1)"
    and keeps_UnmountFileShareVirtualDisk: "\<And>a0 a1. keeps P (b_UnmountFileShareVirtualDisk B a0 a1)"
begin

lemmas methods [keeps_intro] =
    keeps_EnsureTarget keeps_ConfigureTargetChap keeps_CreateVirtualDisk keeps_MapDiskToTarget
    keeps_UnmapDiskFromTarget keeps_DeleteVirtualDisk keeps_LookupTargetNameByIQN keeps_DeleteTarget
    keeps_GetVolumeByName keeps_AllowInitiator keeps_DenyInitiator keeps_GetDirectoryFreeCapacity
    keeps_CreateSnapshot keeps_DeleteSnapshot keeps_ListSnapshots keeps_ExportSnapshotAsVirtualDisk
    keeps_ResizeVirtualDisk keeps_GetVolumeInfo keeps_GetTargetInitiators keeps_CreateNfsShare
    keeps_GetNfsShare keeps_DeleteNfsShare keeps_CreateSmbShare keeps_GetSmbShare keeps_DeleteSmbShare
    keeps_ResizeFileShare keeps_RestoreSnapshotAsFileShare keeps_MountFileShareVirtualDisk
    keeps_UnmountFileShareVirtualDisk

end

end
