(* ===== verification/LoggingBackend.thy ===== *)
theory LoggingBackend
  imports BackendInterface
begin

text \<open>
  The debug wrapper of a backend, \<^verbatim>\<open>pkg/iscsi/logging_backend.go\<close>: every method logs the start
  of the action, calls the wrapped backend, logs the outcome and returns what it was given.
  The world of the wrapper is the world of the wrapped backend and the log.  Log lines are
  kept as action and fields; the rendering verbs (\<^verbatim>\<open>%q\<close>, \<^verbatim>\<open>%v\<close>) are constructors.
\<close>

subsection \<open>Fields\<close>

datatype logany = LStr string | LStrs "string list" | LInt int | LBool bool

datatype rendered = Redacted | Quote string | QuoteList "string list" | SprintInt int | SprintBool bool | Missing

fun Sprint :: "logany \<Rightarrow> string" where
  "Sprint (LStr s) = s"
| "Sprint (LStrs ss) = ''['' @ Join ss '' '' @ '']''"
| "Sprint (LInt i) = Itoa i"
| "Sprint (LBool v) = (if v then ''true'' else ''false'')"

definition isSensitiveLogKey :: "string \<Rightarrow> bool" where
  "isSensitiveLogKey key = list_ex (\<lambda>marker. Contains (ToLower key) marker) [''password'', ''secret'', ''token'']"

fun safeLogValue :: "string \<Rightarrow> logany \<Rightarrow> rendered" where
  "safeLogValue key value =
     (if isSensitiveLogKey key then Redacted
      else case value of LStr v \<Rightarrow> Quote v | LStrs v \<Rightarrow> QuoteList v | LInt i \<Rightarrow> SprintInt i | LBool v \<Rightarrow> SprintBool v)"

text \<open>The fields alternate keys and values; a key without a value is shown as missing.\<close>

fun safeLogKV :: "logany list \<Rightarrow> (string \<times> rendered) list" where
  "safeLogKV [] = []"
| "safeLogKV [k] = [(Sprint k, Missing)]"
| "safeLogKV (k # v # rest) = (Sprint k, safeLogValue (Sprint k) v) # safeLogKV rest"

subsection \<open>Mount options\<close>

definition sanitizeMountOption :: "bool \<Rightarrow> string \<Rightarrow> string" where
  "sanitizeMountOption includeUsername opt =
     (let trimmed = TrimSpace opt; lower = ToLower trimmed; (key, _, _) = Cut trimmed ''='' in
      if HasPrefix lower ''password='' \<or> HasPrefix lower ''pass='' \<or> HasPrefix lower ''credentials='' \<or> HasPrefix lower ''credential=''
        then key @ ''=<redacted>''
      else if HasPrefix lower ''username='' \<or> HasPrefix lower ''user=''
        then (if includeUsername then trimmed else key @ ''=<redacted>'')
      else trimmed)"

definition sanitizeMountOptionsForLogWithUsername :: "string list \<Rightarrow> bool \<Rightarrow> string list" where
  "sanitizeMountOptionsForLogWithUsername opts includeUsername = map (sanitizeMountOption includeUsername) opts"

definition sanitizeMountOptionsForLog :: "string list \<Rightarrow> string list" where
  "sanitizeMountOptionsForLog opts = sanitizeMountOptionsForLogWithUsername opts False"

definition sanitizeMountOptionsForDebugLog :: "string list \<Rightarrow> string list" where
  "sanitizeMountOptionsForDebugLog opts = sanitizeMountOptionsForLogWithUsername opts True"

subsection \<open>The log\<close>

type_synonym log_fields = "(string \<times> rendered) list"

datatype log_entry =
    ActionStart (action: string) (fields: log_fields)
  | ActionCompleted (action: string) (fields: log_fields)
  | ActionFailed (action: string) (fields: log_fields) goerror

definition debugActionStart :: "string \<Rightarrow> logany list \<Rightarrow> log_entry" where
  "debugActionStart act fs = ActionStart act (safeLogKV fs)"

definition debugActionDone :: "string \<Rightarrow> goerror option \<Rightarrow> logany list \<Rightarrow> log_entry" where
  "debugActionDone act err fs =
     (case err of Some e \<Rightarrow> ActionFailed act (safeLogKV fs) e | None \<Rightarrow> ActionCompleted act (safeLogKV fs))"

text \<open>
  The body shared by the methods: start fields, the wrapped call, the fields of the outcome
  as a function of the result, and the zero result that comes with an error.
\<close>

definition logged :: "string \<Rightarrow> logany list \<Rightarrow> ('w, 'a) io \<Rightarrow> ('a \<Rightarrow> logany list) \<Rightarrow> 'a \<Rightarrow> ('w \<times> log_entry list, 'a) io" where
  "logged act start m done' zero wl =
     (let (r, w') = m (fst wl);
          entry = (case r of Inl e \<Rightarrow> debugActionDone act (Some e) (done' zero)
                   | Inr x \<Rightarrow> debugActionDone act None (done' x))
      in (r, (w', snd wl @ [debugActionStart act start, entry])))"

subsection \<open>The methods\<close>

definition zeroSnapshotInfo :: SnapshotInfo where
  "zeroSnapshotInfo = \<lparr>si_SnapshotID = [], si_OriginalPath = [], si_SourceVolume = [], si_Description = [],
     si_CreatedAt = 0, si_SizeBytes = 0, si_ReadyToUse = False\<rparr>"

definition log_EnsureTarget where
  "log_EnsureTarget inner targetName targetIQN =
     logged ''EnsureTarget''
       [LStr ''targetName'', LStr targetName, LStr ''targetIQN'', LStr targetIQN]
       (b_EnsureTarget inner targetName targetIQN)
       (\<lambda>iqn. [LStr ''targetName'', LStr targetName, LStr ''actualTargetIQN'', LStr iqn]) []"

definition log_ConfigureTargetChap where
  "log_ConfigureTargetChap inner targetName opts =
     logged ''ConfigureTargetChap''
       [LStr ''targetName'', LStr targetName, LStr ''chapEnabled'', LBool (Enabled opts),
        LStr ''chapUser'', LStr (ChapUser opts), LStr ''reverseChapUser'',
        LStr (ReverseChapUser opts)]
       (b_ConfigureTargetChap inner targetName opts)
       (\<lambda>_. [LStr ''targetName'', LStr targetName]) ()"

definition log_CreateVirtualDisk where
  "log_CreateVirtualDisk inner name parentDir sizeBytes =
     logged ''CreateVirtualDisk''
       [LStr ''name'', LStr name, LStr ''parentDir'', LStr parentDir, LStr ''sizeBytes'',
        LInt sizeBytes]
       (b_CreateVirtualDisk inner name parentDir sizeBytes)
       (\<lambda>(vhdxPath, actual). [LStr ''name'', LStr name, LStr ''vhdxPath'', LStr vhdxPath, LStr ''actualSizeBytes'',
        LInt actual]) ([], 0)"

definition log_MapDiskToTarget where
  "log_MapDiskToTarget inner targetName vhdxPath =
     logged ''MapDiskToTarget''
       [LStr ''targetName'', LStr targetName, LStr ''vhdxPath'', LStr vhdxPath]
       (b_MapDiskToTarget inner targetName vhdxPath)
       (\<lambda>lun. [LStr ''targetName'', LStr targetName, LStr ''vhdxPath'', LStr vhdxPath, LStr ''lun'',
        LInt lun]) 0"

definition log_UnmapDiskFromTarget where
  "log_UnmapDiskFromTarget inner targetName vhdxPath =
     logged ''UnmapDiskFromTarget''
       [LStr ''targetName'', LStr targetName, LStr ''vhdxPath'', LStr vhdxPath]
       (b_UnmapDiskFromTarget inner targetName vhdxPath)
       (\<lambda>_. [LStr ''targetName'', LStr targetName, LStr ''vhdxPath'', LStr vhdxPath]) ()"

definition log_DeleteVirtualDisk where
  "log_DeleteVirtualDisk inner vhdxPath =
     logged ''DeleteVirtualDisk''
       [LStr ''vhdxPath'', LStr vhdxPath]
       (b_DeleteVirtualDisk inner vhdxPath)
       (\<lambda>_. [LStr ''vhdxPath'', LStr vhdxPath]) ()"

definition log_LookupTargetNameByIQN where
  "log_LookupTargetNameByIQN inner targetIQN =
     logged ''LookupTargetNameByIQN''
       [LStr ''targetIQN'', LStr targetIQN]
       (b_LookupTargetNameByIQN inner targetIQN)
       (\<lambda>targetName. [LStr ''targetIQN'', LStr targetIQN, LStr ''targetName'', LStr targetName]) []"

definition log_DeleteTarget where
  "log_DeleteTarget inner targetName =
     logged ''DeleteTarget''
       [LStr ''targetName'', LStr targetName]
       (b_DeleteTarget inner targetName)
       (\<lambda>_. [LStr ''targetName'', LStr targetName]) ()"

definition log_GetVolumeByName where
  "log_GetVolumeByName inner name parentDir =
     logged ''GetVolumeByName''
       [LStr ''name'', LStr name, LStr ''parentDir'', LStr parentDir]
       (b_GetVolumeByName inner name parentDir)
       (\<lambda>e. [LStr ''name'', LStr name, LStr ''exists'', LBool (vbn_exists e), LStr ''vhdxPath'',
        LStr (vbn_vhdxPath e), LStr ''sizeBytes'', LInt (vbn_sizeBytes e), LStr ''targetName'',
        LStr (vbn_targetName e), LStr ''targetIQN'', LStr (vbn_targetIQN e), LStr ''lun'',
        LInt (vbn_lun e)]) zeroVolumeByName"

definition log_AllowInitiator where
  "log_AllowInitiator inner targetName initiatorIQN =
     logged ''AllowInitiator''
       [LStr ''targetName'', LStr targetName, LStr ''initiatorIQN'', LStr initiatorIQN]
       (b_AllowInitiator inner targetName initiatorIQN)
       (\<lambda>_. [LStr ''targetName'', LStr targetName, LStr ''initiatorIQN'', LStr initiatorIQN]) ()"

definition log_DenyInitiator where
  "log_DenyInitiator inner targetName initiatorIQN =
     logged ''DenyInitiator''
       [LStr ''targetName'', LStr targetName, LStr ''initiatorIQN'', LStr initiatorIQN]
       (b_DenyInitiator inner targetName initiatorIQN)
       (\<lambda>_. [LStr ''targetName'', LStr targetName, LStr ''initiatorIQN'', LStr initiatorIQN]) ()"

definition log_GetDirectoryFreeCapacity where
  "log_GetDirectoryFreeCapacity inner parentDir =
     logged ''GetDirectoryFreeCapacity''
       [LStr ''parentDir'', LStr parentDir]
       (b_GetDirectoryFreeCapacity inner parentDir)
       (\<lambda>freeBytes. [LStr ''parentDir'', LStr parentDir, LStr ''freeBytes'', LInt freeBytes]) 0"

definition log_CreateSnapshot where
  "log_CreateSnapshot inner vhdxPath description =
     logged ''CreateSnapshot''
       [LStr ''vhdxPath'', LStr vhdxPath, LStr ''description'', LStr description]
       (b_CreateSnapshot inner vhdxPath description)
       (\<lambda>s. [LStr ''vhdxPath'', LStr vhdxPath, LStr ''snapshotID'', LStr (si_SnapshotID s),
        LStr ''sizeBytes'', LInt (si_SizeBytes s)]) zeroSnapshotInfo"

definition log_DeleteSnapshot where
  "log_DeleteSnapshot inner snapshotID =
     logged ''DeleteSnapshot''
       [LStr ''snapshotID'', LStr snapshotID]
       (b_DeleteSnapshot inner snapshotID)
       (\<lambda>_. [LStr ''snapshotID'', LStr snapshotID]) ()"

definition log_ListSnapshots where
  "log_ListSnapshots inner vhdxPath =
     logged ''ListSnapshots''
       [LStr ''vhdxPath'', LStr vhdxPath]
       (b_ListSnapshots inner vhdxPath)
       (\<lambda>snapshots. [LStr ''vhdxPath'', LStr vhdxPath, LStr ''count'', LInt (int (length snapshots))]) []"

definition log_ExportSnapshotAsVirtualDisk where
  "log_ExportSnapshotAsVirtualDisk inner snapshotID =
     logged ''ExportSnapshotAsVirtualDisk''
       [LStr ''snapshotID'', LStr snapshotID]
       (b_ExportSnapshotAsVirtualDisk inner snapshotID)
       (\<lambda>vhdxPath. [LStr ''snapshotID'', LStr snapshotID, LStr ''vhdxPath'', LStr vhdxPath]) []"

definition log_ResizeVirtualDisk where
  "log_ResizeVirtualDisk inner vhdxPath newSizeBytes =
     logged ''ResizeVirtualDisk''
       [LStr ''vhdxPath'', LStr vhdxPath, LStr ''newSizeBytes'', LInt newSizeBytes]
       (b_ResizeVirtualDisk inner vhdxPath newSizeBytes)
       (\<lambda>actual. [LStr ''vhdxPath'', LStr vhdxPath, LStr ''actualSizeBytes'', LInt actual]) 0"

definition log_GetVolumeInfo where
  "log_GetVolumeInfo inner vhdxPath =
     logged ''GetVolumeInfo''
       [LStr ''vhdxPath'', LStr vhdxPath]
       (b_GetVolumeInfo inner vhdxPath)
       (\<lambda>info. [LStr ''vhdxPath'', LStr vhdxPath, LStr ''sizeBytes'', LInt (vi_SizeBytes info),
        LStr ''targetName'', LStr (vi_TargetName info), LStr ''targetIQN'',
        LStr (vi_TargetIQN info)]) zeroVolumeInfo"

definition log_GetTargetInitiators where
  "log_GetTargetInitiators inner targetName =
     logged ''GetTargetInitiators''
       [LStr ''targetName'', LStr targetName]
       (b_GetTargetInitiators inner targetName)
       (\<lambda>initiators. [LStr ''targetName'', LStr targetName, LStr ''initiators'', LStrs initiators]) []"

definition log_CreateNfsShare where
  "log_CreateNfsShare inner name parentDir sizeBytes clients opts =
     logged ''CreateNfsShare''
       [LStr ''name'', LStr name, LStr ''parentDir'', LStr parentDir, LStr ''sizeBytes'',
        LInt sizeBytes, LStr ''clients'', LStrs clients]
       (b_CreateNfsShare inner name parentDir sizeBytes clients opts)
       (\<lambda>info. [LStr ''name'', LStr name, LStr ''server'', LStr (vi_NfsServer info), LStr ''exportPath'',
        LStr (vi_NfsExportPath info), LStr ''sharePath'', LStr (vi_SharePath info),
        LStr ''capacityBytes'', LInt (vi_CapacityBytes info)]) zeroVolumeInfo"

definition log_GetNfsShare where
  "log_GetNfsShare inner name parentDir =
     logged ''GetNfsShare''
       [LStr ''name'', LStr name, LStr ''parentDir'', LStr parentDir]
       (b_GetNfsShare inner name parentDir)
       (\<lambda>(exists, info). [LStr ''name'', LStr name, LStr ''exists'', LBool exists, LStr ''server'',
        LStr (vi_NfsServer info), LStr ''exportPath'', LStr (vi_NfsExportPath info),
        LStr ''sharePath'', LStr (vi_SharePath info)]) (False, zeroVolumeInfo)"

definition log_DeleteNfsShare where
  "log_DeleteNfsShare inner name path =
     logged ''DeleteNfsShare''
       [LStr ''name'', LStr name, LStr ''path'', LStr path]
       (b_DeleteNfsShare inner name path)
       (\<lambda>_. [LStr ''name'', LStr name, LStr ''path'', LStr path]) ()"

definition log_CreateSmbShare where
  "log_CreateSmbShare inner name parentDir sizeBytes fullAccess changeAccess readAccess opts =
     logged ''CreateSmbShare''
       [LStr ''name'', LStr name, LStr ''parentDir'', LStr parentDir, LStr ''sizeBytes'',
        LInt sizeBytes, LStr ''fullAccess'', LStrs fullAccess, LStr ''changeAccess'',
        LStrs changeAccess, LStr ''readAccess'', LStrs readAccess]
       (b_CreateSmbShare inner name parentDir sizeBytes fullAccess changeAccess readAccess opts)
       (\<lambda>info. [LStr ''name'', LStr name, LStr ''server'', LStr (vi_SmbServer info), LStr ''share'',
        LStr (vi_SmbShareName info), LStr ''sharePath'', LStr (vi_SharePath info),
        LStr ''capacityBytes'', LInt (vi_CapacityBytes info)]) zeroVolumeInfo"

definition log_GetSmbShare where
  "log_GetSmbShare inner name parentDir =
     logged ''GetSmbShare''
       [LStr ''name'', LStr name, LStr ''parentDir'', LStr parentDir]
       (b_GetSmbShare inner name parentDir)
       (\<lambda>(exists, info). [LStr ''name'', LStr name, LStr ''exists'', LBool exists, LStr ''server'',
        LStr (vi_SmbServer info), LStr ''share'', LStr (vi_SmbShareName info), LStr ''sharePath'',
        LStr (vi_SharePath info)]) (False, zeroVolumeInfo)"

definition log_DeleteSmbShare where
  "log_DeleteSmbShare inner name path =
     logged ''DeleteSmbShare''
       [LStr ''name'', LStr name, LStr ''path'', LStr path]
       (b_DeleteSmbShare inner name path)
       (\<lambda>_. [LStr ''name'', LStr name, LStr ''path'', LStr path]) ()"

definition log_ResizeFileShare where
  "log_ResizeFileShare inner path newSizeBytes =
     logged ''ResizeFileShare''
       [LStr ''path'', LStr path, LStr ''newSizeBytes'', LInt newSizeBytes]
       (b_ResizeFileShare inner path newSizeBytes)
       (\<lambda>actual. [LStr ''path'', LStr path, LStr ''actualSizeBytes'', LInt actual]) 0"

definition log_RestoreSnapshotAsFileShare where
  "log_RestoreSnapshotAsFileShare inner snapshotID destinationPath =
     logged ''RestoreSnapshotAsFileShare''
       [LStr ''snapshotID'', LStr snapshotID, LStr ''destinationPath'', LStr destinationPath]
       (b_RestoreSnapshotAsFileShare inner snapshotID destinationPath)
       (\<lambda>_. [LStr ''snapshotID'', LStr snapshotID, LStr ''destinationPath'', LStr destinationPath]) ()"

definition log_MountFileShareVirtualDisk where
  "log_MountFileShareVirtualDisk inner vhdxPath mountPath =
     logged ''MountFileShareVirtualDisk''
       [LStr ''vhdxPath'', LStr vhdxPath, LStr ''mountPath'', LStr mountPath]
       (b_MountFileShareVirtualDisk inner vhdxPath mountPath)
       (\<lambda>_. [LStr ''vhdxPath'', LStr vhdxPath, LStr ''mountPath'', LStr mountPath]) ()"

definition log_UnmountFileShareVirtualDisk where
  "log_UnmountFileShareVirtualDisk inner vhdxPath mountPath =
     logged ''UnmountFileShareVirtualDisk''
       [LStr ''vhdxPath'', LStr vhdxPath, LStr ''mountPath'', LStr mountPath]
       (b_UnmountFileShareVirtualDisk inner vhdxPath mountPath)
       (\<lambda>_. [LStr ''vhdxPath'', LStr vhdxPath, LStr ''mountPath'', LStr mountPath]) ()"

definition loggingBackend :: "'w Backend \<Rightarrow> ('w \<times> log_entry list) Backend" where
  "loggingBackend inner =
     \<lparr>b_EnsureTarget = log_EnsureTarget inner,
      b_ConfigureTargetChap = log_ConfigureTargetChap inner,
      b_CreateVirtualDisk = log_CreateVirtualDisk inner,
      b_MapDiskToTarget = log_MapDiskToTarget inner,
      b_UnmapDiskFromTarget = log_UnmapDiskFromTarget inner,
      b_DeleteVirtualDisk = log_DeleteVirtualDisk inner,
      b_LookupTargetNameByIQN = log_LookupTargetNameByIQN inner,
      b_DeleteTarget = log_DeleteTarget inner,
      b_GetVolumeByName = log_GetVolumeByName inner,
      b_AllowInitiator = log_AllowInitiator inner,
      b_DenyInitiator = log_DenyInitiator inner,
      b_GetDirectoryFreeCapacity = log_GetDirectoryFreeCapacity inner,
      b_CreateSnapshot = log_CreateSnapshot inner,
      b_DeleteSnapshot = log_DeleteSnapshot inner,
      b_ListSnapshots = log_ListSnapshots inner,
      b_ExportSnapshotAsVirtualDisk = log_ExportSnapshotAsVirtualDisk inner,
      b_ResizeVirtualDisk = log_ResizeVirtualDisk inner,
      b_GetVolumeInfo = log_GetVolumeInfo inner,
      b_GetTargetInitiators = log_GetTargetInitiators inner,
      b_CreateNfsShare = log_CreateNfsShare inner,
      b_GetNfsShare = log_GetNfsShare inner,
      b_DeleteNfsShare = log_DeleteNfsShare inner,
      b_CreateSmbShare = log_CreateSmbShare inner,
      b_GetSmbShare = log_GetSmbShare inner,
      b_DeleteSmbShare = log_DeleteSmbShare inner,
      b_ResizeFileShare = log_ResizeFileShare inner,
      b_RestoreSnapshotAsFileShare = log_RestoreSnapshotAsFileShare inner,
      b_MountFileShareVirtualDisk = log_MountFileShareVirtualDisk inner,
      b_UnmountFileShareVirtualDisk = log_UnmountFileShareVirtualDisk inner\<rparr>"

definition wrapBackendForDebug :: "'w Backend option \<Rightarrow> ('w \<times> log_entry list) Backend option" where
  "wrapBackendForDebug inner = (case inner of None \<Rightarrow> None | Some b \<Rightarrow> Some (loggingBackend b))"

lemmas log_defs =
  log_EnsureTarget_def
  log_ConfigureTargetChap_def
  log_CreateVirtualDisk_def
  log_MapDiskToTarget_def
  log_UnmapDiskFromTarget_def
  log_DeleteVirtualDisk_def
  log_LookupTargetNameByIQN_def
  log_DeleteTarget_def
  log_GetVolumeByName_def
  log_AllowInitiator_def
  log_DenyInitiator_def
  log_GetDirectoryFreeCapacity_def
  log_CreateSnapshot_def
  log_DeleteSnapshot_def
  log_ListSnapshots_def
  log_ExportSnapshotAsVirtualDisk_def
  log_ResizeVirtualDisk_def
  log_GetVolumeInfo_def
  log_GetTargetInitiators_def
  log_CreateNfsShare_def
  log_GetNfsShare_def
  log_DeleteNfsShare_def
  log_CreateSmbShare_def
  log_GetSmbShare_def
  log_DeleteSmbShare_def
  log_ResizeFileShare_def
  log_RestoreSnapshotAsFileShare_def
  log_MountFileShareVirtualDisk_def
  log_UnmountFileShareVirtualDisk_def

subsection \<open>Lemmas\<close>

lemma sim_logged: "sim fst (logged act start m done' zero) m"
  by (auto simp: sim_def logged_def split: prod.splits)

text \<open>
  Logs in which every start is followed at once by the outcome of the same action, and in
  which no field with a sensitive key carries a value.
\<close>

fun paired :: "log_entry list \<Rightarrow> bool" where
  "paired [] = True"
| "paired (ActionStart a _ # e # rest) = (action e = a \<and> (case e of ActionStart _ _ \<Rightarrow> False | _ \<Rightarrow> True) \<and> paired rest)"
| "paired _ = False"

definition redacted :: "log_entry \<Rightarrow> bool" where
  "redacted e \<longleftrightarrow> list_all (\<lambda>(k, v). isSensitiveLogKey k \<longrightarrow> v = Redacted \<or> v = Missing) (fields e)"

definition log_ok :: "'w \<times> log_entry list \<Rightarrow> bool" where
  "log_ok wl \<longleftrightarrow> paired (snd wl) \<and> list_all redacted (snd wl)"

lemma paired_append:
  "paired l \<Longrightarrow> action e = a \<Longrightarrow> (case e of ActionStart _ _ \<Rightarrow> False | _ \<Rightarrow> True) \<Longrightarrow> paired (l @ [ActionStart a fs, e])"
  by (induction l rule: paired.induct) auto

lemma safeLogKV_redacted: "list_all (\<lambda>(k, v). isSensitiveLogKey k \<longrightarrow> v = Redacted \<or> v = Missing) (safeLogKV fs)"
  by (induction fs rule: safeLogKV.induct) auto

lemma keeps_logged: "keeps log_ok (logged act start m done' zero)"
  unfolding keeps_def log_ok_def logged_def debugActionStart_def debugActionDone_def
  using safeLogKV_redacted
  by (auto simp: redacted_def intro!: paired_append split: prod.splits sum.splits)

subsection \<open>The wrapper meets both contracts\<close>

interpretation log: backend_simulation fst "loggingBackend inner" inner for inner
  by unfold_locales (simp_all add: loggingBackend_def log_defs sim_logged)

interpretation safe: backend_invariant log_ok "loggingBackend inner" for inner
  by unfold_locales (simp_all add: loggingBackend_def log_defs keeps_logged)

end
