(* ===== verification/ControllerRefinement.thy ===== *)
theory ControllerRefinement
  imports Controller LoggingBackend
begin

text \<open>
  What the controller's handlers inherit from the backend's contract: if every backend method
  is simulated, so is every handler; if every backend method keeps an invariant of the
  world, so does every handler.  Proved once in the two interfaces and instantiated for the
  debug wrapper.
\<close>

lemma sim_case_content_source [sim_intro]:
  "(\<And>s. sim f (g s) (g' s)) \<Longrightarrow> (\<And>s. sim f (h s) (h' s)) \<Longrightarrow> sim f (case_content_source g h c) (case_content_source g' h' c)"
  by (cases c) auto

lemma keeps_case_content_source [keeps_intro]:
  "(\<And>s. keeps P (g s)) \<Longrightarrow> (\<And>s. keeps P (h s)) \<Longrightarrow> keeps P (case_content_source g h c)"
  by (cases c) auto

subsection \<open>Sequences of requests\<close>

text \<open>One request of the controller service, whatever its arguments and its result.\<close>

inductive rpcStep :: "'d driver \<Rightarrow> 'w Backend \<Rightarrow> 'w \<Rightarrow> 'w \<Rightarrow> bool" for d :: "'d driver" and B :: "'w Backend" where
  CreateVolume: "CreateVolume d B req w = (r, w') \<Longrightarrow> rpcStep d B w w'"
| DeleteVolume: "DeleteVolume B vid w = (r, w') \<Longrightarrow> rpcStep d B w w'"
| ControllerPublishVolume: "ControllerPublishVolume d B preq w = (r, w') \<Longrightarrow> rpcStep d B w w'"
| ControllerUnpublishVolume: "ControllerUnpublishVolume B vid node w = (r, w') \<Longrightarrow> rpcStep d B w w'"
| GetCapacity: "GetCapacity d B params w = (r, w') \<Longrightarrow> rpcStep d B w w'"
| CreateSnapshot: "CreateSnapshot B vid name w = (r, w') \<Longrightarrow> rpcStep d B w w'"
| DeleteSnapshot: "DeleteSnapshot B sid w = (r, w') \<Longrightarrow> rpcStep d B w w'"
| ListSnapshots: "ListSnapshots d B sid vid w = (r, w') \<Longrightarrow> rpcStep d B w w'"
| ControllerExpandVolume: "ControllerExpandVolume B vid crange w = (r, w') \<Longrightarrow> rpcStep d B w w'"
| ControllerGetVolume: "ControllerGetVolume B vid w = (r, w') \<Longrightarrow> rpcStep d B w w'"

subsection \<open>Handlers are simulated\<close>

context backend_simulation
begin

lemma sim_ensureTargetFor [sim_intro]:
  "(\<And>iqn. sim f (k iqn) (l iqn)) \<Longrightarrow> sim f (ensureTargetFor B fmt t r k) (ensureTargetFor C fmt t r l)"
  unfolding ensureTargetFor_def by (intro sim_intro)

lemma sim_obtainVHDX [sim_intro]:
  "(\<And>p. sim f (k p) (l p)) \<Longrightarrow> sim f (obtainVHDX B req dir sz e k) (obtainVHDX C req dir sz e l)"
  unfolding obtainVHDX_def by (intro sim_intro)

lemma sim_remountExisting [sim_intro]:
  "(\<And>p. sim f (k p) (l p)) \<Longrightarrow> sim f (remountExisting B fmt n dir path e info k) (remountExisting C fmt n dir path e info l)"
  unfolding remountExisting_def Let_def by (intro sim_intro)

lemma sim_deleteFileShare [sim_intro]:
  "(\<And>p. sim f (k p) (l p)) \<Longrightarrow> sim f (deleteFileShare B v k) (deleteFileShare C v l)"
  unfolding deleteFileShare_def Let_def by (intro sim_intro)

lemma sim_configureTargetChapFromSecrets [sim_intro]: "sim f (configureTargetChapFromSecrets B t s) (configureTargetChapFromSecrets C t s)"
  unfolding configureTargetChapFromSecrets_def Let_def by (intro sim_intro)

lemma sim_deleteTargetNameForVolume [sim_intro]: "sim f (deleteTargetNameForVolume B i) (deleteTargetNameForVolume C i)"
  unfolding deleteTargetNameForVolume_def Let_def by (intro sim_intro)

lemma sim_createIscsiFromSnapshot [sim_intro]: "sim f (createIscsiFromSnapshot B req plan sid) (createIscsiFromSnapshot C req plan sid)"
  unfolding createIscsiFromSnapshot_def Let_def by (intro sim_intro)

lemma sim_createIscsiExisting [sim_intro]: "sim f (createIscsiExisting B req plan e) (createIscsiExisting C req plan e)"
  unfolding createIscsiExisting_def Let_def by (intro sim_intro)

lemma sim_createIscsiNew [sim_intro]: "sim f (createIscsiNew B req plan) (createIscsiNew C req plan)"
  unfolding createIscsiNew_def Let_def by (intro sim_intro)

lemma sim_createIscsiVolume [sim_intro]: "sim f (createIscsiVolume B req) (createIscsiVolume C req)"
  unfolding createIscsiVolume_def Let_def by (intro sim_intro)

lemma sim_createVHDXBackedNfsVolume [sim_intro]: "sim f (createVHDXBackedNfsVolume B req name dir srv sz opts) (createVHDXBackedNfsVolume C req name dir srv sz opts)"
  unfolding createVHDXBackedNfsVolume_def Let_def by (intro sim_intro)

lemma sim_createNfsVolume [sim_intro]: "sim f (createNfsVolume d B req) (createNfsVolume d C req)"
  unfolding createNfsVolume_def Let_def by (intro sim_intro)

lemma sim_createVHDXBackedSmbVolume [sim_intro]: "sim f (createVHDXBackedSmbVolume B req name dir srv sz opts) (createVHDXBackedSmbVolume C req name dir srv sz opts)"
  unfolding createVHDXBackedSmbVolume_def Let_def by (intro sim_intro)

lemma sim_createSmbVolume [sim_intro]: "sim f (createSmbVolume d B req) (createSmbVolume d C req)"
  unfolding createSmbVolume_def Let_def by (intro sim_intro)

lemma sim_CreateVolume [sim_intro]: "sim f (CreateVolume d B req) (CreateVolume d C req)"
  unfolding CreateVolume_def Let_def by (intro sim_intro)

lemma sim_deleteIscsiVolume [sim_intro]: "sim f (deleteIscsiVolume B i) (deleteIscsiVolume C i)"
  unfolding deleteIscsiVolume_def Let_def by (intro sim_intro)

lemma sim_DeleteVolume [sim_intro]: "sim f (DeleteVolume B vid) (DeleteVolume C vid)"
  unfolding DeleteVolume_def Let_def by (intro sim_intro)

lemma sim_ControllerPublishVolume [sim_intro]: "sim f (ControllerPublishVolume d B req) (ControllerPublishVolume d C req)"
  unfolding ControllerPublishVolume_def Let_def by (intro sim_intro)

lemma sim_ControllerUnpublishVolume [sim_intro]: "sim f (ControllerUnpublishVolume B vid node) (ControllerUnpublishVolume C vid node)"
  unfolding ControllerUnpublishVolume_def Let_def by (intro sim_intro)

lemma sim_GetCapacity [sim_intro]: "sim f (GetCapacity d B params) (GetCapacity d C params)"
  unfolding GetCapacity_def Let_def by (intro sim_intro)

lemma sim_rpc_CreateSnapshot [sim_intro]: "sim f (CreateSnapshot B vid name) (CreateSnapshot C vid name)"
  unfolding CreateSnapshot_def Let_def by (intro sim_intro)

lemma sim_rpc_DeleteSnapshot [sim_intro]: "sim f (DeleteSnapshot B sid) (DeleteSnapshot C sid)"
  unfolding DeleteSnapshot_def Let_def by (intro sim_intro)

lemma sim_rpc_ListSnapshots [sim_intro]: "sim f (ListSnapshots d B sid vid) (ListSnapshots d C sid vid)"
  unfolding ListSnapshots_def Let_def by (intro sim_intro)

lemma sim_ControllerExpandVolume [sim_intro]: "sim f (ControllerExpandVolume B vid r) (ControllerExpandVolume C vid r)"
  unfolding ControllerExpandVolume_def Let_def by (intro sim_intro)

lemma sim_ControllerGetVolume [sim_intro]: "sim f (ControllerGetVolume B vid) (ControllerGetVolume C vid)"
  unfolding ControllerGetVolume_def Let_def by (intro sim_intro)

end

subsection \<open>Handlers keep the backend's invariants\<close>

context backend_invariant
begin

lemma keeps_ensureTargetFor [keeps_intro]:
  "(\<And>iqn. keeps P (k iqn)) \<Longrightarrow> keeps P (ensureTargetFor B fmt t r k)"
  unfolding ensureTargetFor_def by (intro keeps_intro)

lemma keeps_obtainVHDX [keeps_intro]:
  "(\<And>p. keeps P (k p)) \<Longrightarrow> keeps P (obtainVHDX B req dir sz e k)"
  unfolding obtainVHDX_def by (intro keeps_intro)

lemma keeps_remountExisting [keeps_intro]:
  "(\<And>p. keeps P (k p)) \<Longrightarrow> keeps P (remountExisting B fmt n dir path e info k)"
  unfolding remountExisting_def Let_def by (intro keeps_intro)

lemma keeps_deleteFileShare [keeps_intro]:
  "(\<And>p. keeps P (k p)) \<Longrightarrow> keeps P (deleteFileShare B v k)"
  unfolding deleteFileShare_def Let_def by (intro keeps_intro)

lemma keeps_configureTargetChapFromSecrets [keeps_intro]: "keeps P (configureTargetChapFromSecrets B t s)"
  unfolding configureTargetChapFromSecrets_def Let_def by (intro keeps_intro)

lemma keeps_deleteTargetNameForVolume [keeps_intro]: "keeps P (deleteTargetNameForVolume B i)"
  unfolding deleteTargetNameForVolume_def Let_def by (intro keeps_intro)

lemma keeps_createIscsiFromSnapshot [keeps_intro]: "keeps P (createIscsiFromSnapshot B req plan sid)"
  unfolding createIscsiFromSnapshot_def Let_def by (intro keeps_intro)

lemma keeps_createIscsiExisting [keeps_intro]: "keeps P (createIscsiExisting B req plan e)"
  unfolding createIscsiExisting_def Let_def by (intro keeps_intro)

lemma keeps_createIscsiNew [keeps_intro]: "keeps P (createIscsiNew B req plan)"
  unfolding createIscsiNew_def Let_def by (intro keeps_intro)

lemma keeps_createIscsiVolume [keeps_intro]: "keeps P (createIscsiVolume B req)"
  unfolding createIscsiVolume_def Let_def by (intro keeps_intro)

lemma keeps_createVHDXBackedNfsVolume [keeps_intro]: "keeps P (createVHDXBackedNfsVolume B req name dir srv sz opts)"
  unfolding createVHDXBackedNfsVolume_def Let_def by (intro keeps_intro)

lemma keeps_createNfsVolume [keeps_intro]: "keeps P (createNfsVolume d B req)"
  unfolding createNfsVolume_def Let_def by (intro keeps_intro)

lemma keeps_createVHDXBackedSmbVolume [keeps_intro]: "keeps P (createVHDXBackedSmbVolume B req name dir srv sz opts)"
  unfolding createVHDXBackedSmbVolume_def Let_def by (intro keeps_intro)

lemma keeps_createSmbVolume [keeps_intro]: "keeps P (createSmbVolume d B req)"
  unfolding createSmbVolume_def Let_def by (intro keeps_intro)

lemma keeps_CreateVolume [keeps_intro]: "keeps P (CreateVolume d B req)"
  unfolding CreateVolume_def Let_def by (intro keeps_intro)

lemma keeps_deleteIscsiVolume [keeps_intro]: "keeps P (deleteIscsiVolume B i)"
  unfolding deleteIscsiVolume_def Let_def by (intro keeps_intro)

lemma keeps_DeleteVolume [keeps_intro]: "keeps P (DeleteVolume B vid)"
  unfolding DeleteVolume_def Let_def by (intro keeps_intro)

lemma keeps_ControllerPublishVolume [keeps_intro]: "keeps P (ControllerPublishVolume d B req)"
  unfolding ControllerPublishVolume_def Let_def by (intro keeps_intro)

lemma keeps_ControllerUnpublishVolume [keeps_intro]: "keeps P (ControllerUnpublishVolume B vid node)"
  unfolding ControllerUnpublishVolume_def Let_def by (intro keeps_intro)

lemma keeps_GetCapacity [keeps_intro]: "keeps P (GetCapacity d B params)"
  unfolding GetCapacity_def Let_def by (intro keeps_intro)

lemma keeps_rpc_CreateSnapshot [keeps_intro]: "keeps P (CreateSnapshot B vid name)"
  unfolding CreateSnapshot_def Let_def by (intro keeps_intro)

lemma keeps_rpc_DeleteSnapshot [keeps_intro]: "keeps P (DeleteSnapshot B sid)"
  unfolding DeleteSnapshot_def Let_def by (intro keeps_intro)

lemma keeps_rpc_ListSnapshots [keeps_intro]: "keeps P (ListSnapshots d B sid vid)"
  unfolding ListSnapshots_def Let_def by (intro keeps_intro)

lemma keeps_ControllerExpandVolume [keeps_intro]: "keeps P (ControllerExpandVolume B vid r)"
  unfolding ControllerExpandVolume_def Let_def by (intro keeps_intro)

lemma keeps_ControllerGetVolume [keeps_intro]: "keeps P (ControllerGetVolume B vid)"
  unfolding ControllerGetVolume_def Let_def by (intro keeps_intro)

text \<open>The invariant holds after any sequence of requests.\<close>

lemmas handlers = keeps_CreateVolume keeps_DeleteVolume keeps_ControllerPublishVolume
  keeps_ControllerUnpublishVolume keeps_GetCapacity keeps_rpc_CreateSnapshot keeps_rpc_DeleteSnapshot
  keeps_rpc_ListSnapshots keeps_ControllerExpandVolume keeps_ControllerGetVolume

lemma rpcStep_keeps: "rpcStep d B w w' \<Longrightarrow> P w \<Longrightarrow> P w'"
  by (induction rule: rpcStep.induct) (erule (1) handlers [THEN keepsD, rotated])+

lemma rpcs_keep: "(rpcStep d B)\<^sup>*\<^sup>* w w' \<Longrightarrow> P w \<Longrightarrow> P w'"
  by (induction rule: rtranclp_induct) (auto intro: rpcStep_keeps)

end

end
