(* ===== verification/ControllerProofs.thy ===== *)
theory ControllerProofs
  imports ControllerRefinement
begin

text \<open>
  The properties of the controller service: what a successful call returns, which backend
  calls are made in which order, what failed calls leave behind, and that the debug wrapper
  changes none of it.
\<close>

declare EncodeVolumeID.simps(2) [simp del]

subsection \<open>Inversion of CreateVolume\<close>

lemma CreateVolume_ok:
  assumes "CreateVolume d b req w = (Inr vol, w')"
  obtains protocol where "protocolFromParams (Some d) (cvr_Parameters req) = Inr protocol"
    "list_all (\<lambda>vc. supportsAccessModeForProtocol (Some d) vc protocol) (cvr_VolumeCapabilities req)"
    "cvr_Name req \<noteq> []" "cvr_VolumeCapabilities req \<noteq> []" "\<And>s. cvr_VolumeContentSource req \<noteq> Some (FromOther s)"
    "(if protocol = ProtocolNFS then createNfsVolume d b req else if protocol = ProtocolSMB then createSmbVolume d b req
      else createIscsiVolume b req) w = (Inr vol, w')"
proof -
  have n: "cvr_Name req \<noteq> []" "cvr_VolumeCapabilities req \<noteq> []"
    using assms unfolding CreateVolume_def by (auto split: if_splits)
  obtain protocol where p: "protocolFromParams (Some d) (cvr_Parameters req) = Inr protocol"
    using assms n unfolding CreateVolume_def by (auto simp: ok_iff)
  have a: "list_all (\<lambda>vc. supportsAccessModeForProtocol (Some d) vc protocol) (cvr_VolumeCapabilities req)"
    using assms n p unfolding CreateVolume_def by (auto simp: list_all_iff list_ex_iff split: if_splits)
  have s: "cvr_VolumeContentSource req \<noteq> Some (FromOther s)" for s
    using assms n p unfolding CreateVolume_def by (auto split: if_splits)
  have "(if protocol = ProtocolNFS then createNfsVolume d b req else if protocol = ProtocolSMB then createSmbVolume d b req
      else createIscsiVolume b req) w = (Inr vol, w')"
    using assms n p unfolding CreateVolume_def by (simp split: if_splits)
  then show thesis using that p a n s by blast
qed

lemma ensureTargetFor_ok:
  "ensureTargetFor b fmt t r k w = (Inr y, w') \<longleftrightarrow>
     (\<exists>iqn w1. b_EnsureTarget b t r w = (Inr iqn, w1) \<and> iqn \<noteq> [] \<and> k iqn w1 = (Inr y, w'))"
  by (auto simp: ensureTargetFor_def ok_iff)

text \<open>
  The three ways to an iSCSI volume end in the same handle and the same three entries of the
  volume context.
\<close>

definition describes :: "CreateVolumeRequest \<Rightarrow> iscsiPlan \<Rightarrow> Volume \<Rightarrow> volID \<Rightarrow> bool" where
  "describes req plan vol i \<longleftrightarrow> vol_VolumeId vol = encodeVolID i \<and> id_VolumeName i = cvr_Name req \<and>
     id_TargetPortal i = ip_portal plan \<and> id_TargetIQN i \<noteq> [] \<and> id_SizeBytes i = vol_CapacityBytes vol \<and>
     vol_VolumeContext vol ''iqn'' = Some (id_TargetIQN i) \<and> vol_VolumeContext vol ''lun'' = Some (Itoa (id_LUN i)) \<and>
     vol_VolumeContext vol ''targetPortal'' = Some (id_TargetPortal i)"

lemma context_params:
  "k \<noteq> ''iface'' \<Longrightarrow> withIscsiVolumeContextParams ctx params k = ctx k"
  by (simp add: withIscsiVolumeContextParams_def split: option.split)

lemma iscsiVolume_describes:
  assumes "iqn \<noteq> []"
  shows "describes req plan (iscsiVolume req plan t iqn lun path sz)
    \<lparr>id_VolumeName = cvr_Name req, id_TargetPortal = ip_portal plan, id_TargetName = t, id_TargetIQN = iqn,
     id_LUN = lun, id_VHDXPath = path, id_SizeBytes = sz\<rparr>"
  using assms by (simp add: describes_def iscsiVolume_def context_params)

lemma createIscsiNew_ok:
  assumes "createIscsiNew b req plan w = (Inr vol, w')"
  shows "\<exists>i. describes req plan vol i \<and> id_TargetName i = ip_targetName plan"
  using assms iscsiVolume_describes [of _ req plan "ip_targetName plan"] unfolding createIscsiNew_def
  by (fastforce simp: ok_iff ensureTargetFor_ok split: prod.splits)

lemma createIscsiExisting_ok:
  assumes "createIscsiExisting b req plan e w = (Inr vol, w')"
  shows "\<exists>i. describes req plan vol i \<and> id_TargetName i = (if vbn_targetName e = [] then ip_targetName plan else vbn_targetName e)
    \<and> id_VHDXPath i = vbn_vhdxPath e \<and> vol_CapacityBytes vol = vbn_sizeBytes e
    \<and> (ip_size plan \<le> vbn_sizeBytes e \<or> ip_size plan \<le> 0 \<or> vbn_sizeBytes e \<le> 0)"
proof -
  let ?t = "if vbn_targetName e = [] then ip_targetName plan else vbn_targetName e"
  have small: "\<not> (ip_size plan > 0 \<and> vbn_sizeBytes e > 0 \<and> ip_size plan > vbn_sizeBytes e)"
    using assms unfolding createIscsiExisting_def by (auto split: if_splits)
  obtain iqn lun where "iqn \<noteq> []" "vol = iscsiVolume req plan ?t iqn lun (vbn_vhdxPath e) (vbn_sizeBytes e)"
    using assms small unfolding createIscsiExisting_def Let_def
    by (auto simp: ok_iff ensureTargetFor_ok split: if_splits)
  then show ?thesis
    using iscsiVolume_describes [of iqn req plan ?t lun "vbn_vhdxPath e" "vbn_sizeBytes e"] small
    by (intro exI [of _ "\<lparr>id_VolumeName = cvr_Name req, id_TargetPortal = ip_portal plan, id_TargetName = ?t,
        id_TargetIQN = iqn, id_LUN = lun, id_VHDXPath = vbn_vhdxPath e, id_SizeBytes = vbn_sizeBytes e\<rparr>"])
      (auto simp: iscsiVolume_def)
qed

lemma createIscsiFromSnapshot_ok:
  assumes "createIscsiFromSnapshot b req plan sid w = (Inr vol, w')"
  shows "\<exists>i. describes req plan vol i \<and> id_TargetName i = ip_targetName plan"
proof -
  let ?ctx = "\<lambda>iqn lun. withIscsiVolumeContextParams
      [''targetPortal'' \<mapsto> ip_portal plan, ''iqn'' \<mapsto> iqn, ''lun'' \<mapsto> Itoa lun, ''source'' \<mapsto> ''snapshot''] (cvr_Parameters req)"
  have "\<exists>iqn lun path sz. iqn \<noteq> [] \<and> vol = (iscsiVolume req plan (ip_targetName plan) iqn lun path sz)
      \<lparr>vol_VolumeContext := ?ctx iqn lun, vol_ContentSource := cvr_VolumeContentSource req\<rparr>"
    using assms unfolding createIscsiFromSnapshot_def Let_def
    by (cases "decodeSnapID sid"; clarsimp simp: ok_iff ensureTargetFor_ok)
      (intro exI conjI, assumption, rule refl)
  then obtain iqn lun path sz where v: "iqn \<noteq> []" "vol = (iscsiVolume req plan (ip_targetName plan) iqn lun path sz)
      \<lparr>vol_VolumeContext := ?ctx iqn lun, vol_ContentSource := cvr_VolumeContentSource req\<rparr>"
    by blast
  then show ?thesis
    by (intro exI [of _ "\<lparr>id_VolumeName = cvr_Name req, id_TargetPortal = ip_portal plan, id_TargetName = ip_targetName plan,
        id_TargetIQN = iqn, id_LUN = lun, id_VHDXPath = path, id_SizeBytes = sz\<rparr>"])
      (simp add: describes_def iscsiVolume_def context_params)
qed

lemma createIscsiVolume_ok:
  assumes "createIscsiVolume b req w = (Inr vol, w')"
  obtains plan i where "planIscsiVolume req = Inr plan" "describes req plan vol i"
proof -
  obtain plan where p: "planIscsiVolume req = Inr plan"
    using assms unfolding createIscsiVolume_def by (auto simp: ok_iff)
  have "\<exists>i. describes req plan vol i"
    using assms p unfolding createIscsiVolume_def
    by (auto simp: ok_iff split: option.splits content_source.splits if_splits
        dest!: createIscsiNew_ok createIscsiExisting_ok createIscsiFromSnapshot_ok)
  then show thesis using that p by blast
qed
subsection \<open>Properties: creation\<close>

text \<open>
  C3: the handle of an iSCSI volume that was created, found or restored names the volume and
  a target, carries the reported capacity, agrees with the volume context on target, portal
  and LUN, and decodes to exactly these values when they are valid UTF-8 and in range.
\<close>

theorem created_iscsi_volume:
  assumes "CreateVolume d b req w = (Inr vol, w')"
    and "protocolFromParams (Some d) (cvr_Parameters req) = Inr ProtocolISCSI"
  shows "\<exists>i. vol_VolumeId vol = encodeVolID i \<and> id_VolumeName i = cvr_Name req \<and> id_TargetIQN i \<noteq> [] \<and>
    id_SizeBytes i = vol_CapacityBytes vol \<and> vol_VolumeContext vol ''iqn'' = Some (id_TargetIQN i) \<and>
    vol_VolumeContext vol ''lun'' = Some (Itoa (id_LUN i)) \<and> vol_VolumeContext vol ''targetPortal'' = Some (id_TargetPortal i) \<and>
    (volID_ok i \<longrightarrow> (\<exists>v. decodeAnyVolumeID (vol_VolumeId vol) = Inr (v, i) \<and> vid_Protocol v = ProtocolISCSI))"
proof -
  have "createIscsiVolume b req w = (Inr vol, w')"
    using assms by (elim CreateVolume_ok) simp
  then obtain plan i where i: "describes req plan vol i" by (rule createIscsiVolume_ok)
  then show ?thesis using decodeAny_legacy [of i] unfolding describes_def by (intro exI [of _ i]) auto
qed

text \<open>A backend that has no volume and answers every call, for the concrete instances below.\<close>

definition demoBackend :: "'w Backend" where
  "demoBackend =
     \<lparr>b_EnsureTarget = (\<lambda>n i. return (''iqn.1991-05.com.microsoft:wss'')), b_ConfigureTargetChap = (\<lambda>t o'. return ()),
      b_CreateVirtualDisk = (\<lambda>n p s. return (''D:v.vhdx'', s)), b_MapDiskToTarget = (\<lambda>t p. return 0),
      b_UnmapDiskFromTarget = (\<lambda>t p. return ()), b_DeleteVirtualDisk = (\<lambda>p. return ()),
      b_LookupTargetNameByIQN = (\<lambda>i. return i), b_DeleteTarget = (\<lambda>t. return ()),
      b_GetVolumeByName = (\<lambda>n p. return zeroVolumeByName), b_AllowInitiator = (\<lambda>t i. return ()),
      b_DenyInitiator = (\<lambda>t i. return ()), b_GetDirectoryFreeCapacity = (\<lambda>p. return 100),
      b_CreateSnapshot = (\<lambda>p s. return zeroSnapshotInfo), b_DeleteSnapshot = (\<lambda>s. return ()),
      b_ListSnapshots = (\<lambda>p. return []), b_ExportSnapshotAsVirtualDisk = (\<lambda>s. return ''D:e.vhdx''),
      b_ResizeVirtualDisk = (\<lambda>p n. return n), b_GetVolumeInfo = (\<lambda>p. return zeroVolumeInfo),
      b_GetTargetInitiators = (\<lambda>t. return []), b_CreateNfsShare = (\<lambda>n p s c o'. return zeroVolumeInfo),
      b_GetNfsShare = (\<lambda>n p. return (False, zeroVolumeInfo)), b_DeleteNfsShare = (\<lambda>n p. return ()),
      b_CreateSmbShare = (\<lambda>n p s f c r o'. return zeroVolumeInfo), b_GetSmbShare = (\<lambda>n p. return (False, zeroVolumeInfo)),
      b_DeleteSmbShare = (\<lambda>n p. return ()), b_ResizeFileShare = (\<lambda>p n. return n),
      b_RestoreSnapshotAsFileShare = (\<lambda>s p. return ()), b_MountFileShareVirtualDisk = (\<lambda>v p. return ()),
      b_UnmountFileShareVirtualDisk = (\<lambda>v p. return ())\<rparr>"

definition demoRequest :: CreateVolumeRequest where
  "demoRequest = \<lparr>cvr_Name = ''pvc-1'', cvr_CapacityRange = None, cvr_VolumeCapabilities = [SINGLE_NODE_WRITER],
     cvr_Parameters = [''targetPortal'' \<mapsto> ''10.0.0.1''], cvr_Secrets = Map.empty, cvr_VolumeContentSource = None\<rparr>"

definition demoDriver :: "unit driver" where
  "demoDriver = NewDriver ''node'' ''unix://csi.sock''"

definition demoVolume :: Volume where
  "demoVolume = projr (fst (CreateVolume demoDriver demoBackend demoRequest ()))"

definition isInr :: "'a + 'b \<Rightarrow> bool" where
  "isInr s = (case s of Inl _ \<Rightarrow> False | Inr _ \<Rightarrow> True)"

lemma demo_created: "CreateVolume demoDriver demoBackend demoRequest () = (Inr demoVolume, ())"
proof -
  have "isInr (fst (CreateVolume demoDriver demoBackend demoRequest ()))" by code_simp
  then show ?thesis unfolding demoVolume_def isInr_def by (auto simp: prod_eq_iff split: sum.splits)
qed

lemma demo_protocol: "protocolFromParams (Some demoDriver) (cvr_Parameters demoRequest) = Inr ProtocolISCSI"
  by code_simp

text \<open>C3 at a concrete request.\<close>

theorem created_iscsi_volume_witness:
  "\<exists>i. vol_VolumeId demoVolume = encodeVolID i \<and> id_VolumeName i = ''pvc-1''"
  using created_iscsi_volume [OF demo_created demo_protocol] by (auto simp: demoRequest_def)

subsection \<open>Lemmas: the branches of CreateVolume\<close>

text \<open>A request that reaches the iSCSI branch.\<close>

definition iscsiRequest :: "'d driver \<Rightarrow> CreateVolumeRequest \<Rightarrow> bool" where
  "iscsiRequest d req \<longleftrightarrow> cvr_Name req \<noteq> [] \<and> cvr_VolumeCapabilities req \<noteq> [] \<and>
     protocolFromParams (Some d) (cvr_Parameters req) = Inr ProtocolISCSI \<and>
     list_all (\<lambda>vc. supportsAccessModeForProtocol (Some d) vc ProtocolISCSI) (cvr_VolumeCapabilities req) \<and>
     cvr_VolumeContentSource req = None"

lemma CreateVolume_iscsi:
  assumes "iscsiRequest d req"
  shows "CreateVolume d b req =
    check (planIscsiVolume req) (\<lambda>plan.
      call (b_GetVolumeByName b (cvr_Name req) (ip_parentDir plan)) (wrapped Internal ''GetVolumeByName: %v'') (\<lambda>e.
        if vbn_exists e then createIscsiExisting b req plan e else createIscsiNew b req plan))"
proof -
  have "\<not> list_ex (\<lambda>vc. \<not> supportsAccessModeForProtocol (Some d) vc ProtocolISCSI) (cvr_VolumeCapabilities req)"
    using assms by (auto simp: iscsiRequest_def list_all_iff list_ex_iff)
  then show ?thesis
    using assms by (simp add: fun_eq_iff CreateVolume_def iscsiRequest_def createIscsiVolume_def)
qed

lemma planIscsiVolume_secrets: "planIscsiVolume (req\<lparr>cvr_Secrets := s\<rparr>) = planIscsiVolume req"
proof -
  have "cvr_CapacityRange (req\<lparr>cvr_Secrets := s\<rparr>) = cvr_CapacityRange req" "cvr_Name (req\<lparr>cvr_Secrets := s\<rparr>) = cvr_Name req"
      "cvr_Parameters (req\<lparr>cvr_Secrets := s\<rparr>) = cvr_Parameters req"
    by simp_all
  then show ?thesis unfolding planIscsiVolume_def by (simp only:)
qed

lemma createIscsiExisting_secrets: "createIscsiExisting b (req\<lparr>cvr_Secrets := s\<rparr>) plan e = createIscsiExisting b req plan e"
proof -
  have "iscsiVolume (req\<lparr>cvr_Secrets := s\<rparr>) = iscsiVolume req" "cvr_Name (req\<lparr>cvr_Secrets := s\<rparr>) = cvr_Name req"
    by (simp_all add: fun_eq_iff iscsiVolume_def)
  then show ?thesis unfolding createIscsiExisting_def by (simp only:)
qed

lemma iscsiRequest_secrets [simp]: "iscsiRequest d (req\<lparr>cvr_Secrets := s\<rparr>) = iscsiRequest d req"
  by (simp add: iscsiRequest_def)

lemma demo_iscsi: "iscsiRequest demoDriver demoRequest"
  by code_simp

definition demoPlan :: iscsiPlan where
  "demoPlan = \<lparr>ip_parentDir = [], ip_size = 2 ^ 30, ip_targetName = ''pvc-1'', ip_requestedIQN = [], ip_portal = ''10.0.0.1:3260''\<rparr>"

lemma demo_plan: "planIscsiVolume demoRequest = Inr demoPlan"
  by code_simp

definition demoExisting :: VolumeByName where
  "demoExisting = \<lparr>vbn_exists = True, vbn_vhdxPath = ''D:v.vhdx'', vbn_sizeBytes = 5, vbn_targetName = [],
     vbn_targetIQN = [], vbn_lun = 0\<rparr>"

subsection \<open>Properties: idempotency and failure\<close>

text \<open>
  Asking for an iSCSI volume that exists with a smaller size is refused with
  AlreadyExists after the lookup alone; no other backend call is made.
\<close>

theorem existing_smaller_refused:
  assumes "iscsiRequest d req" "planIscsiVolume req = Inr plan"
    and "b_GetVolumeByName b (cvr_Name req) (ip_parentDir plan) w = (Inr e, w')" "vbn_exists e"
    and "0 < vbn_sizeBytes e" "vbn_sizeBytes e < ip_size plan"
  shows "\<exists>args. CreateVolume d b req w = (Inl (Status AlreadyExists ''volume %q exists smaller (%dB) than requested (%dB)'' args), w')"
  using assms by (simp add: CreateVolume_iscsi call_def createIscsiExisting_def)

text \<open>Instance at a concrete backend that holds a small volume.\<close>

theorem existing_smaller_refused_witness:
  "\<exists>args. CreateVolume demoDriver (demoBackend\<lparr>b_GetVolumeByName := \<lambda>n p. return demoExisting\<rparr>) demoRequest () =
     (Inl (Status AlreadyExists ''volume %q exists smaller (%dB) than requested (%dB)'' args), ())"
  using existing_smaller_refused [OF demo_iscsi demo_plan, of "demoBackend\<lparr>b_GetVolumeByName := \<lambda>n p. return demoExisting\<rparr>" "()" demoExisting "()"]
  by (simp add: demoExisting_def demoPlan_def)

text \<open>
  For an iSCSI volume that exists already the secrets of the request are not looked at:
  whatever they are, even invalid ones, the outcome is the same, so CHAP is not configured on
  this path.
\<close>

theorem existing_ignores_secrets:
  assumes "iscsiRequest d req" "planIscsiVolume req = Inr plan"
    and "b_GetVolumeByName b (cvr_Name req) (ip_parentDir plan) w = (Inr e, w')" "vbn_exists e"
  shows "CreateVolume d b (req\<lparr>cvr_Secrets := s\<rparr>) w = CreateVolume d b req w"
  using assms by (simp add: CreateVolume_iscsi planIscsiVolume_secrets call_def createIscsiExisting_secrets)

text \<open>Instance at a concrete request with half a credential pair.\<close>

theorem existing_ignores_secrets_witness:
  "CreateVolume demoDriver (demoBackend\<lparr>b_GetVolumeByName := \<lambda>n p. return demoExisting\<rparr>)
     (demoRequest\<lparr>cvr_Secrets := [''node.session.auth.username'' \<mapsto> ''u'']\<rparr>) () =
   CreateVolume demoDriver (demoBackend\<lparr>b_GetVolumeByName := \<lambda>n p. return demoExisting\<rparr>) demoRequest ()"
  by (rule existing_ignores_secrets [OF demo_iscsi demo_plan, where e = demoExisting and w' = "()"])
    (simp_all add: demoExisting_def)

subsection \<open>Properties: what a refused request leaves behind\<close>

text \<open>The actions started, in order, in a debug log.\<close>

definition started :: "log_entry list \<Rightarrow> string list" where
  "started l = map action (filter is_ActionStart l)"

lemma logged_run:
  "logged act start m done' zero (w, l) =
     (case m w of (r, w') \<Rightarrow> (r, (w', l @ [ActionStart act (safeLogKV start),
        case r of Inl e \<Rightarrow> ActionFailed act (safeLogKV (done' zero)) e | Inr x \<Rightarrow> ActionCompleted act (safeLogKV (done' x))])))"
  by (auto simp: logged_def debugActionStart_def debugActionDone_def split: prod.splits sum.splits)

lemma started_simps [simp]:
  "started [] = []"
  "started (ActionStart a fs # l) = a # started l"
  "started (ActionCompleted a fs # l) = started l"
  "started (ActionFailed a fs e # l) = started l"
  "started (l @ m) = started l @ started m"
  by (simp_all add: started_def)

named_theorems refuses_intro \<open>syntax-directed rules for what a refusal has done\<close>

text \<open>
  A computation over the debug wrapper refuses only as \<open>P\<close> says: when it ends with
  InvalidArgument, \<open>P\<close> holds of the error and of the backend actions it had started, and if
  there were none, the backend and the log are as before.
\<close>

definition refuses :: "(goerror \<Rightarrow> string list \<Rightarrow> bool) \<Rightarrow> ('w \<times> log_entry list, 'a) io \<Rightarrow> bool" where
  "refuses P m \<longleftrightarrow> (\<forall>w l e w' l'. m (w, l) = (Inl e, (w', l')) \<longrightarrow> status_code e = Some InvalidArgument \<longrightarrow>
     (\<exists>as. started l' = started l @ as \<and> P e as \<and> (as = [] \<longrightarrow> w' = w \<and> l' = l)))"

lemma refusesD:
  assumes "refuses P m" "m (w, l) = (Inl e, (w', l'))" "status_code e = Some InvalidArgument"
  obtains as where "started l' = started l @ as" "P e as" "as = [] \<Longrightarrow> w' = w \<and> l' = l"
  using assms unfolding refuses_def by blast

lemma never_refuses: "refuses (\<lambda>_ _. False) m \<Longrightarrow> m wl = (Inl e, wl') \<Longrightarrow> status_code e \<noteq> Some InvalidArgument"
  unfolding refuses_def by (metis prod.exhaust)

lemma refuses_weaken: "refuses (\<lambda>_ _. False) m \<Longrightarrow> refuses P m"
  unfolding refuses_def by blast

lemma refuses_return [refuses_intro]: "refuses P (return x)"
  by (simp add: refuses_def)

lemma refuses_fail [refuses_intro]: "(status_code e = Some InvalidArgument \<Longrightarrow> P e []) \<Longrightarrow> refuses P (fail e)"
  by (simp add: refuses_def)

lemma refuses_check [refuses_intro]: "(\<And>e. r = Inl e \<Longrightarrow> P e []) \<Longrightarrow> (\<And>x. r = Inr x \<Longrightarrow> refuses P (k x)) \<Longrightarrow> refuses P (check r k)"
  by (cases r) (simp_all add: refuses_def)

lemma refuses_if [refuses_intro]: "(b \<Longrightarrow> refuses P m) \<Longrightarrow> (\<not> b \<Longrightarrow> refuses P n) \<Longrightarrow> refuses P (if b then m else n)"
  by simp

lemma refuses_case_prod [refuses_intro]: "(\<And>x y. refuses P (k x y)) \<Longrightarrow> refuses P (case p of (x, y) \<Rightarrow> k x y)"
  by (cases p) simp

lemma refuses_logged [refuses_intro]:
  assumes "\<And>x. refuses (\<lambda>e as. P e (act # as)) (k x)"
  shows "refuses P (call (logged act start m done' zero) (wrapped Internal fmt) k)"
  unfolding refuses_def
proof (intro allI impI)
  fix w l e w' l'
  assume run: "call (logged act start m done' zero) (wrapped Internal fmt) k (w, l) = (Inl e, (w', l'))" "status_code e = Some InvalidArgument"
  obtain r w1 where m: "m w = (r, w1)" by (cases "m w")
  with run obtain x l1 where x: "k x (w1, l @ l1) = (Inl e, (w', l'))" "started l1 = [act]"
    by (cases r) (auto simp: call_def logged_run)
  from assms [of x] this(1) run(2) obtain as where "started l' = started (l @ l1) @ as" "P e (act # as)" by (rule refusesD)
  then show "\<exists>as. started l' = started l @ as \<and> P e as \<and> (as = [] \<longrightarrow> w' = w \<and> l' = l)"
    using x(2) by (intro exI [of _ "act # as"]) simp
qed

lemma refuses_attempt_logged [refuses_intro]:
  assumes "\<And>x. refuses (\<lambda>_ _. False) (k x)"
  shows "refuses P (attempt (logged act start m done' zero) k)"
  using never_refuses [OF assms] unfolding refuses_def attempt_def by (auto split: prod.splits)

lemma refuses_chap [refuses_intro]:
  assumes "\<And>e. targetChapOptionsFromSecrets s = Inl e \<Longrightarrow> P e []" "\<And>x. refuses (\<lambda>_ _. False) (k x)"
  shows "refuses P (call (configureTargetChapFromSecrets (loggingBackend b) t s) id k)"
proof (cases "targetChapOptionsFromSecrets s")
  case (Inl e)
  then show ?thesis using assms(1) by (simp add: refuses_def call_def configureTargetChapFromSecrets_def)
next
  case (Inr opts)
  have k: "k x wl \<noteq> (Inl e, wl')" if "status_code e = Some InvalidArgument" for x wl e wl'
    using never_refuses [OF assms(2)] that by blast
  show ?thesis
  proof (cases "Enabled opts")
    case False
    then show ?thesis using Inr k by (auto simp: refuses_def call_def configureTargetChapFromSecrets_def)
  next
    case True
    have "call (configureTargetChapFromSecrets (loggingBackend b) t s) id k wl =
        call (b_ConfigureTargetChap (loggingBackend b) t opts) (wrapped Internal ''ConfigureTargetChap: %v'') k wl" for wl
      using Inr True by (auto simp: call_def configureTargetChapFromSecrets_def split: prod.splits sum.splits)
    then have "call (configureTargetChapFromSecrets (loggingBackend b) t s) id k wl \<noteq> (Inl e, wl')"
      if "status_code e = Some InvalidArgument" for wl e wl'
      using k that by (auto simp: call_def split: prod.splits sum.splits)
    then show ?thesis unfolding refuses_def by blast
  qed
qed

text \<open>The refusals CreateVolume has: before any action, of CHAP secrets, and of a snapshot to restore a VHDX-backed share from.\<close>

definition refusal :: "'d driver \<Rightarrow> CreateVolumeRequest \<Rightarrow> goerror \<Rightarrow> string list \<Rightarrow> bool" where
  "refusal d req e as \<longleftrightarrow> as = [] \<or>
     (\<exists>p. protocolFromParams (Some d) (cvr_Parameters req) = Inr p \<and>
       (if p \<in> {ProtocolNFS, ProtocolSMB}
        then (\<exists>sid x. cvr_VolumeContentSource req = Some (FromSnapshot sid) \<and> decodeSnapID sid = Inl x \<and>
               e = Status InvalidArgument ''invalid snapshotId: %v'' [ArgE x] \<and>
               as = [if p = ProtocolNFS then ''GetNfsShare'' else ''GetSmbShare'', ''GetVolumeByName''])
        else targetChapOptionsFromSecrets (cvr_Secrets req) = Inl e \<and>
             as = (case cvr_VolumeContentSource req of
                     Some (FromSnapshot _) \<Rightarrow> [''ExportSnapshotAsVirtualDisk'', ''EnsureTarget'']
                   | _ \<Rightarrow> [''GetVolumeByName'', ''CreateVirtualDisk'', ''EnsureTarget''])))"

lemma loggingBackend_methods:
  "b_EnsureTarget (loggingBackend b) = log_EnsureTarget b" "b_CreateVirtualDisk (loggingBackend b) = log_CreateVirtualDisk b"
  "b_MapDiskToTarget (loggingBackend b) = log_MapDiskToTarget b" "b_GetVolumeByName (loggingBackend b) = log_GetVolumeByName b"
  "b_ExportSnapshotAsVirtualDisk (loggingBackend b) = log_ExportSnapshotAsVirtualDisk b" "b_GetVolumeInfo (loggingBackend b) = log_GetVolumeInfo b"
  "b_GetNfsShare (loggingBackend b) = log_GetNfsShare b" "b_CreateNfsShare (loggingBackend b) = log_CreateNfsShare b"
  "b_GetSmbShare (loggingBackend b) = log_GetSmbShare b" "b_CreateSmbShare (loggingBackend b) = log_CreateSmbShare b"
  "b_MountFileShareVirtualDisk (loggingBackend b) = log_MountFileShareVirtualDisk b"
  by (simp_all add: loggingBackend_def)

lemma createIscsiExisting_refuses: "refuses P (createIscsiExisting (loggingBackend b) req plan e)"
  unfolding createIscsiExisting_def ensureTargetFor_def loggingBackend_methods log_EnsureTarget_def log_MapDiskToTarget_def Let_def
  by (intro refuses_intro) simp_all

lemma createIscsiNew_refuses:
  assumes "\<And>e. targetChapOptionsFromSecrets (cvr_Secrets req) = Inl e \<Longrightarrow> P e [''CreateVirtualDisk'', ''EnsureTarget'']"
  shows "refuses P (createIscsiNew (loggingBackend b) req plan)"
  unfolding createIscsiNew_def ensureTargetFor_def loggingBackend_methods log_EnsureTarget_def log_MapDiskToTarget_def log_CreateVirtualDisk_def
  by (intro refuses_intro assms) simp_all

lemma createIscsiFromSnapshot_refuses:
  assumes "\<And>e. targetChapOptionsFromSecrets (cvr_Secrets req) = Inl e \<Longrightarrow> P e [''ExportSnapshotAsVirtualDisk'', ''EnsureTarget'']" "\<And>e. P e []"
  shows "refuses P (createIscsiFromSnapshot (loggingBackend b) req plan sid)"
  unfolding createIscsiFromSnapshot_def ensureTargetFor_def loggingBackend_methods log_EnsureTarget_def log_MapDiskToTarget_def
    log_ExportSnapshotAsVirtualDisk_def log_GetVolumeInfo_def Let_def
  by (cases "decodeSnapID sid"; simp only: sum.case; intro refuses_intro assms) simp_all

lemma createIscsiVolume_refuses:
  assumes "\<And>e. P e []"
    and "\<And>e. targetChapOptionsFromSecrets (cvr_Secrets req) = Inl e \<Longrightarrow>
      P e (case cvr_VolumeContentSource req of Some (FromSnapshot _) \<Rightarrow> [''ExportSnapshotAsVirtualDisk'', ''EnsureTarget'']
           | _ \<Rightarrow> [''GetVolumeByName'', ''CreateVirtualDisk'', ''EnsureTarget''])"
  shows "refuses P (createIscsiVolume (loggingBackend b) req)"
proof -
  have make: "refuses P (call (b_GetVolumeByName (loggingBackend b) n dir) (wrapped Internal ''GetVolumeByName: %v'') (\<lambda>e.
      if vbn_exists e then createIscsiExisting (loggingBackend b) req plan e else createIscsiNew (loggingBackend b) req plan))"
    if "\<nexists>sid. cvr_VolumeContentSource req = Some (FromSnapshot sid)" for n dir plan
    unfolding loggingBackend_methods log_GetVolumeByName_def
    using assms(2) that
    by (intro refuses_intro createIscsiExisting_refuses createIscsiNew_refuses) (auto split: option.splits content_source.splits)
  have restore: "refuses P (createIscsiFromSnapshot (loggingBackend b) req plan sid)"
    if "cvr_VolumeContentSource req = Some (FromSnapshot sid)" for plan sid
    using assms that by (intro createIscsiFromSnapshot_refuses) auto
  show ?thesis unfolding createIscsiVolume_def
    by (intro refuses_check assms(1)) (auto intro: make restore split: option.split content_source.split)
qed

lemma obtainVHDX_refuses:
  assumes "\<And>p. refuses (\<lambda>_ _. False) (k p)"
    and "\<And>sid x. cvr_VolumeContentSource req = Some (FromSnapshot sid) \<Longrightarrow> decodeSnapID sid = Inl x \<Longrightarrow>
      P (Status InvalidArgument ''invalid snapshotId: %v'' [ArgE x]) []"
  shows "refuses P (obtainVHDX (loggingBackend b) req dir sz existing k)"
proof -
  have k: "refuses Q (k p)" for Q p using assms(1) by (rule refuses_weaken)
  have "refuses P (case decodeSnapID sid of Inl e \<Rightarrow> fail (wrapped InvalidArgument ''invalid snapshotId: %v'' e)
      | Inr s \<Rightarrow> call (b_ExportSnapshotAsVirtualDisk (loggingBackend b) (sid_SnapshotID s)) (wrapped Internal ''ExportSnapshotAsVirtualDisk: %v'') (\<lambda>vhdxPath.
          attempt (b_GetVolumeInfo (loggingBackend b) vhdxPath) (\<lambda>r. k (vhdxPath, case r of Inl _ \<Rightarrow> vbn_sizeBytes existing | Inr vi \<Rightarrow> vi_SizeBytes vi))))"
    if "cvr_VolumeContentSource req = Some (FromSnapshot sid)" for sid
    unfolding loggingBackend_methods log_ExportSnapshotAsVirtualDisk_def log_GetVolumeInfo_def
    using assms(2) [OF that] by (cases "decodeSnapID sid"; simp only: sum.case; intro refuses_intro k) auto
  moreover have "refuses P (if vbn_vhdxPath existing = [] then
      call (b_CreateVirtualDisk (loggingBackend b) (cvr_Name req) dir sz) (wrapped Internal ''CreateVirtualDisk: %v'') k
      else k (vbn_vhdxPath existing, vbn_sizeBytes existing))"
    unfolding loggingBackend_methods log_CreateVirtualDisk_def by (intro refuses_intro k)
  ultimately show ?thesis unfolding obtainVHDX_def by (auto split: option.split content_source.split)
qed

lemma remountExisting_refuses:
  assumes "\<And>p. refuses (\<lambda>_ _. False) (k p)"
  shows "refuses P (remountExisting (loggingBackend b) fmt n dir path existing info k)"
proof -
  have k: "refuses Q (k p)" for Q p using assms by (rule refuses_weaken)
  show ?thesis
    unfolding remountExisting_def loggingBackend_methods log_MountFileShareVirtualDisk_def Let_def
    by (intro refuses_intro k) simp
qed

lemma createNfsVolume_refuses:
  assumes "\<And>e. P e []"
    and "\<And>sid x. cvr_VolumeContentSource req = Some (FromSnapshot sid) \<Longrightarrow> decodeSnapID sid = Inl x \<Longrightarrow>
      P (Status InvalidArgument ''invalid snapshotId: %v'' [ArgE x]) [''GetNfsShare'', ''GetVolumeByName'']"
  shows "refuses P (createNfsVolume d (loggingBackend b) req)"
proof -
  have vhdx: "refuses P (createVHDXBackedNfsVolume (loggingBackend b) req n dir server sz opts)" for n dir server sz opts
    unfolding createVHDXBackedNfsVolume_def loggingBackend_methods log_GetNfsShare_def log_GetVolumeByName_def
      log_MountFileShareVirtualDisk_def log_CreateNfsShare_def Let_def
    by (intro refuses_intro obtainVHDX_refuses remountExisting_refuses assms)
  show ?thesis
    unfolding createNfsVolume_def loggingBackend_methods log_GetNfsShare_def log_CreateNfsShare_def Let_def
    by (intro refuses_check refuses_if vhdx assms(1)) (auto intro!: refuses_intro assms(1) split: option.split content_source.split)
qed

lemma createSmbVolume_refuses:
  assumes "\<And>e. P e []"
    and "\<And>sid x. cvr_VolumeContentSource req = Some (FromSnapshot sid) \<Longrightarrow> decodeSnapID sid = Inl x \<Longrightarrow>
      P (Status InvalidArgument ''invalid snapshotId: %v'' [ArgE x]) [''GetSmbShare'', ''GetVolumeByName'']"
  shows "refuses P (createSmbVolume d (loggingBackend b) req)"
proof -
  have vhdx: "refuses P (createVHDXBackedSmbVolume (loggingBackend b) req n dir server sz opts)" for n dir server sz opts
    unfolding createVHDXBackedSmbVolume_def loggingBackend_methods log_GetSmbShare_def log_GetVolumeByName_def
      log_MountFileShareVirtualDisk_def log_CreateSmbShare_def Let_def
    by (intro refuses_intro obtainVHDX_refuses remountExisting_refuses assms)
  show ?thesis
    unfolding createSmbVolume_def loggingBackend_methods log_GetSmbShare_def log_CreateSmbShare_def Let_def
    by (intro refuses_check refuses_if vhdx assms(1)) (auto intro!: refuses_intro assms(1) split: option.split content_source.split)
qed

lemma CreateVolume_refuses: "refuses (refusal d req) (CreateVolume d (loggingBackend b) req)"
proof -
  have none: "refusal d req e []" for e by (simp add: refusal_def)
  have make: "refuses (refusal d req) (if p = ProtocolNFS then createNfsVolume d (loggingBackend b) req
      else if p = ProtocolSMB then createSmbVolume d (loggingBackend b) req else createIscsiVolume (loggingBackend b) req)"
    if p: "protocolFromParams (Some d) (cvr_Parameters req) = Inr p" for p
    using p by (intro refuses_if createNfsVolume_refuses createSmbVolume_refuses createIscsiVolume_refuses none) (auto simp: refusal_def)
  show ?thesis unfolding CreateVolume_def by (intro refuses_fail refuses_check none make refuses_if) auto
qed

text \<open>
  C36: when CreateVolume, for any protocol and any content source, ends with InvalidArgument, no
  backend method has been called and nothing has changed, with two exceptions: a snapshot handle
  that cannot be read is refused for a VHDX-backed share after two lookups, and invalid CHAP
  secrets of an iSCSI volume are refused only after its disk and its target have been made (or,
  for a restore, the snapshot exported and the target made), which stay behind.
\<close>

theorem create_error_effects:
  assumes "CreateVolume d (loggingBackend b) req (w, []) = (Inl err, (w', l))" "status_code err = Some InvalidArgument"
  shows "refusal d req err (started l) \<and> (started l = [] \<longrightarrow> w' = w)"
  using CreateVolume_refuses assms by (rule refusesD) simp

text \<open>C36 at half a credential pair: the disk and the target have been made.\<close>

theorem create_error_effects_witness:
  "\<exists>err w' l. CreateVolume demoDriver (loggingBackend demoBackend)
       (demoRequest\<lparr>cvr_Secrets := [''node.session.auth.username'' \<mapsto> ''u'']\<rparr>) ((), []) = (Inl err, (w', l)) \<and>
     status_code err = Some InvalidArgument \<and> started l = [''GetVolumeByName'', ''CreateVirtualDisk'', ''EnsureTarget'']"
proof -
  let ?req = "demoRequest\<lparr>cvr_Secrets := [''node.session.auth.username'' \<mapsto> ''u'']\<rparr>"
  let ?run = "CreateVolume demoDriver (loggingBackend demoBackend) ?req ((), [])"
  let ?err = "Status InvalidArgument ''%s and %s must both be set'' [ArgS ''node.session.auth.username'', ArgS ''node.session.auth.password'']"
  have chap: "targetChapOptionsFromSecrets (cvr_Secrets ?req) = Inl ?err" by code_simp
  have plan: "planIscsiVolume ?req = Inr demoPlan" using demo_plan by (simp add: planIscsiVolume_secrets)
  have req: "iscsiRequest demoDriver ?req" using demo_iscsi by simp
  obtain l where err: "?run = (Inl ?err, ((), l))" "status_code ?err = Some InvalidArgument" "started l \<noteq> []"
    using chap plan unfolding CreateVolume_iscsi [OF req]
    by (simp add: call_def createIscsiNew_def ensureTargetFor_def configureTargetChapFromSecrets_def loggingBackend_methods
        log_GetVolumeByName_def log_CreateVirtualDisk_def log_EnsureTarget_def logged_run demoBackend_def zeroVolumeByName_def)
  have "protocolFromParams (Some demoDriver) (cvr_Parameters ?req) = Inr ProtocolISCSI" "cvr_VolumeContentSource ?req = None" by code_simp+
  then have "started l = [''GetVolumeByName'', ''CreateVirtualDisk'', ''EnsureTarget'']"
    using create_error_effects [OF err(1,2)] err(3) unfolding refusal_def by auto
  then show ?thesis using err(1,2) by blast
qed

subsection \<open>Properties: the debug wrapper\<close>

text \<open>
  C5: debug mode changes nothing but the log: with the wrapped backend every handler returns
  the result, and leaves the backend in the state, that it has without the wrapper.
\<close>

theorem debug_mode_transparent:
  "sim fst (CreateVolume d (loggingBackend b) req) (CreateVolume d b req) \<and>
   sim fst (DeleteVolume (loggingBackend b) vid) (DeleteVolume b vid) \<and>
   sim fst (ControllerPublishVolume d (loggingBackend b) preq) (ControllerPublishVolume d b preq) \<and>
   sim fst (ControllerUnpublishVolume (loggingBackend b) vid node) (ControllerUnpublishVolume b vid node) \<and>
   sim fst (GetCapacity d (loggingBackend b) params) (GetCapacity d b params) \<and>
   sim fst (CreateSnapshot (loggingBackend b) vid name) (CreateSnapshot b vid name) \<and>
   sim fst (DeleteSnapshot (loggingBackend b) sid) (DeleteSnapshot b sid) \<and>
   sim fst (ListSnapshots d (loggingBackend b) sid vid) (ListSnapshots d b sid vid) \<and>
   sim fst (ControllerExpandVolume (loggingBackend b) vid r) (ControllerExpandVolume b vid r) \<and>
   sim fst (ControllerGetVolume (loggingBackend b) vid) (ControllerGetVolume b vid)"
  by (intro conjI log.sim_CreateVolume log.sim_DeleteVolume log.sim_ControllerPublishVolume
      log.sim_ControllerUnpublishVolume log.sim_GetCapacity log.sim_rpc_CreateSnapshot log.sim_rpc_DeleteSnapshot
      log.sim_rpc_ListSnapshots log.sim_ControllerExpandVolume log.sim_ControllerGetVolume)

text \<open>
  Whatever the handlers do, the debug log pairs every start of an action with its
  outcome and shows no value under a key that names a password, secret or token.
\<close>

theorem debug_log_safe:
  "keeps log_ok (CreateVolume d (loggingBackend b) req) \<and> keeps log_ok (DeleteVolume (loggingBackend b) vid) \<and>
   keeps log_ok (ControllerPublishVolume d (loggingBackend b) preq) \<and>
   keeps log_ok (ControllerUnpublishVolume (loggingBackend b) vid node) \<and>
   keeps log_ok (GetCapacity d (loggingBackend b) params) \<and> keeps log_ok (CreateSnapshot (loggingBackend b) vid name) \<and>
   keeps log_ok (DeleteSnapshot (loggingBackend b) sid) \<and> keeps log_ok (ListSnapshots d (loggingBackend b) sid vid) \<and>
   keeps log_ok (ControllerExpandVolume (loggingBackend b) vid r) \<and> keeps log_ok (ControllerGetVolume (loggingBackend b) vid)"
  by (intro conjI safe.keeps_CreateVolume safe.keeps_DeleteVolume safe.keeps_ControllerPublishVolume
      safe.keeps_ControllerUnpublishVolume safe.keeps_GetCapacity safe.keeps_rpc_CreateSnapshot safe.keeps_rpc_DeleteSnapshot
      safe.keeps_rpc_ListSnapshots safe.keeps_ControllerExpandVolume safe.keeps_ControllerGetVolume)
















subsection \<open>Properties: deletion\<close>

lemma targetName_nonblank: "TrimSpace (id_TargetName i) \<noteq> [] \<Longrightarrow> targetNameFromVolID i = id_TargetName i \<and> id_TargetName i \<noteq> []"
  by (auto simp: targetNameFromVolID_def)

lemma encodeVolID_not_Nil [simp]: "encodeVolID v \<noteq> []"
  by (simp add: encodeVolID_def jsonObject_def)

lemma DeleteVolume_legacy:
  assumes "volID_ok i"
  shows "DeleteVolume b (encodeVolID i) = deleteIscsiVolume b i"
  using decodeAny_legacy [OF assms] by (auto simp: DeleteVolume_def)

text \<open>
  C8: deleting an iSCSI volume unmaps the disk, then deletes it, then deletes the target:
  each step is started only after the one before has completed, a failed step ends the
  deletion with an error, and success means that all three have completed.
\<close>

theorem delete_iscsi_order:
  assumes "volID_ok i" "TrimSpace (id_TargetName i) \<noteq> []" "id_VHDXPath i \<noteq> []"
    and "DeleteVolume (loggingBackend b) (encodeVolID i) (w, []) = (r, (w', l))"
  shows "\<exists>n \<le> 3. started l = take n [''UnmapDiskFromTarget'', ''DeleteVirtualDisk'', ''DeleteTarget''] \<and>
    list_all (\<lambda>e. \<not> is_ActionFailed e) (butlast l) \<and> (is_ActionFailed (last l) \<longleftrightarrow> (\<exists>e. r = Inl e)) \<and>
    (r = Inr () \<longrightarrow> n = 3)"
proof -
  have t: "targetNameFromVolID i = id_TargetName i" "id_TargetName i \<noteq> []" using targetName_nonblank [OF assms(2)] by blast+
  note run = assms(4) [unfolded DeleteVolume_legacy [OF assms(1)] deleteIscsiVolume_def deleteTargetNameForVolume_def
      loggingBackend_def log_UnmapDiskFromTarget_def log_DeleteVirtualDisk_def log_DeleteTarget_def, simplified]
  obtain r1 w1 where u: "b_UnmapDiskFromTarget b (id_TargetName i) (id_VHDXPath i) w = (r1, w1)" by (rule prod.exhaust)
  obtain r2 w2 where d: "b_DeleteVirtualDisk b (id_VHDXPath i) w1 = (r2, w2)" by (rule prod.exhaust)
  obtain r3 w3 where x: "b_DeleteTarget b (TrimSpace (id_TargetName i)) w2 = (r3, w3)" by (rule prod.exhaust)
  show ?thesis
  proof (cases r1)
    case (Inl e)
    then show ?thesis using run t assms(2,3) u by (intro exI [of _ 1]) (auto simp: call_def logged_run)
  next
    case r1: (Inr _)
    show ?thesis
    proof (cases r2)
      case (Inl e)
      then show ?thesis using run t assms(2,3) u r1 d by (intro exI [of _ 2]) (auto simp: call_def logged_run)
    next
      case (Inr _)
      then show ?thesis using run t assms(2,3) u r1 d x
        by (intro exI [of _ 3]) (auto simp: call_def logged_run split: sum.splits)
    qed
  qed
qed

definition demoID :: volID where
  "demoID = \<lparr>id_VolumeName = ''pvc-1'', id_TargetPortal = ''10.0.0.1:3260'', id_TargetName = ''pvc-1'',
     id_TargetIQN = ''iqn.1991-05.com.microsoft:wss'', id_LUN = 0, id_VHDXPath = ''D:v.vhdx'', id_SizeBytes = 1073741824\<rparr>"

lemma demoID_ok: "volID_ok demoID" "TrimSpace (id_TargetName demoID) \<noteq> []" "id_VHDXPath demoID \<noteq> []"
  by code_simp+

text \<open>C8 at a volume of the backend that answers every call.\<close>

theorem delete_iscsi_order_witness:
  "\<exists>r w' l n. DeleteVolume (loggingBackend demoBackend) (encodeVolID demoID) ((), []) = (r, (w', l)) \<and> n \<le> 3 \<and>
     started l = take n [''UnmapDiskFromTarget'', ''DeleteVirtualDisk'', ''DeleteTarget'']"
proof -
  obtain r w' l where e: "DeleteVolume (loggingBackend demoBackend) (encodeVolID demoID) ((), []) = (r, (w', l))"
    by (metis prod.exhaust)
  show ?thesis using delete_iscsi_order [OF demoID_ok e] e by blast
qed

lemma deleteFileShare_order:
  assumes "vid_ShareBackend v = fileShareBackendVHDX" "vid_VHDXPath v \<noteq> []"
    and "deleteFileShare (loggingBackend b) v (\<lambda>p. call (logged act (s p) (m p) (df p) ()) f return) (w, []) = (r, (w', l))"
  shows "\<exists>n \<le> 3. started l = take n [''UnmountFileShareVirtualDisk'', ''DeleteVirtualDisk'', act] \<and>
    list_all (\<lambda>e. \<not> is_ActionFailed e) (butlast l) \<and> (is_ActionFailed (last l) \<longleftrightarrow> (\<exists>e. r = Inl e)) \<and>
    (r = Inr () \<longrightarrow> n = 3)"
proof -
  define path where "path = firstNonEmpty [vid_SharePath v, vid_VHDXPath v]"
  obtain r1 w1 where u: "b_UnmountFileShareVirtualDisk b (vid_VHDXPath v) path w = (r1, w1)" by (rule prod.exhaust)
  obtain r2 w2 where d: "b_DeleteVirtualDisk b (vid_VHDXPath v) w1 = (r2, w2)" by (rule prod.exhaust)
  obtain r3 w3 where n: "m path w2 = (r3, w3)" by (rule prod.exhaust)
  note run = assms(3) [unfolded deleteFileShare_def loggingBackend_def log_UnmountFileShareVirtualDisk_def
      log_DeleteVirtualDisk_def Let_def path_def [symmetric]]
  show ?thesis
  proof (cases r1)
    case (Inl e)
    then show ?thesis using run assms(1,2) u by (intro exI [of _ 1]) (auto simp: call_def logged_run)
  next
    case r1: (Inr _)
    show ?thesis
    proof (cases r2)
      case (Inl e)
      then show ?thesis using run assms(1,2) u r1 d by (intro exI [of _ 2]) (auto simp: call_def logged_run)
    next
      case (Inr _)
      then show ?thesis using run assms(1,2) u r1 d n
        by (intro exI [of _ 3]) (auto simp: call_def logged_run split: sum.splits)
    qed
  qed
qed

text \<open>
  Deleting a VHDX-backed file share unmounts and deletes its VHDX before the share itself
  is removed; each step is started only after the one before has completed.
\<close>

theorem delete_vhdx_share_order:
  assumes "decodeAnyVolumeID vid = Inr (v, i)" "vid_Protocol v \<in> {ProtocolNFS, ProtocolSMB}"
    and "vid_ShareBackend v = fileShareBackendVHDX" "vid_VHDXPath v \<noteq> []" "vid \<noteq> []"
    and "DeleteVolume (loggingBackend b) vid (w, []) = (r, (w', l))"
  shows "\<exists>n \<le> 3. started l = take n [''UnmountFileShareVirtualDisk'', ''DeleteVirtualDisk'',
      if vid_Protocol v = ProtocolNFS then ''DeleteNfsShare'' else ''DeleteSmbShare''] \<and>
    list_all (\<lambda>e. \<not> is_ActionFailed e) (butlast l) \<and> (is_ActionFailed (last l) \<longleftrightarrow> (\<exists>e. r = Inl e)) \<and>
    (r = Inr () \<longrightarrow> n = 3)"
proof -
  have "b_DeleteNfsShare (loggingBackend b) = log_DeleteNfsShare b" "b_DeleteSmbShare (loggingBackend b) = log_DeleteSmbShare b"
    by (simp_all add: loggingBackend_def)
  then show ?thesis
    using assms deleteFileShare_order [OF assms(3,4)]
    by (auto simp: DeleteVolume_def log_DeleteNfsShare_def log_DeleteSmbShare_def)
qed

definition demoNfsHandle :: string where
  "demoNfsHandle = ''nfs://nas/a?name=a&shareBackend=vhdx&vhdxPath=D%3Aa.vhdx''"

lemma demo_nfs_decodes:
  "\<exists>v i. decodeAnyVolumeID demoNfsHandle = Inr (v, i) \<and> vid_Protocol v = ProtocolNFS \<and>
     vid_ShareBackend v = fileShareBackendVHDX \<and> vid_VHDXPath v = ''D:a.vhdx''"
proof -
  let ?v = "zeroVolumeID\<lparr>vid_Name := ''a'', vid_Protocol := ''nfs'', vid_NfsServer := ''nas'', vid_NfsExportPath := ''/a'',
      vid_ShareBackend := ''vhdx'', vid_VHDXPath := ''D:a.vhdx'', vid_nameSpecified := True\<rparr>"
  have "DecodeVolumeID demoNfsHandle = Inr ?v" by code_simp
  then show ?thesis by (simp add: decodeAnyVolumeID_def)
qed

text \<open>Instance at a concrete NFS handle.\<close>

theorem delete_vhdx_share_order_witness:
  "\<exists>r w' l n. DeleteVolume (loggingBackend demoBackend) demoNfsHandle ((), []) = (r, (w', l)) \<and> n \<le> 3 \<and>
     started l = take n [''UnmountFileShareVirtualDisk'', ''DeleteVirtualDisk'', ''DeleteNfsShare'']"
proof -
  obtain r w' l where e: "DeleteVolume (loggingBackend demoBackend) demoNfsHandle ((), []) = (r, (w', l))"
    by (metis prod.exhaust)
  obtain v i where v: "decodeAnyVolumeID demoNfsHandle = Inr (v, i)" "vid_Protocol v = ProtocolNFS"
      "vid_ShareBackend v = fileShareBackendVHDX" "vid_VHDXPath v = ''D:a.vhdx''"
    using demo_nfs_decodes by blast
  have "demoNfsHandle \<noteq> []" by code_simp
  then show ?thesis using delete_vhdx_share_order [OF v(1) _ v(3) _ _ e] v(2,4) e by auto
qed

text \<open>
  Deleting is idempotent on handles the driver cannot read: success, and the backend is
  not called.
\<close>

theorem delete_unknown_handle:
  assumes "vid \<noteq> []" "decodeAnyVolumeID vid = Inl e"
  shows "DeleteVolume b vid w = (Inr (), w) \<and> (node \<noteq> [] \<longrightarrow> ControllerUnpublishVolume b vid node w = (Inr (), w))"
  using assms by (simp add: DeleteVolume_def ControllerUnpublishVolume_def requireVolumeAndNode_def)

text \<open>Instance at a handle that is neither a URI nor base64.\<close>

theorem delete_unknown_handle_witness: "DeleteVolume demoBackend ''not a handle'' () = (Inr (), ())"
proof -
  have "decodeAnyVolumeID ''not a handle'' = Inl (Foreign ''base64.DecodeString'')" by code_simp
  then show ?thesis using delete_unknown_handle [of "''not a handle''" _ demoBackend "()"] by simp
qed

subsection \<open>Properties: file-share volumes\<close>

lemma yields_case_content_source [yields_intro]:
  "(\<And>s. yields Q (g s)) \<Longrightarrow> (\<And>s. yields Q (h s)) \<Longrightarrow> yields Q (case_content_source g h c)"
  by (cases c) auto

lemma yields_obtainVHDX [yields_intro]: "(\<And>p. yields Q (k p)) \<Longrightarrow> yields Q (obtainVHDX b req dir sz e k)"
  unfolding obtainVHDX_def by (intro yields_intro)

lemma yields_remountExisting [yields_intro]: "(\<And>p. yields Q (k p)) \<Longrightarrow> yields Q (remountExisting b fmt n dir path e info k)"
  unfolding remountExisting_def Let_def by (intro yields_intro)

lemma createNfsVolume_ok:
  "yields (\<lambda>vol. \<exists>server opts backend info sz. vol = nfsVolume req server opts backend info sz \<and>
    requiredBytesFromRange (cvr_CapacityRange req) 1 = Inr sz) (createNfsVolume d b req)"
  unfolding createNfsVolume_def createVHDXBackedNfsVolume_def Let_def
  by (intro yields_intro yields_return) blast+

lemma createSmbVolume_ok:
  "yields (\<lambda>vol. \<exists>server backend info sz. vol = smbVolume req server backend info sz \<and>
    requiredBytesFromRange (cvr_CapacityRange req) 1 = Inr sz) (createSmbVolume d b req)"
  unfolding createSmbVolume_def createVHDXBackedSmbVolume_def Let_def
  by (intro yields_intro yields_return) blast+

lemma EncodeVolumeID_nameSpecified [simp]:
  "EncodeVolumeID (Some (v\<lparr>vid_nameSpecified := x\<rparr>)) = EncodeVolumeID (Some v)"
  by (cases v) (simp add: EncodeVolumeID.simps commonQuery_def shouldEncodeLUN_def Let_def)

lemma context_nameSpecified [simp]:
  "volumeContextForVolumeID (v\<lparr>vid_nameSpecified := x\<rparr>) = volumeContextForVolumeID v"
  by (cases v) (simp add: volumeContextForVolumeID_def Let_def)

lemma fileShareVolumeID_fields [simp]:
  "vid_Protocol (fileShareVolumeID n p be info c) = p"
  "vid_Name (fileShareVolumeID n p be info c) = n"
  "vid_CapacityBytes (fileShareVolumeID n p be info c) = c"
  by (simp_all add: fileShareVolumeID_def Let_def)

lemma applyNfsOptions_fields [simp]:
  "vid_Protocol (applyNfsOptionsToVolumeID v opts) = vid_Protocol v"
  "vid_Name (applyNfsOptionsToVolumeID v opts) = vid_Name v"
  "vid_CapacityBytes (applyNfsOptionsToVolumeID v opts) = vid_CapacityBytes v"
  by (simp_all add: applyNfsOptionsToVolumeID_def Let_def)

lemma smb_context:
  "volumeContextForVolumeID (fileShareVolumeID n ProtocolSMB be info c) =
   volumeContextForVolumeID (zeroVolumeID\<lparr>vid_Protocol := ProtocolSMB, vid_SmbServer := vi_SmbServer info, vid_SmbShareName := vi_SmbShareName info\<rparr>)"
  by (simp add: fileShareVolumeID_def volumeContextForVolumeID_def zeroVolumeID_def Let_def)

lemma maxInt64_ge: "a \<le> maxInt64 a b" "b \<le> maxInt64 a b"
  by (simp_all add: maxInt64_def)

text \<open>What a file-share volume that was returned looks like.\<close>

definition shareVolume :: "CreateVolumeRequest \<Rightarrow> Protocol \<Rightarrow> Volume \<Rightarrow> VolumeID \<Rightarrow> bool" where
  "shareVolume req protocol vol v \<longleftrightarrow> vol_VolumeId vol = EncodeVolumeID (Some v) \<and> vid_Protocol v = protocol \<and>
     vid_Name v = cvr_Name req \<and> vid_CapacityBytes v = vol_CapacityBytes vol \<and>
     vol_VolumeContext vol = volumeContextForVolumeID v \<and> vol_ContentSource vol = cvr_VolumeContentSource req"

lemma nfsVolume_share: "\<exists>v. shareVolume req ProtocolNFS (nfsVolume req server opts be info sz) v \<and> sz \<le> vid_CapacityBytes v"
  unfolding shareVolume_def nfsVolume_def Let_def by (auto simp: maxInt64_ge)

lemma smbVolume_share: "\<exists>v. shareVolume req ProtocolSMB (smbVolume req server be info sz) v \<and> sz \<le> vid_CapacityBytes v"
  unfolding shareVolume_def smbVolume_def Let_def
  by (rule exI [of _ "fileShareVolumeID (cvr_Name req) ProtocolSMB be (if server \<noteq> [] then info\<lparr>vi_SmbServer := server\<rparr> else info)
        (maxInt64 (vi_CapacityBytes info) sz)"])
     (simp add: smb_context maxInt64_ge)

lemma publish_share:
  assumes "DecodeVolumeID h = Inr v" "vid_Protocol v \<in> {ProtocolNFS, ProtocolSMB}" "h \<noteq> []" "pub_VolumeId preq = h"
    and "pub_NodeId preq \<noteq> []" "supportsAccessModeForProtocol (Some d) (pub_VolumeCapability preq) (vid_Protocol v)"
  shows "ControllerPublishVolume d b preq w = (Inr (volumeContextForVolumeID v), w)"
proof -
  obtain i where "decodeAnyVolumeID h = Inr (v, i)" using decodeAny_uri [OF assms(1)] by blast
  then show ?thesis using assms by (auto simp: ControllerPublishVolume_def requireVolumeAndNode_def)
qed

lemma DecodeVolumeID_Nil: "DecodeVolumeID [] \<noteq> Inr v"
  by (simp add: DecodeVolumeID_def)

lemma created_share_is_share:
  assumes "CreateVolume d b req w = (Inr vol, w')" "protocolFromParams (Some d) (cvr_Parameters req) = Inr p"
    and "p \<in> {ProtocolNFS, ProtocolSMB}"
  shows "\<exists>v n. shareVolume req p vol v \<and> requiredBytesFromRange (cvr_CapacityRange req) 1 = Inr n \<and> n \<le> vid_CapacityBytes v"
proof -
  have "(if p = ProtocolNFS then createNfsVolume d b req else if p = ProtocolSMB then createSmbVolume d b req
      else createIscsiVolume b req) w = (Inr vol, w')"
    using assms(1,2) by (elim CreateVolume_ok) simp
  then consider "p = ProtocolNFS" "createNfsVolume d b req w = (Inr vol, w')" | "p = ProtocolSMB" "createSmbVolume d b req w = (Inr vol, w')"
    using assms(3) by auto
  then show ?thesis
  proof cases
    case 1
    then show ?thesis using yieldsD [OF createNfsVolume_ok 1(2)] nfsVolume_share by metis
  next
    case 2
    then show ?thesis using yieldsD [OF createSmbVolume_ok 2(2)] smbVolume_share by metis
  qed
qed

text \<open>
  C6: a file-share volume that was created or found is reported with at least the requested number
  of bytes; its handle encodes a volume of the requested name and protocol that has the reported
  capacity and whose context is the one returned.  When the values of that volume are such that the
  URI can carry them, publishing the handle gives any node exactly the returned context, in any
  world and without calling the backend.
\<close>

theorem created_share_volume:
  assumes "CreateVolume d b req w = (Inr vol, w')" "protocolFromParams (Some d) (cvr_Parameters req) = Inr p"
    and "p \<in> {ProtocolNFS, ProtocolSMB}"
  shows "(\<exists>v n. shareVolume req p vol v \<and> requiredBytesFromRange (cvr_CapacityRange req) 1 = Inr n \<and> n \<le> vol_CapacityBytes vol) \<and>
    (\<forall>v. shareVolume req p vol v \<and> storable (v\<lparr>vid_nameSpecified := True\<rparr>) \<longrightarrow>
      pub_VolumeId preq = vol_VolumeId vol \<longrightarrow> pub_NodeId preq \<noteq> [] \<longrightarrow> supportsAccessModeForProtocol (Some d) (pub_VolumeCapability preq) p \<longrightarrow>
      ControllerPublishVolume d b2 preq w1 = (Inr (vol_VolumeContext vol), w1))"
proof (intro conjI allI impI)
  show "\<exists>v n. shareVolume req p vol v \<and> requiredBytesFromRange (cvr_CapacityRange req) 1 = Inr n \<and> n \<le> vol_CapacityBytes vol"
    using created_share_is_share [OF assms] unfolding shareVolume_def by metis
  fix v
  assume v: "shareVolume req p vol v \<and> storable (v\<lparr>vid_nameSpecified := True\<rparr>)" and preq: "pub_VolumeId preq = vol_VolumeId vol" "pub_NodeId preq \<noteq> []"
    "supportsAccessModeForProtocol (Some d) (pub_VolumeCapability preq) p"
  let ?v = "v\<lparr>vid_nameSpecified := True\<rparr>"
  have "storableNFS ?v \<or> storableSMB ?v"
    using v assms(3) by (auto simp: storable_def storableISCSI_def shareVolume_def)
  then have "DecodeVolumeID (vol_VolumeId vol) = Inr ?v"
    using v encode_decode_NFS [of ?v] encode_decode_SMB [of ?v] by (auto simp: shareVolume_def)
  moreover from this have "vol_VolumeId vol \<noteq> []" using DecodeVolumeID_Nil [of ?v] by metis
  ultimately have "ControllerPublishVolume d b2 preq w1 = (Inr (volumeContextForVolumeID ?v), w1)"
    using preq v assms(3) by (intro publish_share) (auto simp: shareVolume_def)
  then show "ControllerPublishVolume d b2 preq w1 = (Inr (vol_VolumeContext vol), w1)" using v by (simp add: shareVolume_def)
qed

definition demoShareBackend :: "unit Backend" where
  "demoShareBackend = demoBackend\<lparr>b_CreateSmbShare := \<lambda>n p s f c r o'.
     return (zeroVolumeInfo\<lparr>vi_SmbServer := ''nas'', vi_SmbShareName := n, vi_VHDXPath := ''D:shares'', vi_CapacityBytes := s\<rparr>)\<rparr>"

definition demoShareRequest :: CreateVolumeRequest where
  "demoShareRequest = demoRequest\<lparr>cvr_Parameters := [''protocol'' \<mapsto> ''SMB'', ''shareParentPath'' \<mapsto> ''D:/shares'']\<rparr>"

definition demoShareInfo :: VolumeInfo where
  "demoShareInfo = zeroVolumeInfo\<lparr>vi_SmbServer := ''nas'', vi_SmbShareName := ''pvc-1'', vi_VHDXPath := ''D:shares'', vi_CapacityBytes := 1073741824\<rparr>"

definition demoShareVolume :: Volume where
  "demoShareVolume = smbVolume demoShareRequest [] fileShareBackendDirectory demoShareInfo 1073741824"

lemma demo_share_protocol: "protocolFromParams (Some demoDriver) (cvr_Parameters demoShareRequest) = Inr ProtocolSMB"
  by code_simp

lemma demo_share_options:
  "shareParent (cvr_Parameters demoShareRequest) = Inr ''D:/shares''"
  "fileShareBackendFromParams (Some demoDriver) (cvr_Parameters demoShareRequest) = Inr fileShareBackendDirectory"
  "requiredBytesFromRange (cvr_CapacityRange demoShareRequest) 1 = Inr 1073741824"
  "isInr (smbOptionsFromParams (cvr_Parameters demoShareRequest))"
  "getStringParam (cvr_Parameters demoShareRequest) ''smbServer'' = None"
  "fileShareBackendDirectory \<noteq> fileShareBackendVHDX"
  "cvr_Name demoShareRequest = ''pvc-1''"
  "cvr_VolumeContentSource demoShareRequest = None"
  "cvr_VolumeCapabilities demoShareRequest = [SINGLE_NODE_WRITER]"
  "supportsAccessModeForProtocol (Some demoDriver) SINGLE_NODE_WRITER ProtocolSMB"
  by code_simp+

lemma demo_share_created: "CreateVolume demoDriver demoShareBackend demoShareRequest () = (Inr demoShareVolume, ())"
proof -
  obtain opts where o: "smbOptionsFromParams (cvr_Parameters demoShareRequest) = Inr opts"
    using demo_share_options(4) by (auto simp: isInr_def split: sum.splits)
  have "createSmbVolume demoDriver demoShareBackend demoShareRequest () = (Inr demoShareVolume, ())"
    using demo_share_options o
    by (simp add: createSmbVolume_def Let_def call_def demoShareBackend_def demoBackend_def demoShareVolume_def
        demoShareInfo_def orEmpty_def)
  then show ?thesis using demo_share_options demo_share_protocol by (simp add: CreateVolume_def)
qed

definition demoShareID :: VolumeID where
  "demoShareID = fileShareVolumeID ''pvc-1'' ProtocolSMB fileShareBackendDirectory demoShareInfo 1073741824"

lemma demo_share_identity: "shareVolume demoShareRequest ProtocolSMB demoShareVolume demoShareID"
  by (simp add: shareVolume_def demoShareVolume_def smbVolume_def demoShareID_def demoShareRequest_def demoRequest_def
      demoShareInfo_def smb_context maxInt64_def)

definition demoPublish :: "string \<Rightarrow> PublishRequest" where
  "demoPublish handle = \<lparr>pub_VolumeId = handle, pub_NodeId = ''iqn.1991-05.com.microsoft:a'', pub_VolumeCapability = SINGLE_NODE_WRITER,
     pub_Secrets = Map.empty\<rparr>"

text \<open>C6 at a concrete SMB request: the volume that was made is published.\<close>

theorem created_share_volume_witness:
  "ControllerPublishVolume demoDriver demoBackend (demoPublish (vol_VolumeId demoShareVolume)) () = (Inr (vol_VolumeContext demoShareVolume), ()) \<and>
   vol_VolumeContext demoShareVolume ''smbShareName'' = Some ''pvc-1''"
proof -
  have "storable (demoShareID\<lparr>vid_nameSpecified := True\<rparr>)" by code_simp
  moreover have "vol_VolumeContext demoShareVolume ''smbShareName'' = Some ''pvc-1''" by code_simp
  moreover have "ProtocolSMB \<in> {ProtocolNFS, ProtocolSMB}" by simp
  note created_share_volume [OF demo_share_created demo_share_protocol this, THEN conjunct2, THEN spec [of _ demoShareID],
      of "demoPublish (vol_VolumeId demoShareVolume)" demoBackend "()"]
  ultimately show ?thesis using demo_share_identity demo_share_options(10) by (simp add: demoPublish_def)
qed

text \<open>
  A directory-backed share of the requested name that exists is not compared with the request: if
  it is smaller, the volume is returned after the lookup alone, with the requested capacity, and is
  never resized.  For iSCSI volumes the same request is refused.
\<close>

theorem existing_smaller_share_accepted:
  assumes "cvr_Name req \<noteq> []" "cvr_VolumeCapabilities req \<noteq> []" "protocolFromParams (Some d) (cvr_Parameters req) = Inr ProtocolSMB"
    and "list_all (\<lambda>vc. supportsAccessModeForProtocol (Some d) vc ProtocolSMB) (cvr_VolumeCapabilities req)"
    and "cvr_VolumeContentSource req = None" "shareParent (cvr_Parameters req) = Inr dir"
    and "fileShareBackendFromParams (Some d) (cvr_Parameters req) = Inr fileShareBackendDirectory"
    and "smbOptionsFromParams (cvr_Parameters req) = Inr opts" "requiredBytesFromRange (cvr_CapacityRange req) 1 = Inr n"
    and "b_GetSmbShare b (cvr_Name req) dir w = (Inr (True, info), w1)" "vi_CapacityBytes info < n"
  shows "\<exists>vol. CreateVolume d b req w = (Inr vol, w1) \<and> vol_CapacityBytes vol = n"
proof -
  have "\<not> list_ex (\<lambda>vc. \<not> supportsAccessModeForProtocol (Some d) vc ProtocolSMB) (cvr_VolumeCapabilities req)"
    using assms(4) by (auto simp: list_all_iff list_ex_iff)
  then show ?thesis
    using assms by (simp add: CreateVolume_def createSmbVolume_def call_def smbVolume_def maxInt64_def Let_def)
qed

subsection \<open>Properties: publishing\<close>

text \<open>The values behind an iSCSI volume: its handle encodes them and its context shows three of them.\<close>

definition iscsiIdentity :: "Volume \<Rightarrow> volID \<Rightarrow> bool" where
  "iscsiIdentity vol i \<longleftrightarrow> vol_VolumeId vol = encodeVolID i \<and> id_TargetIQN i \<noteq> [] \<and> id_SizeBytes i = vol_CapacityBytes vol \<and>
     vol_VolumeContext vol ''targetPortal'' = Some (id_TargetPortal i) \<and> vol_VolumeContext vol ''iqn'' = Some (id_TargetIQN i) \<and>
     vol_VolumeContext vol ''lun'' = Some (Itoa (id_LUN i))"

text \<open>The backend calls of publishing: CHAP is configured exactly if the secrets ask for it, then one initiator is allowed.\<close>

definition allowsOnly :: "'w Backend \<Rightarrow> string \<Rightarrow> string \<Rightarrow> smap \<Rightarrow> 'w \<Rightarrow> 'w \<Rightarrow> bool" where
  "allowsOnly b target node secrets w w' \<longleftrightarrow> (\<exists>opts w1. targetChapOptionsFromSecrets secrets = Inr opts \<and>
     (if Enabled opts then b_ConfigureTargetChap b target opts w = (Inr (), w1) else w1 = w) \<and>
     b_AllowInitiator b target node w1 = (Inr (), w'))"

lemma ControllerPublishVolume_legacy:
  assumes "volID_ok i" "pub_VolumeId preq = encodeVolID i" "id_TargetIQN i \<noteq> []"
  shows "ControllerPublishVolume d b preq w = (Inr ctx, w') \<longleftrightarrow>
    supportsAccessModeForProtocol (Some d) (pub_VolumeCapability preq) ProtocolISCSI \<and> HasPrefix (pub_NodeId preq) ''iqn.'' \<and>
    targetNameFromVolID i \<noteq> [] \<and> allowsOnly b (targetNameFromVolID i) (pub_NodeId preq) (pub_Secrets preq) w w' \<and>
    ctx = [''targetPortal'' \<mapsto> id_TargetPortal i, ''iqn'' \<mapsto> id_TargetIQN i, ''lun'' \<mapsto> Itoa (id_LUN i)]"
proof -
  obtain v where v: "decodeAnyVolumeID (encodeVolID i) = Inr (v, i)" "vid_Protocol v = ProtocolISCSI"
    using decodeAny_legacy [OF assms(1)] by blast
  show ?thesis
  proof (cases "supportsAccessModeForProtocol (Some d) (pub_VolumeCapability preq) ProtocolISCSI \<and> HasPrefix (pub_NodeId preq) ''iqn.'' \<and>
      targetNameFromVolID i \<noteq> []")
    case False
    then show ?thesis using v assms(2,3) by (auto simp: ControllerPublishVolume_def ok_iff split: if_splits)
  next
    case True
    then have "pub_NodeId preq \<noteq> []" by (auto simp: HasPrefix_def)
    then have "ControllerPublishVolume d b preq w = call (configureTargetChapFromSecrets b (targetNameFromVolID i) (pub_Secrets preq)) id (\<lambda>_.
           call (b_AllowInitiator b (targetNameFromVolID i) (pub_NodeId preq)) (wrapped Internal ''AllowInitiator: %v'') (\<lambda>_.
           return [''targetPortal'' \<mapsto> id_TargetPortal i, ''iqn'' \<mapsto> id_TargetIQN i, ''lun'' \<mapsto> Itoa (id_LUN i)])) w"
      using True v assms(2,3) by (simp add: ControllerPublishVolume_def requireVolumeAndNode_def)
    then show ?thesis using True
      by (auto simp: allowsOnly_def configureTargetChapFromSecrets_def ok_iff split: if_splits)
  qed
qed

text \<open>
  C7: publishing an iSCSI volume by the handle CreateVolume returned.  When the values behind the
  handle are valid UTF-8 and in range, ControllerPublishVolume succeeds exactly if the access mode is
  supported, the node is an initiator IQN, the handle names a target, the CHAP secrets are valid,
  the backend accepts them on that target where they ask for CHAP, and then allows this node
  on that target; these are all the backend calls it makes.  What the node is given is exactly the
  portal, IQN and LUN of the volume context.
\<close>

theorem publish_created_iscsi:
  assumes "CreateVolume d b req w = (Inr vol, w')" "protocolFromParams (Some d) (cvr_Parameters req) = Inr ProtocolISCSI"
  shows "(\<exists>i. iscsiIdentity vol i) \<and>
    (\<forall>i. iscsiIdentity vol i \<and> volID_ok i \<longrightarrow> pub_VolumeId preq = vol_VolumeId vol \<longrightarrow>
      (ControllerPublishVolume d b2 preq w2 = (Inr ctx, w3) \<longleftrightarrow>
        supportsAccessModeForProtocol (Some d) (pub_VolumeCapability preq) ProtocolISCSI \<and> HasPrefix (pub_NodeId preq) ''iqn.'' \<and>
        targetNameFromVolID i \<noteq> [] \<and> allowsOnly b2 (targetNameFromVolID i) (pub_NodeId preq) (pub_Secrets preq) w2 w3 \<and>
        ctx = vol_VolumeContext vol |` {''targetPortal'', ''iqn'', ''lun''}))"
proof (intro conjI allI impI)
  have "createIscsiVolume b req w = (Inr vol, w')" using assms by (elim CreateVolume_ok) simp
  then show "\<exists>i. iscsiIdentity vol i" by (rule createIscsiVolume_ok) (auto simp: describes_def iscsiIdentity_def)
  fix i
  assume i: "iscsiIdentity vol i \<and> volID_ok i" and preq: "pub_VolumeId preq = vol_VolumeId vol"
  have ctx: "vol_VolumeContext vol |` {''targetPortal'', ''iqn'', ''lun''} =
      [''targetPortal'' \<mapsto> id_TargetPortal i, ''iqn'' \<mapsto> id_TargetIQN i, ''lun'' \<mapsto> Itoa (id_LUN i)]"
    using i by (auto simp: fun_eq_iff iscsiIdentity_def restrict_map_def)
  show "ControllerPublishVolume d b2 preq w2 = (Inr ctx, w3) \<longleftrightarrow>
      supportsAccessModeForProtocol (Some d) (pub_VolumeCapability preq) ProtocolISCSI \<and> HasPrefix (pub_NodeId preq) ''iqn.'' \<and>
      targetNameFromVolID i \<noteq> [] \<and> allowsOnly b2 (targetNameFromVolID i) (pub_NodeId preq) (pub_Secrets preq) w2 w3 \<and>
      ctx = vol_VolumeContext vol |` {''targetPortal'', ''iqn'', ''lun''}"
    unfolding ctx using i preq by (intro ControllerPublishVolume_legacy) (auto simp: iscsiIdentity_def)
qed

text \<open>C7 at a concrete request: the volume that was made is published to a node.\<close>

theorem publish_created_iscsi_witness:
  "ControllerPublishVolume demoDriver demoBackend (demoPublish (vol_VolumeId demoVolume)) () =
     (Inr [''targetPortal'' \<mapsto> ''10.0.0.1:3260'', ''iqn'' \<mapsto> ''iqn.1991-05.com.microsoft:wss'', ''lun'' \<mapsto> ''0''], ())"
proof -
  let ?preq = "demoPublish (vol_VolumeId demoVolume)"
  let ?ctx = "[''targetPortal'' \<mapsto> ''10.0.0.1:3260'', ''iqn'' \<mapsto> ''iqn.1991-05.com.microsoft:wss'', ''lun'' \<mapsto> ''0'']"
  have facts: "targetChapOptionsFromSecrets Map.empty = Inr zeroChap" "\<not> Enabled zeroChap" "targetNameFromVolID demoID = ''pvc-1''" "Itoa 0 = ''0''"
      "HasPrefix ''iqn.1991-05.com.microsoft:a'' ''iqn.''" "supportsAccessModeForProtocol (Some demoDriver) SINGLE_NODE_WRITER ProtocolISCSI"
    by code_simp+
  have vol: "demoVolume = iscsiVolume demoRequest demoPlan ''pvc-1'' ''iqn.1991-05.com.microsoft:wss'' 0 ''D:v.vhdx'' 1073741824"
    using demo_created demo_plan facts(1,2) unfolding CreateVolume_iscsi [OF demo_iscsi]
    by (simp add: call_def createIscsiNew_def ensureTargetFor_def configureTargetChapFromSecrets_def
        demoBackend_def zeroVolumeByName_def demoPlan_def demoRequest_def)
  have ctx: "vol_VolumeContext demoVolume |` {''targetPortal'', ''iqn'', ''lun''} = ?ctx"
    using facts(4) by (auto simp: fun_eq_iff restrict_map_def vol iscsiVolume_def context_params demoPlan_def)
  have "iscsiIdentity demoVolume demoID"
    by (simp add: vol iscsiIdentity_def iscsiVolume_def demoID_def context_params demoPlan_def demoRequest_def)
  moreover have "allowsOnly demoBackend ''pvc-1'' (pub_NodeId ?preq) (pub_Secrets ?preq) () ()"
    using facts(1,2) by (simp add: allowsOnly_def demoPublish_def demoBackend_def)
  ultimately show ?thesis
    using publish_created_iscsi [OF demo_created demo_protocol, of ?preq demoBackend "()" ?ctx "()"] demoID_ok(1) facts ctx
    by (simp add: demoPublish_def)
qed

text \<open>
  The access modes a driver advertises are those its handlers accept for its protocol,
  and a volume's capabilities are confirmed exactly when all of them are supported.
\<close>

theorem access_modes_consistent:
  "(let d = newNamedProtocolDriverWithShareBackend name p be nodeID endpoint
    in m \<in> set (d_cap d) \<longleftrightarrow> supportsAccessModeForProtocol (Some d) m p) \<and>
   (ValidateVolumeCapabilities d' vid caps = Inr (Confirmed caps) \<longleftrightarrow> vid \<noteq> [] \<and> caps \<noteq> [] \<and>
     (\<exists>v i. decodeAnyVolumeID vid = Inr (v, i) \<and> list_all (\<lambda>c. supportsAccessModeForProtocol (Some d') c (vid_Protocol v)) caps))"
proof
  show "let d = newNamedProtocolDriverWithShareBackend name p be nodeID endpoint
    in m \<in> set (d_cap d) \<longleftrightarrow> supportsAccessModeForProtocol (Some d) m p"
    by (cases m) (auto simp: newNamedProtocolDriverWithShareBackend_def supportsAccessModeForProtocol_def Let_def
        AddVolumeCapabilityAccessModes_def AddControllerServiceCapabilities_def)
  show "ValidateVolumeCapabilities d' vid caps = Inr (Confirmed caps) \<longleftrightarrow> vid \<noteq> [] \<and> caps \<noteq> [] \<and>
     (\<exists>v i. decodeAnyVolumeID vid = Inr (v, i) \<and> list_all (\<lambda>c. supportsAccessModeForProtocol (Some d') c (vid_Protocol v)) caps)"
    by (auto simp: ValidateVolumeCapabilities_def list_all_iff list_ex_iff split: sum.splits prod.splits if_splits)
qed

end
