(* ===== verification/GoPath.thy ===== *)
theory GoPath
  imports GoStrings GoCodec
begin

text \<open>
  What the node code uses of packages \<^verbatim>\<open>path/filepath\<close> (Unix), \<^verbatim>\<open>strings\<close> and
  \<^verbatim>\<open>fmt\<close> beyond the other components: path cleaning and joining, splitting at white
  space, and the text of an error.
\<close>

subsection \<open>Package filepath\<close>

text \<open>\<^verbatim>\<open>Clean\<close> works through the elements with those kept so far, innermost first.\<close>

fun cleanElems :: "bool \<Rightarrow> string list \<Rightarrow> string list \<Rightarrow> string list" where
  "cleanElems rooted kept [] = rev kept"
| "cleanElems rooted kept (e # es) =
     (if e = [] \<or> e = ''.'' then cleanElems rooted kept es
      else if e = ''..'' then
        (case kept of
           k # ks \<Rightarrow> if k = ''..'' then cleanElems rooted (e # kept) es else cleanElems rooted ks es
         | [] \<Rightarrow> if rooted then cleanElems rooted [] es else cleanElems rooted [e] es)
      else cleanElems rooted (e # kept) es)"

definition Clean :: "string \<Rightarrow> string" where
  "Clean path =
     (if path = [] then ''.''
      else let rooted = HasPrefix path ''/'';
               out = Join (cleanElems rooted [] (splitOn CHR ''/'' path)) ''/''
           in if rooted then ''/'' @ out else if out = [] then ''.'' else out)"

definition JoinPath :: "string list \<Rightarrow> string" where
  "JoinPath elems =
     (let es = filter (\<lambda>e. e \<noteq> []) elems in if es = [] then [] else Clean (Join es ''/''))"

text \<open>The part up to and including the last slash, cleaned.\<close>

definition Dir :: "string \<Rightarrow> string" where
  "Dir path = Clean (rev (dropWhile (\<lambda>c. c \<noteq> CHR ''/'') (rev path)))"

definition Base :: "string \<Rightarrow> string" where
  "Base path =
     (if path = [] then ''.''
      else let p = rev (dropWhile (\<lambda>c. c = CHR ''/'') (rev path));
               b = rev (takeWhile (\<lambda>c. c \<noteq> CHR ''/'') (rev p))
           in if b = [] then ''/'' else b)"

subsection \<open>Package strings\<close>

text \<open>\<^verbatim>\<open>strings.Fields\<close>: \<open>cur\<close> is the field being read, reversed.\<close>

function fieldsFrom :: "string \<Rightarrow> string \<Rightarrow> string list" where
  "fieldsFrom cur s =
     (case s of [] \<Rightarrow> if cur = [] then [] else [rev cur]
      | c # cs \<Rightarrow>
          (case first_match space_runes s of
             Some p \<Rightarrow> (if cur = [] then [] else [rev cur]) @ fieldsFrom [] (drop (length p) s)
           | None \<Rightarrow> fieldsFrom (c # cur) cs))"
  by auto

termination
  by (relation "measure (\<lambda>(cur, s). length s)") (auto dest: first_match_SomeD)

declare fieldsFrom.simps [simp del]

definition Fields :: "string \<Rightarrow> string list" where
  "Fields s = fieldsFrom [] s"

subsection \<open>The text of an error\<close>

text \<open>\<^verbatim>\<open>strconv.Quote\<close> on the bytes below 128; other bytes are kept.\<close>

definition quoteByte :: "char \<Rightarrow> string" where
  "quoteByte c =
     (if c = dq then [bsl, dq] else if c = bsl then [bsl, bsl]
      else if byte c = 7 then [bsl] @ ''a'' else if byte c = 8 then [bsl] @ ''b''
      else if byte c = 12 then [bsl] @ ''f'' else if byte c = 10 then [bsl] @ ''n''
      else if byte c = 13 then [bsl] @ ''r'' else if byte c = 9 then [bsl] @ ''t''
      else if byte c = 11 then [bsl] @ ''v''
      else if byte c < 32 \<or> byte c = 127 then [bsl] @ ''x'' @ [lowerHex (byte c div 16), lowerHex (byte c mod 16)]
      else [c])"

definition Quote :: "string \<Rightarrow> string" where
  "Quote s = [dq] @ concat (map quoteByte s) @ [dq]"

text \<open>\<^verbatim>\<open>fmt.Sprintf\<close> for the verbs the source uses; an operand missing from the list adds nothing.\<close>

fun Sprintf :: "string \<Rightarrow> string list \<Rightarrow> string" where
  "Sprintf [] args = []"
| "Sprintf [c] args = [c]"
| "Sprintf (c # v # rest) args =
     (if c \<noteq> CHR ''%'' then c # Sprintf (v # rest) args
      else if v = CHR ''%'' then CHR ''%'' # Sprintf rest args
      else case args of
        [] \<Rightarrow> Sprintf rest []
      | a # as \<Rightarrow> (if v = CHR ''q'' then Quote a else a) @ Sprintf rest as)"

text \<open>\<^verbatim>\<open>err.Error()\<close>.  A gRPC status prints its code in a way no code of the driver inspects.\<close>

fun errText :: "goerror \<Rightarrow> string" and argText :: "goarg \<Rightarrow> string" where
  "errText (Errorf f args) = Sprintf f (map argText args)"
| "errText (Status c f args) = ''rpc error: '' @ Sprintf f (map argText args)"
| "errText (Foreign m) = m"
| "errText (NotExist m) = m"
| "errText DeadlineExceeded = ''context deadline exceeded''"
| "errText (ExitError n _) = ''exit status '' @ Itoa n"
| "errText (Joined es) = Join (map errText es) [CHR 0x0A]"
| "argText (ArgS s) = s"
| "argText (ArgI i) = Itoa i"
| "argText (ArgE e) = errText e"

text \<open>\<^verbatim>\<open>os.IsNotExist\<close> looks at the error itself, \<^verbatim>\<open>errors.Is\<close> also at what it wraps.\<close>

fun IsNotExist :: "goerror \<Rightarrow> bool" where
  "IsNotExist (NotExist _) = True"
| "IsNotExist _ = False"

fun errorsIsNotExist :: "goerror \<Rightarrow> bool" and argIsNotExist :: "goarg \<Rightarrow> bool" where
  "errorsIsNotExist (NotExist _) = True"
| "errorsIsNotExist (Errorf f args) = (Contains f ''%w'' \<and> list_ex argIsNotExist args)"
| "errorsIsNotExist (Joined es) = list_ex errorsIsNotExist es"
| "errorsIsNotExist (Status _ _ _) = False"
| "errorsIsNotExist (Foreign _) = False"
| "errorsIsNotExist DeadlineExceeded = False"
| "errorsIsNotExist (ExitError _ _) = False"
| "argIsNotExist (ArgS _) = False"
| "argIsNotExist (ArgI _) = False"
| "argIsNotExist (ArgE e) = errorsIsNotExist e"

text \<open>\<^verbatim>\<open>os.IsTimeout\<close>: a context deadline says that it is a timeout.\<close>

fun IsTimeout :: "goerror \<Rightarrow> bool" where
  "IsTimeout DeadlineExceeded = True"
| "IsTimeout _ = False"

text \<open>\<^verbatim>\<open>errors.Join\<close> leaves out the nil errors and is nil when nothing is left.\<close>

definition errorsJoin :: "goerror option list \<Rightarrow> goerror option" where
  "errorsJoin es = (let l = List.map_filter (\<lambda>e. e) es in if l = [] then None else Some (Joined l))"

lemma errorsJoin_Nil [simp]: "errorsJoin [] = None"
  by (simp add: errorsJoin_def List.map_filter_def)

lemma errorsJoin_None_iff [simp]: "errorsJoin es = None \<longleftrightarrow> (\<forall>e \<in> set es. e = None)"
  by (induction es) (auto simp: errorsJoin_def Let_def List.map_filter_def)

subsection \<open>Lemmas: words and lines\<close>

lemma first_match_graphic: "graphic c \<Longrightarrow> first_match space_runes (c # t) = None"
  using first_match_delim [of space_runes c "[]" t] space_runes_bytes [of c] by (simp add: first_match_None_iff)

lemma first_match_graphic_rev: "graphic c \<Longrightarrow> first_match (map rev space_runes) (c # t) = None"
  using first_match_delim [of "map rev space_runes" c "[]" t] space_runes_bytes [of c] by (simp add: first_match_None_iff)

lemma first_match_space: "first_match space_runes (CHR '' '' # t) = Some '' ''"
  by (simp add: first_match_def space_runes_def)

lemma first_match_newline: "first_match (map rev space_runes) (CHR 0x0A # t) = Some [CHR 0x0A]"
  by (simp add: first_match_def space_runes_def)

lemma fieldsFrom_word:
  "\<forall>c \<in> set w. graphic c \<Longrightarrow> fieldsFrom cur (w @ t) = fieldsFrom (rev w @ cur) t"
proof (induction w arbitrary: cur)
  case (Cons c w)
  then have "fieldsFrom cur ((c # w) @ t) = fieldsFrom (c # cur) (w @ t)"
    by (subst fieldsFrom.simps) (simp add: first_match_graphic)
  then show ?case using Cons by simp
qed simp

lemma Fields_word_space [simp]:
  assumes "\<forall>c \<in> set w. graphic c" "w \<noteq> []"
  shows "Fields (w @ CHR '' '' # t) = w # Fields t"
proof -
  have "fieldsFrom (rev w) (CHR '' '' # t) = w # fieldsFrom [] t"
    using assms(2) by (subst fieldsFrom.simps) (simp add: first_match_space)
  then show ?thesis using fieldsFrom_word [OF assms(1), of "[]"] by (simp add: Fields_def)
qed

lemma Fields_word [simp]: "\<forall>c \<in> set w. graphic c \<Longrightarrow> w \<noteq> [] \<Longrightarrow> Fields w = [w]"
  using fieldsFrom_word [of w "[]" "[]"] by (simp add: Fields_def fieldsFrom.simps [of "rev w"])

lemma TrimSpace_last_newline:
  assumes "graphic c" "graphic d"
  shows "TrimSpace (c # s @ [d, CHR 0x0A]) = c # s @ [d]"
proof -
  have l: "stripAll space_runes (c # s @ [d, CHR 0x0A]) = c # s @ [d, CHR 0x0A]"
    using first_match_graphic [OF assms(1)] by (simp add: stripAll_id)
  have "stripAll (map rev space_runes) (CHR 0x0A # d # rev s @ [c]) = stripAll (map rev space_runes) (d # rev s @ [c])"
    by (subst stripAll.simps) (simp add: first_match_newline)
  also have "\<dots> = d # rev s @ [c]" using first_match_graphic_rev [OF assms(2)] by (simp add: stripAll_id)
  finally show ?thesis using l by (simp add: TrimSpace_def)
qed

end
