(* ===== verification/GoProc.thy ===== *)
theory GoProc
  imports GoPath GoTime
begin

text \<open>
  Programs that run on a node.  They differ from the controller's computations in two
  ways: an index out of range or a nil pointer ends them with a panic, which no error
  check of the source sees, and they act on the operating system.  The host is a record of
  the calls the source makes into the operating system and the Kubernetes mount library;
  its state is the world of the computation.
\<close>

named_theorems maintains_intro \<open>syntax-directed rules that carry an invariant of the host through a program\<close>
named_theorems calm_intro \<open>syntax-directed rules for programs that do not panic\<close>
named_theorems run_simps \<open>what a run of a program is, construct by construct\<close>

subsection \<open>Programs that may panic\<close>

datatype 'a outcome = Ret 'a | Err goerror | Panic string

type_synonym ('w, 'a) prog = "'w \<Rightarrow> 'a outcome \<times> 'w"

definition ret :: "'a \<Rightarrow> ('w, 'a) prog" where
  "ret x w = (Ret x, w)"

definition raise :: "goerror \<Rightarrow> ('w, 'a) prog" where
  "raise e w = (Err e, w)"

definition crash :: "string \<Rightarrow> ('w, 'a) prog" where
  "crash s w = (Panic s, w)"

text \<open>\<open>step m f k\<close>: \<^verbatim>\<open>x, err := m; if err != nil { return f(err) }; k(x)\<close>.\<close>

definition step :: "('w, 'a) prog \<Rightarrow> (goerror \<Rightarrow> goerror) \<Rightarrow> ('a \<Rightarrow> ('w, 'b) prog) \<Rightarrow> ('w, 'b) prog" where
  "step m f k w = (case m w of (Ret x, w') \<Rightarrow> k x w' | (Err e, w') \<Rightarrow> (Err (f e), w') | (Panic s, w') \<Rightarrow> (Panic s, w'))"

text \<open>\<open>recover m k\<close>: the continuation looks at the error; a panic passes it by.\<close>

definition recover :: "('w, 'a) prog \<Rightarrow> ('a result \<Rightarrow> ('w, 'b) prog) \<Rightarrow> ('w, 'b) prog" where
  "recover m k w = (case m w of (Ret x, w') \<Rightarrow> k (Inr x) w' | (Err e, w') \<Rightarrow> k (Inl e) w' | (Panic s, w') \<Rightarrow> (Panic s, w'))"

text \<open>A pure result, and a call into the host, which does not panic.\<close>

definition pure :: "'a result \<Rightarrow> ('w, 'a) prog" where
  "pure r w = (case r of Inl e \<Rightarrow> (Err e, w) | Inr x \<Rightarrow> (Ret x, w))"

definition sys :: "('w, 'a) io \<Rightarrow> ('w, 'a) prog" where
  "sys m w = (case m w of (Inl e, w') \<Rightarrow> (Err e, w') | (Inr x, w') \<Rightarrow> (Ret x, w'))"

text \<open>A call that cannot fail: its result may hold an error next to other values.\<close>

type_synonym ('w, 'a) act = "'w \<Rightarrow> 'a \<times> 'w"

definition act :: "('w, 'a) act \<Rightarrow> ('a \<Rightarrow> ('w, 'b) prog) \<Rightarrow> ('w, 'b) prog" where
  "act m k w = (case m w of (x, w') \<Rightarrow> k x w')"

text \<open>\<open>bind m k\<close>: the caller does not look at an error, because the value carries it.\<close>

abbreviation bind :: "('w, 'a) prog \<Rightarrow> ('a \<Rightarrow> ('w, 'b) prog) \<Rightarrow> ('w, 'b) prog" where
  "bind m k \<equiv> step m id k"

text \<open>A value whose computation may panic.\<close>

definition value_of :: "string \<Rightarrow> 'a option \<Rightarrow> ('w, 'a) prog" where
  "value_of msg v w = (case v of None \<Rightarrow> (Panic msg, w) | Some x \<Rightarrow> (Ret x, w))"

definition indexPanic :: string where
  "indexPanic = ''runtime error: index out of range''"

definition nilPanic :: string where
  "nilPanic = ''runtime error: invalid memory address or nil pointer dereference''"

text \<open>\<^verbatim>\<open>xs[i]\<close>.\<close>

definition at :: "'a list \<Rightarrow> nat \<Rightarrow> 'a option" where
  "at xs i = (if i < length xs then Some (xs ! i) else None)"

lemma at_simps [simp]: "at [] i = None" "at (x # xs) 0 = Some x" "at (x # xs) (Suc i) = at xs i"
  by (simp_all add: at_def)

lemma run_basic [run_simps, simp]:
  "ret x w = (Ret x, w)" "raise e w = (Err e, w)" "crash s w = (Panic s, w)"
  "pure (Inl e) w = (Err e, w)" "pure (Inr y) w = (Ret y, w)"
  "value_of m None w = (Panic m, w)" "value_of m (Some y) w = (Ret y, w)"
  by (simp_all add: ret_def raise_def crash_def pure_def value_of_def)

lemma step_eqs [run_simps]:
  "m w = (Ret x, w') \<Longrightarrow> step m f k w = k x w'"
  "m w = (Err e, w') \<Longrightarrow> step m f k w = (Err (f e), w')"
  "m w = (Panic s, w') \<Longrightarrow> step m f k w = (Panic s, w')"
  by (simp_all add: step_def)

lemma recover_eqs [run_simps]:
  "m w = (Ret x, w') \<Longrightarrow> recover m k w = k (Inr x) w'"
  "m w = (Err e, w') \<Longrightarrow> recover m k w = k (Inl e) w'"
  "m w = (Panic s, w') \<Longrightarrow> recover m k w = (Panic s, w')"
  by (simp_all add: recover_def)

lemma sys_eqs [run_simps]:
  "m w = (Inl e, w') \<Longrightarrow> sys m w = (Err e, w')"
  "m w = (Inr x, w') \<Longrightarrow> sys m w = (Ret x, w')"
  by (simp_all add: sys_def)

lemma step_basic [simp]:
  "step (ret x) f k = k x" "step (raise e) f k = raise (f e)"
  "step (crash s) f k = crash s"
  by (auto simp: step_def fun_eq_iff)

lemma step_ret_iff:
  "step m f k w = (Ret y, w') \<longleftrightarrow> (\<exists>x w1. m w = (Ret x, w1) \<and> k x w1 = (Ret y, w'))"
  by (auto simp: step_def split: prod.splits outcome.splits)

lemma recover_ret_iff:
  "recover m k w = (Ret y, w') \<longleftrightarrow>
     (\<exists>x w1. m w = (Ret x, w1) \<and> k (Inr x) w1 = (Ret y, w')) \<or> (\<exists>e w1. m w = (Err e, w1) \<and> k (Inl e) w1 = (Ret y, w'))"
  by (auto simp: recover_def split: prod.splits outcome.splits)

lemma sys_ret_iff: "sys m w = (Ret y, w') \<longleftrightarrow> m w = (Inr y, w')"
  by (auto simp: sys_def split: prod.splits sum.splits)

lemma sys_err_iff: "sys m w = (Err e, w') \<longleftrightarrow> m w = (Inl e, w')"
  by (auto simp: sys_def split: prod.splits sum.splits)

lemma sys_no_panic [simp]: "sys m w \<noteq> (Panic s, w')"
  by (auto simp: sys_def split: prod.splits sum.splits)

lemma pure_ret_iff: "pure r w = (Ret y, w') \<longleftrightarrow> r = Inr y \<and> w' = w"
  by (cases r) auto

lemma value_of_ret_iff: "value_of m v w = (Ret y, w') \<longleftrightarrow> v = Some y \<and> w' = w"
  by (cases v) auto

lemma act_eq [run_simps]: "m w = (x, w') \<Longrightarrow> act m k w = k x w'"
  by (simp add: act_def)

lemma act_ret_iff: "act m k w = (Ret y, w') \<longleftrightarrow> (\<exists>x w1. m w = (x, w1) \<and> k x w1 = (Ret y, w'))"
  by (auto simp: act_def split: prod.splits)

lemmas ret_iff = act_ret_iff step_ret_iff recover_ret_iff sys_ret_iff pure_ret_iff value_of_ret_iff

subsection \<open>The host\<close>

text \<open>What \<^verbatim>\<open>os.Stat\<close> and \<^verbatim>\<open>statfs\<close> tell of a path, and the flags of \<^verbatim>\<open>os.OpenFile\<close>.\<close>

record FileInfo =
  fi_device :: bool

record Statfs =
  st_Bsize :: int
  st_Blocks :: int
  st_Bfree :: int
  st_Bavail :: int
  st_Files :: int
  st_Ffree :: int

datatype openMode = O_TRUNC_WRONLY | O_CREATE_EXCL_WRONLY | O_CREATE

text \<open>
  \<open>h_Output\<close> is \<^verbatim>\<open>exec.CommandContext(ctx, name, args...).Output()\<close> under a context with
  the given timeout: standard output, the error, and whether the context's deadline had
  passed.  \<open>h_cmdOutput\<close> and \<open>h_CombinedOutput\<close> are the calls without a context.  A file
  open for writing is named by its path.  The last part of the record is the
  Kubernetes mount library.
\<close>

record 'w Host =
  h_Output :: "string \<Rightarrow> string list \<Rightarrow> int \<Rightarrow> ('w, string \<times> goerror option \<times> bool) act"
  h_cmdOutput :: "string \<Rightarrow> string list \<Rightarrow> ('w, string \<times> goerror option) act"
  h_CombinedOutput :: "string \<Rightarrow> string list \<Rightarrow> ('w, string \<times> goerror option) act"
  h_Stat :: "string \<Rightarrow> ('w, FileInfo) io"
  h_Glob :: "string \<Rightarrow> ('w, string list) io"
  h_OpenFile :: "string \<Rightarrow> openMode \<Rightarrow> ('w, unit) io"
  h_WriteString :: "string \<Rightarrow> string \<Rightarrow> ('w, unit) io"
  h_Sync :: "string \<Rightarrow> ('w, unit) io"
  h_Close :: "string \<Rightarrow> ('w, unit) io"
  h_Create :: "string \<Rightarrow> ('w, unit) io"
  h_ReadFile :: "string \<Rightarrow> ('w, string) io"
  h_Remove :: "string \<Rightarrow> ('w, unit) io"
  h_MkdirAll :: "string \<Rightarrow> ('w, unit) io"
  h_Statfs :: "string \<Rightarrow> ('w, Statfs) io"
  h_Now :: "('w, int) act"
  h_sleep :: "int \<Rightarrow> ('w, unit) act"
  h_IsLikelyNotMountPoint :: "string \<Rightarrow> ('w, bool \<times> goerror option) act"
  h_Mount :: "string \<Rightarrow> string \<Rightarrow> string \<Rightarrow> string list \<Rightarrow> ('w, unit) io"
  h_MountSensitive :: "string \<Rightarrow> string \<Rightarrow> string \<Rightarrow> string list \<Rightarrow> string list \<Rightarrow> ('w, unit) io"
  h_FormatAndMount :: "string \<Rightarrow> string \<Rightarrow> string \<Rightarrow> string list \<Rightarrow> ('w, unit) io"
  h_FormatAndMountSensitive :: "string \<Rightarrow> string \<Rightarrow> string \<Rightarrow> string list \<Rightarrow> string list \<Rightarrow> ('w, unit) io"
  h_Unmount :: "string \<Rightarrow> ('w, unit) io"
  h_CleanupMountPoint :: "string \<Rightarrow> ('w, unit) io"
  h_GetDeviceNameFromMount :: "string \<Rightarrow> ('w, string) io"
  h_Resize :: "string \<Rightarrow> string \<Rightarrow> ('w, bool) io"

subsection \<open>Invariants of the host\<close>

definition maintains :: "('w \<Rightarrow> bool) \<Rightarrow> ('w, 'a) prog \<Rightarrow> bool" where
  "maintains P m \<longleftrightarrow> (\<forall>w. P w \<longrightarrow> P (snd (m w)))"

lemma maintainsD: "maintains P m \<Longrightarrow> P w \<Longrightarrow> m w = (r, w') \<Longrightarrow> P w'"
  unfolding maintains_def by (metis snd_conv)

lemma maintains_basic [maintains_intro]:
  "maintains P (ret x)" "maintains P (raise e)" "maintains P (crash s)" "maintains P (pure r)" "maintains P (value_of m v)"
  by (auto simp: maintains_def pure_def value_of_def split: sum.splits option.splits)

lemma maintains_step [maintains_intro]:
  "maintains P m \<Longrightarrow> (\<And>x. maintains P (k x)) \<Longrightarrow> maintains P (step m f k)"
  unfolding maintains_def step_def by (force split: prod.splits outcome.splits)

lemma holds_after_step: "P (snd (m w)) \<Longrightarrow> (\<And>x. maintains P (k x)) \<Longrightarrow> P (snd (step m f k w))"
  unfolding maintains_def step_def by (auto split: prod.splits outcome.splits)

lemma holds_after_recover: "P (snd (m w)) \<Longrightarrow> (\<And>x. maintains P (k x)) \<Longrightarrow> P (snd (recover m k w))"
  unfolding maintains_def recover_def by (auto split: prod.splits outcome.splits)

lemma maintains_recover [maintains_intro]:
  "maintains P m \<Longrightarrow> (\<And>r. maintains P (k r)) \<Longrightarrow> maintains P (recover m k)"
  unfolding maintains_def recover_def by (force split: prod.splits outcome.splits)

lemma maintains_act [maintains_intro]:
  "(\<And>w. P w \<Longrightarrow> P (snd (m w))) \<Longrightarrow> (\<And>x. maintains P (k x)) \<Longrightarrow> maintains P (act m k)"
  unfolding maintains_def act_def by (force split: prod.splits)

lemma maintains_sys [maintains_intro]: "(\<And>w. P w \<Longrightarrow> P (snd (m w))) \<Longrightarrow> maintains P (sys m)"
  unfolding maintains_def sys_def by (force split: prod.splits sum.splits)

lemma maintains_if [maintains_intro]: "maintains P m \<Longrightarrow> maintains P n \<Longrightarrow> maintains P (if b then m else n)"
  by simp

lemma maintains_case [maintains_intro]:
  "(\<And>e. maintains P (g e)) \<Longrightarrow> (\<And>x. maintains P (f x)) \<Longrightarrow> maintains P (case_sum g f r)"
  "maintains P m \<Longrightarrow> (\<And>x. maintains P (k x)) \<Longrightarrow> maintains P (case_option m k o')"
  "(\<And>x y. maintains P (p x y)) \<Longrightarrow> maintains P (case_prod p xy)"
  "maintains P m \<Longrightarrow> (\<And>x xs. maintains P (l x xs)) \<Longrightarrow> maintains P (case_list m l ys)"
  by (auto split: sum.splits option.splits prod.splits list.splits)

lemma maintains_case_error [maintains_intro]:
  "(\<And>s as. maintains P (f1 s as)) \<Longrightarrow> (\<And>c s as. maintains P (f2 c s as)) \<Longrightarrow> (\<And>s. maintains P (f3 s)) \<Longrightarrow>
   (\<And>s. maintains P (f4 s)) \<Longrightarrow> maintains P f5 \<Longrightarrow> (\<And>n s. maintains P (f6 n s)) \<Longrightarrow> (\<And>es. maintains P (f7 es)) \<Longrightarrow>
   maintains P (case_goerror f1 f2 f3 f4 f5 f6 f7 e)"
  by (cases e) auto

subsection \<open>Programs that do not panic\<close>

definition calm :: "('w, 'a) prog \<Rightarrow> bool" where
  "calm m \<longleftrightarrow> (\<forall>w s. fst (m w) \<noteq> Panic s)"

lemma calmD: "calm m \<Longrightarrow> m w \<noteq> (Panic s, w')"
  unfolding calm_def by (metis fst_conv)

lemma calm_basic [calm_intro]: "calm (ret x)" "calm (raise e)" "calm (pure r)" "calm (sys m)"
  by (auto simp: calm_def pure_def sys_def split: sum.splits prod.splits)

lemma calm_step [calm_intro]: "calm m \<Longrightarrow> (\<And>x. calm (k x)) \<Longrightarrow> calm (step m f k)"
  unfolding calm_def step_def by (auto split: prod.splits outcome.splits) (metis fst_conv)+

lemma calm_recover [calm_intro]: "calm m \<Longrightarrow> (\<And>r. calm (k r)) \<Longrightarrow> calm (recover m k)"
  unfolding calm_def recover_def by (auto split: prod.splits outcome.splits) (metis fst_conv)+

lemma calm_act [calm_intro]: "(\<And>x. calm (k x)) \<Longrightarrow> calm (act m k)"
  unfolding calm_def act_def by (auto split: prod.splits)

lemma calm_if [calm_intro]: "calm m \<Longrightarrow> calm n \<Longrightarrow> calm (if b then m else n)"
  by simp

lemma calm_case [calm_intro]:
  "(\<And>e. calm (g e)) \<Longrightarrow> (\<And>x. calm (f x)) \<Longrightarrow> calm (case_sum g f r)"
  "calm m \<Longrightarrow> (\<And>x. calm (k x)) \<Longrightarrow> calm (case_option m k o')"
  "(\<And>x y. calm (p x y)) \<Longrightarrow> calm (case_prod p xy)"
  by (auto split: sum.splits option.splits prod.splits)

subsection \<open>Contracts of a host\<close>

text \<open>
  The contract of a host with respect to a property of its world: no call breaks it.  The
  programs of the node inherit it.  There are four levels, for programs that use the commands
  and device files only, that read files, that write and remove them, and that mount as well.
\<close>

locale iscsi_host =
  fixes h :: "'w Host" and P :: "'w \<Rightarrow> bool"
  assumes Output: "P w \<Longrightarrow> P (snd (h_Output h c args t w))"
    and cmdOutput: "P w \<Longrightarrow> P (snd (h_cmdOutput h c args w))"
    and CombinedOutput: "P w \<Longrightarrow> P (snd (h_CombinedOutput h c args w))"
    and Stat: "P w \<Longrightarrow> P (snd (h_Stat h p w))"
    and Glob: "P w \<Longrightarrow> P (snd (h_Glob h p w))"
    and OpenFile: "P w \<Longrightarrow> P (snd (h_OpenFile h p m w))"
    and WriteString: "P w \<Longrightarrow> P (snd (h_WriteString h p s w))"
    and Close: "P w \<Longrightarrow> P (snd (h_Close h p w))"
    and sleep: "P w \<Longrightarrow> P (snd (h_sleep h d w))"
begin

lemmas device_calls [maintains_intro] = Output cmdOutput CombinedOutput Stat Glob OpenFile WriteString Close sleep

end

locale read_host = iscsi_host +
  assumes ReadFile: "P w \<Longrightarrow> P (snd (h_ReadFile h p w))"
begin

lemmas read_calls [maintains_intro] = ReadFile

end

locale file_host = read_host +
  assumes Sync: "P w \<Longrightarrow> P (snd (h_Sync h p w))"
    and Create: "P w \<Longrightarrow> P (snd (h_Create h p w))"
    and Remove: "P w \<Longrightarrow> P (snd (h_Remove h p w))"
    and MkdirAll: "P w \<Longrightarrow> P (snd (h_MkdirAll h p w))"
    and Statfs: "P w \<Longrightarrow> P (snd (h_Statfs h p w))"
    and Now: "P w \<Longrightarrow> P (snd (h_Now h w))"
begin

lemmas file_calls [maintains_intro] = Sync Create Remove MkdirAll Statfs Now

end

locale mount_host = file_host +
  assumes IsLikelyNotMountPoint: "P w \<Longrightarrow> P (snd (h_IsLikelyNotMountPoint h p w))"
    and Mount: "P w \<Longrightarrow> P (snd (h_Mount h s p f opts w))"
    and MountSensitive: "P w \<Longrightarrow> P (snd (h_MountSensitive h s p f opts sens w))"
    and FormatAndMount: "P w \<Longrightarrow> P (snd (h_FormatAndMount h s p f opts w))"
    and FormatAndMountSensitive: "P w \<Longrightarrow> P (snd (h_FormatAndMountSensitive h s p f opts sens w))"
    and Unmount: "P w \<Longrightarrow> P (snd (h_Unmount h p w))"
    and CleanupMountPoint: "P w \<Longrightarrow> P (snd (h_CleanupMountPoint h p w))"
    and GetDeviceNameFromMount: "P w \<Longrightarrow> P (snd (h_GetDeviceNameFromMount h p w))"
    and Resize: "P w \<Longrightarrow> P (snd (h_Resize h s p w))"
begin

lemmas mount_calls [maintains_intro] = IsLikelyNotMountPoint Mount MountSensitive FormatAndMount FormatAndMountSensitive Unmount CleanupMountPoint GetDeviceNameFromMount Resize

end

end
