(* ===== verification/Iscsiadm.thy ===== *)
theory Iscsiadm
  imports GoProc
begin

text \<open>
  Package iscsilib, the commands: \<^verbatim>\<open>pkg/iscsilib/iscsiadm.go\<close> and
  \<^verbatim>\<open>pkg/iscsilib/multipath.go\<close>.  Every operation is a run of \<^verbatim>\<open>iscsiadm\<close>,
  \<^verbatim>\<open>multipath\<close> or \<^verbatim>\<open>multipathd\<close> on the host; klog output is left out.
\<close>

subsection \<open>Running commands\<close>

record Secrets =
  SecretsType :: string
  UserName :: string
  Password :: string
  UserNameIn :: string
  PasswordIn :: string

definition zeroSecrets :: Secrets where
  "zeroSecrets = \<lparr>SecretsType = [], UserName = [], Password = [], UserNameIn = [], PasswordIn = []\<rparr>"

text \<open>
  \<^verbatim>\<open>errors.Is(err, ee)\<close> with a nil \<^verbatim>\<open>ee\<close> never holds, so the error of the command is
  returned as it is and its standard error stays hidden inside it.
\<close>

definition ExecWithTimeout :: "'w Host \<Rightarrow> string \<Rightarrow> string list \<Rightarrow> int \<Rightarrow> ('w, string \<times> goerror option) prog" where
  "ExecWithTimeout h command args timeout =
     act (h_Output h command args timeout) (\<lambda>(out, err, deadline).
       if deadline then ret ([], Some DeadlineExceeded) else ret (out, err))"

definition iscsiCmd :: "'w Host \<Rightarrow> string list \<Rightarrow> ('w, string \<times> goerror option) prog" where
  "iscsiCmd h args = ExecWithTimeout h ''iscsiadm'' args (3 * Second)"

text \<open>\<^verbatim>\<open>out, err := iscsiCmd(args); if err != nil { return f(err) }\<close>.\<close>

definition iscsiRun :: "'w Host \<Rightarrow> string list \<Rightarrow> (goerror \<Rightarrow> goerror) \<Rightarrow> (string \<Rightarrow> ('w, 'a) prog) \<Rightarrow> ('w, 'a) prog" where
  "iscsiRun h args f k =
     bind (iscsiCmd h args) (\<lambda>(out, err). case err of Some e \<Rightarrow> raise (f e) | None \<Rightarrow> k out)"

subsection \<open>Interfaces, discovery and login\<close>

definition ListInterfaces :: "'w Host \<Rightarrow> ('w, string list \<times> goerror option) prog" where
  "ListInterfaces h =
     bind (iscsiCmd h [''-m'', ''iface'', ''-o'', ''show'']) (\<lambda>(out, err). ret (splitOn CHR 0x0A out, err))"

definition ShowInterface :: "'w Host \<Rightarrow> string \<Rightarrow> ('w, string \<times> goerror option) prog" where
  "ShowInterface h iface = iscsiCmd h [''-m'', ''iface'', ''-o'', ''show'', ''-I'', iface]"

definition chapUpdate :: "string \<Rightarrow> Secrets \<Rightarrow> string list" where
  "chapUpdate prefix s =
     [''-o'', ''update'',
      ''-n'', prefix @ ''.auth.authmethod'', ''-v'', ''CHAP'',
      ''-n'', prefix @ ''.auth.username'', ''-v'', UserName s,
      ''-n'', prefix @ ''.auth.password'', ''-v'', Password s] @
     (if UserNameIn s \<noteq> [] then [''-n'', prefix @ ''.auth.username_in'', ''-v'', UserNameIn s] else []) @
     (if PasswordIn s \<noteq> [] then [''-n'', prefix @ ''.auth.password_in'', ''-v'', PasswordIn s] else [])"

definition createCHAPEntries :: "'w Host \<Rightarrow> string list \<Rightarrow> Secrets \<Rightarrow> bool \<Rightarrow> ('w, unit) prog" where
  "createCHAPEntries h baseArgs secrets discovery =
     iscsiRun h (baseArgs @ chapUpdate (if discovery then ''discovery.sendtargets'' else ''node.session'') secrets)
       (\<lambda>e. Errorf ''failed to update discoverydb with CHAP, err: %v'' [ArgE e]) (\<lambda>_. ret ())"

definition nodeArgs :: "string \<Rightarrow> string \<Rightarrow> string list" where
  "nodeArgs tgtIQN portal = [''-m'', ''node'', ''-T'', tgtIQN, ''-p'', portal]"

definition CreateDBEntry :: "'w Host \<Rightarrow> string \<Rightarrow> string \<Rightarrow> string \<Rightarrow> Secrets \<Rightarrow> Secrets \<Rightarrow> ('w, unit) prog" where
  "CreateDBEntry h tgtIQN portal iFace discoverySecrets sessionSecrets =
     iscsiRun h (nodeArgs tgtIQN portal @ [''-I'', iFace, ''-o'', ''new'']) id (\<lambda>_.
     bind (if SecretsType discoverySecrets = ''chap''
             then createCHAPEntries h (nodeArgs tgtIQN portal) discoverySecrets True else ret ()) (\<lambda>_.
     if SecretsType sessionSecrets = ''chap''
       then createCHAPEntries h (nodeArgs tgtIQN portal) sessionSecrets False else ret ()))"

definition discoverArgs :: "string \<Rightarrow> string \<Rightarrow> string list" where
  "discoverArgs tp iface = [''-m'', ''discoverydb'', ''-t'', ''sendtargets'', ''-p'', tp, ''-I'', iface]"

definition Discoverydb :: "'w Host \<Rightarrow> string \<Rightarrow> string \<Rightarrow> Secrets \<Rightarrow> bool \<Rightarrow> ('w, unit) prog" where
  "Discoverydb h tp iface discoverySecrets chapDiscovery =
     bind (iscsiCmd h (discoverArgs tp iface @ [''-o'', ''new''])) (\<lambda>(out, err).
     case err of
       Some e \<Rightarrow> raise (Errorf ''failed to create new entry of target in discoverydb, output: %v, err: %v'' [ArgS out, ArgE e])
     | None \<Rightarrow>
         bind (if chapDiscovery then createCHAPEntries h (discoverArgs tp iface) discoverySecrets True else ret ()) (\<lambda>_.
         bind (iscsiCmd h (discoverArgs tp iface @ [''--discover''])) (\<lambda>(_, err).
         case err of
           Some e \<Rightarrow>
             bind (iscsiCmd h (discoverArgs tp iface @ [''-o'', ''delete''])) (\<lambda>_.
               raise (Errorf ''failed to sendtargets to portal %s, err: %v'' [ArgS tp, ArgE e]))
         | None \<Rightarrow> ret ())))"

definition GetSessions :: "'w Host \<Rightarrow> ('w, string \<times> goerror option) prog" where
  "GetSessions h = iscsiCmd h [''-m'', ''session'']"

definition Login :: "'w Host \<Rightarrow> string \<Rightarrow> string \<Rightarrow> ('w, unit) prog" where
  "Login h tgtIQN portal =
     bind (iscsiCmd h (nodeArgs tgtIQN portal @ [''-l''])) (\<lambda>(_, err).
     case err of
       Some e \<Rightarrow>
         bind (iscsiCmd h (nodeArgs tgtIQN portal @ [''-o'', ''delete''])) (\<lambda>_.
           raise (Errorf ''failed to sendtargets to portal %s, err: %v'' [ArgS portal, ArgE e]))
     | None \<Rightarrow> ret ())"

subsection \<open>Logging out\<close>

definition isISCSIAlreadyAbsent :: "string \<Rightarrow> goerror \<Rightarrow> bool" where
  "isISCSIAlreadyAbsent output err =
     (let outputMsg = ToLower output; msg = outputMsg @ '' '' @ ToLower (errText err) in
      if list_ex (Contains msg) [''no matching sessions'', ''no records found'', ''no record found'', ''not currently logged in''] then True
      else if TrimSpace outputMsg = [] then False
      else list_ex (Contains outputMsg) [''not found'', ''does not exist'', ''not exist'', ''could not find''])"

definition isISCSINodeDBEntryAlreadyAbsent :: "string \<Rightarrow> goerror \<Rightarrow> bool" where
  "isISCSINodeDBEntryAlreadyAbsent output err =
     (if isISCSIAlreadyAbsent output err then True
      else if TrimSpace output = [] then False
      else let msg = ToLower (output @ '' '' @ errText err) in
           Contains msg ''could not execute operation on all records'' \<and> Contains msg ''database failure'')"

definition Logout :: "'w Host \<Rightarrow> string \<Rightarrow> string \<Rightarrow> ('w, unit) prog" where
  "Logout h tgtIQN portal =
     bind (iscsiCmd h (nodeArgs tgtIQN portal @ [''-u''])) (\<lambda>(out, err).
     case err of
       Some e \<Rightarrow> if isISCSIAlreadyAbsent out e then ret () else raise e
     | None \<Rightarrow> ret ())"

definition DeleteDBEntry :: "'w Host \<Rightarrow> string \<Rightarrow> ('w, unit) prog" where
  "DeleteDBEntry h tgtIQN =
     bind (iscsiCmd h [''-m'', ''node'', ''-T'', tgtIQN, ''-o'', ''delete'']) (\<lambda>(out, err).
     case err of
       Some e \<Rightarrow> if isISCSINodeDBEntryAlreadyAbsent out e then ret () else raise e
     | None \<Rightarrow> ret ())"

definition DeleteIFace :: "'w Host \<Rightarrow> string \<Rightarrow> ('w, unit) prog" where
  "DeleteIFace h iface = iscsiRun h [''-m'', ''iface'', ''-I'', iface, ''-o'', ''delete''] id (\<lambda>_. ret ())"

end
