(* ===== verification/IscsiLib.thy ===== *)
theory IscsiLib
  imports Iscsiadm
begin

text \<open>
  Package iscsilib, the connector: \<^verbatim>\<open>pkg/iscsilib/iscsi.go\<close>,
  \<^verbatim>\<open>pkg/iscsilib/multipath.go\<close> and \<^verbatim>\<open>pkg/iscsilib/expand.go\<close>, without the JSON form of
  a connector, which is in its own theory.
\<close>

subsection \<open>Data\<close>

record iscsiSession =
  is_Protocol :: string
  is_ID :: int
  is_Portal :: string
  is_IQN :: string
  is_Name :: string

text \<open>The children are nil or non-empty in everything the package makes.\<close>

datatype Device = Device
  (dev_Name: string) (dev_Hctl: string) (dev_Children: "Device list")
  (dev_Type: string) (dev_Transport: string) (dev_Size: string)

record HCTL =
  HBA :: int
  Channel :: int
  Target :: int
  LUN :: int

record Connector =
  c_VolumeName :: string
  c_TargetIqn :: string
  c_TargetPortals :: "string list"
  c_Lun :: int
  c_AuthType :: string
  c_DiscoverySecrets :: Secrets
  c_SessionSecrets :: Secrets
  c_Interface :: string
  c_MountTargetDevice :: "Device option"
  c_Devices :: "Device list"
  c_RetryCount :: nat
  c_CheckInterval :: nat
  c_DoDiscovery :: bool
  c_DoCHAPDiscovery :: bool

definition zeroConnector :: Connector where
  "zeroConnector = \<lparr>c_VolumeName = [], c_TargetIqn = [], c_TargetPortals = [], c_Lun = 0, c_AuthType = [],
     c_DiscoverySecrets = zeroSecrets, c_SessionSecrets = zeroSecrets, c_Interface = [], c_MountTargetDevice = None,
     c_Devices = [], c_RetryCount = 0, c_CheckInterval = 0, c_DoDiscovery = False, c_DoCHAPDiscovery = False\<rparr>"

definition zeroDevice :: Device where
  "zeroDevice = Device [] [] [] [] [] []"

definition GetPath :: "Device \<Rightarrow> string" where
  "GetPath d = (if dev_Type d = ''mpath'' then JoinPath [''/dev/mapper'', dev_Name d] else JoinPath [''/dev'', dev_Name d])"

definition errNotExist :: goerror where
  "errNotExist = NotExist ''file does not exist''"

subsection \<open>Sessions\<close>

text \<open>
  \<^verbatim>\<open>strconv.ParseInt(id, 10, 32)\<close> with the error ignored: 0 for text that is no number, the
  nearest bound for a number out of range.
\<close>

definition parseInt32OrBound :: "string \<Rightarrow> int" where
  "parseInt32OrBound s =
     (let (neg, ds) = (case s of [] \<Rightarrow> (False, [])
                       | c # cs \<Rightarrow> if c = CHR ''-'' then (True, cs) else if c = CHR ''+'' then (False, cs) else (False, s))
      in case parseNat ds of None \<Rightarrow> 0
         | Some n \<Rightarrow> if neg then max (- int n) (- (2 ^ 31)) else min (int n) (2 ^ 31 - 1))"

text \<open>One line of \<^verbatim>\<open>iscsiadm -m session\<close>; \<open>None\<close> is the panic on an IQN without a colon.\<close>

definition parseSession :: "string list \<Rightarrow> iscsiSession option" where
  "parseSession e =
     (let id' = filter (\<lambda>c. c \<noteq> CHR ''['' \<and> c \<noteq> CHR '']'') (e ! 1) in
      map_option (\<lambda>name.
        \<lparr>is_Protocol = hd (splitOn CHR '':'' (e ! 0)), is_ID = int32_of (parseInt32OrBound id'),
         is_Portal = hd (splitOn CHR '','' (e ! 2)), is_IQN = e ! 3, is_Name = name\<rparr>)
        (at (splitOn CHR '':'' (e ! 3)) 1))"

fun parseEntries :: "string list \<Rightarrow> iscsiSession list option" where
  "parseEntries [] = Some []"
| "parseEntries (entry # entries) =
     (let e = Fields entry in
      if length e < 4 then parseEntries entries
      else case parseSession e of
        None \<Rightarrow> None
      | Some s \<Rightarrow> map_option (\<lambda>ss. s # ss) (parseEntries entries))"

definition parseSessions :: "string \<Rightarrow> iscsiSession list option" where
  "parseSessions lines = parseEntries (splitOn CHR 0x0A (TrimSpace lines))"

text \<open>\<^verbatim>\<open>iscsiadm\<close> exits with 21 when there is no session.\<close>

definition getCurrentSessions :: "'w Host \<Rightarrow> ('w, iscsiSession list) prog" where
  "getCurrentSessions h =
     bind (GetSessions h) (\<lambda>(out, err).
       case err of
         Some e \<Rightarrow> (case e of ExitError n _ \<Rightarrow> if n = 21 then ret [] else raise e | _ \<Rightarrow> raise e)
       | None \<Rightarrow> value_of indexPanic (parseSessions out))"

definition sessionExists :: "'w Host \<Rightarrow> string \<Rightarrow> string \<Rightarrow> ('w, bool) prog" where
  "sessionExists h tgtPortal tgtIQN =
     bind (getCurrentSessions h) (\<lambda>sessions.
       ret (list_ex (\<lambda>s. tgtIQN = is_IQN s \<and> tgtPortal = is_Portal s) sessions))"

text \<open>
  The match of \<^verbatim>\<open>iface.transport_name = (.*)\n\<close> at the start of a text: the dot is one
  rune other than a newline.
\<close>

definition transportAt :: "string \<Rightarrow> string option" where
  "transportAt s =
     (if HasPrefix s ''iface'' then
        (let r = drop 5 s;
             n = (case r of [] \<Rightarrow> 0 | c # _ \<Rightarrow> if c = CHR 0x0A then 0 else case decodeRune r of Some (_, k) \<Rightarrow> k | None \<Rightarrow> 1);
             t = drop n r
         in if n \<noteq> 0 \<and> HasPrefix t ''transport_name = '' \<and> CHR 0x0A \<in> set (drop 17 t)
            then Some (takeWhile (\<lambda>c. c \<noteq> CHR 0x0A) (drop 17 t)) else None)
      else None)"

fun findTransport :: "string \<Rightarrow> string option" where
  "findTransport [] = None"
| "findTransport (c # cs) = (case transportAt (c # cs) of Some v \<Rightarrow> Some v | None \<Rightarrow> findTransport cs)"

definition extractTransportName :: "string \<Rightarrow> string" where
  "extractTransportName output =
     (case findTransport output of None \<Rightarrow> [] | Some v \<Rightarrow> if v = [] then ''tcp'' else v)"

subsection \<open>Waiting for a device\<close>

text \<open>The path found: a pattern is replaced by its first match.\<close>

definition pathExists :: "'w Host \<Rightarrow> string \<Rightarrow> string \<Rightarrow> ('w, string) prog" where
  "pathExists h devicePath deviceTransport =
     (if deviceTransport = ''tcp'' then bind (sys (h_Stat h devicePath)) (\<lambda>_. ret devicePath)
      else bind (sys (h_Glob h devicePath)) (\<lambda>fpath. case fpath of [] \<Rightarrow> raise errNotExist | p # _ \<Rightarrow> ret p))"

text \<open>One look at the path, and the retries that are left.\<close>

primrec retryPath :: "'w Host \<Rightarrow> nat \<Rightarrow> string \<Rightarrow> string \<Rightarrow> nat \<Rightarrow> ('w, string) prog" where
  "retryPath h interval transport path 0 = raise errNotExist"
| "retryPath h interval transport path (Suc n) =
     act (h_sleep h (int interval * Second)) (\<lambda>_.
     recover (pathExists h path transport) (\<lambda>r. case r of
       Inr p \<Rightarrow> ret p
     | Inl e \<Rightarrow> if IsNotExist e then retryPath h interval transport path n else raise e))"

definition waitForPathToExist :: "'w Host \<Rightarrow> string \<Rightarrow> nat \<Rightarrow> nat \<Rightarrow> string \<Rightarrow> ('w, string) prog" where
  "waitForPathToExist h devicePath maxRetries intervalSeconds deviceTransport =
     (if devicePath = [] then raise (Errorf ''unable to check unspecified devicePath'' [])
      else recover (pathExists h devicePath deviceTransport) (\<lambda>r. case r of
        Inr p \<Rightarrow> ret p
      | Inl e \<Rightarrow> if IsNotExist e then retryPath h intervalSeconds deviceTransport devicePath maxRetries else raise e))"

subsection \<open>Block devices\<close>

text \<open>A row of lsblk: the device, its kernel name and its parent's kernel name.\<close>

record lsblkRow =
  row_Device :: Device
  row_KName :: string
  row_PkName :: string

text \<open>A row of five or six columns passes the length test and panics on the sixth or seventh.\<close>

definition parseRow :: "string \<Rightarrow> ('w, lsblkRow) prog" where
  "parseRow line =
     (let columns = splitOn CHR '' '' line in
      if length columns < 5 then raise (Errorf ''invalid output from lsblk: %s'' [ArgS line])
      else if length columns < 7 then crash indexPanic
      else ret \<lparr>row_Device = Device (columns ! 0) (columns ! 3) [] (columns ! 4) (columns ! 5) (columns ! 6),
                row_KName = columns ! 1, row_PkName = columns ! 2\<rparr>)"

fun parseRows :: "string list \<Rightarrow> ('w, lsblkRow list) prog" where
  "parseRows [] = ret []"
| "parseRows (line # lines) = bind (parseRow line) (\<lambda>row. bind (parseRows lines) (\<lambda>rows. ret (row # rows)))"

text \<open>The last row of a kernel name is the one in the map.\<close>

definition rowOf :: "lsblkRow list \<Rightarrow> string \<Rightarrow> nat option" where
  "rowOf rows k = find (\<lambda>i. row_KName (rows ! i) = k) (rev [0..<length rows])"

definition addChild :: "Device \<Rightarrow> Device \<Rightarrow> Device" where
  "addChild p c = Device (dev_Name p) (dev_Hctl p) (dev_Children p @ [c]) (dev_Type p) (dev_Transport p) (dev_Size p)"

text \<open>
  The loop that builds the tree: the child is copied into its parent as it is at that moment,
  so children it gets later are not in the copy.
\<close>

fun buildTree :: "lsblkRow list \<Rightarrow> nat list \<Rightarrow> Device list \<Rightarrow> Device list result" where
  "buildTree rows [] devs = Inr devs"
| "buildTree rows (i # is) devs =
     (let pkName = row_PkName (rows ! i) in
      if pkName = [] then buildTree rows is devs
      else case rowOf rows pkName of
        None \<Rightarrow> Inl (Errorf ''invalid output from lsblk: parent device %q not found'' [ArgS pkName])
      | Some p \<Rightarrow> buildTree rows is (devs[p := addChild (devs ! p) (devs ! i)]))"

definition rootsOf :: "lsblkRow list \<Rightarrow> Device list \<Rightarrow> Device list" where
  "rootsOf rows devs = map snd (filter (\<lambda>(r, d). row_PkName r = []) (zip rows devs))"

definition lsblkDevices :: "string \<Rightarrow> ('w, Device list) prog" where
  "lsblkDevices out =
     bind (parseRows (splitOn CHR 0x0A (Trim out [CHR 0x0A]))) (\<lambda>rows.
     bind (pure (buildTree rows [0..<length rows] (map row_Device rows))) (\<lambda>devs. ret (rootsOf rows devs)))"

definition lsblk :: "'w Host \<Rightarrow> string list \<Rightarrow> bool \<Rightarrow> ('w, Device list) prog" where
  "lsblk h devicePaths strict =
     act (h_cmdOutput h ''lsblk'' ([''-rn'', ''-o'', ''NAME,KNAME,PKNAME,HCTL,TYPE,TRAN,SIZE''] @ devicePaths)) (\<lambda>(out, err).
       case err of
         None \<Rightarrow> lsblkDevices out
       | Some (ExitError n stderr) \<Rightarrow>
           if strict \<or> n \<noteq> 64 then raise (Errorf ''%s, (%w)'' [ArgS (Trim stderr [CHR 0x0A]), ArgE (ExitError n stderr)])
           else lsblkDevices out
       | Some e \<Rightarrow> raise e)"

definition GetSCSIDevices :: "'w Host \<Rightarrow> string list \<Rightarrow> bool \<Rightarrow> ('w, Device list) prog" where
  "GetSCSIDevices h devicePaths strict = lsblk h devicePaths strict"

definition GetISCSIDevices :: "'w Host \<Rightarrow> string list \<Rightarrow> bool \<Rightarrow> ('w, Device list) prog" where
  "GetISCSIDevices h devicePaths strict =
     bind (GetSCSIDevices h devicePaths strict) (\<lambda>ds. ret (filter (\<lambda>d. dev_Transport d = ''iscsi'') ds))"

definition ExistsDevice :: "'w Host \<Rightarrow> Device \<Rightarrow> ('w, unit) prog" where
  "ExistsDevice h d = bind (sys (h_Stat h (GetPath d))) (\<lambda>_. ret ())"

definition parseHCTL :: "Device \<Rightarrow> HCTL result" where
  "parseHCTL d =
     (let ids = map Atoi (splitOn CHR '':'' (dev_Hctl d)) in
      if list_all (\<lambda>i. i \<noteq> None) ids \<and> length ids = 4
      then Inr \<lparr>HBA = the (ids ! 0), Channel = the (ids ! 1), Target = the (ids ! 2), LUN = the (ids ! 3)\<rparr>
      else Inl (Errorf ''invalid HCTL (%s) for device %q'' [ArgS (dev_Hctl d), ArgS (dev_Name d)]))"

text \<open>The identifier without its last byte; slicing empty output panics.\<close>

definition WWID :: "'w Host \<Rightarrow> Device \<Rightarrow> ('w, string) prog" where
  "WWID h d =
     bind (ExecWithTimeout h ''scsi_id'' [''-g'', ''-u'', GetPath d] (1 * Second)) (\<lambda>(out, err).
       case err of Some e \<Rightarrow> raise e
       | None \<Rightarrow> if out = [] then crash ''runtime error: slice bounds out of range'' else ret (butlast out))"

subsection \<open>Writing to device files\<close>

definition writeInSCSIDeviceFile :: "'w Host \<Rightarrow> string \<Rightarrow> string \<Rightarrow> string \<Rightarrow> ('w, unit) prog" where
  "writeInSCSIDeviceFile h hctl file content =
     (let filename = JoinPath [''/sys/class/scsi_device'', hctl, ''device'', file] in
      bind (sys (h_OpenFile h filename O_TRUNC_WRONLY)) (\<lambda>_.
      recover (sys (h_WriteString h filename content)) (\<lambda>r.
      recover (sys (h_Close h filename)) (\<lambda>_. pure r))))"

definition Shutdown :: "'w Host \<Rightarrow> Device \<Rightarrow> ('w, unit) prog" where
  "Shutdown h d = writeInSCSIDeviceFile h (dev_Hctl d) ''state'' (''offline'' @ [CHR 0x0A])"

definition DeleteDevice :: "'w Host \<Rightarrow> Device \<Rightarrow> ('w, unit) prog" where
  "DeleteDevice h d = writeInSCSIDeviceFile h (dev_Hctl d) ''delete'' ''1''"

definition Rescan :: "'w Host \<Rightarrow> Device \<Rightarrow> ('w, unit) prog" where
  "Rescan h d = writeInSCSIDeviceFile h (dev_Hctl d) ''rescan'' ''1''"

text \<open>Flushing comes first; what it makes of a device that is gone is not an error.\<close>

definition flushDevice :: "'w Host \<Rightarrow> Device \<Rightarrow> ('w, unit) prog" where
  "flushDevice h d =
     recover (ExistsDevice h d) (\<lambda>r. case r of
       Inr _ \<Rightarrow>
         act (h_CombinedOutput h ''blockdev'' [''--flushbufs'', GetPath d]) (\<lambda>(out, err).
           case err of Some _ \<Rightarrow> raise (Errorf ''%s'' [ArgS out]) | None \<Rightarrow> ret ())
     | Inl e \<Rightarrow> if IsNotExist e then ret () else raise e)"

text \<open>The error of taking one device offline and deleting it, to be kept for the end.\<close>

definition detachDevice :: "'w Host \<Rightarrow> Device \<Rightarrow> ('w, goerror option) prog" where
  "detachDevice h d =
     recover (Shutdown h d) (\<lambda>r. case r of
       Inl e \<Rightarrow> ret (if IsNotExist e then None else Some e)
     | Inr _ \<Rightarrow>
         recover (DeleteDevice h d) (\<lambda>r. case r of
           Inl e \<Rightarrow> ret (if IsNotExist e then None else Some e)
         | Inr _ \<Rightarrow> ret None))"

fun removeEach :: "'w Host \<Rightarrow> Device list \<Rightarrow> goerror list \<Rightarrow> ('w, goerror list) prog" where
  "removeEach h [] errs = ret errs"
| "removeEach h (d # ds) errs =
     bind (flushDevice h d) (\<lambda>_.
     bind (detachDevice h d) (\<lambda>e. removeEach h ds (case e of None \<Rightarrow> errs | Some x \<Rightarrow> errs @ [x])))"

definition RemoveSCSIDevices :: "'w Host \<Rightarrow> Device list \<Rightarrow> ('w, unit) prog" where
  "RemoveSCSIDevices h devices =
     bind (removeEach h devices []) (\<lambda>errs. case errs of [] \<Rightarrow> ret () | e # _ \<Rightarrow> raise e)"

subsection \<open>Multipath\<close>

text \<open>The loop over the devices with the multipath device seen so far; what the errors print of whole devices is left out.\<close>

fun commonChild :: "Device list \<Rightarrow> Device option \<Rightarrow> Device option result" where
  "commonChild [] mp = Inr mp"
| "commonChild (d # ds) mp =
     (case dev_Children d of
        [c] \<Rightarrow>
          (case mp of
             Some m \<Rightarrow> if dev_Name c \<noteq> dev_Name m
                        then Inl (Errorf (''devices don'' @ [CHR 0x27] @ ''t share a common multipath device: %v'') [])
                        else commonChild ds (Some c)
           | None \<Rightarrow> commonChild ds (Some c))
      | cs \<Rightarrow> Inl (Errorf ''device is not mapped to exactly one multipath device%s: %v''
                      [ArgS (if cs = [] then '' (is multipathd running?)'' else [])]))"

definition getMultipathDevice :: "Device list \<Rightarrow> Device result" where
  "getMultipathDevice devices =
     onOk (commonChild devices None) (\<lambda>mp.
       case mp of
         None \<Rightarrow> Inl (Errorf ''multipath device not found'' [])
       | Some m \<Rightarrow> if dev_Type m \<noteq> ''mpath'' then Inl (Errorf ''device is not of mpath type: %v'' []) else Inr m)"

definition FlushMultipathDevice :: "'w Host \<Rightarrow> Device \<Rightarrow> ('w, unit) prog" where
  "FlushMultipathDevice h device =
     (let devicePath = GetPath device in
      bind (ExecWithTimeout h ''multipath'' [''-f'', devicePath] (5 * Second)) (\<lambda>(_, err).
      case err of
        None \<Rightarrow> ret ()
      | Some e \<Rightarrow>
          recover (sys (h_Stat h devicePath)) (\<lambda>r.
            if (case r of Inl se \<Rightarrow> IsNotExist se | Inr _ \<Rightarrow> False) then ret ()
            else raise (if Contains (errText e) ''map in use''
                        then Errorf ''device is probably still in use somewhere else: %v'' [ArgE e] else e))))"

definition ResizeMultipathDevice :: "'w Host \<Rightarrow> Device \<Rightarrow> ('w, unit) prog" where
  "ResizeMultipathDevice h device =
     act (h_CombinedOutput h ''multipathd'' [''resize'', ''map'', dev_Name device]) (\<lambda>(output, err).
       case err of
         Some e \<Rightarrow> raise (Errorf ''could not resize multipath device: %s (%v)'' [ArgS output, ArgE e])
       | None \<Rightarrow> ret ())"

text \<open>What \<^verbatim>\<open>IsMultipathConsistent\<close> keeps between two devices: the reference LUN and the controllers seen.\<close>

record mpState =
  mp_LUN :: int
  mp_Name :: string
  mp_HBA :: "int \<Rightarrow> string option"

definition checkPath :: "Device \<Rightarrow> mpState \<Rightarrow> mpState result" where
  "checkPath d st =
     (if dev_Type d = ''mpath'' then Inr st
      else onOk (parseHCTL d) (\<lambda>hctl.
        if mp_LUN st \<noteq> -1 \<and> LUN hctl \<noteq> mp_LUN st then
          Inl (Errorf ''devices LUNs differ: %s (%d) != %s (%d)'' [ArgS (dev_Name d), ArgI (LUN hctl), ArgS (mp_Name st), ArgI (mp_LUN st)])
        else case mp_HBA st (HBA hctl) of
          Some name \<Rightarrow> Inl (Errorf ''two devices are using the same controller (%d): %s and %s'' [ArgI (HBA hctl), ArgS (dev_Name d), ArgS name])
        | None \<Rightarrow> Inr \<lparr>mp_LUN = (if mp_LUN st = -1 then LUN hctl else mp_LUN st),
                        mp_Name = (if mp_LUN st = -1 then dev_Name d else mp_Name st),
                        mp_HBA = (mp_HBA st)(HBA hctl \<mapsto> dev_Name d)\<rparr>))"

fun checkPaths :: "'w Host \<Rightarrow> Device \<Rightarrow> Device list \<Rightarrow> mpState \<Rightarrow> ('w, unit) prog" where
  "checkPaths h ref [] st = ret ()"
| "checkPaths h ref (d # ds) st =
     (if dev_Size d \<noteq> dev_Size ref then
        raise (Errorf ''devices size differ: %s (%s) != %s (%s)'' [ArgS (dev_Name d), ArgS (dev_Size d), ArgS (dev_Name ref), ArgS (dev_Size ref)])
      else bind (pure (checkPath d st)) (\<lambda>st'.
        step (WWID h d) (\<lambda>e. Errorf ''could not find WWID for device %s: %v'' [ArgS (dev_Name d), ArgE e]) (\<lambda>wwid.
        if wwid \<noteq> dev_Name ref then
          raise (Errorf ''devices WWIDs differ: %s (wwid:%s) != %s (wwid:%s)'' [ArgS (dev_Name d), ArgS wwid, ArgS (dev_Name ref), ArgS (dev_Name ref)])
        else checkPaths h ref ds st')))"

definition IsMultipathConsistent :: "'w Host \<Rightarrow> Connector \<Rightarrow> ('w, unit) prog" where
  "IsMultipathConsistent h c =
     bind (value_of nilPanic (c_MountTargetDevice c)) (\<lambda>m.
       checkPaths h m (m # c_Devices c) \<lparr>mp_LUN = -1, mp_Name = [], mp_HBA = Map.empty\<rparr>)"

definition IsMultipathEnabled :: "Connector \<Rightarrow> ('w, bool) prog" where
  "IsMultipathEnabled c = bind (value_of nilPanic (c_MountTargetDevice c)) (\<lambda>m. ret (dev_Type m = ''mpath''))"

definition getMountTargetDevice :: "Device list \<Rightarrow> Device result" where
  "getMountTargetDevice devices =
     (if length devices > 1 then getMultipathDevice devices
      else case devices of
        [] \<Rightarrow> Inl (Errorf ''could not find mount target device: connector does not contain any device'' [])
      | d # _ \<Rightarrow> Inr d)"

subsection \<open>Connecting\<close>

definition discoverTarget :: "'w Host \<Rightarrow> Connector \<Rightarrow> string \<Rightarrow> string \<Rightarrow> string \<Rightarrow> ('w, unit) prog" where
  "discoverTarget h c targetIqn iFace portal =
     bind (if c_DoDiscovery c then Discoverydb h portal iFace (c_DiscoverySecrets c) (c_DoCHAPDiscovery c) else ret ()) (\<lambda>_.
     if c_DoCHAPDiscovery c \<or> SecretsType (c_SessionSecrets c) = ''chap''
       then CreateDBEntry h targetIqn portal iFace (c_DiscoverySecrets c) (c_SessionSecrets c) else ret ())"

definition byPath :: "string \<Rightarrow> string \<Rightarrow> string \<Rightarrow> int \<Rightarrow> string" where
  "byPath iscsiTransport portal targetIqn lun =
     (if iscsiTransport \<noteq> ''tcp''
      then Join [''/dev/disk/by-path/pci'', ''*'', ''ip'', portal, ''iscsi'', targetIqn, ''lun'', Itoa lun] ''-''
      else Join [''/dev/disk/by-path/ip'', portal, ''iscsi'', targetIqn, ''lun'', Itoa lun] ''-'')"

text \<open>The rescan of an existing session; after a timeout the session is logged out.\<close>

definition rescanTarget :: "'w Host \<Rightarrow> string list \<Rightarrow> ('w, unit) prog" where
  "rescanTarget h baseArgs =
     bind (iscsiCmd h (baseArgs @ [''-R''])) (\<lambda>(_, err).
       if (case err of Some e \<Rightarrow> IsTimeout e | None \<Rightarrow> False) then
         act (h_CombinedOutput h ''iscsiadm'' (baseArgs @ [''-u''])) (\<lambda>(out, err).
           case err of Some _ \<Rightarrow> raise (Errorf ''could not logout from target: %s'' [ArgS out]) | None \<Rightarrow> ret ())
       else ret ())"

definition connectTarget :: "'w Host \<Rightarrow> Connector \<Rightarrow> string \<Rightarrow> string \<Rightarrow> string \<Rightarrow> string \<Rightarrow> ('w, string) prog" where
  "connectTarget h c targetIqn target iFace iscsiTransport =
     (let targetParts = splitOn CHR '':'' target;
          targetPortal = hd targetParts;
          targetPort = (if length targetParts > 1 then targetParts ! 1 else ''3260'');
          portal = Join [targetPortal, targetPort] '':'';
          devicePath = byPath iscsiTransport portal targetIqn (c_Lun c)
      in bind (rescanTarget h (nodeArgs targetIqn targetPortal)) (\<lambda>_.
         recover (sessionExists h portal targetIqn) (\<lambda>r.
         if r = Inr True then waitForPathToExist h devicePath (c_RetryCount c) (c_CheckInterval c) iscsiTransport
         else
           bind (discoverTarget h c targetIqn iFace portal) (\<lambda>_.
           bind (Login h targetIqn portal) (\<lambda>_.
           waitForPathToExist h devicePath (c_RetryCount c) (c_CheckInterval c) iscsiTransport)))))"

text \<open>The loop over the portals: the device paths found and the last error seen.\<close>

fun connectTargets :: "'w Host \<Rightarrow> Connector \<Rightarrow> string \<Rightarrow> string \<Rightarrow> string list \<Rightarrow> string list \<Rightarrow> goerror option
    \<Rightarrow> ('w, string list \<times> goerror option) prog" where
  "connectTargets h c iFace transport [] paths lastErr = ret (paths, lastErr)"
| "connectTargets h c iFace transport (target # targets) paths lastErr =
     recover (connectTarget h c (c_TargetIqn c) target iFace transport) (\<lambda>r. case r of
       Inl e \<Rightarrow> connectTargets h c iFace transport targets paths (Some e)
     | Inr p \<Rightarrow> connectTargets h c iFace transport targets (paths @ [p]) lastErr)"

text \<open>
  The end of \<^verbatim>\<open>Connect\<close>, with devices found.  When the mount target cannot be chosen the
  devices are removed; the inner declaration of \<^verbatim>\<open>err\<close> hides the error of the choice, so after
  a removal without error the caller gets no error and an empty path.
\<close>

definition chooseDevice :: "'w Host \<Rightarrow> Connector \<Rightarrow> ('w, Connector \<times> string result) prog" where
  "chooseDevice h c =
     (case getMountTargetDevice (c_Devices c) of
        Inl _ \<Rightarrow>
          recover (RemoveSCSIDevices h (c_Devices c)) (\<lambda>r. case r of
            Inl e \<Rightarrow> ret (c\<lparr>c_MountTargetDevice := None\<rparr>, Inl e)
          | Inr _ \<Rightarrow> ret (c\<lparr>c_MountTargetDevice := None, c_Devices := []\<rparr>, Inr []))
      | Inr m \<Rightarrow>
          let c' = c\<lparr>c_MountTargetDevice := Some m\<rparr> in
          bind (IsMultipathEnabled c') (\<lambda>multipath.
          recover (if multipath then IsMultipathConsistent h c' else ret ()) (\<lambda>r. case r of
            Inl e \<Rightarrow> ret (c', Inl (Errorf ''multipath is inconsistent: %v'' [ArgE e]))
          | Inr _ \<Rightarrow> ret (c', Inr (GetPath m)))))"

text \<open>The devices behind the paths found; without one the interface record is deleted.\<close>

definition useDevices :: "'w Host \<Rightarrow> Connector \<Rightarrow> string \<Rightarrow> string list \<Rightarrow> goerror option \<Rightarrow> ('w, Connector \<times> string result) prog" where
  "useDevices h c iFace devicePaths lastErr =
     recover (if devicePaths = [] then ret [] else GetISCSIDevices h devicePaths True) (\<lambda>r.
     case r of
       Inl e \<Rightarrow> ret (c\<lparr>c_Devices := []\<rparr>, Inl e)
     | Inr devices \<Rightarrow>
         if devices = [] then
           bind (iscsiCmd h [''-m'', ''iface'', ''-I'', iFace, ''-o'', ''delete'']) (\<lambda>_.
             ret (c\<lparr>c_Devices := []\<rparr>, Inl (Errorf ''failed to find device path: %s, last error seen: %v''
               (ArgS (Join devicePaths '' '') # (case lastErr of None \<Rightarrow> [] | Some e \<Rightarrow> [ArgE e])))))
         else chooseDevice h (c\<lparr>c_Devices := devices\<rparr>))"

text \<open>The connector as \<^verbatim>\<open>Connect\<close> leaves it, and the path or the error.\<close>

definition Connect :: "'w Host \<Rightarrow> Connector \<Rightarrow> ('w, Connector \<times> string result) prog" where
  "Connect h c0 =
     (let c = c0\<lparr>c_RetryCount := (if c_RetryCount c0 = 0 then 10 else c_RetryCount c0),
                 c_CheckInterval := (if c_CheckInterval c0 = 0 then 1 else c_CheckInterval c0)\<rparr>;
          iFace = (if c_Interface c \<noteq> [] then c_Interface c else ''default'')
      in bind (ShowInterface h iFace) (\<lambda>(out, err).
         case err of
           Some e \<Rightarrow> ret (c, Inl e)
         | None \<Rightarrow>
             bind (connectTargets h c iFace (extractTransportName out) (c_TargetPortals c) [] None) (\<lambda>(devicePaths, lastErr).
             useDevices h c iFace devicePaths lastErr)))"

subsection \<open>Disconnecting\<close>

fun logoutEach :: "'w Host \<Rightarrow> string \<Rightarrow> string list \<Rightarrow> goerror option list \<Rightarrow> ('w, goerror option list) prog" where
  "logoutEach h targetIqn [] errs = ret errs"
| "logoutEach h targetIqn (target # targets) errs =
     (let targetPortal = TrimSpace target in
      if targetPortal = [] then logoutEach h targetIqn targets errs
      else recover (Logout h targetIqn targetPortal) (\<lambda>r. logoutEach h targetIqn targets (case r of
        Inl e \<Rightarrow> errs @ [Some (Errorf ''logout from portal %s: %w'' [ArgS targetPortal, ArgE e])]
      | Inr _ \<Rightarrow> errs)))"

definition Disconnect :: "'w Host \<Rightarrow> string \<Rightarrow> string list \<Rightarrow> ('w, unit) prog" where
  "Disconnect h targetIqn targets =
     bind (logoutEach h targetIqn targets []) (\<lambda>errs.
     recover (DeleteDBEntry h targetIqn) (\<lambda>r.
       case errorsJoin (case r of Inl e \<Rightarrow> errs @ [Some (Errorf ''delete iSCSI node db entry: %w'' [ArgE e])] | Inr _ \<Rightarrow> errs) of
         None \<Rightarrow> ret () | Some e \<Rightarrow> raise e))"

definition DisconnectConnector :: "'w Host \<Rightarrow> Connector \<Rightarrow> ('w, unit) prog" where
  "DisconnectConnector h c = Disconnect h (c_TargetIqn c) (c_TargetPortals c)"

definition DisconnectVolume :: "'w Host \<Rightarrow> Connector \<Rightarrow> ('w, unit) prog" where
  "DisconnectVolume h c =
     bind (IsMultipathEnabled c) (\<lambda>multipath.
     bind (value_of nilPanic (c_MountTargetDevice c)) (\<lambda>m.
     if multipath then
       step (IsMultipathConsistent h c) (\<lambda>e. Errorf ''multipath is inconsistent: %v'' [ArgE e]) (\<lambda>_.
       bind (FlushMultipathDevice h m) (\<lambda>_. RemoveSCSIDevices h (c_Devices c)))
     else RemoveSCSIDevices h [m]))"

subsection \<open>Expanding a volume\<close>

definition ExpandVolume :: "'w Host \<Rightarrow> string \<Rightarrow> ('w, unit) prog" where
  "ExpandVolume h volumePath =
     bind (iscsiCmd h [''-m'', ''session'', ''--rescan'']) (\<lambda>_.
     step (sys (h_Stat h volumePath)) (\<lambda>e. Errorf ''stat %q failed: %w'' [ArgS volumePath, ArgE e]) (\<lambda>st.
     if fi_device st then ret ()
     else recover (sys (h_GetDeviceNameFromMount h volumePath)) (\<lambda>r.
       case r of
         Inl e \<Rightarrow> raise (Errorf ''cannot resolve device from mount %q: %v'' [ArgS volumePath, ArgE e])
       | Inr dev \<Rightarrow>
           if dev = [] then raise (Errorf ''cannot resolve device from mount %q: %v'' [ArgS volumePath, ArgS ''<nil>''])
           else
             recover (if HasPrefix dev ''/dev/dm-'' \<or> Contains dev ''/mapper/''
                      then ResizeMultipathDevice h (Device (Base dev) [] [] [] [] []) else ret ()) (\<lambda>_.
             step (sys (h_Resize h dev volumePath)) (\<lambda>e. Errorf ''filesystem resize failed for %s at %s: %w'' [ArgS dev, ArgS volumePath, ArgE e]) (\<lambda>_.
             ret ())))))"

end
