(* ===== verification/GoJson.thy ===== *)
theory GoJson
  imports GoCodec
begin

text \<open>
  Nested JSON values as \<^verbatim>\<open>encoding/json\<close> writes them, and that the reader of the codec
  theory reads them back.
\<close>

fun jsonText :: "json \<Rightarrow> string" where
  "jsonText JNull = ''null''"
| "jsonText (JBool b) = (if b then ''true'' else ''false'')"
| "jsonText (JNum l) = l"
| "jsonText (JStr s) = jsonString s"
| "jsonText (JArr vs) = ''['' @ Join (map jsonText vs) '','' @ '']''"
| "jsonText (JObj kvs) = ''{'' @ Join (map (\<lambda>(k, v). jsonString k @ '':'' @ jsonText v) kvs) '','' @ ''}''"

text \<open>Values with integers for numbers, valid text and at most \<open>d\<close> levels of nesting.\<close>

fun plain :: "nat \<Rightarrow> json \<Rightarrow> bool" where
  "plain d JNull = True"
| "plain d (JBool b) = True"
| "plain d (JNum l) = (\<exists>i. l = Itoa i)"
| "plain d (JStr s) = utf8Valid s"
| "plain d (JArr vs) = (0 < d \<and> (\<forall>v \<in> set vs. plain (d - 1) v))"
| "plain d (JObj kvs) = (0 < d \<and> (\<forall>kv \<in> set kvs. utf8Valid (fst kv) \<and> plain (d - 1) (snd kv)))"

definition valueStart :: "char \<Rightarrow> bool" where
  "valueStart c \<longleftrightarrow> graphic c \<and> c \<noteq> CHR '']'' \<and> c \<noteq> CHR ''}'' \<and> c \<noteq> CHR '',''"

lemma jsonText_start: "plain d j \<Longrightarrow> \<exists>c cs. jsonText j = c # cs \<and> valueStart c"
proof (cases j)
  case (JNum l)
  assume "plain d j"
  then obtain i where "l = Itoa i" using JNum by auto
  moreover obtain c cs where "Itoa i = c # cs" by (cases "Itoa i") auto
  moreover have "c = CHR ''-'' \<or> (48 \<le> byte c \<and> byte c \<le> 57)" using calculation Itoa_chars [of c i] by simp
  moreover have "graphic c" using calculation Itoa_graphic [of i] by simp
  ultimately show ?thesis using JNum by (auto simp: valueStart_def byte_def)
qed (auto simp: valueStart_def graphic_def byte_def jsonString_def)

lemma Join_Cons: "vs \<noteq> [] \<Longrightarrow> Join (v # vs) sep = v @ sep @ Join vs sep"
  by (cases vs) auto

lemma skip_value: "plain d j \<Longrightarrow> skipWS (jsonText j @ t) = jsonText j @ t"
  using jsonText_start [of d j] by (auto simp: valueStart_def skipWS_graphic)

lemma graphic_bracket [simp]: "graphic CHR '']''"
  by (simp add: graphic_def byte_def)

lemma readElems_text:
  assumes "\<And>v n t e. v \<in> set vs \<Longrightarrow> length (jsonText v) \<le> n \<Longrightarrow> flatDelim e \<Longrightarrow>
      readValue (Suc n) d (jsonText v @ e # t) = Some (v, e # t)"
    and "vs \<noteq> []" "Suc (length (Join (map jsonText vs) '','')) \<le> n"
  shows "readElems (Suc n) d (Join (map jsonText vs) '','' @ CHR '']'' # t) = Some (vs, t)"
  using assms
proof (induction vs arbitrary: n)
  case (Cons v vs)
  obtain m where n: "n = Suc m" using Cons.prems(3) by (cases n) auto
  show ?case
  proof (cases "vs = []")
    case True
    then have "readValue (Suc m) d (jsonText v @ CHR '']'' # t) = Some (v, CHR '']'' # t)"
      using Cons.prems(1) [of v] Cons.prems(3) n by (simp add: flatDelim_def)
    then show ?thesis using True n by (simp add: skipWS_graphic)
  next
    case False
    let ?rest = "Join (map jsonText vs) '','' @ CHR '']'' # t"
    have j: "Join (map jsonText (v # vs)) '','' = jsonText v @ '','' @ Join (map jsonText vs) '',''"
      using False Join_Cons [of "map jsonText vs"] by simp
    then have "readValue (Suc m) d (jsonText v @ CHR '','' # ?rest) = Some (v, CHR '','' # ?rest)"
      using Cons.prems(1) [of v] Cons.prems(3) n by (simp add: flatDelim_def)
    moreover have "readElems (Suc m) d ?rest = Some (vs, t)"
      using Cons.prems j n False by (intro Cons.IH) auto
    ultimately show ?thesis unfolding j using n by (simp add: skipWS_graphic)
  qed
qed simp

abbreviation member :: "string \<times> json \<Rightarrow> string" where
  "member kv \<equiv> (case kv of (k, v) \<Rightarrow> jsonString k @ '':'' @ jsonText v)"

lemma readMembers_text:
  assumes "\<And>kv n t e. kv \<in> set kvs \<Longrightarrow> length (jsonText (snd kv)) \<le> n \<Longrightarrow> flatDelim e \<Longrightarrow>
      readValue (Suc n) d (jsonText (snd kv) @ e # t) = Some (snd kv, e # t)"
    and "\<forall>kv \<in> set kvs. utf8Valid (fst kv)" "kvs \<noteq> []" "Suc (length (Join (map member kvs) '','')) \<le> n"
  shows "readMembers (Suc n) d (Join (map member kvs) '','' @ CHR ''}'' # t) = Some (kvs, t)"
  using assms
proof (induction kvs arbitrary: n)
  case (Cons kv kvs)
  obtain k v where kv: "kv = (k, v)" by (cases kv)
  obtain m where n: "n = Suc m" using Cons.prems(4) by (cases n) auto
  have key: "readString (jsonBody k @ dq # u) = Some (k, u)" for u
    using readString_jsonBody [of k] Cons.prems(2) kv by simp
  show ?case
  proof (cases "kvs = []")
    case True
    then have "readValue (Suc m) d (jsonText v @ CHR ''}'' # t) = Some (v, CHR ''}'' # t)"
      using Cons.prems(1) [of kv] Cons.prems(4) n kv by (simp add: flatDelim_def)
    then show ?thesis using True n kv key by (simp add: skipWS_graphic jsonString_def)
  next
    case False
    let ?rest = "Join (map member kvs) '','' @ CHR ''}'' # t"
    have j: "Join (map member (kv # kvs)) '','' = member kv @ '','' @ Join (map member kvs) '',''"
      using False Join_Cons [of "map member kvs"] by simp
    then have "readValue (Suc m) d (jsonText v @ CHR '','' # ?rest) = Some (v, CHR '','' # ?rest)"
      using Cons.prems(1) [of kv] Cons.prems(4) n kv by (simp add: flatDelim_def)
    moreover have "readMembers (Suc m) d ?rest = Some (kvs, t)"
      using Cons.prems j n False by (intro Cons.IH) auto
    ultimately show ?thesis unfolding j using n kv key by (simp add: skipWS_graphic jsonString_def)
  qed
qed simp

lemma readValue_obj:
  assumes "\<And>kv n t e. kv \<in> set kvs \<Longrightarrow> length (jsonText (snd kv)) \<le> n \<Longrightarrow> flatDelim e \<Longrightarrow>
      readValue (Suc n) (Suc k) (jsonText (snd kv) @ e # t) = Some (snd kv, e # t)"
    and "k < 10000" "\<forall>kv \<in> set kvs. utf8Valid (fst kv)" "length (jsonText (JObj kvs)) \<le> n"
  shows "readValue (Suc n) k (jsonText (JObj kvs) @ t) = Some (JObj kvs, t)"
proof (cases "kvs = []")
  case True
  then show ?thesis using assms(2) by (simp add: skipWS_graphic)
next
  case False
  let ?b = "Join (map member kvs) '','' @ CHR ''}'' # t"
  obtain m where n: "n = Suc m" using assms(4) by (cases n) auto
  have "readMembers (Suc m) (Suc k) ?b = Some (kvs, t)"
    using assms n False by (intro readMembers_text) auto
  moreover obtain r where "?b = dq # r"
    using False by (cases kvs; cases "tl kvs") (auto simp: jsonString_def split: prod.splits)
  then have "\<not> HasPrefix (skipWS ?b) ''}''" by (simp add: skipWS_graphic)
  ultimately show ?thesis using n assms(2) by (simp add: skipWS_graphic)
qed

lemma readValue_arr:
  assumes "\<And>v n t e. v \<in> set vs \<Longrightarrow> length (jsonText v) \<le> n \<Longrightarrow> flatDelim e \<Longrightarrow>
      readValue (Suc n) (Suc k) (jsonText v @ e # t) = Some (v, e # t)"
    and "k < 10000" "\<forall>v \<in> set vs. \<exists>d. plain d v" "length (jsonText (JArr vs)) \<le> n"
  shows "readValue (Suc n) k (jsonText (JArr vs) @ t) = Some (JArr vs, t)"
proof (cases "vs = []")
  case True
  then show ?thesis using assms(2) by (simp add: skipWS_graphic graphic_def byte_def skipWS_def)
next
  case False
  let ?b = "Join (map jsonText vs) '','' @ CHR '']'' # t"
  obtain m where n: "n = Suc m" using assms(4) by (cases n) auto
  have "readElems (Suc m) (Suc k) ?b = Some (vs, t)"
    using assms n False by (intro readElems_text) auto
  moreover obtain v vs' where v: "vs = v # vs'" using False by (cases vs) auto
  then obtain c cs where "jsonText v = c # cs" "valueStart c" using assms(3) jsonText_start by fastforce
  then have "\<not> HasPrefix (skipWS ?b) '']''"
    using v by (cases vs') (auto simp: skipWS_graphic valueStart_def)
  ultimately show ?thesis using n assms(2) by (simp add: skipWS_graphic graphic_def byte_def skipWS_def)
qed

lemma readValue_text:
  "plain (10000 - k) j \<Longrightarrow> length (jsonText j) \<le> n \<Longrightarrow> flatDelim e \<Longrightarrow>
   readValue (Suc n) k (jsonText j @ e # t) = Some (j, e # t)"
proof (induction j arbitrary: k n e t)
  case (JArr vs)
  then show ?case by (intro readValue_arr) auto
next
  case (JObj kvs)
  have "readValue (Suc m) (Suc k) (jsonText (snd kv) @ d # u) = Some (snd kv, d # u)"
    if "kv \<in> set kvs" "length (jsonText (snd kv)) \<le> m" "flatDelim d" for kv m d u
    using JObj.IH [of kv "snd kv" "Suc k" m d u] JObj.prems(1) that by (cases kv) (auto simp: prod_set_defs)
  then show ?case using JObj.prems by (intro readValue_obj) auto
next
  case (JNum l)
  then show ?case using readValue_flat [of "JNum l" e n k t] by (auto simp: flat_def)
next
  case (JStr s)
  then show ?case using readValue_flat [of "JStr s" e n k t] by (auto simp: flat_def)
qed (auto simp: skipWS_graphic graphic_def byte_def skipWS_def)

theorem parseJSON_text:
  assumes "plain 10000 (JObj kvs)" "skipWS t = []"
  shows "parseJSON (jsonText (JObj kvs) @ t) = Some (JObj kvs)"
proof -
  have "readValue (Suc n) (Suc 0) (jsonText (snd kv) @ d # u) = Some (snd kv, d # u)"
    if "kv \<in> set kvs" "length (jsonText (snd kv)) \<le> n" "flatDelim d" for kv n d u
    using readValue_text [of 1 "snd kv" n d u] assms(1) that by auto
  then have "readValue (Suc (length (jsonText (JObj kvs) @ t))) 0 (jsonText (JObj kvs) @ t) = Some (JObj kvs, t)"
    using assms(1) by (intro readValue_obj) auto
  then show ?thesis using assms(2) by (simp add: parseJSON_def del: jsonText.simps)
qed

subsection \<open>Decoding into Go values\<close>

text \<open>
  \<^verbatim>\<open>json.Unmarshal\<close> of one value into a variable that holds \<open>old\<close>: null leaves a scalar alone
  and empties a slice or pointer, a value of the wrong type is an error.  A number has to be
  written as an integer of the variable's range.
\<close>

fun decStr :: "json \<Rightarrow> string \<Rightarrow> string option" where
  "decStr (JStr s) old = Some s" | "decStr JNull old = Some old" | "decStr _ old = None"

fun decBool :: "json \<Rightarrow> bool \<Rightarrow> bool option" where
  "decBool (JBool b) old = Some b" | "decBool JNull old = Some old" | "decBool _ old = None"

fun decInt32 :: "json \<Rightarrow> int \<Rightarrow> int option" where
  "decInt32 (JNum l) old = (case ParseInt l of None \<Rightarrow> None | Some i \<Rightarrow> if int32_range i then Some i else None)"
| "decInt32 JNull old = Some old" | "decInt32 _ old = None"

fun decUint :: "json \<Rightarrow> nat \<Rightarrow> nat option" where
  "decUint (JNum l) old = (case parseNat l of None \<Rightarrow> None | Some n \<Rightarrow> if n < 2 ^ 64 then Some n else None)"
| "decUint JNull old = Some old" | "decUint _ old = None"

fun decStrs :: "json list \<Rightarrow> string list \<Rightarrow> string list option" where
  "decStrs [] old = Some []"
| "decStrs (v # vs) old =
     Option.bind (decStr v (case old of [] \<Rightarrow> [] | s # _ \<Rightarrow> s)) (\<lambda>s. map_option (\<lambda>ss. s # ss) (decStrs vs (drop 1 old)))"

definition decStrSlice :: "json \<Rightarrow> string list \<Rightarrow> string list option" where
  "decStrSlice v old = (case v of JArr vs \<Rightarrow> decStrs vs old | JNull \<Rightarrow> Some [] | _ \<Rightarrow> None)"

text \<open>The members of an object into a struct with the named fields.\<close>

fun decMembers :: "string list \<Rightarrow> (string \<Rightarrow> json \<Rightarrow> 's \<Rightarrow> 's option) \<Rightarrow> (string \<times> json) list \<Rightarrow> 's \<Rightarrow> 's option" where
  "decMembers names upd [] s = Some s"
| "decMembers names upd ((k, v) # kvs) s =
     Option.bind (case fieldOf names k of None \<Rightarrow> Some s | Some f \<Rightarrow> upd f v s) (decMembers names upd kvs)"

definition decStruct :: "string list \<Rightarrow> (string \<Rightarrow> json \<Rightarrow> 's \<Rightarrow> 's option) \<Rightarrow> json \<Rightarrow> 's \<Rightarrow> 's option" where
  "decStruct names upd v s = (case v of JObj kvs \<Rightarrow> decMembers names upd kvs s | JNull \<Rightarrow> Some s | _ \<Rightarrow> None)"

definition decInt64 :: "json \<Rightarrow> int \<Rightarrow> int option" where
  "decInt64 v old = (case v of JNum l \<Rightarrow> ParseInt l | JNull \<Rightarrow> Some old | _ \<Rightarrow> None)"

definition decInt32Ptr :: "json \<Rightarrow> int option \<Rightarrow> int option option" where
  "decInt32Ptr v old = (case v of JNull \<Rightarrow> Some None | _ \<Rightarrow> map_option Some (decInt32 v (case old of None \<Rightarrow> 0 | Some i \<Rightarrow> i)))"

text \<open>
  A number decoded into \<^verbatim>\<open>any\<close> is a \<^verbatim>\<open>float64\<close> and an error when it is too large for one: from
  halfway between the largest double and two to the power of 1024.
\<close>

definition numberParts :: "string \<Rightarrow> nat \<times> int" where
  "numberParts l =
     (let body = (case l of c # cs \<Rightarrow> if c = CHR ''-'' then cs else l | [] \<Rightarrow> []);
          mant = takeWhile (\<lambda>c. c \<noteq> CHR ''e'' \<and> c \<noteq> CHR ''E'') body;
          exps = drop (Suc (length mant)) body;
          ints = takeWhile (\<lambda>c. c \<noteq> CHR ''.'') mant;
          fracs = drop (Suc (length ints)) mant;
          ex = (case exps of [] \<Rightarrow> 0
                | c # cs \<Rightarrow> if c = CHR ''-'' then - int ((\<lambda>o'. case o' of None \<Rightarrow> 0 | Some n \<Rightarrow> n) (parseNat cs))
                            else if c = CHR ''+'' then int ((\<lambda>o'. case o' of None \<Rightarrow> 0 | Some n \<Rightarrow> n) (parseNat cs)) else int ((\<lambda>o'. case o' of None \<Rightarrow> 0 | Some n \<Rightarrow> n) (parseNat exps)))
      in ((\<lambda>o'. case o' of None \<Rightarrow> 0 | Some n \<Rightarrow> n) (parseNat (ints @ fracs)), ex - int (length fracs)))"

definition floatOverflows :: "string \<Rightarrow> bool" where
  "floatOverflows l =
     (let (m, e) = numberParts l; bound = 2 ^ 1024 - 2 ^ 970 in
      if 0 \<le> e then m * 10 ^ nat e \<ge> bound else m \<ge> bound * 10 ^ nat (- e))"

fun anyOk :: "json \<Rightarrow> bool" where
  "anyOk (JNum l) = (\<not> floatOverflows l)"
| "anyOk (JArr vs) = list_all anyOk vs"
| "anyOk (JObj kvs) = list_all (\<lambda>kv. anyOk (snd kv)) kvs"
| "anyOk _ = True"

text \<open>Into a variable of type \<^verbatim>\<open>map[string]any\<close>, whose contents nobody looks at.\<close>

definition decAnyMap :: "json \<Rightarrow> unit option" where
  "decAnyMap v = (case v of JObj kvs \<Rightarrow> if anyOk v then Some () else None | JNull \<Rightarrow> Some () | _ \<Rightarrow> None)"

end
