(* ===== verification/ConnectorFile.thy ===== *)
theory ConnectorFile
  imports IscsiLib GoJson
begin

text \<open>
  The file in which a node keeps the connector of a staged volume:
  \<^verbatim>\<open>Connector.Persist\<close> and \<^verbatim>\<open>GetConnectorFromFile\<close> of
  \<^verbatim>\<open>pkg/iscsilib/iscsi.go\<close>, with the JSON form that the struct tags give.
\<close>

subsection \<open>Writing\<close>

definition omitEmpty :: "string \<Rightarrow> string \<Rightarrow> (string \<times> json) list" where
  "omitEmpty k s = (if s = [] then [] else [(k, JStr s)])"

definition jsonSlice :: "('a \<Rightarrow> json) \<Rightarrow> 'a list \<Rightarrow> json" where
  "jsonSlice f xs = (if xs = [] then JNull else JArr (map f xs))"

lemma jsonSlice_cong [fundef_cong]:
  "xs = ys \<Longrightarrow> (\<And>x. x \<in> set ys \<Longrightarrow> f x = g x) \<Longrightarrow> jsonSlice f xs = jsonSlice g ys"
  by (auto simp: jsonSlice_def)

definition jsonSecrets :: "Secrets \<Rightarrow> json" where
  "jsonSecrets s = JObj (omitEmpty ''secretsType'' (SecretsType s) @
     [(''userName'', JStr (UserName s)), (''password'', JStr (Password s))] @
     omitEmpty ''userNameIn'' (UserNameIn s) @ omitEmpty ''passwordIn'' (PasswordIn s))"

fun jsonDevice :: "Device \<Rightarrow> json" where
  "jsonDevice (Device name hctl children type tran sz) =
     JObj ([(''name'', JStr name), (''hctl'', JStr hctl), (''children'', jsonSlice jsonDevice children),
            (''type'', JStr type), (''tran'', JStr tran)] @ omitEmpty ''size'' sz)"

definition jsonConnector :: "Connector \<Rightarrow> json" where
  "jsonConnector c = JObj
     [(''volume_name'', JStr (c_VolumeName c)), (''target_iqn'', JStr (c_TargetIqn c)),
      (''target_portal'', jsonSlice JStr (c_TargetPortals c)), (''lun'', JNum (Itoa (c_Lun c))),
      (''auth_type'', JStr (c_AuthType c)), (''discovery_secrets'', jsonSecrets (c_DiscoverySecrets c)),
      (''session_secrets'', jsonSecrets (c_SessionSecrets c)), (''interface'', JStr (c_Interface c)),
      (''mount_target_device'', case c_MountTargetDevice c of None \<Rightarrow> JNull | Some d \<Rightarrow> jsonDevice d),
      (''devices'', jsonSlice jsonDevice (c_Devices c)),
      (''retry_count'', JNum (Itoa (int (c_RetryCount c)))), (''check_interval'', JNum (Itoa (int (c_CheckInterval c)))),
      (''do_discovery'', JBool (c_DoDiscovery c)), (''do_chap_discovery'', JBool (c_DoCHAPDiscovery c))]"

definition Persist :: "'w Host \<Rightarrow> Connector \<Rightarrow> string \<Rightarrow> ('w, unit) prog" where
  "Persist h c filePath =
     step (sys (h_Create h filePath)) (\<lambda>e. Errorf ''error creating iSCSI persistence file %s: %s'' [ArgS filePath, ArgE e]) (\<lambda>_.
     recover (sys (h_WriteString h filePath (jsonText (jsonConnector c) @ [CHR 0x0A]))) (\<lambda>r.
     recover (sys (h_Close h filePath)) (\<lambda>_.
       case r of Inl e \<Rightarrow> raise (Errorf ''error encoding connector: %v'' [ArgE e]) | Inr _ \<Rightarrow> ret ())))"

subsection \<open>Reading\<close>

text \<open>
  \<^verbatim>\<open>json.Unmarshal\<close> decodes each member into the value at hand: null leaves a scalar or struct
  alone and empties a slice or pointer, an element of a slice is decoded into the element
  that is there.
\<close>

definition secretsFields :: "string list" where
  "secretsFields = [''secretsType'', ''userName'', ''password'', ''userNameIn'', ''passwordIn'']"

definition decSecretsField :: "string \<Rightarrow> json \<Rightarrow> Secrets \<Rightarrow> Secrets option" where
  "decSecretsField f v s =
     (if f = ''secretsType'' then map_option (\<lambda>x. s\<lparr>SecretsType := x\<rparr>) (decStr v (SecretsType s))
      else if f = ''userName'' then map_option (\<lambda>x. s\<lparr>UserName := x\<rparr>) (decStr v (UserName s))
      else if f = ''password'' then map_option (\<lambda>x. s\<lparr>Password := x\<rparr>) (decStr v (Password s))
      else if f = ''userNameIn'' then map_option (\<lambda>x. s\<lparr>UserNameIn := x\<rparr>) (decStr v (UserNameIn s))
      else map_option (\<lambda>x. s\<lparr>PasswordIn := x\<rparr>) (decStr v (PasswordIn s)))"

definition deviceFields :: "string list" where
  "deviceFields = [''name'', ''hctl'', ''children'', ''type'', ''tran'', ''size'']"

fun setDeviceField :: "string \<Rightarrow> string \<Rightarrow> Device \<Rightarrow> Device" where
  "setDeviceField f x (Device name hctl children type tran sz) =
     Device (if f = ''name'' then x else name) (if f = ''hctl'' then x else hctl) children
       (if f = ''type'' then x else type) (if f = ''tran'' then x else tran) (if f = ''size'' then x else sz)"

fun getDeviceField :: "string \<Rightarrow> Device \<Rightarrow> string" where
  "getDeviceField f (Device name hctl children type tran sz) =
     (if f = ''name'' then name else if f = ''hctl'' then hctl else if f = ''type'' then type
      else if f = ''tran'' then tran else sz)"

fun setChildren :: "Device \<Rightarrow> Device list \<Rightarrow> Device" where
  "setChildren (Device name hctl children type tran sz) cs = Device name hctl cs type tran sz"

fun decDevice :: "json \<Rightarrow> Device \<Rightarrow> Device option"
and decDeviceMembers :: "(string \<times> json) list \<Rightarrow> Device \<Rightarrow> Device option"
and decChildren :: "json \<Rightarrow> Device list \<Rightarrow> Device list option"
and decDeviceList :: "json list \<Rightarrow> Device list \<Rightarrow> Device list option" where
  "decDevice (JObj kvs) d = decDeviceMembers kvs d"
| "decDevice JNull d = Some d"
| "decDevice _ d = None"
| "decDeviceMembers [] d = Some d"
| "decDeviceMembers ((k, v) # kvs) d =
     Option.bind (case fieldOf deviceFields k of
         None \<Rightarrow> Some d
       | Some f \<Rightarrow> if f = ''children'' then map_option (setChildren d) (decChildren v (dev_Children d))
                   else map_option (\<lambda>x. setDeviceField f x d) (decStr v (getDeviceField f d)))
       (decDeviceMembers kvs)"
| "decChildren (JArr vs) old = decDeviceList vs old"
| "decChildren JNull old = Some []"
| "decChildren _ old = None"
| "decDeviceList [] old = Some []"
| "decDeviceList (v # vs) old =
     Option.bind (decDevice v (case old of [] \<Rightarrow> zeroDevice | d # _ \<Rightarrow> d)) (\<lambda>d.
       map_option (\<lambda>ds. d # ds) (decDeviceList vs (drop 1 old)))"

definition connectorFields :: "string list" where
  "connectorFields = [''volume_name'', ''target_iqn'', ''target_portal'', ''lun'', ''auth_type'', ''discovery_secrets'',
     ''session_secrets'', ''interface'', ''mount_target_device'', ''devices'', ''retry_count'', ''check_interval'',
     ''do_discovery'', ''do_chap_discovery'']"

definition decDevicePtr :: "json \<Rightarrow> Device option \<Rightarrow> Device option option" where
  "decDevicePtr v old =
     (case v of JNull \<Rightarrow> Some None
      | _ \<Rightarrow> map_option Some (decDevice v (case old of None \<Rightarrow> zeroDevice | Some d \<Rightarrow> d)))"

definition decConnectorField :: "string \<Rightarrow> json \<Rightarrow> Connector \<Rightarrow> Connector option" where
  "decConnectorField f v c =
     (if f = ''volume_name'' then map_option (\<lambda>x. c\<lparr>c_VolumeName := x\<rparr>) (decStr v (c_VolumeName c))
      else if f = ''target_iqn'' then map_option (\<lambda>x. c\<lparr>c_TargetIqn := x\<rparr>) (decStr v (c_TargetIqn c))
      else if f = ''target_portal'' then map_option (\<lambda>x. c\<lparr>c_TargetPortals := x\<rparr>) (decStrSlice v (c_TargetPortals c))
      else if f = ''lun'' then map_option (\<lambda>x. c\<lparr>c_Lun := x\<rparr>) (decInt32 v (c_Lun c))
      else if f = ''auth_type'' then map_option (\<lambda>x. c\<lparr>c_AuthType := x\<rparr>) (decStr v (c_AuthType c))
      else if f = ''discovery_secrets'' then
        map_option (\<lambda>x. c\<lparr>c_DiscoverySecrets := x\<rparr>) (decStruct secretsFields decSecretsField v (c_DiscoverySecrets c))
      else if f = ''session_secrets'' then
        map_option (\<lambda>x. c\<lparr>c_SessionSecrets := x\<rparr>) (decStruct secretsFields decSecretsField v (c_SessionSecrets c))
      else if f = ''interface'' then map_option (\<lambda>x. c\<lparr>c_Interface := x\<rparr>) (decStr v (c_Interface c))
      else if f = ''mount_target_device'' then map_option (\<lambda>x. c\<lparr>c_MountTargetDevice := x\<rparr>) (decDevicePtr v (c_MountTargetDevice c))
      else if f = ''devices'' then map_option (\<lambda>x. c\<lparr>c_Devices := x\<rparr>) (decChildren v (c_Devices c))
      else if f = ''retry_count'' then map_option (\<lambda>x. c\<lparr>c_RetryCount := x\<rparr>) (decUint v (c_RetryCount c))
      else if f = ''check_interval'' then map_option (\<lambda>x. c\<lparr>c_CheckInterval := x\<rparr>) (decUint v (c_CheckInterval c))
      else if f = ''do_discovery'' then map_option (\<lambda>x. c\<lparr>c_DoDiscovery := x\<rparr>) (decBool v (c_DoDiscovery c))
      else map_option (\<lambda>x. c\<lparr>c_DoCHAPDiscovery := x\<rparr>) (decBool v (c_DoCHAPDiscovery c)))"

definition unmarshalConnector :: "string \<Rightarrow> Connector result" where
  "unmarshalConnector raw =
     (case parseJSON raw of
        None \<Rightarrow> Inl (Foreign ''json.Unmarshal'')
      | Some v \<Rightarrow>
          (case decStruct connectorFields decConnectorField v zeroConnector of
             None \<Rightarrow> Inl (Foreign ''json.Unmarshal'') | Some c \<Rightarrow> Inr c))"

definition GetConnectorFromFile :: "'w Host \<Rightarrow> string \<Rightarrow> ('w, Connector) prog" where
  "GetConnectorFromFile h filePath =
     bind (sys (h_ReadFile h filePath)) (\<lambda>raw.
     bind (pure (unmarshalConnector raw)) (\<lambda>c.
     case c_MountTargetDevice c of
       None \<Rightarrow> raise (Errorf ''mountTargetDevice in the connector is nil'' [])
     | Some m \<Rightarrow>
         bind (GetSCSIDevices h [GetPath m] False) (\<lambda>devices.
         case devices of
           [] \<Rightarrow> raise (Errorf ''mountTargetDevice %s not found'' [ArgS (GetPath m)])
         | d # _ \<Rightarrow>
             bind (GetSCSIDevices h (map GetPath (c_Devices c)) False) (\<lambda>ds.
               ret (c\<lparr>c_MountTargetDevice := Some d, c_Devices := ds\<rparr>)))))"

subsection \<open>What is written can be read\<close>

fun deviceOk :: "nat \<Rightarrow> Device \<Rightarrow> bool" where
  "deviceOk n (Device name hctl children type tran sz) \<longleftrightarrow>
     0 < n \<and> utf8Valid name \<and> utf8Valid hctl \<and> utf8Valid type \<and> utf8Valid tran \<and> utf8Valid sz \<and>
     (\<forall>c \<in> set children. deviceOk (n - 1) c)"

definition secretsOk :: "Secrets \<Rightarrow> bool" where
  "secretsOk s \<longleftrightarrow> utf8Valid (SecretsType s) \<and> utf8Valid (UserName s) \<and> utf8Valid (Password s) \<and>
     utf8Valid (UserNameIn s) \<and> utf8Valid (PasswordIn s)"

definition connectorOk :: "Connector \<Rightarrow> bool" where
  "connectorOk c \<longleftrightarrow> utf8Valid (c_VolumeName c) \<and> utf8Valid (c_TargetIqn c) \<and> (\<forall>p \<in> set (c_TargetPortals c). utf8Valid p) \<and>
     int32_range (c_Lun c) \<and> utf8Valid (c_AuthType c) \<and> secretsOk (c_DiscoverySecrets c) \<and> secretsOk (c_SessionSecrets c) \<and>
     utf8Valid (c_Interface c) \<and> (case c_MountTargetDevice c of None \<Rightarrow> True | Some d \<Rightarrow> deviceOk 4000 d) \<and>
     (\<forall>d \<in> set (c_Devices c). deviceOk 4000 d) \<and> c_RetryCount c < 2 ^ 64 \<and> c_CheckInterval c < 2 ^ 64"

lemma plain_slice: "(\<And>x. x \<in> set xs \<Longrightarrow> plain (n - 1) (f x)) \<Longrightarrow> 0 < n \<Longrightarrow> plain n (jsonSlice f xs)"
  by (auto simp: jsonSlice_def)

lemma plain_device: "deviceOk n d \<Longrightarrow> 2 * n \<le> m \<Longrightarrow> plain m (jsonDevice d)"
proof (induction d arbitrary: n m)
  case (Device name hctl children type tran sz)
  have "plain (m - 1) (jsonSlice jsonDevice children)"
  proof (rule plain_slice)
    fix c assume "c \<in> set children"
    then show "plain (m - 1 - 1) (jsonDevice c)" using Device.prems by (intro Device.IH [of c "n - 1"]) auto
  qed (use Device.prems in auto)
  then show ?case using Device.prems by (auto simp: omitEmpty_def utf8Valid_ascii byte_def)
qed

lemma plain_secrets: "secretsOk s \<Longrightarrow> 0 < n \<Longrightarrow> plain n (jsonSecrets s)"
  by (auto simp: secretsOk_def jsonSecrets_def omitEmpty_def utf8Valid_ascii byte_def)

lemma plain_connector: "connectorOk c \<Longrightarrow> plain 10000 (jsonConnector c)"
  unfolding connectorOk_def jsonConnector_def
  by (auto simp: utf8Valid_ascii byte_def split: option.splits
      intro!: plain_slice plain_secrets plain_device [of 4000])

lemma field_names [simp]:
  "f \<in> set names \<Longrightarrow> fieldOf names f = Some f"
  by (simp add: fieldOf_def)

lemma decDeviceList_json:
  assumes "\<And>c. c \<in> set cs \<Longrightarrow> decDevice (jsonDevice c) zeroDevice = Some c"
  shows "decDeviceList (map jsonDevice cs) [] = Some cs"
  using assms by (induction cs) auto

lemma decChildren_json:
  assumes "\<And>c. c \<in> set cs \<Longrightarrow> decDevice (jsonDevice c) zeroDevice = Some c"
  shows "decChildren (jsonSlice jsonDevice cs) [] = Some cs"
  using decDeviceList_json [OF assms] by (auto simp: jsonSlice_def)

lemma decDevice_json [simp]: "decDevice (jsonDevice d) zeroDevice = Some d"
proof (induction d)
  case (Device name hctl children type tran sz)
  then have "decChildren (jsonSlice jsonDevice children) [] = Some children" by (rule decChildren_json)
  then show ?case by (simp add: zeroDevice_def deviceFields_def omitEmpty_def)
qed

lemma decStrs_json [simp]: "decStrs (map JStr ss) [] = Some ss"
  by (induction ss) auto

lemma decSecrets_json [simp]: "decStruct secretsFields decSecretsField (jsonSecrets s) zeroSecrets = Some s"
  by (cases s) (simp add: decStruct_def jsonSecrets_def secretsFields_def decSecretsField_def zeroSecrets_def omitEmpty_def)

lemma decInt32_json [simp]: "int32_range i \<Longrightarrow> decInt32 (JNum (Itoa i)) old = Some i"
  by (simp add: int32_int64)

lemma decUint_json [simp]: "n < 2 ^ 64 \<Longrightarrow> decUint (JNum (Itoa (int n))) old = Some n"
  by (simp add: Itoa_def)

lemma decStrSlice_json [simp]: "decStrSlice (jsonSlice JStr ss) [] = Some ss"
  by (auto simp: decStrSlice_def jsonSlice_def)

lemma jsonDevice_obj: "\<exists>kvs. jsonDevice d = JObj kvs"
  by (cases d) simp

lemma decDevicePtr_json [simp]:
  "decDevicePtr (case p of None \<Rightarrow> JNull | Some d \<Rightarrow> jsonDevice d) None = Some p"
proof (cases p)
  case (Some d)
  obtain kvs where "jsonDevice d = JObj kvs" using jsonDevice_obj by blast
  moreover from this have "decDevice (JObj kvs) zeroDevice = Some d" using decDevice_json [of d] by simp
  ultimately show ?thesis using Some by (simp add: decDevicePtr_def)
qed (simp add: decDevicePtr_def)

lemma decConnector_json:
  assumes "connectorOk c"
  shows "decStruct connectorFields decConnectorField (jsonConnector c) zeroConnector = Some c"
proof -
  have "int32_range (c_Lun c)" "c_RetryCount c < 2 ^ 64" "c_CheckInterval c < 2 ^ 64"
    using assms by (simp_all add: connectorOk_def)
  moreover have "decChildren (jsonSlice jsonDevice (c_Devices c)) [] = Some (c_Devices c)"
    by (simp add: decChildren_json)
  ultimately show ?thesis
    unfolding decStruct_def jsonConnector_def zeroConnector_def
    by (simp add: connectorFields_def decConnectorField_def del: decInt32.simps decUint.simps)
qed

text \<open>
  C27: a connector that was persisted is read back unchanged: secrets, portals, the device tree
  and the retry settings.
\<close>

theorem connector_file_roundtrip:
  assumes "connectorOk c"
  shows "unmarshalConnector (jsonText (jsonConnector c) @ [CHR 0x0A]) = Inr c"
proof -
  obtain kvs where kvs: "jsonConnector c = JObj kvs" by (simp add: jsonConnector_def)
  then have "parseJSON (jsonText (jsonConnector c) @ [CHR 0x0A]) = Some (jsonConnector c)"
    using plain_connector [OF assms] parseJSON_text [of kvs "[CHR 0x0A]"] by (simp add: skipWS_def del: plain.simps)
  then show ?thesis using decConnector_json [OF assms] by (simp add: unmarshalConnector_def)
qed

text \<open>C27 at a connector with CHAP and a multipath device.\<close>

theorem connector_file_roundtrip_witness:
  "let c = zeroConnector\<lparr>c_VolumeName := ''pvc-1'', c_TargetPortals := [''10.0.0.1:3260''], c_Lun := 2,
         c_SessionSecrets := zeroSecrets\<lparr>SecretsType := ''chap'', UserName := ''u'', Password := ''p&<w>''\<rparr>,
         c_MountTargetDevice := Some (Device ''mpatha'' [] [] ''mpath'' [] ''1G''),
         c_Devices := [Device ''sda'' ''2:0:0:1'' [Device ''mpatha'' [] [] ''mpath'' [] ''1G''] ''disk'' ''iscsi'' ''1G'']\<rparr>
   in unmarshalConnector (jsonText (jsonConnector c) @ [CHR 0x0A]) = Inr c"
  unfolding Let_def
  by (rule connector_file_roundtrip)
     (simp add: connectorOk_def secretsOk_def zeroConnector_def zeroSecrets_def utf8Valid_ascii byte_def int32_range_def)

end
