(* ===== verification/Node.thy ===== *)
theory Node
  imports Params ConnectorFile
begin

text \<open>
  The node service: \<^verbatim>\<open>pkg/iscsi/nodeserver.go\<close> and \<^verbatim>\<open>pkg/iscsi/fsstats_linux.go\<close>.  The
  function references of the source that tests replace (\<^verbatim>\<open>iscsilibConnect\<close>,
  \<^verbatim>\<open>getConnectorFromFile\<close> and so on) have their default values; klog output is left out.
  \<^verbatim>\<open>init\<close> fills in the mounter, the executor and the resizer and cannot fail, but not every call
  runs it: which fields are set is the state of the server, a parameter of the calls that
  use a field without \<^verbatim>\<open>init\<close>.
\<close>

subsection \<open>The server\<close>

text \<open>
  Whether the fields \<^verbatim>\<open>mounter\<close>, \<^verbatim>\<open>exec\<close> and \<^verbatim>\<open>resizer\<close> are set.  The values they are set to are the
  host of the calls; a method called on a field that is not set panics.
\<close>

record nodeServer =
  ns_mounter :: bool
  ns_exec :: bool
  ns_resizer :: bool

definition NewNodeServer :: nodeServer where
  "NewNodeServer = \<lparr>ns_mounter = False, ns_exec = False, ns_resizer = False\<rparr>"

definition initServer :: "nodeServer \<Rightarrow> nodeServer" where
  "initServer ns = ns\<lparr>ns_mounter := True, ns_exec := True, ns_resizer := True\<rparr>"

subsection \<open>Requests\<close>

text \<open>The access type of a volume capability: block, mount, or neither.\<close>

datatype accessType = BlockAccess | MountAccess (fs_type: string) (mount_flags: "string list") | NoAccessType

record NodeStageRequest =
  stg_VolumeId :: string
  stg_StagingTargetPath :: string
  stg_VolumeCapability :: "accessType option"
  stg_PublishContext :: smap
  stg_VolumeContext :: smap
  stg_Secrets :: smap

record NodePublishRequest =
  npb_VolumeId :: string
  npb_StagingTargetPath :: string
  npb_TargetPath :: string
  npb_VolumeCapability :: "accessType option"
  npb_Readonly :: bool
  npb_PublishContext :: smap
  npb_VolumeContext :: smap

subsection \<open>Mount options\<close>

definition getStr :: "smap \<Rightarrow> string \<Rightarrow> string option" where
  "getStr m k = (let v = TrimSpace (mget m k) in if m k \<noteq> None \<and> v \<noteq> [] then Some v else None)"

definition fsTypeFromCapability :: "accessType option \<Rightarrow> string" where
  "fsTypeFromCapability vc = (case vc of Some (MountAccess t _) \<Rightarrow> TrimSpace t | _ \<Rightarrow> [])"

definition nonBlank :: "string list \<Rightarrow> string list" where
  "nonBlank opts = filter (\<lambda>o'. o' \<noteq> []) (map TrimSpace opts)"

definition mountOptionsFromCapability :: "accessType option \<Rightarrow> string list" where
  "mountOptionsFromCapability vc = (case vc of Some (MountAccess _ flags) \<Rightarrow> nonBlank flags | _ \<Rightarrow> [])"

definition appendMountOptions :: "string list \<Rightarrow> string \<Rightarrow> string list" where
  "appendMountOptions opts raw = opts @ nonBlank (splitOn CHR '','' raw)"

definition isSensitiveMountOption :: "string \<Rightarrow> bool" where
  "isSensitiveMountOption opt =
     (let (key, _, ok) = Cut (ToLower (TrimSpace opt)) ''='' in
      ok \<and> TrimSpace key \<in> set [''password'', ''pass'', ''credentials'', ''credential''])"

definition splitSensitiveMountOptions :: "string list \<Rightarrow> string list \<times> string list" where
  "splitSensitiveMountOptions opts =
     (filter (\<lambda>o'. \<not> isSensitiveMountOption o') (nonBlank opts), filter isSensitiveMountOption (nonBlank opts))"

definition mountPrepared :: "'w Host \<Rightarrow> string \<Rightarrow> string \<Rightarrow> string \<Rightarrow> string list \<Rightarrow> string list \<Rightarrow> ('w, unit) prog" where
  "mountPrepared h source target fsType opts sensitiveOpts =
     (if sensitiveOpts \<noteq> [] then sys (h_MountSensitive h source target fsType opts sensitiveOpts)
      else sys (h_Mount h source target fsType opts))"

definition formatAndMountPrepared :: "'w Host \<Rightarrow> string \<Rightarrow> string \<Rightarrow> string \<Rightarrow> string list \<Rightarrow> string list \<Rightarrow> ('w, unit) prog" where
  "formatAndMountPrepared h source target fsType opts sensitiveOpts =
     (if sensitiveOpts \<noteq> [] then sys (h_FormatAndMountSensitive h source target fsType opts sensitiveOpts)
      else sys (h_FormatAndMount h source target fsType opts))"

definition mountOptionsReadOnly :: "string list \<Rightarrow> bool" where
  "mountOptionsReadOnly opts = list_ex (\<lambda>o'. ToLower (TrimSpace o') \<in> set [''ro'', ''readonly'']) opts"

definition appendOptionIfMissing :: "string list \<Rightarrow> string \<Rightarrow> string \<Rightarrow> string list" where
  "appendOptionIfMissing opts prefix' value =
     (if value = [] then opts
      else if prefix' \<noteq> [] \<and> list_ex (\<lambda>o'. HasPrefix (ToLower o') (ToLower prefix')) opts then opts
      else opts @ [value])"

subsection \<open>Loops that wait for the clock\<close>

text \<open>
  These loops end when the clock has passed the deadline.  The clock belongs to the host, so
  they are given a number of rounds; a run that has not ended after so many rounds is kept
  apart by this text.
\<close>

definition outOfFuel :: "('w, 'a) prog" where
  "outOfFuel = crash ''out of fuel''"

definition joinErr :: "goerror option list \<Rightarrow> ('w, unit) prog" where
  "joinErr es = (case errorsJoin es of None \<Rightarrow> ret () | Some e \<Rightarrow> raise e)"

definition errOf :: "'a result \<Rightarrow> goerror option" where
  "errOf r = (case r of Inl e \<Rightarrow> Some e | Inr _ \<Rightarrow> None)"

definition probeWritablePath :: "'w Host \<Rightarrow> string \<Rightarrow> ('w, unit) prog" where
  "probeWritablePath h path =
     act (h_Now h) (\<lambda>now.
     let probePath = JoinPath [path, ''.csi-ready-'' @ Itoa now] in
     bind (sys (h_OpenFile h probePath O_CREATE_EXCL_WRONLY)) (\<lambda>_.
     recover (sys (h_WriteString h probePath (''ok'' @ [CHR 0x0A]))) (\<lambda>writeErr.
     recover (sys (h_Sync h probePath)) (\<lambda>syncErr.
     recover (sys (h_Close h probePath)) (\<lambda>closeErr.
     recover (sys (h_Remove h probePath)) (\<lambda>removeErr.
       joinErr [errOf writeErr, errOf syncErr, errOf closeErr, errOf removeErr]))))))"

abbreviation Millisecond :: int where "Millisecond \<equiv> 1000000"

primrec probeUntil :: "'w Host \<Rightarrow> string \<Rightarrow> int \<Rightarrow> nat \<Rightarrow> ('w, unit) prog" where
  "probeUntil h path deadline 0 = outOfFuel"
| "probeUntil h path deadline (Suc fuel) =
     recover (probeWritablePath h path) (\<lambda>r. case r of
       Inr _ \<Rightarrow> ret ()
     | Inl e \<Rightarrow>
         act (h_Now h) (\<lambda>now.
           if now > deadline then raise (Errorf ''timed out waiting for writable filesystem at %s: %w'' [ArgS path, ArgE e])
           else act (h_sleep h (500 * Millisecond)) (\<lambda>_. probeUntil h path deadline fuel)))"

definition waitForStagedFilesystemReady :: "nat \<Rightarrow> 'w Host \<Rightarrow> string \<Rightarrow> string list \<Rightarrow> int \<Rightarrow> ('w, unit) prog" where
  "waitForStagedFilesystemReady fuel h path opts timeout =
     (if mountOptionsReadOnly opts then ret ()
      else act (h_Now h) (\<lambda>now. probeUntil h path (now + timeout) fuel))"

primrec statUntil :: "'w Host \<Rightarrow> string \<Rightarrow> int \<Rightarrow> nat \<Rightarrow> ('w, unit) prog" where
  "statUntil h path deadline 0 = outOfFuel"
| "statUntil h path deadline (Suc fuel) =
     recover (sys (h_Stat h path)) (\<lambda>r. case r of
       Inr _ \<Rightarrow> ret ()
     | Inl _ \<Rightarrow>
         act (h_Now h) (\<lambda>now.
           if now > deadline then raise (Errorf ''timed out waiting for %s'' [ArgS path])
           else act (h_sleep h (300 * Millisecond)) (\<lambda>_. statUntil h path deadline fuel)))"

definition waitForPath :: "nat \<Rightarrow> 'w Host \<Rightarrow> string \<Rightarrow> int \<Rightarrow> ('w, unit) prog" where
  "waitForPath fuel h path timeout = act (h_Now h) (\<lambda>now. statUntil h path (now + timeout) fuel)"

subsection \<open>Volume contexts\<close>

text \<open>The first value under a key: contexts in order, and for each of them the keys in order.\<close>

fun firstSome :: "('a \<Rightarrow> string option) \<Rightarrow> 'a list \<Rightarrow> string option" where
  "firstSome f [] = None"
| "firstSome f (x # xs) = (case f x of None \<Rightarrow> firstSome f xs | Some v \<Rightarrow> Some v)"

definition firstContextValue :: "string \<Rightarrow> smap list \<Rightarrow> string" where
  "firstContextValue key contexts = orEmpty (firstSome (\<lambda>ctx. getStr ctx key) contexts)"

definition firstContextValueForKeys :: "string list \<Rightarrow> smap list \<Rightarrow> string" where
  "firstContextValueForKeys keys contexts = orEmpty (firstSome (\<lambda>ctx. firstSome (getStr ctx) keys) contexts)"

definition firstSecretValue :: "smap \<Rightarrow> string list \<Rightarrow> string option" where
  "firstSecretValue secrets keys = firstSome (getStr secrets) keys"

text \<open>The context a handle itself gives; the nil map has no entries.\<close>

definition volumeContextFromVolumeID :: "string \<Rightarrow> Protocol \<Rightarrow> smap option" where
  "volumeContextFromVolumeID volumeID proto =
     (case DecodeVolumeID volumeID of
        Inl _ \<Rightarrow> None
      | Inr decoded \<Rightarrow> if vid_Protocol decoded \<noteq> proto then None else Some (volumeContextForVolumeID decoded))"

definition orNil :: "smap option \<Rightarrow> smap" where
  "orNil m = (case m of None \<Rightarrow> Map.empty | Some c \<Rightarrow> c)"

fun protocolFromContext :: "smap list \<Rightarrow> Protocol" where
  "protocolFromContext [] = []"
| "protocolFromContext (ctx # contexts) =
     (let proto = ToLower (TrimSpace (mget ctx ''protocol'')) in
      if proto = ProtocolNFS then ProtocolNFS else if proto = ProtocolSMB then ProtocolSMB
      else protocolFromContext contexts)"

definition publishProtocol :: "smap \<Rightarrow> smap \<Rightarrow> string \<Rightarrow> Protocol" where
  "publishProtocol publishContext volumeContext volumeId =
     (let proto = protocolFromContext [publishContext, volumeContext] in
      if proto \<noteq> [] then proto
      else case ParseProtocolFromVolumeID volumeId of
        Inl _ \<Rightarrow> ProtocolISCSI
      | Inr p \<Rightarrow> if p = ProtocolNFS \<or> p = ProtocolSMB then p else ProtocolISCSI)"

definition mountOptionsFromContext :: "smap \<Rightarrow> string list" where
  "mountOptionsFromContext vc = (case getStr vc ''mountOptions'' of None \<Rightarrow> [] | Some v \<Rightarrow> appendMountOptions [] v)"

definition nfsMountAuthenticationFromContext :: "smap list \<Rightarrow> string result" where
  "nfsMountAuthenticationFromContext contexts =
     (let value = firstContextValue ''nfsMountAuthentication'' contexts in
      if value \<noteq> [] then normalizeNfsAuthenticationFlavor value
      else let raw0 = firstContextValue ''nfsAuthentication'' contexts;
               raw = (if raw0 = [] then firstContextValue ''nfsauthentication'' contexts else raw0)
           in onOk (normalizeNfsAuthentication raw) (\<lambda>auth. Inr (preferredNfsMountAuthentication auth)))"

definition iscsiConnectionFromContexts :: "string \<Rightarrow> smap list \<Rightarrow> (string \<times> string \<times> int) result" where
  "iscsiConnectionFromContexts volumeID contexts0 =
     (let contexts = contexts0 @ (case volumeContextFromVolumeID volumeID ProtocolISCSI of None \<Rightarrow> [] | Some c \<Rightarrow> [c]);
          portal = firstContextValueForKeys [''targetPortal'', ''portal''] contexts;
          iqn = firstContextValueForKeys [''iqn'', ''targetIQN'', ''targetIqn''] contexts;
          lunStr = firstContextValueForKeys [''lun'', ''LUN''] contexts
      in if portal = [] then Inl (Status InvalidArgument ''targetPortal is required in publishContext, volumeContext, or volumeId'' [])
         else onOk (validateTargetPortal portal) (\<lambda>_.
           if iqn = [] then Inl (Status InvalidArgument ''iqn is required in publishContext, volumeContext, or volumeId'' [])
           else if lunStr = [] then Inl (Status InvalidArgument ''lun is required in publishContext, volumeContext, or volumeId'' [])
           else case Atoi lunStr of
             None \<Rightarrow> Inl (Status InvalidArgument ''invalid lun: %q'' [ArgS lunStr])
           | Some li \<Rightarrow> if li < 0 then Inl (Status InvalidArgument ''lun must be non-negative, got %q'' [ArgS lunStr])
                        else Inr (portal, iqn, li)))"

definition secretOf :: "smap \<Rightarrow> string \<Rightarrow> string" where
  "secretOf secrets key = TrimSpace (mget secrets key)"

text \<open>Discovery secrets, session secrets, whether to discover with CHAP, and the authentication type.\<close>

definition parseChapSecrets :: "smap \<Rightarrow> (Secrets \<times> Secrets \<times> bool \<times> string) result" where
  "parseChapSecrets secrets =
     onOk (validateChapSecrets secrets) (\<lambda>_.
       let chap = (\<lambda>p. \<lparr>SecretsType = ''chap'', UserName = secretOf secrets (p @ ''.auth.username''),
                        Password = secretOf secrets (p @ ''.auth.password''), UserNameIn = secretOf secrets (p @ ''.auth.username_in''),
                        PasswordIn = secretOf secrets (p @ ''.auth.password_in'')\<rparr>);
           doDisc = secretOf secrets ''discovery.sendtargets.auth.username'' \<noteq> [];
           doSess = secretOf secrets ''node.session.auth.username'' \<noteq> []
       in Inr (if doDisc then chap ''discovery.sendtargets'' else zeroSecrets,
               if doSess then chap ''node.session'' else zeroSecrets, doDisc, if doSess then ''chap'' else []))"

subsection \<open>Request parsing\<close>

record stagePlan =
  sp_portal :: string
  sp_iqn :: string
  sp_lun :: int
  sp_fsType :: string
  sp_mountOpts :: "string list"
  sp_iface :: string
  sp_discSec :: Secrets
  sp_sessSec :: Secrets
  sp_chapDisc :: bool
  sp_authType :: string

definition chosenFsType :: "accessType option \<Rightarrow> smap \<Rightarrow> string" where
  "chosenFsType vc ctx =
     (let fromCap = fsTypeFromCapability vc; fromCtx = orEmpty (getStr ctx ''fsType'') in
      if fromCap \<noteq> [] then fromCap else if fromCtx \<noteq> [] then fromCtx else ''ext4'')"

definition chosenMountOpts :: "accessType option \<Rightarrow> smap \<Rightarrow> string list" where
  "chosenMountOpts vc ctx =
     (case getStr ctx ''mountOptions'' of
        None \<Rightarrow> mountOptionsFromCapability vc
      | Some v \<Rightarrow> appendMountOptions (mountOptionsFromCapability vc) v)"

definition parseStage :: "NodeStageRequest \<Rightarrow> stagePlan result" where
  "parseStage req =
     (let pc = stg_PublishContext req; vc = stg_VolumeContext req in
      onOk (iscsiConnectionFromContexts (stg_VolumeId req) [pc, vc]) (\<lambda>(portal, iqn, lun).
      onOk (parseChapSecrets (stg_Secrets req)) (\<lambda>(discSec, sessSec, chapDisc, authType).
      Inr \<lparr>sp_portal = portal, sp_iqn = iqn, sp_lun = lun, sp_fsType = chosenFsType (stg_VolumeCapability req) vc,
           sp_mountOpts = chosenMountOpts (stg_VolumeCapability req) vc,
           sp_iface = (case getStr vc ''iface'' of None \<Rightarrow> ''default'' | Some v \<Rightarrow> v),
           sp_discSec = discSec, sp_sessSec = sessSec, sp_chapDisc = chapDisc, sp_authType = authType\<rparr>)))"

definition parsePublish :: "NodePublishRequest \<Rightarrow> (string \<times> string \<times> int \<times> string \<times> string list) result" where
  "parsePublish req =
     (let vc = npb_VolumeContext req in
      onOk (iscsiConnectionFromContexts (npb_VolumeId req) [npb_PublishContext req, vc]) (\<lambda>(portal, iqn, lun).
      Inr (portal, iqn, lun, chosenFsType (npb_VolumeCapability req) vc, chosenMountOpts (npb_VolumeCapability req) vc)))"

subsection \<open>Connector files\<close>

definition stageConnectorFile :: "string \<Rightarrow> string" where
  "stageConnectorFile staging0 =
     (let staging = Clean staging0 in JoinPath [Dir staging, ''.'' @ Base staging @ ''.connector.json''])"

definition legacyStageConnectorFile :: "string \<Rightarrow> string" where
  "legacyStageConnectorFile staging = JoinPath [staging, ''connector.json'']"

definition connectorPaths :: "string \<Rightarrow> bool \<Rightarrow> string list" where
  "connectorPaths staging includeLegacy =
     stageConnectorFile staging # (if includeLegacy then [legacyStageConnectorFile staging] else [])"

fun connectorFrom :: "'w Host \<Rightarrow> string list \<Rightarrow> goerror option \<Rightarrow> ('w, Connector) prog" where
  "connectorFrom h [] lastErr = (case lastErr of None \<Rightarrow> raise errNotExist | Some e \<Rightarrow> raise e)"
| "connectorFrom h (path # paths) lastErr =
     recover (GetConnectorFromFile h path) (\<lambda>r. case r of
       Inr conn \<Rightarrow> ret conn
     | Inl e \<Rightarrow> if errorsIsNotExist e then connectorFrom h paths (Some e) else raise e)"

definition getConnectorFromStaging :: "'w Host \<Rightarrow> string \<Rightarrow> bool \<Rightarrow> ('w, Connector) prog" where
  "getConnectorFromStaging h staging includeLegacy = connectorFrom h (connectorPaths staging includeLegacy) None"

definition readPersistedConnector :: "'w Host \<Rightarrow> string \<Rightarrow> ('w, Connector) prog" where
  "readPersistedConnector h path =
     bind (sys (h_ReadFile h path)) (\<lambda>raw.
     bind (pure (unmarshalConnector raw)) (\<lambda>conn.
     if c_MountTargetDevice conn = None then raise (Errorf ''mountTargetDevice in the connector is nil'' []) else ret conn))"

definition isMissingMountTargetDevice :: "goerror \<Rightarrow> bool" where
  "isMissingMountTargetDevice err =
     (let msg = ToLower (errText err) in Contains msg ''mounttargetdevice'' \<and> Contains msg ''not found'')"

fun cleanupConnectorFrom :: "'w Host \<Rightarrow> string list \<Rightarrow> goerror option \<Rightarrow> ('w, Connector) prog" where
  "cleanupConnectorFrom h [] lastErr = (case lastErr of None \<Rightarrow> raise errNotExist | Some e \<Rightarrow> raise e)"
| "cleanupConnectorFrom h (path # paths) lastErr =
     recover (GetConnectorFromFile h path) (\<lambda>r. case r of
       Inr conn \<Rightarrow> ret conn
     | Inl e \<Rightarrow>
         if errorsIsNotExist e then cleanupConnectorFrom h paths (Some e)
         else if \<not> isMissingMountTargetDevice e then raise e
         else recover (readPersistedConnector h path) (\<lambda>r. case r of
           Inr conn \<Rightarrow> ret conn
         | Inl staleErr \<Rightarrow> if errorsIsNotExist staleErr then cleanupConnectorFrom h paths (Some staleErr) else raise staleErr))"

definition getCleanupConnectorFromStaging :: "'w Host \<Rightarrow> string \<Rightarrow> bool \<Rightarrow> ('w, Connector) prog" where
  "getCleanupConnectorFromStaging h staging includeLegacy = cleanupConnectorFrom h (connectorPaths staging includeLegacy) None"

fun removeFiles :: "'w Host \<Rightarrow> string list \<Rightarrow> ('w, unit) prog" where
  "removeFiles h [] = ret ()"
| "removeFiles h (path # paths) =
     recover (sys (h_Remove h path)) (\<lambda>r. case r of
       Inl e \<Rightarrow> if IsNotExist e then removeFiles h paths else raise e
     | Inr _ \<Rightarrow> removeFiles h paths)"

definition removeStagingConnectorFiles :: "'w Host \<Rightarrow> string \<Rightarrow> ('w, unit) prog" where
  "removeStagingConnectorFiles h staging = removeFiles h [stageConnectorFile staging, legacyStageConnectorFile staging]"

subsection \<open>Staging file shares\<close>

abbreviation internalErr :: "string \<Rightarrow> goerror \<Rightarrow> goerror" where
  "internalErr fmt e \<equiv> Status Internal fmt [ArgE e]"

abbreviation invalidArg :: "string \<Rightarrow> goerror" where
  "invalidArg msg \<equiv> Status InvalidArgument msg []"

text \<open>Source and file-system type of the mount.\<close>

definition shareSource :: "Protocol \<Rightarrow> smap list \<Rightarrow> (string \<times> string) result" where
  "shareSource proto contexts =
     (if proto = ProtocolNFS then
        (let server = firstContextValueForKeys [''nfsServer'', ''server''] contexts;
             exportPath = firstContextValueForKeys [''nfsExportPath'', ''exportPath''] contexts
         in if server = [] \<or> exportPath = [] then
              Inl (invalidArg ''nfsServer/server and nfsExportPath/exportPath are required in publishContext, volumeContext, or volumeId'')
            else Inr (server @ '':'' @ exportPath, ''nfs''))
      else
        (let server = firstContextValueForKeys [''smbServer'', ''server''] contexts;
             share = firstContextValueForKeys [''smbShareName'', ''share''] contexts
         in if server = [] \<or> share = [] then
              Inl (invalidArg ''smbServer/server and smbShareName/share are required in publishContext, volumeContext, or volumeId'')
            else Inr (''//'' @ server @ ''/'' @ share, ''cifs'')))"

definition addOption :: "string \<Rightarrow> string option \<Rightarrow> string list \<Rightarrow> string list" where
  "addOption prefix' value opts = (case value of None \<Rightarrow> opts | Some v \<Rightarrow> appendOptionIfMissing opts prefix' (prefix' @ v))"

text \<open>Options and, for SMB, the password among the sensitive ones.\<close>

definition shareOptions :: "Protocol \<Rightarrow> NodeStageRequest \<Rightarrow> smap \<Rightarrow> string list \<Rightarrow> (string list \<times> string list) result" where
  "shareOptions proto req volumeIDContext opts =
     (let pc = stg_PublishContext req; vc = stg_VolumeContext req; secrets = stg_Secrets req in
      if proto = ProtocolNFS then
        (let opts1 = addOption ''vers='' (getStr vc ''nfsVersion'') opts in
         onOk (nfsMountAuthenticationFromContext [vc, pc, volumeIDContext]) (\<lambda>authentication.
           Inr (if authentication \<noteq> [] then appendOptionIfMissing opts1 ''sec='' (''sec='' @ authentication) else opts1, [])))
      else
        (let opts1 = addOption ''vers='' (getStr vc ''smbVersion'') opts;
             opts2 = addOption ''username='' (firstSecretValue secrets [''smbUsername'', ''username'']) opts1;
             sens = addOption ''password='' (firstSecretValue secrets [''smbPassword'', ''password'']) [];
             opts3 = addOption ''domain='' (firstSecretValue secrets [''smbDomain'', ''domain'']) opts2;
             opts4 = (case getStr vc ''smbSeal'' of
                        Some seal \<Rightarrow> if ParseBool seal = Some True then appendOptionIfMissing opts3 ''seal'' ''seal'' else opts3
                      | None \<Rightarrow> opts3)
         in Inr (opts4, sens)))"

text \<open>\<^verbatim>\<open>IsLikelyNotMountPoint\<close> on the staging path, where a missing path is not an error.\<close>

definition stagingNotMounted :: "'w Host \<Rightarrow> string \<Rightarrow> (bool \<Rightarrow> ('w, 'a) prog) \<Rightarrow> ('w, 'a) prog" where
  "stagingNotMounted h staging k =
     act (h_IsLikelyNotMountPoint h staging) (\<lambda>(notMnt, merr).
       case merr of
         Some e \<Rightarrow> if \<not> IsNotExist e then raise (internalErr ''check staging mount: %v'' e) else k notMnt
       | None \<Rightarrow> k notMnt)"

definition stageFileShareVolume :: "'w Host \<Rightarrow> NodeStageRequest \<Rightarrow> Protocol \<Rightarrow> ('w, unit) prog" where
  "stageFileShareVolume h req proto =
     (let staging = stg_StagingTargetPath req;
          volumeIDContext = orNil (volumeContextFromVolumeID (stg_VolumeId req) proto);
          contexts = [stg_PublishContext req, stg_VolumeContext req, volumeIDContext]
      in if stg_VolumeCapability req = Some BlockAccess then
           raise (Status InvalidArgument ''%s volumes do not support block mode'' [ArgS proto])
         else
           bind (pure (shareSource proto contexts)) (\<lambda>(source, fsType).
           bind (pure (shareOptions proto req volumeIDContext
                   (mountOptionsFromCapability (stg_VolumeCapability req) @ mountOptionsFromContext (stg_VolumeContext req)))) (\<lambda>(opts0, sens0).
           let (opts, extracted) = splitSensitiveMountOptions opts0; sensitiveOpts = extracted @ sens0 in
           step (sys (h_MkdirAll h staging)) (internalErr ''mkdir staging: %v'') (\<lambda>_.
           stagingNotMounted h staging (\<lambda>notMnt.
           if notMnt then step (mountPrepared h source staging fsType opts sensitiveOpts) (\<lambda>e. Status Internal ''mount %s volume: %v'' [ArgS proto, ArgE e]) ret
           else ret ())))))"

subsection \<open>Staging\<close>

definition connectorFor :: "NodeStageRequest \<Rightarrow> stagePlan \<Rightarrow> Connector" where
  "connectorFor req p = zeroConnector\<lparr>
     c_VolumeName := stg_VolumeId req, c_TargetIqn := sp_iqn p, c_TargetPortals := [sp_portal p], c_Lun := int32_of (sp_lun p),
     c_Interface := sp_iface p, c_DoDiscovery := True, c_DoCHAPDiscovery := sp_chapDisc p, c_DiscoverySecrets := sp_discSec p,
     c_SessionSecrets := sp_sessSec p, c_AuthType := sp_authType p, c_RetryCount := 60, c_CheckInterval := 2\<rparr>"

text \<open>A connector that cannot be written is disconnected again; both parts are tried.\<close>

definition rollbackConnect :: "'w Host \<Rightarrow> Connector \<Rightarrow> goerror \<Rightarrow> ('w, 'a) prog" where
  "rollbackConnect h conn err =
     recover (DisconnectVolume h conn) (\<lambda>e1.
     recover (DisconnectConnector h conn) (\<lambda>e2.
       case errorsJoin [errOf e1, errOf e2] of
         Some cleanupErr \<Rightarrow> raise (Status Internal ''persist iSCSI connector: %v (rollback disconnect failed: %v)'' [ArgE err, ArgE cleanupErr])
       | None \<Rightarrow> raise (internalErr ''persist iSCSI connector: %v'' err)))"

text \<open>The file system of a connected device at the staging path.\<close>

definition stageFilesystem :: "nat \<Rightarrow> 'w Host \<Rightarrow> string \<Rightarrow> string \<Rightarrow> stagePlan \<Rightarrow> ('w, unit) prog" where
  "stageFilesystem fuel h staging device p =
     (let (normalMountOpts, sensitiveMountOpts) = splitSensitiveMountOptions (sp_mountOpts p) in
      stagingNotMounted h staging (\<lambda>notMnt.
      step (sys (h_MkdirAll h staging)) (internalErr ''mkdir staging: %v'') (\<lambda>_.
      step (if notMnt then formatAndMountPrepared h device staging (sp_fsType p) normalMountOpts sensitiveMountOpts else ret ())
           (internalErr ''format+mount staging failed: %v'') (\<lambda>_.
      step (waitForStagedFilesystemReady fuel h staging normalMountOpts (10 * Second))
           (internalErr ''staging filesystem not ready: %v'') ret))))"

text \<open>After the connection: the connector is written, then the path or the file system is prepared.\<close>

definition afterConnect :: "nat \<Rightarrow> 'w Host \<Rightarrow> NodeStageRequest \<Rightarrow> stagePlan \<Rightarrow> Connector \<Rightarrow> string \<Rightarrow> unit result \<Rightarrow> ('w, unit) prog" where
  "afterConnect fuel h req p conn device r =
     (case r of
        Inl err \<Rightarrow> rollbackConnect h conn err
      | Inr _ \<Rightarrow>
          if stg_VolumeCapability req = Some BlockAccess then step (sys (h_MkdirAll h (stg_StagingTargetPath req))) (internalErr ''mkdir staging: %v'') ret
          else stageFilesystem fuel h (stg_StagingTargetPath req) device p)"

definition stageIscsiVolume :: "nat \<Rightarrow> 'w Host \<Rightarrow> NodeStageRequest \<Rightarrow> stagePlan \<Rightarrow> ('w, unit) prog" where
  "stageIscsiVolume fuel h req p =
     (let staging = stg_StagingTargetPath req; connectorFile = stageConnectorFile staging in
      bind (Connect h (connectorFor req p)) (\<lambda>(conn, r). case r of
        Inl e \<Rightarrow> raise (internalErr ''iSCSI connect failed: %v'' e)
      | Inr device \<Rightarrow>
          if device = [] then raise (Status Internal ''iSCSI connect failed: %v'' [ArgS ''<nil>''])
          else
            step (sys (h_MkdirAll h (Dir connectorFile))) (internalErr ''mkdir iSCSI connector directory: %v'') (\<lambda>_.
            recover (Persist h conn connectorFile) (afterConnect fuel h req p conn device))))"

definition NodeStageVolume :: "nat \<Rightarrow> 'w Host \<Rightarrow> NodeStageRequest \<Rightarrow> ('w, unit) prog" where
  "NodeStageVolume fuel h req =
     (if stg_VolumeId req = [] then raise (invalidArg ''volumeID missing'')
      else if stg_StagingTargetPath req = [] then raise (invalidArg ''stagingTargetPath missing'')
      else if stg_VolumeCapability req = None then raise (invalidArg ''volumeCapability missing'')
      else let proto = publishProtocol (stg_PublishContext req) (stg_VolumeContext req) (stg_VolumeId req) in
        if proto = ProtocolNFS \<or> proto = ProtocolSMB then stageFileShareVolume h req proto
        else bind (pure (parseStage req)) (stageIscsiVolume fuel h req))"

text \<open>A connector that is not there is no error.\<close>

definition loadConnector :: "'w Host \<Rightarrow> string \<Rightarrow> bool \<Rightarrow> (Connector option \<Rightarrow> ('w, 'a) prog) \<Rightarrow> ('w, 'a) prog" where
  "loadConnector h staging includeLegacy k =
     recover (getCleanupConnectorFromStaging h staging includeLegacy) (\<lambda>r. case r of
       Inr conn \<Rightarrow> k (Some conn)
     | Inl e \<Rightarrow> if errorsIsNotExist e then k None else raise (internalErr ''load iSCSI connector: %v'' e))"

definition disconnectStaged :: "'w Host \<Rightarrow> string \<Rightarrow> Connector option \<Rightarrow> (unit \<Rightarrow> ('w, 'a) prog) \<Rightarrow> ('w, 'a) prog" where
  "disconnectStaged h staging conn k =
     (case conn of
        None \<Rightarrow> k ()
      | Some c \<Rightarrow>
          step (DisconnectVolume h c) (internalErr ''iSCSI disconnect volume failed: %v'') (\<lambda>_.
          step (DisconnectConnector h c) (internalErr ''iSCSI logout failed: %v'') (\<lambda>_.
          step (removeStagingConnectorFiles h staging) (internalErr ''remove iSCSI connector file failed: %v'') k)))"

text \<open>\<^verbatim>\<open>if err := m; err != nil && !os.IsNotExist(err) { return err }\<close>.\<close>

definition cleanedUp :: "('w, unit) prog \<Rightarrow> string \<Rightarrow> ('w, unit) prog" where
  "cleanedUp m fmt =
     recover m (\<lambda>r. case r of
       Inl e \<Rightarrow> if IsNotExist e then ret () else raise (internalErr fmt e)
     | Inr _ \<Rightarrow> ret ())"

definition cleanupMount :: "'w Host \<Rightarrow> string \<Rightarrow> string \<Rightarrow> ('w, unit) prog" where
  "cleanupMount h path fmt = cleanedUp (sys (h_CleanupMountPoint h path)) fmt"

text \<open>After the unmount: the connector may be at its older place, below the mount.\<close>

definition unstageRest :: "'w Host \<Rightarrow> string \<Rightarrow> Connector option \<Rightarrow> ('w, unit) prog" where
  "unstageRest h staging conn0 =
     (let continue' = (\<lambda>conn. disconnectStaged h staging conn (\<lambda>_. cleanupMount h staging ''unstage cleanup failed: %v'')) in
      case conn0 of None \<Rightarrow> loadConnector h staging True continue' | Some c \<Rightarrow> continue' (Some c))"

definition unstageMounted :: "'w Host \<Rightarrow> string \<Rightarrow> Connector option \<Rightarrow> ('w, unit) prog" where
  "unstageMounted h staging conn =
     act (h_IsLikelyNotMountPoint h staging) (\<lambda>(notMnt, mountErr).
        case mountErr of
          Some e \<Rightarrow> if \<not> IsNotExist e then raise (internalErr ''check staging mount: %v'' e) else unstageRest h staging conn
        | None \<Rightarrow>
            step (if \<not> notMnt then sys (h_Unmount h staging) else ret ()) (internalErr ''unstage unmount failed: %v'') (\<lambda>_.
            unstageRest h staging conn))"

definition NodeUnstageVolume :: "'w Host \<Rightarrow> string \<Rightarrow> string \<Rightarrow> ('w, unit) prog" where
  "NodeUnstageVolume h volumeId staging =
     (if volumeId = [] then raise (invalidArg ''volumeID missing'')
      else if staging = [] then raise (invalidArg ''stagingTargetPath missing'')
      else
        loadConnector h staging False (unstageMounted h staging))"

subsection \<open>Publishing\<close>

definition ensureFile :: "'w Host \<Rightarrow> string \<Rightarrow> ('w, unit) prog" where
  "ensureFile h target =
     bind (sys (h_MkdirAll h (Dir target))) (\<lambda>_.
     recover (sys (h_Stat h target)) (\<lambda>r. case r of
       Inr _ \<Rightarrow> ret ()
     | Inl e \<Rightarrow>
         if IsNotExist e then bind (sys (h_OpenFile h target O_CREATE)) (\<lambda>_. sys (h_Close h target))
         else raise e))"

definition bindOptions :: "bool \<Rightarrow> string list" where
  "bindOptions ro = ''bind'' # (if ro then [''ro''] else [])"

definition byPathDevice :: "string \<Rightarrow> string \<Rightarrow> int \<Rightarrow> string" where
  "byPathDevice portal iqn lun = JoinPath [''/dev/disk/by-path'', ''ip-'' @ portal @ ''-iscsi-'' @ iqn @ ''-lun-'' @ Itoa lun]"

text \<open>This branch does not run \<^verbatim>\<open>init\<close>: without a mounter the mount is a call on a nil pointer.\<close>

definition publishFileShare :: "nodeServer \<Rightarrow> 'w Host \<Rightarrow> NodePublishRequest \<Rightarrow> Protocol \<Rightarrow> ('w, unit) prog" where
  "publishFileShare ns h req proto =
     (let staging = npb_StagingTargetPath req; target = npb_TargetPath req in
      if npb_VolumeCapability req = Some BlockAccess then
        raise (Status InvalidArgument ''%s volumes do not support block mode'' [ArgS proto])
      else if staging = [] then raise (invalidArg ''stagingTargetPath required for mount volumes'')
      else
        step (sys (h_MkdirAll h target)) (internalErr ''mkdir target: %v'') (\<lambda>_.
        step (if ns_mounter ns then mountPrepared h staging target [] (bindOptions (npb_Readonly req)) [] else crash nilPanic) (internalErr ''bind-mount publish failed: %v'') ret))"

text \<open>A block device bound to the target file.\<close>

definition publishDevice :: "'w Host \<Rightarrow> NodePublishRequest \<Rightarrow> string \<Rightarrow> ('w, unit) prog" where
  "publishDevice h req device =
     (let (opts, sensitiveOpts) = splitSensitiveMountOptions (bindOptions (npb_Readonly req)) in
      step (ensureFile h (npb_TargetPath req)) (internalErr ''create block target: %v'') (\<lambda>_.
      step (mountPrepared h device (npb_TargetPath req) [] opts sensitiveOpts) (internalErr ''bind-mount block device: %v'') ret))"

definition publishBlock :: "nat \<Rightarrow> 'w Host \<Rightarrow> NodePublishRequest \<Rightarrow> string \<Rightarrow> string \<Rightarrow> int \<Rightarrow> ('w, unit) prog" where
  "publishBlock fuel h req portal iqn lun =
     (if npb_StagingTargetPath req = [] then raise (invalidArg ''stagingTargetPath is required for block to load connector'')
      else recover (getConnectorFromStaging h (npb_StagingTargetPath req) True) (\<lambda>r.
        case (case r of Inr conn \<Rightarrow> c_MountTargetDevice conn | Inl _ \<Rightarrow> None) of
          Some d \<Rightarrow> publishDevice h req (GetPath d)
        | None \<Rightarrow>
            step (waitForPath fuel h (byPathDevice portal iqn lun) (60 * Second)) (internalErr ''cannot resolve device for block publish: %v'') (\<lambda>_.
            publishDevice h req (byPathDevice portal iqn lun))))"

text \<open>After a reboot the staging mount is gone: it is mounted again from the connector file.\<close>

definition recoverStaging :: "nat \<Rightarrow> 'w Host \<Rightarrow> string \<Rightarrow> string \<Rightarrow> string \<Rightarrow> int \<Rightarrow> string \<Rightarrow> string list \<Rightarrow> ('w, unit) prog" where
  "recoverStaging fuel h staging portal iqn lun fsType mountOpts =
     step (getConnectorFromStaging h staging True) (internalErr ''staging recovery failed: %v'') (\<lambda>conn.
     bind (value_of nilPanic (c_MountTargetDevice conn)) (\<lambda>m.
     let device = GetPath m; byPath = byPathDevice portal iqn lun;
         (normalMountOpts, sensitiveMountOpts) = splitSensitiveMountOptions mountOpts in
     step (if device = [] then waitForPath fuel h byPath (60 * Second) else ret ()) (internalErr ''recover staging path: %v'') (\<lambda>_.
     step (formatAndMountPrepared h (if device = [] then byPath else device) staging fsType normalMountOpts sensitiveMountOpts)
          (internalErr ''format+mount staging fallback failed: %v'') ret)))"

definition publishFilesystem :: "nat \<Rightarrow> 'w Host \<Rightarrow> NodePublishRequest \<Rightarrow> string \<Rightarrow> string \<Rightarrow> int \<Rightarrow> string \<Rightarrow> string list \<Rightarrow> ('w, unit) prog" where
  "publishFilesystem fuel h req portal iqn lun fsType mountOpts =
     (let staging = npb_StagingTargetPath req; target = npb_TargetPath req;
          (opts, sensitiveOpts) = splitSensitiveMountOptions (bindOptions (npb_Readonly req)) in
      if staging = [] then raise (invalidArg ''stagingTargetPath required for mount volumes'')
      else
        act (h_IsLikelyNotMountPoint h staging) (\<lambda>(notMnt, merr).
        bind (if merr = None \<and> notMnt then recoverStaging fuel h staging portal iqn lun fsType mountOpts else ret ()) (\<lambda>_.
        step (sys (h_MkdirAll h target)) (internalErr ''mkdir target: %v'') (\<lambda>_.
        step (mountPrepared h staging target [] opts sensitiveOpts) (internalErr ''bind-mount publish failed: %v'') ret))))"

text \<open>The branches for iSCSI run \<^verbatim>\<open>init\<close> in \<^verbatim>\<open>parsePublish\<close>.\<close>

definition NodePublishVolume :: "nat \<Rightarrow> nodeServer \<Rightarrow> 'w Host \<Rightarrow> NodePublishRequest \<Rightarrow> ('w, unit) prog" where
  "NodePublishVolume fuel ns h req =
     (if npb_VolumeId req = [] then raise (invalidArg ''volumeID missing'')
      else if npb_TargetPath req = [] then raise (invalidArg ''targetPath missing'')
      else if npb_VolumeCapability req = None then raise (invalidArg ''volumeCapability missing'')
      else let proto = publishProtocol (npb_PublishContext req) (npb_VolumeContext req) (npb_VolumeId req) in
        if proto = ProtocolNFS \<or> proto = ProtocolSMB then publishFileShare ns h req proto
        else bind (pure (parsePublish req)) (\<lambda>(portal, iqn, lun, fsType, mountOpts).
          if npb_VolumeCapability req = Some BlockAccess then publishBlock fuel h req portal iqn lun
          else publishFilesystem fuel h req portal iqn lun fsType mountOpts))"

text \<open>
  \<^verbatim>\<open>NodeUnpublishVolume\<close> does not run \<^verbatim>\<open>init\<close> either.  Without a mounter the mount library's
  \<^verbatim>\<open>CleanupMountPoint\<close> is handed a nil pointer; what it does then, a panic included, is the
  parameter \<open>nilCleanup\<close>.
\<close>

definition NodeUnpublishVolume :: "nodeServer \<Rightarrow> (string \<Rightarrow> ('w, unit) prog) \<Rightarrow> 'w Host \<Rightarrow> string \<Rightarrow> string \<Rightarrow> ('w, unit) prog" where
  "NodeUnpublishVolume ns nilCleanup h volumeId targetPath =
     (if volumeId = [] then raise (invalidArg ''volumeID missing'')
      else if targetPath = [] then raise (invalidArg ''targetPath missing'')
      else cleanedUp (if ns_mounter ns then sys (h_CleanupMountPoint h targetPath) else nilCleanup targetPath)
             ''cleanup target mount: %v'')"

subsection \<open>Information, statistics, expansion\<close>

datatype nodeCapability = STAGE_UNSTAGE_VOLUME | EXPAND_VOLUME

definition NodeGetInfo :: "'d driver \<Rightarrow> string" where
  "NodeGetInfo d = d_nodeID d"

definition NodeGetCapabilities :: "nodeCapability list" where
  "NodeGetCapabilities = [STAGE_UNSTAGE_VOLUME, EXPAND_VOLUME]"

datatype usageUnit = BYTES | INODES

record VolumeUsage =
  vu_Unit :: usageUnit
  vu_Available :: int
  vu_Total :: int
  vu_Used :: int

text \<open>The conversion \<^verbatim>\<open>int64(x)\<close> and the product of two 64-bit integers.\<close>

definition int64_of :: "int \<Rightarrow> int" where
  "int64_of x = (x + 2 ^ 63) mod 2 ^ 64 - 2 ^ 63"

text \<open>Available, capacity, used, inodes, free inodes, used inodes.\<close>

definition fsUsage :: "'w Host \<Rightarrow> string \<Rightarrow> ('w, int \<times> int \<times> int \<times> int \<times> int \<times> int) prog" where
  "fsUsage h path =
     bind (sys (h_Statfs h path)) (\<lambda>st.
       let bsize = int64_of (st_Bsize st);
           capacity = int64_of (int64_of (st_Blocks st) * bsize);
           available = int64_of (int64_of (st_Bavail st) * bsize);
           used = int64_of (capacity - int64_of (int64_of (st_Bfree st) * bsize));
           inodesTotal = int64_of (st_Files st);
           inodesFree = int64_of (st_Ffree st)
       in ret (available, capacity, used, inodesTotal, inodesFree, int64_of (inodesTotal - inodesFree)))"

definition isBlockDevice :: "'w Host \<Rightarrow> string \<Rightarrow> (bool \<Rightarrow> ('w, 'a) prog) \<Rightarrow> ('w, 'a) prog" where
  "isBlockDevice h path k =
     recover (sys (h_Stat h path)) (\<lambda>r. k (case r of Inl _ \<Rightarrow> False | Inr st \<Rightarrow> fi_device st))"

text \<open>The executor is called without \<^verbatim>\<open>init\<close>.\<close>

definition NodeGetVolumeStats :: "nodeServer \<Rightarrow> 'w Host \<Rightarrow> string \<Rightarrow> string \<Rightarrow> ('w, VolumeUsage list) prog" where
  "NodeGetVolumeStats ns h volumeId volumePath =
     (if volumeId = [] then raise (invalidArg ''volumeID missing'')
      else if volumePath = [] then raise (invalidArg ''volumePath missing'')
      else isBlockDevice h volumePath (\<lambda>block.
        if block then
          if \<not> ns_exec ns then crash nilPanic
          else act (h_CombinedOutput h ''blockdev'' [''--getsize64'', volumePath]) (\<lambda>(out, err).
            case err of
              Some e \<Rightarrow> raise (Status Internal ''blockdev failed: %v, out=%s'' [ArgE e, ArgS out])
            | None \<Rightarrow>
                (case ParseInt (TrimSpace out) of
                   None \<Rightarrow> raise (internalErr ''parse block size: %v'' (Foreign ''strconv.ParseInt''))
                 | Some size' \<Rightarrow> ret [\<lparr>vu_Unit = BYTES, vu_Available = size', vu_Total = size', vu_Used = 0\<rparr>]))
        else
          recover (fsUsage h volumePath) (\<lambda>r. case r of
            Inl e \<Rightarrow>
              if IsNotExist e then
                ret [\<lparr>vu_Unit = BYTES, vu_Available = 0, vu_Total = 0, vu_Used = 0\<rparr>, \<lparr>vu_Unit = INODES, vu_Available = 0, vu_Total = 0, vu_Used = 0\<rparr>]
              else raise (internalErr ''statfs failed: %v'' e)
          | Inr (available, capacity, used, inodes, inodesFree, inodesUsed) \<Rightarrow>
              ret [\<lparr>vu_Unit = BYTES, vu_Available = available, vu_Total = capacity, vu_Used = used\<rparr>,
                   \<lparr>vu_Unit = INODES, vu_Available = inodesFree, vu_Total = inodes, vu_Used = inodesUsed\<rparr>])))"

definition NodeExpandVolume :: "'w Host \<Rightarrow> string \<Rightarrow> string \<Rightarrow> ('w, unit) prog" where
  "NodeExpandVolume h volumeId volumePath =
     (if volumeId = [] then raise (invalidArg ''volumeID missing'')
      else if volumePath = [] then raise (invalidArg ''volumePath missing'')
      else if (case ParseProtocolFromVolumeID volumeId of Inr p \<Rightarrow> p = ProtocolNFS \<or> p = ProtocolSMB | Inl _ \<Rightarrow> False) then ret ()
      else step (ExpandVolume h volumePath) (internalErr ''expand failed: %v'') ret)"

subsection \<open>The server between calls\<close>

datatype nodeCall =
    StageCall NodeStageRequest
  | UnstageCall string string
  | PublishCall NodePublishRequest
  | UnpublishCall string string
  | StatsCall string string
  | ExpandCall string string

text \<open>
  Whether a call gets as far as \<^verbatim>\<open>init\<close>: staging runs it first thing in \<^verbatim>\<open>stageFileShareVolume\<close> and
  \<^verbatim>\<open>parseStage\<close>, publishing only in \<^verbatim>\<open>parsePublish\<close>, unstaging and expanding after their argument
  checks; \<^verbatim>\<open>NodeUnpublishVolume\<close> and \<^verbatim>\<open>NodeGetVolumeStats\<close> never do.
\<close>

fun reachesInit :: "nodeCall \<Rightarrow> bool" where
  "reachesInit (StageCall req) = (stg_VolumeId req \<noteq> [] \<and> stg_StagingTargetPath req \<noteq> [] \<and> stg_VolumeCapability req \<noteq> None)"
| "reachesInit (UnstageCall volumeId staging) = (volumeId \<noteq> [] \<and> staging \<noteq> [])"
| "reachesInit (PublishCall req) =
     (npb_VolumeId req \<noteq> [] \<and> npb_TargetPath req \<noteq> [] \<and> npb_VolumeCapability req \<noteq> None \<and>
      publishProtocol (npb_PublishContext req) (npb_VolumeContext req) (npb_VolumeId req) \<notin> {ProtocolNFS, ProtocolSMB})"
| "reachesInit (UnpublishCall _ _) = False"
| "reachesInit (StatsCall _ _) = False"
| "reachesInit (ExpandCall volumeId volumePath) = (volumeId \<noteq> [] \<and> volumePath \<noteq> [])"

definition serverAfter :: "nodeServer \<Rightarrow> nodeCall \<Rightarrow> nodeServer" where
  "serverAfter ns c = (if reachesInit c then initServer ns else ns)"

end
