(* ===== verification/HostTrace.thy ===== *)
theory HostTrace
  imports GoProc "HOL-Library.Sublist"
begin

text \<open>
  A host whose world is the history of the calls made to it.  What it answers is an
  arbitrary function of the call and of the history, so a theorem for every answer function
  speaks of every deterministic host; what it says of the history is the order in which a
  program acts on the node.
\<close>

datatype syscall =
    Run string "string list"
  | Stat string
  | Glob string
  | OpenFile string openMode
  | WriteString string string
  | Sync string
  | Close string
  | Create string
  | ReadFile string
  | Remove string
  | MkdirAll string
  | StatfsCall string
  | Now
  | Sleep int
  | IsLikelyNotMountPoint string
  | Mount string string string "string list" "string list"
  | FormatAndMount string string string "string list" "string list"
  | Unmount string
  | CleanupMountPoint string
  | GetDeviceNameFromMount string
  | Resize string string

record answers =
  a_Output :: "string \<Rightarrow> string list \<Rightarrow> syscall list \<Rightarrow> string \<times> goerror option \<times> bool"
  a_command :: "string \<Rightarrow> string list \<Rightarrow> syscall list \<Rightarrow> string \<times> goerror option"
  a_Stat :: "string \<Rightarrow> syscall list \<Rightarrow> FileInfo result"
  a_Glob :: "string \<Rightarrow> syscall list \<Rightarrow> string list result"
  a_unit :: "syscall \<Rightarrow> syscall list \<Rightarrow> unit result"
  a_ReadFile :: "string \<Rightarrow> syscall list \<Rightarrow> string result"
  a_Statfs :: "string \<Rightarrow> syscall list \<Rightarrow> Statfs result"
  a_Now :: "syscall list \<Rightarrow> int"
  a_NotMnt :: "string \<Rightarrow> syscall list \<Rightarrow> bool \<times> goerror option"
  a_Device :: "string \<Rightarrow> syscall list \<Rightarrow> string result"
  a_Resize :: "string \<Rightarrow> string \<Rightarrow> syscall list \<Rightarrow> bool result"

definition answered :: "syscall \<Rightarrow> (syscall list \<Rightarrow> 'a) \<Rightarrow> (syscall list, 'a) act" where
  "answered c f l = (f l, l @ [c])"

definition traceHost :: "answers \<Rightarrow> syscall list Host" where
  "traceHost a = \<lparr>
     h_Output = (\<lambda>c args t. answered (Run c args) (a_Output a c args)),
     h_cmdOutput = (\<lambda>c args. answered (Run c args) (a_command a c args)),
     h_CombinedOutput = (\<lambda>c args. answered (Run c args) (a_command a c args)),
     h_Stat = (\<lambda>p. answered (Stat p) (a_Stat a p)),
     h_Glob = (\<lambda>p. answered (Glob p) (a_Glob a p)),
     h_OpenFile = (\<lambda>f m. answered (OpenFile f m) (a_unit a (OpenFile f m))),
     h_WriteString = (\<lambda>f s. answered (WriteString f s) (a_unit a (WriteString f s))),
     h_Sync = (\<lambda>f. answered (Sync f) (a_unit a (Sync f))),
     h_Close = (\<lambda>f. answered (Close f) (a_unit a (Close f))),
     h_Create = (\<lambda>f. answered (Create f) (a_unit a (Create f))),
     h_ReadFile = (\<lambda>f. answered (ReadFile f) (a_ReadFile a f)),
     h_Remove = (\<lambda>f. answered (Remove f) (a_unit a (Remove f))),
     h_MkdirAll = (\<lambda>f. answered (MkdirAll f) (a_unit a (MkdirAll f))),
     h_Statfs = (\<lambda>f. answered (StatfsCall f) (a_Statfs a f)),
     h_Now = answered Now (a_Now a),
     h_sleep = (\<lambda>d. answered (Sleep d) (\<lambda>_. ())),
     h_IsLikelyNotMountPoint = (\<lambda>p. answered (IsLikelyNotMountPoint p) (a_NotMnt a p)),
     h_Mount = (\<lambda>s t f opts. answered (Mount s t f opts []) (a_unit a (Mount s t f opts []))),
     h_MountSensitive = (\<lambda>s t f opts so. answered (Mount s t f opts so) (a_unit a (Mount s t f opts so))),
     h_FormatAndMount = (\<lambda>s t f opts. answered (FormatAndMount s t f opts []) (a_unit a (FormatAndMount s t f opts []))),
     h_FormatAndMountSensitive = (\<lambda>s t f opts so. answered (FormatAndMount s t f opts so) (a_unit a (FormatAndMount s t f opts so))),
     h_Unmount = (\<lambda>p. answered (Unmount p) (a_unit a (Unmount p))),
     h_CleanupMountPoint = (\<lambda>p. answered (CleanupMountPoint p) (a_unit a (CleanupMountPoint p))),
     h_GetDeviceNameFromMount = (\<lambda>p. answered (GetDeviceNameFromMount p) (a_Device a p)),
     h_Resize = (\<lambda>d p. answered (Resize d p) (a_Resize a d p))\<rparr>"

lemma traceHost_sels [simp]:
  "h_Output (traceHost a) c args tmo = answered (Run c args) (a_Output a c args)"
  "h_cmdOutput (traceHost a) c args = answered (Run c args) (a_command a c args)"
  "h_CombinedOutput (traceHost a) c args = answered (Run c args) (a_command a c args)"
  "h_Stat (traceHost a) p = answered (Stat p) (a_Stat a p)"
  "h_Glob (traceHost a) p = answered (Glob p) (a_Glob a p)"
  "h_OpenFile (traceHost a) f m = answered (OpenFile f m) (a_unit a (OpenFile f m))"
  "h_WriteString (traceHost a) f s = answered (WriteString f s) (a_unit a (WriteString f s))"
  "h_Sync (traceHost a) f = answered (Sync f) (a_unit a (Sync f))"
  "h_Close (traceHost a) f = answered (Close f) (a_unit a (Close f))"
  "h_Create (traceHost a) f = answered (Create f) (a_unit a (Create f))"
  "h_ReadFile (traceHost a) f = answered (ReadFile f) (a_ReadFile a f)"
  "h_Remove (traceHost a) f = answered (Remove f) (a_unit a (Remove f))"
  "h_MkdirAll (traceHost a) f = answered (MkdirAll f) (a_unit a (MkdirAll f))"
  "h_Statfs (traceHost a) f = answered (StatfsCall f) (a_Statfs a f)"
  "h_Now (traceHost a) = answered Now (a_Now a)"
  "h_sleep (traceHost a) ns = answered (Sleep ns) (\<lambda>_. ())"
  "h_IsLikelyNotMountPoint (traceHost a) p = answered (IsLikelyNotMountPoint p) (a_NotMnt a p)"
  "h_Mount (traceHost a) s t f opts = answered (Mount s t f opts []) (a_unit a (Mount s t f opts []))"
  "h_MountSensitive (traceHost a) s t f opts so = answered (Mount s t f opts so) (a_unit a (Mount s t f opts so))"
  "h_FormatAndMount (traceHost a) s t f opts = answered (FormatAndMount s t f opts []) (a_unit a (FormatAndMount s t f opts []))"
  "h_FormatAndMountSensitive (traceHost a) s t f opts so = answered (FormatAndMount s t f opts so) (a_unit a (FormatAndMount s t f opts so))"
  "h_Unmount (traceHost a) p = answered (Unmount p) (a_unit a (Unmount p))"
  "h_CleanupMountPoint (traceHost a) p = answered (CleanupMountPoint p) (a_unit a (CleanupMountPoint p))"
  "h_GetDeviceNameFromMount (traceHost a) p = answered (GetDeviceNameFromMount p) (a_Device a p)"
  "h_Resize (traceHost a) d p = answered (Resize d p) (a_Resize a d p)"
  by (simp_all add: traceHost_def)

text \<open>A host on which every call succeeds, for concrete instances.\<close>

definition quietAnswers :: answers where
  "quietAnswers = \<lparr>a_Output = (\<lambda>c args l. ([], None, False)), a_command = (\<lambda>c args l. ([], None)),
     a_Stat = (\<lambda>p l. Inr \<lparr>fi_device = False\<rparr>), a_Glob = (\<lambda>p l. Inr [p]), a_unit = (\<lambda>c l. Inr ()),
     a_ReadFile = (\<lambda>f l. Inl (NotExist ''file does not exist'')),
     a_Statfs = (\<lambda>f l. Inr \<lparr>st_Bsize = 4096, st_Blocks = 100, st_Bfree = 50, st_Bavail = 40, st_Files = 10, st_Ffree = 5\<rparr>),
     a_Now = (\<lambda>l. int (length l) * Second), a_NotMnt = (\<lambda>p l. (True, None)), a_Device = (\<lambda>p l. Inr ''/dev/sda''),
     a_Resize = (\<lambda>d p l. Inr True)\<rparr>"

subsection \<open>Programs extend the history\<close>

lemma answered_grows: "prefix l0 l \<Longrightarrow> prefix l0 (snd (answered c f l))"
  by (simp add: answered_def)

interpretation history: mount_host "traceHost a" "prefix l0"
  by unfold_locales (simp_all add: answered_grows)

text \<open>The calls other than commands and device files, which no command changes.\<close>

fun isNodeCall :: "syscall \<Rightarrow> bool" where
  "isNodeCall (Run _ _) = False"
| "isNodeCall (Stat _) = False"
| "isNodeCall (Glob _) = False"
| "isNodeCall (OpenFile _ _) = False"
| "isNodeCall (WriteString _ _) = False"
| "isNodeCall (Close _) = False"
| "isNodeCall (Sleep _) = False"
| "isNodeCall _ = True"

definition nodeCalls :: "syscall list \<Rightarrow> syscall list" where
  "nodeCalls l = filter isNodeCall l"

lemma nodeCalls_append [simp]: "nodeCalls (l @ m) = nodeCalls l @ nodeCalls m"
  by (simp add: nodeCalls_def)

interpretation devices: iscsi_host "traceHost a" "\<lambda>l. nodeCalls l = m"
  by unfold_locales (simp_all add: answered_def nodeCalls_def)

text \<open>The calls of the mount library.\<close>

fun isMountCall :: "syscall \<Rightarrow> bool" where
  "isMountCall (IsLikelyNotMountPoint _) = True"
| "isMountCall (Mount _ _ _ _ _) = True"
| "isMountCall (FormatAndMount _ _ _ _ _) = True"
| "isMountCall (Unmount _) = True"
| "isMountCall (CleanupMountPoint _) = True"
| "isMountCall (GetDeviceNameFromMount _) = True"
| "isMountCall (Resize _ _) = True"
| "isMountCall _ = False"

definition mountCalls :: "syscall list \<Rightarrow> syscall list" where
  "mountCalls l = filter isMountCall l"

lemma mountCalls_append [simp]: "mountCalls (l @ m) = mountCalls l @ mountCalls m"
  by (simp add: mountCalls_def)

interpretation files: file_host "traceHost a" "\<lambda>l. mountCalls l = m"
  by unfold_locales (simp_all add: answered_def mountCalls_def)

text \<open>The calls that take a staged volume down.\<close>

fun isTeardownCall :: "syscall \<Rightarrow> bool" where
  "isTeardownCall (Remove _) = True"
| "isTeardownCall (Unmount _) = True"
| "isTeardownCall (CleanupMountPoint _) = True"
| "isTeardownCall _ = False"

definition teardownCalls :: "syscall list \<Rightarrow> syscall list" where
  "teardownCalls l = filter isTeardownCall l"

lemma teardownCalls_append [simp]: "teardownCalls (l @ m) = teardownCalls l @ teardownCalls m"
  by (simp add: teardownCalls_def)

interpretation reading: read_host "traceHost a" "\<lambda>l. teardownCalls l = m"
  by unfold_locales (simp_all add: answered_def teardownCalls_def)

end
