(* ===== verification/IscsiProofs.thy ===== *)
theory IscsiProofs
  imports IscsiLib HostTrace "HOL-Library.Sublist"
begin

text \<open>
  Properties of the iSCSI initiator library: the bounded wait for a device, reading the
  session list and the device tree, choosing the multipath device, and the order in which
  connecting, detaching and logging out act on the node.
\<close>

subsection \<open>What the package keeps of the host\<close>

context iscsi_host
begin

lemma maintains_ExecWithTimeout [maintains_intro]: "maintains P (ExecWithTimeout h c args t)"
  unfolding ExecWithTimeout_def by (intro maintains_intro)

lemma maintains_iscsiCmd [maintains_intro]: "maintains P (iscsiCmd h args)"
  unfolding iscsiCmd_def by (intro maintains_intro)

lemma maintains_iscsiRun [maintains_intro]: "(\<And>x. maintains P (k x)) \<Longrightarrow> maintains P (iscsiRun h args f k)"
  unfolding iscsiRun_def by (intro maintains_intro)

lemma maintains_commands [maintains_intro]:
  "maintains P (ShowInterface h i)" "maintains P (createCHAPEntries h b sec disc)" "maintains P (GetSessions h)"
  "maintains P (Login h iqn portal)" "maintains P (Logout h iqn portal)" "maintains P (DeleteDBEntry h iqn)"
  unfolding ShowInterface_def createCHAPEntries_def GetSessions_def Login_def Logout_def DeleteDBEntry_def
  by (intro maintains_intro)+

lemma maintains_discovery [maintains_intro]:
  "maintains P (CreateDBEntry h iqn portal i ds ss)" "maintains P (Discoverydb h portal i ds chap)"
  unfolding CreateDBEntry_def Discoverydb_def by (intro maintains_intro)+

lemma maintains_discoverTarget [maintains_intro]: "maintains P (discoverTarget h c iqn i portal)"
  unfolding discoverTarget_def by (intro maintains_intro)

lemma maintains_sessionExists [maintains_intro]: "maintains P (sessionExists h portal iqn)"
  unfolding sessionExists_def getCurrentSessions_def by (intro maintains_intro)

lemma maintains_pathExists [maintains_intro]: "maintains P (pathExists h path tr)"
  unfolding pathExists_def by (intro maintains_intro)

lemma maintains_retryPath [maintains_intro]: "maintains P (retryPath h i tr path n)"
proof (induction n)
  case 0
  show ?case unfolding retryPath.simps by (intro maintains_intro)
next
  case (Suc n)
  show ?case unfolding retryPath.simps by (intro maintains_intro Suc)
qed

lemma maintains_waitForPathToExist [maintains_intro]: "maintains P (waitForPathToExist h path n i tr)"
  unfolding waitForPathToExist_def by (intro maintains_intro)

lemma maintains_rescanTarget [maintains_intro]: "maintains P (rescanTarget h b)"
  unfolding rescanTarget_def by (intro maintains_intro)

lemma maintains_connectTarget [maintains_intro]: "maintains P (connectTarget h c iqn target i tr)"
  unfolding connectTarget_def Let_def by (intro maintains_intro)

lemma maintains_connectTargets [maintains_intro]: "maintains P (connectTargets h c i tr targets paths e)"
proof (induction targets arbitrary: paths e)
  case Nil
  show ?case unfolding connectTargets.simps by (intro maintains_intro)
next
  case (Cons t ts)
  show ?case unfolding connectTargets.simps by (intro maintains_intro Cons)
qed

lemma maintains_parseRows [maintains_intro]: "maintains P (parseRows ls)"
proof (induction ls)
  case Nil
  show ?case unfolding parseRows.simps by (intro maintains_intro)
next
  case (Cons l ls)
  show ?case unfolding parseRows.simps parseRow_def Let_def by (intro maintains_intro Cons)
qed

lemma maintains_lsblk [maintains_intro]: "maintains P (GetSCSIDevices h paths strict)"
  unfolding GetSCSIDevices_def lsblk_def lsblkDevices_def by (intro maintains_intro)

lemma maintains_GetISCSIDevices [maintains_intro]: "maintains P (GetISCSIDevices h paths strict)"
  unfolding GetISCSIDevices_def by (intro maintains_intro)

lemma maintains_writeInSCSIDeviceFile [maintains_intro]: "maintains P (writeInSCSIDeviceFile h x f s)"
  unfolding writeInSCSIDeviceFile_def Let_def by (intro maintains_intro)

lemma maintains_flushDevice [maintains_intro]: "maintains P (flushDevice h d)"
  unfolding flushDevice_def ExistsDevice_def by (intro maintains_intro)

lemma maintains_detachDevice [maintains_intro]: "maintains P (detachDevice h d)"
  unfolding detachDevice_def Shutdown_def DeleteDevice_def by (intro maintains_intro)

lemma maintains_removeEach [maintains_intro]: "maintains P (removeEach h ds errs)"
proof (induction ds arbitrary: errs)
  case Nil
  show ?case unfolding removeEach.simps by (intro maintains_intro)
next
  case (Cons d ds)
  show ?case unfolding removeEach.simps by (intro maintains_intro Cons)
qed

lemma maintains_RemoveSCSIDevices [maintains_intro]: "maintains P (RemoveSCSIDevices h ds)"
  unfolding RemoveSCSIDevices_def by (intro maintains_intro)

lemma maintains_checkPaths [maintains_intro]: "maintains P (checkPaths h ref ds st)"
proof (induction ds arbitrary: st)
  case Nil
  show ?case unfolding checkPaths.simps by (intro maintains_intro)
next
  case (Cons d ds)
  show ?case unfolding checkPaths.simps WWID_def by (intro maintains_intro Cons)
qed

lemma maintains_multipath [maintains_intro]:
  "maintains P (IsMultipathConsistent h c)" "maintains P (IsMultipathEnabled c)" "maintains P (FlushMultipathDevice h d)"
  unfolding IsMultipathConsistent_def IsMultipathEnabled_def FlushMultipathDevice_def Let_def by (intro maintains_intro)+

lemma maintains_Connect [maintains_intro]: "maintains P (Connect h c)"
  unfolding Connect_def useDevices_def chooseDevice_def Let_def by (intro maintains_intro)

lemma maintains_logoutEach [maintains_intro]: "maintains P (logoutEach h iqn targets errs)"
proof (induction targets arbitrary: errs)
  case Nil
  show ?case unfolding logoutEach.simps by (intro maintains_intro)
next
  case (Cons t ts)
  show ?case unfolding logoutEach.simps Let_def by (intro maintains_intro Cons)
qed

lemma maintains_Disconnect [maintains_intro]: "maintains P (DisconnectConnector h c)" "maintains P (DisconnectVolume h c)"
  unfolding DisconnectConnector_def Disconnect_def DisconnectVolume_def by (intro maintains_intro)+

end

subsection \<open>Waiting for a device\<close>

text \<open>The world after \<open>k\<close> looks that all missed the path, each followed by a pause.\<close>

fun afterMisses :: "'w Host \<Rightarrow> nat \<Rightarrow> string \<Rightarrow> string \<Rightarrow> nat \<Rightarrow> 'w \<Rightarrow> 'w option" where
  "afterMisses h interval transport path 0 w = Some w"
| "afterMisses h interval transport path (Suc k) w =
     (case pathExists h path transport w of
        (Err e, w1) \<Rightarrow> if IsNotExist e then afterMisses h interval transport path k (snd (h_sleep h (int interval * Second) w1)) else None
      | _ \<Rightarrow> None)"

text \<open>A look that ends the wait: the path is there, or the check itself failed.\<close>

fun decided :: "'a outcome \<Rightarrow> bool" where
  "decided (Ret _) = True"
| "decided (Err e) = (\<not> IsNotExist e)"
| "decided (Panic _) = False"

lemma act_snd: "act m (\<lambda>_. k) w = k (snd (m w))"
  by (simp add: act_def split: prod.splits)

lemma retryPath_found:
  assumes "pathExists h path transport w = (Err e, w1)" "IsNotExist e"
    and "afterMisses h interval transport path k (snd (h_sleep h (int interval * Second) w1)) = Some w2"
    and "pathExists h path transport w2 = (r, w3)" "decided r" "k < n"
  shows "retryPath h interval transport path n w1 = (r, w3)"
  using assms
proof (induction k arbitrary: n w w1 e)
  case 0
  then obtain m where "n = Suc m" by (cases n) auto
  then show ?case using 0 by (cases r) (auto simp: act_snd recover_def)
next
  case (Suc k)
  then obtain m where n: "n = Suc m" by (cases n) auto
  let ?w = "snd (h_sleep h (int interval * Second) w1)"
  obtain e' w' where p: "pathExists h path transport ?w = (Err e', w')" "IsNotExist e'"
      and a: "afterMisses h interval transport path k (snd (h_sleep h (int interval * Second) w')) = Some w2"
    using Suc.prems(3) by (auto split: prod.splits outcome.splits if_splits)
  have "retryPath h interval transport path m w' = (r, w3)"
    using Suc.IH [OF p a] Suc.prems(4,5,6) n by simp
  then show ?case using n p by (simp add: act_snd recover_def)
qed

lemma retryPath_missed:
  assumes "afterMisses h interval transport path n (snd (h_sleep h (int interval * Second) w1)) = Some w2"
  shows "\<exists>w3. retryPath h interval transport path n w1 = (Err errNotExist, w3)"
  using assms
proof (induction n arbitrary: w1)
  case (Suc n)
  let ?w = "snd (h_sleep h (int interval * Second) w1)"
  obtain e' w' where p: "pathExists h path transport ?w = (Err e', w')" "IsNotExist e'"
      and a: "afterMisses h interval transport path n (snd (h_sleep h (int interval * Second) w')) = Some w2"
    using Suc.prems by (auto split: prod.splits outcome.splits if_splits)
  then show ?case using Suc.IH [OF a] by (simp add: act_snd recover_def)
qed simp

lemma wait_found:
  assumes "path \<noteq> []" "afterMisses h interval transport path k w = Some w1"
    and "k \<le> maxRetries" "pathExists h path transport w1 = (r, w2)" "decided r"
  shows "waitForPathToExist h path maxRetries interval transport w = (r, w2)"
proof (cases k)
  case 0
  then show ?thesis using assms by (cases r) (auto simp: waitForPathToExist_def recover_def)
next
  case (Suc j)
  then obtain e w' where p: "pathExists h path transport w = (Err e, w')" "IsNotExist e"
      and a: "afterMisses h interval transport path j (snd (h_sleep h (int interval * Second) w')) = Some w1"
    using assms(2) by (auto split: prod.splits outcome.splits if_splits)
  have "retryPath h interval transport path maxRetries w' = (r, w2)"
    using retryPath_found [OF p a assms(4,5), of maxRetries] assms(3) Suc by simp
  then show ?thesis using assms(1) p by (simp add: waitForPathToExist_def recover_def)
qed

lemma wait_missed:
  assumes "path \<noteq> []" "afterMisses h interval transport path (Suc maxRetries) w = Some w1"
  shows "\<exists>w3. waitForPathToExist h path maxRetries interval transport w = (Err errNotExist, w3)"
proof -
  obtain e w' where p: "pathExists h path transport w = (Err e, w')" "IsNotExist e"
      and a: "afterMisses h interval transport path maxRetries (snd (h_sleep h (int interval * Second) w')) = Some w1"
    using assms(2) by (auto split: prod.splits outcome.splits if_splits)
  show ?thesis using retryPath_missed [OF a] assms(1) p by (simp add: waitForPathToExist_def recover_def)
qed

text \<open>
  A path that is found, or whose check fails in another way, at one of the first looks
  (one more than the number of retries) is reported with that outcome; a path that all these
  looks miss gives a not-exist error.
\<close>

theorem wait_for_path:
  assumes "path \<noteq> []" "afterMisses h interval transport path k w = Some w1"
  shows "(k \<le> maxRetries \<and> pathExists h path transport w1 = (r, w2) \<and> decided r \<longrightarrow>
      waitForPathToExist h path maxRetries interval transport w = (r, w2)) \<and>
    (k = Suc maxRetries \<longrightarrow> (\<exists>w3. waitForPathToExist h path maxRetries interval transport w = (Err errNotExist, w3)))"
proof (intro conjI impI)
  assume "k \<le> maxRetries \<and> pathExists h path transport w1 = (r, w2) \<and> decided r"
  then show "waitForPathToExist h path maxRetries interval transport w = (r, w2)"
    by (elim conjE) (rule wait_found [OF assms])
next
  assume "k = Suc maxRetries"
  then show "\<exists>w3. waitForPathToExist h path maxRetries interval transport w = (Err errNotExist, w3)"
    using wait_missed [OF assms(1)] assms(2) by simp
qed

text \<open>A device that appears after two pauses.\<close>

definition slowDevice :: answers where
  "slowDevice = quietAnswers\<lparr>a_Stat := \<lambda>p l. if length l < 4 then Inl (NotExist p) else Inr \<lparr>fi_device = True\<rparr>\<rparr>"

text \<open>Instance at a device that appears after two pauses, with enough retries and with too few.\<close>

theorem wait_for_path_witness:
  "fst (waitForPathToExist (traceHost slowDevice) ''/dev/sda'' 3 2 ''tcp'' []) = Ret ''/dev/sda'' \<and>
   (\<exists>w3. waitForPathToExist (traceHost slowDevice) ''/dev/sda'' 1 2 ''tcp'' [] = (Err errNotExist, w3))"
proof
  have two: "afterMisses (traceHost slowDevice) 2 ''tcp'' ''/dev/sda'' 2 [] =
      Some [Stat ''/dev/sda'', Sleep (2 * Second), Stat ''/dev/sda'', Sleep (2 * Second)]" by code_simp
  have look: "pathExists (traceHost slowDevice) ''/dev/sda'' ''tcp''
      [Stat ''/dev/sda'', Sleep (2 * Second), Stat ''/dev/sda'', Sleep (2 * Second)] =
    (Ret ''/dev/sda'', [Stat ''/dev/sda'', Sleep (2 * Second), Stat ''/dev/sda'', Sleep (2 * Second), Stat ''/dev/sda''])" by code_simp
  show "fst (waitForPathToExist (traceHost slowDevice) ''/dev/sda'' 3 2 ''tcp'' []) = Ret ''/dev/sda''"
    using wait_for_path [OF _ two, of 3 "Ret ''/dev/sda''"] look by simp
  show "\<exists>w3. waitForPathToExist (traceHost slowDevice) ''/dev/sda'' 1 2 ''tcp'' [] = (Err errNotExist, w3)"
    using wait_for_path [OF _ two, of 1] by simp
qed

text \<open>Looks and pauses of a wait.\<close>

definition looks :: "syscall list \<Rightarrow> nat" where
  "looks l = length (filter (\<lambda>c. case c of Stat _ \<Rightarrow> True | Glob _ \<Rightarrow> True | _ \<Rightarrow> False) l)"

definition pauses :: "syscall list \<Rightarrow> int" where
  "pauses l = sum_list (map (\<lambda>c. case c of Sleep d \<Rightarrow> d | _ \<Rightarrow> 0) l)"

lemma looks_append [simp]: "looks (l @ m) = looks l + looks m"
  by (simp add: looks_def)

lemma pauses_append [simp]: "pauses (l @ m) = pauses l + pauses m"
  by (simp add: pauses_def)

lemma pathExists_run: "\<exists>r. pathExists (traceHost a) path transport l = (r, l @ [if transport = ''tcp'' then Stat path else Glob path])"
  by (auto simp: pathExists_def step_def sys_def answered_def split: sum.splits list.splits)

lemma retryPath_run:
  "\<exists>r new. retryPath (traceHost a) interval transport path n l = (r, l @ new) \<and> looks new \<le> n \<and>
     pauses new \<le> int n * (int interval * Second) \<and> set new \<subseteq> {Stat path, Glob path, Sleep (int interval * Second)}"
proof (induction n arbitrary: l)
  case 0
  show ?case by (auto simp: looks_def pauses_def)
next
  case (Suc n)
  let ?s = "Sleep (int interval * Second)" and ?c = "if transport = ''tcp'' then Stat path else Glob path"
  obtain r where r: "pathExists (traceHost a) path transport (l @ [?s]) = (r, (l @ [?s]) @ [?c])"
    using pathExists_run by metis
  obtain r' new where ih: "retryPath (traceHost a) interval transport path n (l @ [?s, ?c]) = (r', (l @ [?s, ?c]) @ new)"
      "looks new \<le> n" "pauses new \<le> int n * (int interval * Second)" "set new \<subseteq> {Stat path, Glob path, ?s}"
    using Suc.IH [of "l @ [?s, ?c]"] by auto
  have c: "looks [?s, ?c] = 1" "pauses [?s, ?c] = int interval * Second" by (simp_all add: looks_def pauses_def)
  show ?case
  proof (cases "\<exists>e. r = Err e \<and> IsNotExist e")
    case True
    then have "retryPath (traceHost a) interval transport path (Suc n) l = (r', l @ ([?s, ?c] @ new))"
      using r ih(1) by (auto simp: act_snd answered_def recover_def)
    then show ?thesis using ih by (intro exI [of _ r'] exI [of _ "[?s, ?c] @ new"]) (auto simp: looks_def pauses_def algebra_simps)
  next
    case False
    then have "\<exists>q. retryPath (traceHost a) interval transport path (Suc n) l = (q, l @ [?s, ?c])"
      using r by (cases r) (auto simp: act_snd answered_def recover_def)
    then show ?thesis using c by (auto intro!: exI [of _ "[?s, ?c]"] simp: distrib_left)
  qed
qed

text \<open>
  Waiting for a device ends: it looks at the path at most one time more than the number of
  retries, pauses at most as often as it may retry, and does nothing else on the node.
\<close>

theorem wait_bounded:
  "\<exists>r new. waitForPathToExist (traceHost a) path maxRetries interval transport l = (r, l @ new) \<and>
     looks new \<le> Suc maxRetries \<and> pauses new \<le> int maxRetries * (int interval * Second) \<and>
     set new \<subseteq> {Stat path, Glob path, Sleep (int interval * Second)}"
proof (cases "path = []")
  case True
  then show ?thesis by (auto simp: waitForPathToExist_def looks_def pauses_def intro!: exI [of _ "[]"])
next
  case False
  let ?c = "if transport = ''tcp'' then Stat path else Glob path"
  have c: "looks [?c] = 1" "pauses [?c] = 0" by (simp_all add: looks_def pauses_def)
  obtain r where r: "pathExists (traceHost a) path transport l = (r, l @ [?c])" using pathExists_run by metis
  obtain r' new where n: "retryPath (traceHost a) interval transport path maxRetries (l @ [?c]) = (r', (l @ [?c]) @ new)"
      "looks new \<le> maxRetries" "pauses new \<le> int maxRetries * (int interval * Second)"
      "set new \<subseteq> {Stat path, Glob path, Sleep (int interval * Second)}"
    using retryPath_run [of a interval transport path maxRetries "l @ [?c]"] by auto
  show ?thesis
  proof (cases "\<exists>e. r = Err e \<and> IsNotExist e")
    case True
    then have "waitForPathToExist (traceHost a) path maxRetries interval transport l = (r', l @ ([?c] @ new))"
      using False r n(1) by (auto simp: waitForPathToExist_def recover_def)
    then show ?thesis using n by (intro exI [of _ r'] exI [of _ "[?c] @ new"]) (auto simp: looks_def pauses_def)
  next
    case ne: False
    then have "\<exists>q. waitForPathToExist (traceHost a) path maxRetries interval transport l = (q, l @ [?c])"
      using False r by (cases r) (auto simp: waitForPathToExist_def recover_def)
    then show ?thesis using c by (auto intro!: exI [of _ "[?c]"])
  qed
qed

subsection \<open>Logging out\<close>

lemma iscsiCmd_run:
  "iscsiCmd (traceHost a) args l =
     (Ret (case a_Output a ''iscsiadm'' args l of (out, err, deadline) \<Rightarrow> if deadline then ([], Some DeadlineExceeded) else (out, err)),
      l @ [Run ''iscsiadm'' args])"
  by (simp add: iscsiCmd_def ExecWithTimeout_def act_def answered_def split: prod.splits)

definition logoutArgs :: "string \<Rightarrow> string \<Rightarrow> syscall" where
  "logoutArgs iqn portal = Run ''iscsiadm'' [''-m'', ''node'', ''-T'', iqn, ''-p'', portal, ''-u'']"

definition deleteNodeArgs :: "string \<Rightarrow> syscall" where
  "deleteNodeArgs iqn = Run ''iscsiadm'' [''-m'', ''node'', ''-T'', iqn, ''-o'', ''delete'']"

definition portalsOf :: "string list \<Rightarrow> string list" where
  "portalsOf targets = filter (\<lambda>p. p \<noteq> []) (map TrimSpace targets)"

lemma Logout_run: "\<exists>r. Logout (traceHost a) iqn portal l = (r, l @ [logoutArgs iqn portal]) \<and> (\<forall>s. r \<noteq> Panic s)"
  by (auto simp: Logout_def step_def iscsiCmd_run nodeArgs_def logoutArgs_def split: prod.splits option.splits)

lemma DeleteDBEntry_run: "\<exists>r. DeleteDBEntry (traceHost a) iqn l = (r, l @ [deleteNodeArgs iqn]) \<and> (\<forall>s. r \<noteq> Panic s)"
  by (auto simp: DeleteDBEntry_def step_def iscsiCmd_run deleteNodeArgs_def split: prod.splits option.splits)

text \<open>Every logout of the portals, in order, succeeds or finds the session gone.\<close>

fun loggedOut :: "answers \<Rightarrow> string \<Rightarrow> string list \<Rightarrow> syscall list \<Rightarrow> bool" where
  "loggedOut a iqn [] l = True"
| "loggedOut a iqn (p # ps) l = (fst (Logout (traceHost a) iqn p l) = Ret () \<and> loggedOut a iqn ps (l @ [logoutArgs iqn p]))"

lemma logoutEach_run:
  "\<exists>errs'. logoutEach (traceHost a) iqn targets errs l = (Ret (errs @ errs'), l @ map (logoutArgs iqn) (portalsOf targets)) \<and>
     (\<forall>e \<in> set errs'. e \<noteq> None) \<and> (errs' = [] \<longleftrightarrow> loggedOut a iqn (portalsOf targets) l)"
proof (induction targets arbitrary: errs l)
  case Nil
  show ?case by (simp add: portalsOf_def)
next
  case (Cons t ts)
  show ?case
  proof (cases "TrimSpace t = []")
    case True
    then have "portalsOf (t # ts) = portalsOf ts" "logoutEach (traceHost a) iqn (t # ts) errs l = logoutEach (traceHost a) iqn ts errs l"
      by (simp_all add: portalsOf_def)
    then show ?thesis using Cons.IH by metis
  next
    case False
    let ?p = "TrimSpace t" and ?l = "l @ [logoutArgs iqn (TrimSpace t)]"
    obtain r where r: "Logout (traceHost a) iqn ?p l = (r, ?l)" "\<forall>s. r \<noteq> Panic s" using Logout_run by metis
    have ps: "portalsOf (t # ts) = ?p # portalsOf ts" using False by (simp add: portalsOf_def)
    define new where "new = (case r of Err e \<Rightarrow> [Some (Errorf ''logout from portal %s: %w'' [ArgS ?p, ArgE e])] | _ \<Rightarrow> [])"
    obtain errs' where ih: "logoutEach (traceHost a) iqn ts (errs @ new) ?l = (Ret ((errs @ new) @ errs'), ?l @ map (logoutArgs iqn) (portalsOf ts))"
        "\<forall>e \<in> set errs'. e \<noteq> None" "errs' = [] \<longleftrightarrow> loggedOut a iqn (portalsOf ts) ?l"
      using Cons.IH [of "errs @ new" ?l] by blast
    have run: "logoutEach (traceHost a) iqn (t # ts) errs l = (Ret (errs @ (new @ errs')), l @ map (logoutArgs iqn) (portalsOf (t # ts)))"
      using False r ih(1) ps by (cases r) (auto simp: recover_def new_def Let_def)
    have "new @ errs' = [] \<longleftrightarrow> loggedOut a iqn (portalsOf (t # ts)) l" "\<forall>e \<in> set (new @ errs'). e \<noteq> None"
      using ih(2,3) r ps by (cases r; auto simp: new_def)+
    then show ?thesis using run by blast
  qed
qed

text \<open>
  C29: disconnecting logs out of every portal of the target that is not blank, in order and
  whatever the earlier logouts answered, and then deletes the node record; nothing else runs.
  It succeeds exactly when every logout and the deletion succeeded or found nothing to do.
\<close>

theorem disconnect_all_portals:
  "\<exists>r. Disconnect (traceHost a) iqn targets l = (r, l @ map (logoutArgs iqn) (portalsOf targets) @ [deleteNodeArgs iqn]) \<and>
     (r = Ret () \<longleftrightarrow> loggedOut a iqn (portalsOf targets) l \<and>
       fst (DeleteDBEntry (traceHost a) iqn (l @ map (logoutArgs iqn) (portalsOf targets))) = Ret ())"
proof -
  let ?l = "l @ map (logoutArgs iqn) (portalsOf targets)"
  obtain errs where e: "logoutEach (traceHost a) iqn targets [] l = (Ret errs, ?l)" "\<forall>x \<in> set errs. x \<noteq> None"
      "errs = [] \<longleftrightarrow> loggedOut a iqn (portalsOf targets) l"
    using logoutEach_run [of a iqn targets "[]" l] by auto
  obtain d where d: "DeleteDBEntry (traceHost a) iqn ?l = (d, ?l @ [deleteNodeArgs iqn])" "\<forall>s. d \<noteq> Panic s"
    using DeleteDBEntry_run by metis
  have n: "errorsJoin errs = None \<longleftrightarrow> errs = []" using e(2) by (cases errs) (auto simp: errorsJoin_def Let_def List.map_filter_def)
  have "\<exists>r. Disconnect (traceHost a) iqn targets l = (r, ?l @ [deleteNodeArgs iqn]) \<and> (r = Ret () \<longleftrightarrow> errs = [] \<and> d = Ret ())"
    using e(1) d n by (cases d) (auto simp: Disconnect_def step_def recover_def split: option.splits)
  then show ?thesis using e(3) d by auto
qed

subsection \<open>Detaching devices\<close>

text \<open>The calls of a write to a file of a device.\<close>

definition deviceFile :: "Device \<Rightarrow> string \<Rightarrow> string" where
  "deviceFile d file = JoinPath [''/sys/class/scsi_device'', dev_Hctl d, ''device'', file]"

definition writeTo :: "Device \<Rightarrow> string \<Rightarrow> string \<Rightarrow> syscall list" where
  "writeTo d file content = [OpenFile (deviceFile d file) O_TRUNC_WRONLY, WriteString (deviceFile d file) content, Close (deviceFile d file)]"

text \<open>
  Of a list of calls made from a history on: every one but a close was answered without an
  error; and one of them, not a close, was answered that the file does not exist.
\<close>

fun isClose :: "syscall \<Rightarrow> bool" where
  "isClose (Close _) = True"
| "isClose _ = False"

fun succeeded :: "answers \<Rightarrow> syscall list \<Rightarrow> syscall list \<Rightarrow> bool" where
  "succeeded a l [] = True"
| "succeeded a l (c # cs) = ((isClose c \<or> ok (a_unit a c l)) \<and> succeeded a (l @ [c]) cs)"

fun foundGone :: "answers \<Rightarrow> syscall list \<Rightarrow> syscall list \<Rightarrow> bool" where
  "foundGone a l [] = False"
| "foundGone a l (c # cs) = (\<not> isClose c \<and> (case a_unit a c l of Inl e \<Rightarrow> IsNotExist e | Inr _ \<Rightarrow> False) \<or> foundGone a (l @ [c]) cs)"

lemma succeeded_append: "succeeded a l (cs @ ds) \<longleftrightarrow> succeeded a l cs \<and> succeeded a (l @ cs) ds"
  by (induction cs arbitrary: l) auto

lemma foundGone_append: "foundGone a (l @ cs) ds \<Longrightarrow> foundGone a l (cs @ ds)"
  by (induction cs arbitrary: l) auto

text \<open>What the error of a write says of its calls.\<close>

lemma writeInSCSIDeviceFile_run:
  "\<exists>r new. writeInSCSIDeviceFile (traceHost a) (dev_Hctl d) file content l = (r, l @ new) \<and> (\<forall>s. r \<noteq> Panic s) \<and> new \<noteq> [] \<and>
     prefix new (writeTo d file content) \<and> (r = Ret () \<longrightarrow> new = writeTo d file content \<and> succeeded a l new) \<and>
     (\<forall>e. r = Err e \<and> IsNotExist e \<longrightarrow> foundGone a l new)"
proof -
  let ?f = "deviceFile d file"
  let ?o = "OpenFile ?f O_TRUNC_WRONLY" and ?w = "WriteString ?f content"
  show ?thesis
  proof (cases "a_unit a ?o l")
    case (Inl e)
    then have "writeInSCSIDeviceFile (traceHost a) (dev_Hctl d) file content l = (Err e, l @ [?o])"
      by (simp add: writeInSCSIDeviceFile_def Let_def step_def sys_def answered_def deviceFile_def)
    then show ?thesis using Inl by (intro exI [of _ "Err e"] exI [of _ "[?o]"]) (auto simp: writeTo_def)
  next
    case (Inr u)
    let ?r = "case a_unit a ?w (l @ [?o]) of Inl e \<Rightarrow> Err e | Inr _ \<Rightarrow> Ret ()"
    have "writeInSCSIDeviceFile (traceHost a) (dev_Hctl d) file content l = (?r, l @ writeTo d file content)"
      using Inr by (auto simp: writeInSCSIDeviceFile_def Let_def step_def recover_def sys_def answered_def deviceFile_def writeTo_def pure_def split: sum.splits)
    moreover have "succeeded a l (writeTo d file content)" if "?r = Ret ()"
      using that Inr by (auto simp: writeTo_def split: sum.splits)
    moreover have "foundGone a l (writeTo d file content)" if "?r = Err e" "IsNotExist e" for e
      using that Inr by (auto simp: writeTo_def split: sum.splits)
    ultimately show ?thesis
      by (intro exI [of _ ?r] exI [of _ "writeTo d file content"]) (auto simp: writeTo_def split: sum.splits)
  qed
qed

definition flushCall :: "Device \<Rightarrow> syscall" where
  "flushCall d = Run ''blockdev'' [''--flushbufs'', GetPath d]"

text \<open>
  Nothing of a device is left in the buffers: it is there and \<^verbatim>\<open>blockdev --flushbufs\<close> ended
  without an error, or it is not there.
\<close>

definition flushedOrGone :: "answers \<Rightarrow> Device \<Rightarrow> syscall list \<Rightarrow> bool" where
  "flushedOrGone a d l \<longleftrightarrow>
     (case a_Stat a (GetPath d) l of
        Inr _ \<Rightarrow> snd (a_command a ''blockdev'' [''--flushbufs'', GetPath d] (l @ [Stat (GetPath d)])) = None
      | Inl e \<Rightarrow> IsNotExist e)"

definition flushCalls :: "answers \<Rightarrow> Device \<Rightarrow> syscall list \<Rightarrow> syscall list" where
  "flushCalls a d l = Stat (GetPath d) # (if ok (a_Stat a (GetPath d) l) then [flushCall d] else [])"

lemma flushDevice_run:
  "\<exists>r. flushDevice (traceHost a) d l = (r, l @ flushCalls a d l) \<and> (\<forall>s. r \<noteq> Panic s) \<and> (r = Ret () \<longleftrightarrow> flushedOrGone a d l)"
  by (auto simp: flushDevice_def ExistsDevice_def step_def recover_def sys_def answered_def act_def flushCalls_def flushCall_def flushedOrGone_def
      split: sum.splits prod.splits option.splits)

definition offline :: "Device \<Rightarrow> syscall list" where
  "offline d = writeTo d ''state'' (''offline'' @ [CHR 0x0A])"

definition delete :: "Device \<Rightarrow> syscall list" where
  "delete d = writeTo d ''delete'' ''1''"

lemma detachDevice_run:
  "\<exists>e off. detachDevice (traceHost a) d l = (Ret e, l @ off) \<and> prefix off (offline d @ delete d) \<and>
     (length (offline d) < length off \<longrightarrow> succeeded a l (offline d)) \<and>
     (e = None \<longrightarrow> off = offline d @ delete d \<and> succeeded a l off \<or> foundGone a l off)"
proof -
  obtain r new where s: "Shutdown (traceHost a) d l = (r, l @ new)" "\<forall>s. r \<noteq> Panic s" "prefix new (offline d)"
      "r = Ret () \<longrightarrow> new = offline d \<and> succeeded a l new" "\<forall>e. r = Err e \<and> IsNotExist e \<longrightarrow> foundGone a l new"
    using writeInSCSIDeviceFile_run [of a d "''state''" "''offline'' @ [CHR 0x0A]" l] unfolding Shutdown_def offline_def by blast
  obtain r2 new2 where x: "DeleteDevice (traceHost a) d (l @ new) = (r2, (l @ new) @ new2)" "\<forall>s. r2 \<noteq> Panic s" "prefix new2 (delete d)"
      "r2 = Ret () \<longrightarrow> new2 = delete d \<and> succeeded a (l @ new) new2" "\<forall>e. r2 = Err e \<and> IsNotExist e \<longrightarrow> foundGone a (l @ new) new2"
    using writeInSCSIDeviceFile_run [of a d "''delete''" "''1''" "l @ new"] unfolding DeleteDevice_def delete_def by blast
  show ?thesis
  proof (cases r)
    case (Ret u)
    then have new: "new = offline d" "succeeded a l (offline d)" using s(4) by auto
    obtain e where e: "detachDevice (traceHost a) d l = (Ret e, l @ (offline d @ new2))" "e = None \<longrightarrow> r2 = Ret () \<or> (\<exists>x. r2 = Err x \<and> IsNotExist x)"
      using s x Ret new(1) by (cases r2) (auto simp: detachDevice_def recover_def)
    moreover have "e = None \<longrightarrow> offline d @ new2 = offline d @ delete d \<and> succeeded a l (offline d @ new2) \<or> foundGone a l (offline d @ new2)"
      using e(2) x(4,5) new by (auto simp: succeeded_append foundGone_append)
    ultimately show ?thesis using x(3) new(2) by (intro exI [of _ e] exI [of _ "offline d @ new2"]) auto
  next
    case (Err err)
    then have "detachDevice (traceHost a) d l = (Ret (if IsNotExist err then None else Some err), l @ new)"
      using s by (auto simp: detachDevice_def recover_def)
    moreover have "length new \<le> length (offline d)" using s(3) by (rule prefix_length_le)
    ultimately show ?thesis using s(3,5) Err by (intro exI [of _ "if IsNotExist err then None else Some err"] exI [of _ new]) (auto intro: prefix_prefix)
  qed (use s(2) in auto)
qed

text \<open>
  The calls made for one device from a history on.  It is looked at and, exactly when it is there,
  flushed; unless the flush failed it is taken offline, and deleted once it is offline.  When the
  device counts as removed, nothing of it was left in the buffers and all these calls succeeded or
  one of them found it gone.
\<close>

definition detaches :: "answers \<Rightarrow> Device \<Rightarrow> syscall list \<Rightarrow> syscall list \<Rightarrow> bool \<Rightarrow> bool" where
  "detaches a d l new removed \<longleftrightarrow> (\<exists>off.
     new = flushCalls a d l @ off \<and> prefix off (offline d @ delete d) \<and>
     (off \<noteq> [] \<longrightarrow> flushedOrGone a d l) \<and>
     (length (offline d) < length off \<longrightarrow> succeeded a (l @ flushCalls a d l) (offline d)) \<and>
     (removed \<longrightarrow> flushedOrGone a d l \<and>
        (off = offline d @ delete d \<and> succeeded a (l @ flushCalls a d l) off \<or> foundGone a (l @ flushCalls a d l) off)))"

text \<open>The devices one after the other; only a removal that fails may stop before the last one.\<close>

fun removes :: "answers \<Rightarrow> Device list \<Rightarrow> syscall list \<Rightarrow> bool \<Rightarrow> syscall list \<Rightarrow> bool" where
  "removes a [] l removed l' \<longleftrightarrow> l' = l"
| "removes a (d # ds) l removed l' \<longleftrightarrow>
     (\<exists>new. detaches a d l new removed \<and> (removes a ds (l @ new) removed l' \<or> (\<not> removed \<and> l' = l @ new)))"

lemma detaches_weaken: "detaches a d l new b \<Longrightarrow> (c \<Longrightarrow> b) \<Longrightarrow> detaches a d l new c"
  unfolding detaches_def by blast

lemma removes_weaken: "removes a ds l b l' \<Longrightarrow> removes a ds l False l'"
proof (induction ds arbitrary: l)
  case (Cons d ds)
  then obtain new where new: "detaches a d l new b" "removes a ds (l @ new) b l' \<or> (\<not> b \<and> l' = l @ new)" by auto
  have "detaches a d l new False" using new(1) by (rule detaches_weaken) simp
  then show ?case using new(2) Cons.IH by auto
qed simp

lemma removeEach_run:
  "\<exists>r l'. removeEach (traceHost a) ds errs l = (r, l') \<and> (\<forall>s. r \<noteq> Panic s) \<and> (\<forall>errs'. r = Ret errs' \<longrightarrow> prefix errs errs') \<and>
     removes a ds l (r = Ret errs) l'"
proof (induction ds arbitrary: errs l)
  case (Cons d ds)
  obtain r where f: "flushDevice (traceHost a) d l = (r, l @ flushCalls a d l)" "\<forall>s. r \<noteq> Panic s" "r = Ret () \<longleftrightarrow> flushedOrGone a d l"
    using flushDevice_run by blast
  show ?case
  proof (cases r)
    case (Ret u)
    let ?l = "l @ flushCalls a d l"
    obtain e off where off: "detachDevice (traceHost a) d ?l = (Ret e, ?l @ off)" "prefix off (offline d @ delete d)"
        "length (offline d) < length off \<longrightarrow> succeeded a ?l (offline d)"
        "e = None \<longrightarrow> off = offline d @ delete d \<and> succeeded a ?l off \<or> foundGone a ?l off"
      using detachDevice_run [of a d ?l] by blast
    let ?errs = "case e of None \<Rightarrow> errs | Some x \<Rightarrow> errs @ [x]"
    obtain q l' where ih: "removeEach (traceHost a) ds ?errs (?l @ off) = (q, l')" "\<forall>s. q \<noteq> Panic s"
        "\<forall>errs'. q = Ret errs' \<longrightarrow> prefix ?errs errs'" "removes a ds (?l @ off) (q = Ret ?errs) l'"
      using Cons.IH [of ?errs "?l @ off"] by blast
    have run: "removeEach (traceHost a) (d # ds) errs l = (q, l')" using f off(1) ih(1) Ret by (simp add: step_def)
    have d: "detaches a d l (flushCalls a d l @ off) (e = None)"
      using off(2-4) f(3) Ret unfolding detaches_def by (intro exI [of _ off]) simp
    have grow: "\<forall>errs'. q = Ret errs' \<longrightarrow> prefix errs errs'"
      using ih(3) by (cases e) (auto dest: append_prefixD)
    have "removes a (d # ds) l (q = Ret errs) l'"
    proof (cases e)
      case None
      have "detaches a d l (flushCalls a d l @ off) (q = Ret errs)" using d by (rule detaches_weaken) (simp add: None)
      then show ?thesis using None ih(4) by auto
    next
      case (Some x)
      then have "q \<noteq> Ret errs" using ih(3) by (auto dest: prefix_length_le)
      moreover have "detaches a d l (flushCalls a d l @ off) False" using d by (rule detaches_weaken) simp
      ultimately show ?thesis using removes_weaken [OF ih(4)] by auto
    qed
    then show ?thesis using run ih(2) grow by blast
  next
    case (Err x)
    then have "detaches a d l (flushCalls a d l) False" unfolding detaches_def by simp
    moreover have "removeEach (traceHost a) (d # ds) errs l = (Err x, l @ flushCalls a d l)" using Err f(1) by (simp add: step_def)
    ultimately show ?thesis by auto
  qed (use f(2) in auto)
qed simp

text \<open>
  C30: removing SCSI devices handles them one after the other, whatever the host answers.  Each is
  looked at; exactly when it is there its buffers are flushed, and only a device whose flush
  succeeded, or that is gone, is taken offline, and only one that is offline is deleted.  The
  removal succeeds only if it came to every device, every device that was there was flushed, and
  each was taken offline and deleted without an error or was found gone meanwhile.
\<close>

theorem remove_devices_order:
  "\<exists>r l'. RemoveSCSIDevices (traceHost a) ds l = (r, l') \<and> (\<forall>s. r \<noteq> Panic s) \<and> removes a ds l (r = Ret ()) l'"
proof -
  obtain r l' where r: "removeEach (traceHost a) ds [] l = (r, l')" "\<forall>s. r \<noteq> Panic s" "removes a ds l (r = Ret []) l'"
    using removeEach_run [of a ds "[]" l] by blast
  define q where "q = (case r of Ret [] \<Rightarrow> Ret () | Ret (e # es) \<Rightarrow> Err e | Err e \<Rightarrow> Err e | Panic s \<Rightarrow> Panic s)"
  have "RemoveSCSIDevices (traceHost a) ds l = (q, l')" "\<forall>s. q \<noteq> Panic s" "(q = Ret ()) = (r = Ret [])"
    using r(1,2) by (auto simp: RemoveSCSIDevices_def step_def q_def split: list.splits outcome.splits)
  then show ?thesis using r(3) by (intro exI [of _ q] exI [of _ l']) simp
qed

subsection \<open>Multipath devices\<close>

lemma commonChild_ok:
  "commonChild ds mp = Inr (Some m) \<longleftrightarrow>
     list_all (\<lambda>d. \<exists>c. dev_Children d = [c] \<and> dev_Name c = dev_Name m) ds \<and>
     (case mp of None \<Rightarrow> ds \<noteq> [] | Some x \<Rightarrow> dev_Name x = dev_Name m) \<and>
     (if ds = [] then mp = Some m else dev_Children (last ds) = [m])"
proof (induction ds arbitrary: mp)
  case Nil
  show ?case by (auto split: option.splits)
next
  case (Cons d ds)
  show ?case
  proof (cases "\<exists>c. dev_Children d = [c]")
    case True
    then obtain c where "dev_Children d = [c]" by blast
    then show ?thesis using Cons.IH [of "Some c"] by (cases mp) (auto simp: list_all_iff)
  next
    case False
    then show ?thesis by (auto split: list.splits)
  qed
qed

text \<open>
  The multipath device of a set of paths is found exactly when there is a path, every path
  has exactly one child, all children have the same name and the child is a multipath map.
\<close>

theorem multipath_device_iff:
  "getMultipathDevice ds = Inr m \<longleftrightarrow>
     ds \<noteq> [] \<and> dev_Children (last ds) = [m] \<and> dev_Type m = ''mpath'' \<and>
     list_all (\<lambda>d. \<exists>c. dev_Children d = [c] \<and> dev_Name c = dev_Name m) ds"
proof -
  have "getMultipathDevice ds = Inr m \<longleftrightarrow> commonChild ds None = Inr (Some m) \<and> dev_Type m = ''mpath''"
    unfolding getMultipathDevice_def by (auto simp: ok_iff split: option.splits if_splits)
  then show ?thesis unfolding commonChild_ok by (cases "ds = []") auto
qed

text \<open>What the check leaves behind: the paths checked so far agree on the LUN and differ in their controllers.\<close>

definition pathsOk :: "mpState \<Rightarrow> Device list \<Rightarrow> bool" where
  "pathsOk st ds \<longleftrightarrow>
     list_all (\<lambda>d. \<exists>x. parseHCTL d = Inr x \<and> mp_HBA st (HBA x) = None) (filter (\<lambda>d. dev_Type d \<noteq> ''mpath'') ds) \<and>
     distinct (map (\<lambda>d. HBA (projr (parseHCTL d))) (filter (\<lambda>d. dev_Type d \<noteq> ''mpath'') ds)) \<and>
     (\<exists>n. list_all (\<lambda>d. LUN (projr (parseHCTL d)) = n) (filter (\<lambda>d. dev_Type d \<noteq> ''mpath'') ds) \<and> (mp_LUN st = -1 \<or> mp_LUN st = n))"

lemma checkPath_ok:
  assumes "checkPath d st = Inr st'" "pathsOk st' ds" "\<And>x. parseHCTL d = Inr x \<Longrightarrow> LUN x \<noteq> -1"
  shows "pathsOk st (d # ds)"
proof (cases "dev_Type d = ''mpath''")
  case True
  then show ?thesis using assms by (simp add: checkPath_def pathsOk_def)
next
  case False
  then obtain x where x: "parseHCTL d = Inr x" and st: "mp_HBA st (HBA x) = None" "mp_LUN st = -1 \<or> LUN x = mp_LUN st"
      "mp_LUN st' = LUN x" "mp_HBA st' = (mp_HBA st)(HBA x \<mapsto> dev_Name d)"
    using assms(1) by (auto simp: checkPath_def ok_iff split: if_splits option.splits)
  have "LUN x \<noteq> -1" using assms(3) x by blast
  then show ?thesis
    using assms(2) x st False by (auto simp: pathsOk_def list_all_iff split: if_splits)
qed

text \<open>LUNs are not negative where the kernel names them.\<close>

definition hctlOk :: "Device \<Rightarrow> bool" where
  "hctlOk d \<longleftrightarrow> (case parseHCTL d of Inr x \<Rightarrow> 0 \<le> LUN x | Inl _ \<Rightarrow> True)"

lemma checkPaths_ok:
  assumes "checkPaths h ref ds st w = (Ret u, w')" "list_all hctlOk ds"
  shows "list_all (\<lambda>d. dev_Size d = dev_Size ref) ds \<and> pathsOk st ds"
  using assms
proof (induction ds arbitrary: st w)
  case Nil
  show ?case by (auto simp: pathsOk_def)
next
  case (Cons d ds)
  have sz: "dev_Size d = dev_Size ref" using Cons.prems(1) by (auto split: if_splits)
  then obtain st' w2 where c: "checkPath d st = Inr st'" and rest: "checkPaths h ref ds st' w2 = (Ret u, w')"
    using Cons.prems(1) by (auto simp: ret_iff split: if_splits)
  have "list_all (\<lambda>d. dev_Size d = dev_Size ref) ds \<and> pathsOk st' ds" using Cons.IH [OF rest] Cons.prems(2) by simp
  moreover have "LUN x \<noteq> -1" if "parseHCTL d = Inr x" for x using that Cons.prems(2) by (simp add: hctlOk_def)
  ultimately show ?case using checkPath_ok [OF c] sz by auto
qed

text \<open>
  C31: a multipath map that passes the consistency check has paths of its own size that
  are on pairwise different controllers and on one LUN.
\<close>

theorem multipath_consistent:
  assumes "IsMultipathConsistent h c w = (Ret u, w')" "list_all hctlOk (c_Devices c)" "c_MountTargetDevice c = Some m"
    and "dev_Type m = ''mpath''" "list_all (\<lambda>d. dev_Type d \<noteq> ''mpath'') (c_Devices c)"
  shows "list_all (\<lambda>d. dev_Size d = dev_Size m) (c_Devices c) \<and>
    distinct (map (\<lambda>d. HBA (projr (parseHCTL d))) (c_Devices c)) \<and>
    (\<exists>n. list_all (\<lambda>d. \<exists>x. parseHCTL d = Inr x \<and> LUN x = n) (c_Devices c))"
proof -
  let ?st = "\<lparr>mp_LUN = -1, mp_Name = [], mp_HBA = Map.empty\<rparr>"
  have fl: "filter (\<lambda>d. dev_Type d \<noteq> ''mpath'') (c_Devices c) = c_Devices c"
    using assms(5) by (simp add: filter_id_conv list_all_iff)
  have "\<exists>w1. checkPaths h m (c_Devices c) ?st w1 = (Ret u, w')"
    using assms(1,3,4) by (auto simp: IsMultipathConsistent_def ret_iff checkPath_def split: if_splits)
  then obtain w1 where "checkPaths h m (c_Devices c) ?st w1 = (Ret u, w')" by blast
  then have "list_all (\<lambda>d. dev_Size d = dev_Size m) (c_Devices c) \<and> pathsOk ?st (c_Devices c)"
    using assms(2) by (rule checkPaths_ok)
  then show ?thesis unfolding pathsOk_def fl by (fastforce simp: list_all_iff)
qed

definition pathDevice :: "string \<Rightarrow> string \<Rightarrow> Device" where
  "pathDevice name hctl = Device name hctl [Device ''3600a'' [] [] ''mpath'' [] ''1G''] ''disk'' ''iscsi'' ''1G''"

definition multipathConnector :: Connector where
  "multipathConnector = zeroConnector\<lparr>c_MountTargetDevice := Some (Device ''3600a'' [] [] ''mpath'' [] ''1G''),
     c_Devices := [pathDevice ''sda'' ''2:0:0:1'', pathDevice ''sdb'' ''3:0:0:1'']\<rparr>"

text \<open>A host on which \<^verbatim>\<open>scsi_id\<close> names every device alike.\<close>

definition wwidAnswers :: answers where
  "wwidAnswers = quietAnswers\<lparr>a_Output := \<lambda>c args l. (''3600a'' @ [CHR 0x0A], None, False)\<rparr>"

text \<open>C31 at two paths on two controllers.\<close>

theorem multipath_consistent_witness:
  "distinct (map (\<lambda>d. HBA (projr (parseHCTL d))) (c_Devices multipathConnector))"
proof -
  have "fst (IsMultipathConsistent (traceHost wwidAnswers) multipathConnector []) = Ret ()" by code_simp
  then obtain w' where "IsMultipathConsistent (traceHost wwidAnswers) multipathConnector [] = (Ret (), w')"
    by (metis prod.collapse)
  moreover have "list_all hctlOk (c_Devices multipathConnector)"
      "list_all (\<lambda>d. dev_Type d \<noteq> ''mpath'') (c_Devices multipathConnector)" by code_simp+
  moreover have "c_MountTargetDevice multipathConnector = Some (Device ''3600a'' [] [] ''mpath'' [] ''1G'')"
    by (simp add: multipathConnector_def zeroConnector_def)
  ultimately show ?thesis using multipath_consistent [of "traceHost wwidAnswers" multipathConnector "[]" "()" w'] by simp
qed

subsection \<open>Connecting\<close>

text \<open>
  When no single mount target can be chosen among the devices of a new connection and
  their removal succeeds, the connection attempt ends without an error and with an empty
  device path: the error of the choice is lost.
\<close>

theorem connect_hides_error:
  assumes "getMountTargetDevice (c_Devices c) = Inl e" "RemoveSCSIDevices h (c_Devices c) w = (Ret (), w')"
  shows "chooseDevice h c w = (Ret (c\<lparr>c_MountTargetDevice := None, c_Devices := []\<rparr>, Inr []), w')"
  using assms by (simp add: chooseDevice_def recover_def)

definition twoDisks :: "Device list" where
  "twoDisks = [Device ''sda'' ''2:0:0:1'' [] ''disk'' ''iscsi'' ''1G'', Device ''sdb'' ''3:0:0:1'' [] ''disk'' ''iscsi'' ''1G'']"

text \<open>Instance at two disks that no multipath map joins.\<close>

theorem connect_hides_error_witness:
  "\<exists>c w. chooseDevice (traceHost quietAnswers) (zeroConnector\<lparr>c_Devices := twoDisks\<rparr>) [] = (Ret (c, Inr []), w)"
proof -
  let ?c = "zeroConnector\<lparr>c_Devices := twoDisks\<rparr>"
  have "fst (RemoveSCSIDevices (traceHost quietAnswers) (c_Devices ?c) []) = Ret ()" by code_simp
  then obtain w where w: "RemoveSCSIDevices (traceHost quietAnswers) (c_Devices ?c) [] = (Ret (), w)"
    by (metis prod.collapse)
  obtain e where "getMountTargetDevice (c_Devices ?c) = Inl e"
    by (simp add: getMountTargetDevice_def getMultipathDevice_def twoDisks_def zeroConnector_def)
  then show ?thesis using connect_hides_error [OF _ w] by blast
qed

lemma chooseDevice_path:
  assumes "chooseDevice h c w = (Ret (c', Inr p), w')" "p \<noteq> []"
  shows "\<exists>m. getMountTargetDevice (c_Devices c) = Inr m \<and> c' = c\<lparr>c_MountTargetDevice := Some m\<rparr> \<and> p = GetPath m \<and>
    (dev_Type m = ''mpath'' \<longrightarrow> (\<exists>w1 u. IsMultipathConsistent h c' w1 = (Ret u, w')))"
  using assms unfolding chooseDevice_def Let_def
  by (auto simp: ret_iff IsMultipathEnabled_def split: sum.splits if_splits)

lemma useDevices_path:
  assumes "useDevices h c iFace paths lastErr w = (Ret (c', Inr p), w')"
  shows "\<exists>devices w1. chooseDevice h (c\<lparr>c_Devices := devices\<rparr>) w1 = (Ret (c', Inr p), w') \<and> devices \<noteq> [] \<and>
    list_all (\<lambda>d. dev_Transport d = ''iscsi'') devices"
proof (cases "paths = []")
  case True
  then show ?thesis using assms by (auto simp: useDevices_def ret_iff)
next
  case False
  then obtain devices w1 where d: "GetISCSIDevices h paths True w = (Ret devices, w1)" "devices \<noteq> []"
      "chooseDevice h (c\<lparr>c_Devices := devices\<rparr>) w1 = (Ret (c', Inr p), w')"
    using assms by (auto simp: useDevices_def ret_iff split: if_splits)
  then show ?thesis by (auto simp: GetISCSIDevices_def ret_iff list_all_iff)
qed

text \<open>
  C28: a connection that gives a device path has found at least one iSCSI device; the path is
  that of the mount target the connector records.  With one device the target is this device;
  with several it is a multipath map, the one child of every device bears its name, and the
  paths have passed the consistency check.
\<close>

theorem connect_device:
  assumes "Connect h c w = (Ret (c', Inr p), w')" "p \<noteq> []"
  shows "\<exists>m. c_MountTargetDevice c' = Some m \<and> p = GetPath m \<and> c_Devices c' \<noteq> [] \<and>
    list_all (\<lambda>d. dev_Transport d = ''iscsi'') (c_Devices c') \<and>
    (if length (c_Devices c') = 1 then c_Devices c' = [m]
     else dev_Type m = ''mpath'' \<and> list_all (\<lambda>d. \<exists>x. dev_Children d = [x] \<and> dev_Name x = dev_Name m) (c_Devices c') \<and>
       (\<exists>w1 u. IsMultipathConsistent h c' w1 = (Ret u, w'))) \<and>
    c_TargetIqn c' = c_TargetIqn c \<and> c_TargetPortals c' = c_TargetPortals c \<and> c_Lun c' = c_Lun c"
proof -
  let ?c = "c\<lparr>c_RetryCount := (if c_RetryCount c = 0 then 10 else c_RetryCount c),
      c_CheckInterval := (if c_CheckInterval c = 0 then 1 else c_CheckInterval c)\<rparr>"
  obtain iFace paths lastErr w0 where "useDevices h ?c iFace paths lastErr w0 = (Ret (c', Inr p), w')"
    using assms(1) unfolding Connect_def Let_def by (auto simp: ret_iff split: option.splits)
  from useDevices_path [OF this] obtain devices w1
    where c: "chooseDevice h (?c\<lparr>c_Devices := devices\<rparr>) w1 = (Ret (c', Inr p), w')" "devices \<noteq> []"
      "list_all (\<lambda>d. dev_Transport d = ''iscsi'') devices"
    by (elim exE conjE)
  then obtain m where m: "getMountTargetDevice devices = Inr m" "c' = ?c\<lparr>c_Devices := devices, c_MountTargetDevice := Some m\<rparr>" "p = GetPath m"
      "dev_Type m = ''mpath'' \<longrightarrow> (\<exists>w1 u. IsMultipathConsistent h c' w1 = (Ret u, w'))"
    using chooseDevice_path [OF c(1) assms(2)] by auto
  have "if length devices = 1 then devices = [m]
      else dev_Type m = ''mpath'' \<and> list_all (\<lambda>d. \<exists>x. dev_Children d = [x] \<and> dev_Name x = dev_Name m) devices"
    using m(1) c(2) by (auto simp: getMountTargetDevice_def multipath_device_iff split: if_splits list.splits)
  then show ?thesis using m c by (auto split: if_splits)
qed

text \<open>A node with a session to the target and one disk behind it.\<close>

definition connectedAnswers :: answers where
  "connectedAnswers = quietAnswers\<lparr>
     a_Output := (\<lambda>c args l.
       if args ! 1 = ''iface'' then (''iface.transport_name = tcp'' @ [CHR 0x0A], None, False)
       else if args = [''-m'', ''session''] then (''tcp: [1] 10.0.0.1:3260,1 iqn.2020-01.com:t (non-flash)'' @ [CHR 0x0A], None, False)
       else ([], None, False)),
     a_command := (\<lambda>c args l. (''sda sda  2:0:0:0 disk iscsi 1G'' @ [CHR 0x0A], None))\<rparr>"

definition demoConnector :: Connector where
  "demoConnector = zeroConnector\<lparr>c_TargetIqn := ''iqn.2020-01.com:t'', c_TargetPortals := [''10.0.0.1:3260'']\<rparr>"

fun connectedTo :: "string \<Rightarrow> (Connector \<times> string result) outcome \<Rightarrow> bool" where
  "connectedTo p (Ret (c, Inr q)) = (q = p)"
| "connectedTo p _ = False"

lemma connectedTo_iff: "connectedTo p r \<longleftrightarrow> (\<exists>c. r = Ret (c, Inr p))"
  by (induction p r rule: connectedTo.induct) auto

text \<open>C28 at a node that is logged in already.\<close>

theorem connect_device_witness:
  "\<exists>c' m w'. Connect (traceHost connectedAnswers) demoConnector [] = (Ret (c', Inr ''/dev/sda''), w') \<and>
     c_MountTargetDevice c' = Some m \<and> GetPath m = ''/dev/sda''"
proof -
  have "connectedTo ''/dev/sda'' (fst (Connect (traceHost connectedAnswers) demoConnector []))" by code_simp
  then obtain c' where "fst (Connect (traceHost connectedAnswers) demoConnector []) = Ret (c', Inr ''/dev/sda'')"
    by (auto simp: connectedTo_iff)
  then obtain w' where r: "Connect (traceHost connectedAnswers) demoConnector [] = (Ret (c', Inr ''/dev/sda''), w')"
    by (metis prod.collapse)
  obtain m where "c_MountTargetDevice c' = Some m" "GetPath m = ''/dev/sda''"
    using connect_device [OF r] by auto
  then show ?thesis using r by blast
qed

text \<open>
  The portal is split at its colons, so of an IPv6 address in brackets only the text up to
  the first colon is used: the first command of a connection names a portal that is no address.
\<close>

theorem connect_portal_split:
  assumes "CHR '':'' \<notin> set host"
  shows "\<exists>new. snd (connectTarget (traceHost a) c iqn (host @ '':'' @ rest) iFace transport l) =
    l @ Run ''iscsiadm'' [''-m'', ''node'', ''-T'', iqn, ''-p'', host, ''-R''] # new"
proof -
  let ?first = "Run ''iscsiadm'' [''-m'', ''node'', ''-T'', iqn, ''-p'', host, ''-R'']"
  have hd: "hd (splitOn CHR '':'' (host @ '':'' @ rest)) = host" using assms splitOn_append by simp
  have "\<exists>x. iscsiCmd (traceHost a) (nodeArgs iqn host @ [''-R'']) l = (Ret x, l @ [?first])"
    by (simp add: iscsiCmd_run nodeArgs_def)
  then have "prefix (l @ [?first]) (snd (rescanTarget (traceHost a) (nodeArgs iqn host) l))"
    unfolding rescanTarget_def by (auto simp: step_def act_def answered_def split: prod.splits option.splits)
  then have "prefix (l @ [?first]) (snd (connectTarget (traceHost a) c iqn (host @ '':'' @ rest) iFace transport l))"
    unfolding connectTarget_def Let_def hd by (rule holds_after_step) (intro maintains_intro)
  then show ?thesis by (auto simp: prefix_def)
qed

text \<open>Instance at an IPv6 portal as the controller accepts it.\<close>

theorem connect_portal_split_witness:
  "\<exists>new. snd (connectTarget (traceHost quietAnswers) demoConnector ''iqn.t'' ''[fd00::1]:3260'' ''default'' ''tcp'' []) =
    Run ''iscsiadm'' [''-m'', ''node'', ''-T'', ''iqn.t'', ''-p'', ''[fd00'', ''-R''] # new"
  using connect_portal_split [of "''[fd00''" quietAnswers demoConnector "''iqn.t''" "'':1]:3260''" "''default''" "''tcp''" "[]"] by simp

subsection \<open>The device tree\<close>

text \<open>Rows in two levels: the parent of a row has no parent itself.\<close>

definition twoLevel :: "lsblkRow list \<Rightarrow> bool" where
  "twoLevel rows \<longleftrightarrow> list_all (\<lambda>r. row_PkName r \<noteq> [] \<longrightarrow>
     (\<exists>p. rowOf rows (row_PkName r) = Some p \<and> row_PkName (rows ! p) = [])) rows"

definition childRow :: "lsblkRow list \<Rightarrow> nat \<Rightarrow> lsblkRow \<Rightarrow> bool" where
  "childRow rows i r \<longleftrightarrow> row_PkName r \<noteq> [] \<and> rowOf rows (row_PkName r) = Some i"

text \<open>The reference: each device with the devices of its child rows, in the order of the rows.\<close>

definition withChildren :: "Device \<Rightarrow> Device list \<Rightarrow> Device" where
  "withChildren d cs = Device (dev_Name d) (dev_Hctl d) (dev_Children d @ cs) (dev_Type d) (dev_Transport d) (dev_Size d)"

definition treeAfter :: "lsblkRow list \<Rightarrow> nat \<Rightarrow> Device list" where
  "treeAfter rows k = map (\<lambda>i. withChildren (row_Device (rows ! i)) (map row_Device (filter (childRow rows i) (take k rows)))) [0..<length rows]"

lemma withChildren_simps [simp]:
  "withChildren d [] = d" "addChild (withChildren d cs) c = withChildren d (cs @ [c])"
  by (cases d) (simp_all add: withChildren_def addChild_def)

lemma find_in_set: "find Q xs = Some x \<Longrightarrow> x \<in> set xs"
  by (induction xs) (auto split: if_splits)

lemma rowOf_bound: "rowOf rows k = Some p \<Longrightarrow> p < length rows"
  unfolding rowOf_def by (drule find_in_set) simp

lemma treeAfter_root:
  assumes "k < length rows" "row_PkName (rows ! k) = []"
  shows "treeAfter rows (Suc k) = treeAfter rows k"
  using assms by (simp add: treeAfter_def childRow_def take_Suc_conv_app_nth)

lemma treeAfter_child:
  assumes "twoLevel rows" "k < length rows" "row_PkName (rows ! k) \<noteq> []" "rowOf rows (row_PkName (rows ! k)) = Some p"
  shows "(treeAfter rows k)[p := addChild (treeAfter rows k ! p) (treeAfter rows k ! k)] = treeAfter rows (Suc k)"
proof (rule nth_equalityI)
  have none: "filter (childRow rows k) (take k rows) = []"
    using assms(1,3) by (fastforce simp: twoLevel_def childRow_def list_all_iff filter_empty_conv dest: in_set_takeD)
  have p: "p < length rows" using rowOf_bound [OF assms(4)] .
  fix i assume "i < length ((treeAfter rows k)[p := addChild (treeAfter rows k ! p) (treeAfter rows k ! k)])"
  then have i: "i < length rows" by (simp add: treeAfter_def)
  show "(treeAfter rows k)[p := addChild (treeAfter rows k ! p) (treeAfter rows k ! k)] ! i = treeAfter rows (Suc k) ! i"
    using i p none assms(2,3,4)
    by (cases "i = p") (auto simp: treeAfter_def childRow_def take_Suc_conv_app_nth)
qed (simp add: treeAfter_def)

lemma buildTree_from:
  assumes "twoLevel rows" "k \<le> length rows"
  shows "buildTree rows [k..<length rows] (treeAfter rows k) = Inr (treeAfter rows (length rows))"
  using assms(2)
proof (induction "length rows - k" arbitrary: k)
  case 0
  then show ?case by simp
next
  case (Suc n)
  then have k: "k < length rows" "[k..<length rows] = k # [Suc k..<length rows]" by (auto simp: upt_rec)
  have ih: "buildTree rows [Suc k..<length rows] (treeAfter rows (Suc k)) = Inr (treeAfter rows (length rows))"
    using Suc k(1) by (intro Suc.hyps(1)) auto
  show ?case
  proof (cases "row_PkName (rows ! k) = []")
    case True
    then show ?thesis using k ih treeAfter_root by simp
  next
    case False
    then obtain p where "rowOf rows (row_PkName (rows ! k)) = Some p"
      using assms(1) k(1) by (force simp: twoLevel_def list_all_iff)
    then show ?thesis using k ih False treeAfter_child [OF assms(1) k(1) False] by simp
  qed
qed

text \<open>
  C32: where lsblk reports disks and one level below them, the tree that is built has the disks
  in the order of the rows, each with exactly the devices of its own child rows.
\<close>

theorem lsblk_tree:
  assumes "twoLevel rows"
  shows "buildTree rows [0..<length rows] (map row_Device rows) =
    Inr (map (\<lambda>i. withChildren (row_Device (rows ! i)) (map row_Device (filter (childRow rows i) rows))) [0..<length rows])"
proof -
  have "treeAfter rows 0 = map row_Device rows" by (rule nth_equalityI) (simp_all add: treeAfter_def)
  then show ?thesis using buildTree_from [OF assms, of 0] by (simp add: treeAfter_def)
qed

definition demoRows :: "lsblkRow list" where
  "demoRows = [\<lparr>row_Device = Device ''sda'' ''2:0:0:1'' [] ''disk'' ''iscsi'' ''1G'', row_KName = ''sda'', row_PkName = []\<rparr>,
     \<lparr>row_Device = Device ''3600a'' [] [] ''mpath'' [] ''1G'', row_KName = ''dm-0'', row_PkName = ''sda''\<rparr>,
     \<lparr>row_Device = Device ''sdb'' ''3:0:0:1'' [] ''disk'' ''iscsi'' ''1G'', row_KName = ''sdb'', row_PkName = []\<rparr>,
     \<lparr>row_Device = Device ''3600a'' [] [] ''mpath'' [] ''1G'', row_KName = ''dm-0'', row_PkName = ''sdb''\<rparr>]"

text \<open>C32 at two disks under one multipath map.\<close>

theorem lsblk_tree_witness:
  "\<exists>devs. buildTree demoRows [0..<length demoRows] (map row_Device demoRows) = Inr devs \<and>
     dev_Children (devs ! 0) = [Device ''3600a'' [] [] ''mpath'' [] ''1G'']"
proof -
  have "rowOf demoRows ''sda'' = Some 0" "rowOf demoRows ''sdb'' = Some 2" by code_simp+
  then have "twoLevel demoRows" by (simp add: twoLevel_def demoRows_def)
  moreover have "dev_Children (withChildren (row_Device (demoRows ! 0)) (map row_Device (filter (childRow demoRows 0) demoRows)))
      = [Device ''3600a'' [] [] ''mpath'' [] ''1G'']" by code_simp
  ultimately show ?thesis using lsblk_tree [of demoRows] by (simp add: demoRows_def)
qed

text \<open>
  A line of lsblk with five or six columns passes the length test and then panics, where
  one with fewer columns gives an error.
\<close>

theorem lsblk_short_line:
  "(length (splitOn CHR '' '' line) \<in> {5, 6} \<longleftrightarrow> (\<exists>s. parseRow line w = (Panic s, w))) \<and>
   (length (splitOn CHR '' '' line) < 5 \<longleftrightarrow> (\<exists>e. parseRow line w = (Err e, w)))"
  by (auto simp: parseRow_def Let_def)

subsection \<open>The session list\<close>

text \<open>A line of \<^verbatim>\<open>iscsiadm -m session\<close> and the sessions it can show.\<close>

definition sessionLine :: "iscsiSession \<Rightarrow> string" where
  "sessionLine s = is_Protocol s @ '': ['' @ Itoa (is_ID s) @ ''] '' @ is_Portal s @ '',1 '' @ is_IQN s @ '' (non-flash)''"

definition graphicText :: "string \<Rightarrow> bool" where
  "graphicText s \<longleftrightarrow> list_all graphic s"

definition sessionOk :: "iscsiSession \<Rightarrow> bool" where
  "sessionOk s \<longleftrightarrow> graphicText (is_Protocol s) \<and> is_Protocol s \<noteq> [] \<and> CHR '':'' \<notin> set (is_Protocol s) \<and>
     0 \<le> is_ID s \<and> is_ID s < 2 ^ 31 \<and> graphicText (is_Portal s) \<and> CHR '','' \<notin> set (is_Portal s) \<and>
     graphicText (is_IQN s) \<and> at (splitOn CHR '':'' (is_IQN s)) 1 = Some (is_Name s)"

lemma sessionLine_fields:
  assumes "sessionOk s"
  shows "Fields (sessionLine s) = [is_Protocol s @ '':'', ''['' @ Itoa (is_ID s) @ '']'', is_Portal s @ '',1'', is_IQN s, ''(non-flash)'']"
proof -
  have g: "\<forall>c \<in> set (is_Protocol s). graphic c" "\<forall>c \<in> set (is_Portal s). graphic c" "\<forall>c \<in> set (is_IQN s). graphic c"
    using assms by (auto simp: sessionOk_def graphicText_def list_all_iff)
  have "is_IQN s \<noteq> []" using assms by (auto simp: sessionOk_def)
  have lits: "graphic CHR '':''" "graphic CHR ''[''" "graphic CHR '']''" "graphic CHR '',''" "graphic CHR ''1''"
    by (simp_all add: graphic_def byte_def)
  have e: "Fields ''(non-flash)'' = [''(non-flash)'']" by (rule Fields_word) (simp_all add: graphic_def byte_def)
  have "Fields (is_IQN s @ CHR '' '' # ''(non-flash)'') = [is_IQN s, ''(non-flash)'']"
    using g(3) \<open>is_IQN s \<noteq> []\<close> e Fields_word_space [of "is_IQN s" "''(non-flash)''"] by simp
  then have "Fields ((is_Portal s @ '',1'') @ CHR '' '' # is_IQN s @ CHR '' '' # ''(non-flash)'') = [is_Portal s @ '',1'', is_IQN s, ''(non-flash)'']"
    using g(2) lits by (subst Fields_word_space) auto
  then have "Fields ((''['' @ Itoa (is_ID s) @ '']'') @ CHR '' '' # (is_Portal s @ '',1'') @ CHR '' '' # is_IQN s @ CHR '' '' # ''(non-flash)'') =
      [''['' @ Itoa (is_ID s) @ '']'', is_Portal s @ '',1'', is_IQN s, ''(non-flash)'']"
    using Itoa_graphic [of "is_ID s"] lits by (subst Fields_word_space) auto
  then have "Fields ((is_Protocol s @ '':'') @ CHR '' '' # (''['' @ Itoa (is_ID s) @ '']'') @ CHR '' '' # (is_Portal s @ '',1'') @
        CHR '' '' # is_IQN s @ CHR '' '' # ''(non-flash)'') =
      [is_Protocol s @ '':'', ''['' @ Itoa (is_ID s) @ '']'', is_Portal s @ '',1'', is_IQN s, ''(non-flash)'']"
    using g(1) lits by (subst Fields_word_space) auto
  then show ?thesis by (simp add: sessionLine_def)
qed

lemma filter_brackets_Itoa: "filter (\<lambda>c. c \<noteq> CHR ''['' \<and> c \<noteq> CHR '']'') (''['' @ Itoa i @ '']'') = Itoa i"
proof -
  have "\<forall>c \<in> set (Itoa i). c \<noteq> CHR ''['' \<and> c \<noteq> CHR '']''" using Itoa_chars by (fastforce simp: byte_def)
  then show ?thesis by simp
qed

lemma parseInt32_Itoa: "0 \<le> i \<Longrightarrow> i < 2 ^ 31 \<Longrightarrow> parseInt32OrBound (Itoa i) = i"
proof -
  assume i: "0 \<le> i" "i < 2 ^ 31"
  obtain c cs where c: "showNat (nat i) = c # cs" "c \<noteq> CHR ''-''" "c \<noteq> CHR ''+''" using showNat_head by blast
  moreover have "parseNat (c # cs) = Some (nat i)" using c(1) parseNat_showNat [of "nat i"] by simp
  ultimately show ?thesis using i by (simp add: parseInt32OrBound_def Itoa_def)
qed

lemma parseSession_line:
  assumes "sessionOk s"
  shows "parseSession (Fields (sessionLine s)) = Some s"
proof -
  have "int32_of (parseInt32OrBound (Itoa (is_ID s))) = is_ID s"
    using assms parseInt32_Itoa by (simp add: sessionOk_def int32_range_def)
  moreover have "hd (splitOn CHR '':'' (is_Protocol s @ '':'')) = is_Protocol s" "hd (splitOn CHR '','' (is_Portal s @ '',1'')) = is_Portal s"
    using assms splitOn_append by (simp_all add: sessionOk_def)
  ultimately show ?thesis
    using assms filter_brackets_Itoa [of "is_ID s"] unfolding sessionLine_fields [OF assms] parseSession_def
    by (simp add: sessionOk_def)
qed

lemma parseEntries_lines: "list_all sessionOk ss \<Longrightarrow> parseEntries (map sessionLine ss) = Some ss"
proof (induction ss)
  case (Cons s ss)
  then have "\<not> length (Fields (sessionLine s)) < 4" "parseSession (Fields (sessionLine s)) = Some s"
    using sessionLine_fields [of s] parseSession_line [of s] by simp_all
  then show ?case using Cons by simp
qed simp

lemma sessionLine_shape:
  assumes "sessionOk s"
  shows "CHR 0x0A \<notin> set (sessionLine s)" "graphic (hd (sessionLine s))" "graphic (last (sessionLine s))" "2 \<le> length (sessionLine s)"
proof -
  have n: "\<not> graphic CHR 0x0A" by (simp add: graphic_def byte_def)
  then show "CHR 0x0A \<notin> set (sessionLine s)"
    using assms Itoa_graphic [of "is_ID s"] by (auto simp: sessionOk_def graphicText_def sessionLine_def list_all_iff)
  show "graphic (hd (sessionLine s))"
    using assms by (cases "is_Protocol s") (auto simp: sessionOk_def graphicText_def sessionLine_def)
  show "graphic (last (sessionLine s))" by (simp add: sessionLine_def graphic_def byte_def)
qed (simp add: sessionLine_def)

text \<open>
  The list of sessions that iscsiadm prints, one line per session, is read back as these
  sessions, with protocol, number, portal, IQN and name.
\<close>

theorem session_list_roundtrip:
  assumes "list_all sessionOk ss" "ss \<noteq> []"
  shows "parseSessions (Join (map sessionLine ss) [CHR 0x0A] @ [CHR 0x0A]) = Some ss"
proof -
  let ?t = "Join (map sessionLine ss) [CHR 0x0A]"
  have ok: "\<forall>s \<in> set ss. sessionOk s" using assms(1) by (simp add: list_all_iff)
  have first: "graphic (hd ?t) \<and> ?t \<noteq> []"
    using sessionLine_shape [of "hd ss"] ok assms(2) by (cases ss; cases "tl ss"; cases "sessionLine (hd ss)") auto
  have lst: "graphic (last (Join (map sessionLine xs) [CHR 0x0A])) \<and> 2 \<le> length (Join (map sessionLine xs) [CHR 0x0A])"
    if "xs \<noteq> []" "\<forall>s \<in> set xs. sessionOk s" for xs
    using that
  proof (induction xs)
    case (Cons x xs)
    then show ?case using sessionLine_shape [of x] by (cases xs) auto
  qed simp
  obtain c s d where t: "?t = c # s @ [d]" "graphic c" "graphic d"
  proof -
    have two: "2 \<le> length ?t" "graphic (last ?t)" using lst [OF assms(2) ok] by auto
    then have "tl ?t \<noteq> []" by (cases ?t; cases "tl ?t") auto
    then have "?t = hd ?t # butlast (tl ?t) @ [last ?t]" using first by (cases ?t) auto
    then show ?thesis using that first two(2) by blast
  qed
  then have "TrimSpace (?t @ [CHR 0x0A]) = ?t" using TrimSpace_last_newline by simp
  moreover have "splitOn CHR 0x0A ?t = map sessionLine ss"
    using assms(2) ok sessionLine_shape(1) by (intro splitOn_Join) auto
  ultimately show ?thesis using parseEntries_lines [OF assms(1)] by (simp add: parseSessions_def)
qed

text \<open>Instance at one session.\<close>

theorem session_list_roundtrip_witness:
  "parseSessions (''tcp: [3] 10.0.0.1:3260,1 iqn.1991-05.com:wss (non-flash)'' @ [CHR 0x0A]) =
   Some [\<lparr>is_Protocol = ''tcp'', is_ID = 3, is_Portal = ''10.0.0.1:3260'', is_IQN = ''iqn.1991-05.com:wss'', is_Name = ''wss''\<rparr>]"
proof -
  let ?s = "\<lparr>is_Protocol = ''tcp'', is_ID = 3, is_Portal = ''10.0.0.1:3260'', is_IQN = ''iqn.1991-05.com:wss'', is_Name = ''wss''\<rparr>"
  have "sessionOk ?s" by code_simp
  moreover have "sessionLine ?s = ''tcp: [3] 10.0.0.1:3260,1 iqn.1991-05.com:wss (non-flash)''" by code_simp
  ultimately show ?thesis using session_list_roundtrip [of "[?s]"] by simp
qed

text \<open>A session whose IQN has no colon makes the reader panic.\<close>

lemma session_without_colon:
  "4 \<le> length (Fields entry) \<Longrightarrow> CHR '':'' \<notin> set (Fields entry ! 3) \<Longrightarrow> parseEntries (entry # entries) = None"
  by (auto simp: Let_def parseSession_def)

end
