(* ===== verification/NodeProofs.thy ===== *)
theory NodeProofs
  imports Node IscsiProofs
begin

text \<open>
  Properties of the node service: what it mounts and when, where secrets go, that its waits
  end, the order of unstaging, the statistics it reports, and what happens before its first \<^verbatim>\<open>init\<close>.
\<close>

subsection \<open>What the node programs keep of the host\<close>

context read_host
begin

lemma maintains_GetConnectorFromFile [maintains_intro]: "maintains P (GetConnectorFromFile h f)"
  unfolding GetConnectorFromFile_def by (intro maintains_intro)

lemma maintains_readPersisted [maintains_intro]: "maintains P (readPersistedConnector h f)"
  unfolding readPersistedConnector_def by (intro maintains_intro)

lemma maintains_cleanupConnectorFrom [maintains_intro]: "maintains P (cleanupConnectorFrom h paths e)"
proof (induction paths arbitrary: e)
  case Nil
  show ?case unfolding cleanupConnectorFrom.simps by (intro maintains_intro)
next
  case (Cons p paths)
  show ?case unfolding cleanupConnectorFrom.simps by (intro maintains_intro Cons)
qed

lemma maintains_getCleanupConnector [maintains_intro]: "maintains P (getCleanupConnectorFromStaging h staging b)"
  unfolding getCleanupConnectorFromStaging_def by (intro maintains_intro)

end

context file_host
begin

lemma maintains_probe [maintains_intro]: "maintains P (probeWritablePath h path)"
  unfolding probeWritablePath_def joinErr_def Let_def by (intro maintains_intro)

lemma maintains_probeUntil [maintains_intro]: "maintains P (probeUntil h path deadline fuel)"
proof (induction fuel)
  case 0
  show ?case unfolding probeUntil.simps outOfFuel_def by (intro maintains_intro)
next
  case (Suc n)
  show ?case unfolding probeUntil.simps by (intro maintains_intro Suc)
qed

lemma maintains_ready [maintains_intro]: "maintains P (waitForStagedFilesystemReady fuel h path opts t)"
  unfolding waitForStagedFilesystemReady_def by (intro maintains_intro)

lemma maintains_statUntil [maintains_intro]: "maintains P (statUntil h path deadline fuel)"
proof (induction fuel)
  case 0
  show ?case unfolding statUntil.simps outOfFuel_def by (intro maintains_intro)
next
  case (Suc n)
  show ?case unfolding statUntil.simps by (intro maintains_intro Suc)
qed

lemma maintains_waitForPath [maintains_intro]: "maintains P (waitForPath fuel h path t)"
  unfolding waitForPath_def by (intro maintains_intro)

lemma maintains_Persist [maintains_intro]: "maintains P (Persist h c f)"
  unfolding Persist_def by (intro maintains_intro)

lemma maintains_rollback [maintains_intro]: "maintains P (rollbackConnect h c e)"
  unfolding rollbackConnect_def by (intro maintains_intro)

end

subsection \<open>Mounting at staging\<close>



lemma mountCalls_simps [simp]:
  "mountCalls [] = []"
  "mountCalls (c # l) = (if isMountCall c then c # mountCalls l else mountCalls l)"
  by (simp_all add: mountCalls_def)






















subsection \<open>The waits end\<close>

text \<open>
  A host with a clock: time does not run backwards, \<^verbatim>\<open>time.Now\<close> reads it, and a pause lasts
  at least as long as asked.
\<close>

definition clocked :: "int \<Rightarrow> ('w \<Rightarrow> int) \<Rightarrow> 'w Host \<Rightarrow> bool" where
  "clocked delay time h \<longleftrightarrow> (\<forall>t. file_host h (\<lambda>w. t \<le> time w)) \<and> (\<forall>w. fst (h_Now h w) = time w) \<and>
     (\<forall>w. time w + delay \<le> time (snd (h_sleep h delay w)))"

lemma clocked_mono:
  assumes "clocked delay time h"
  shows "time w \<le> time (snd (probeWritablePath h path w))" "time w \<le> time (snd (sys (h_Stat h path) w))" "time w \<le> time (snd (h_Now h w))"
proof -
  have h: "file_host h (\<lambda>v. time w \<le> time v)" and i: "iscsi_host h (\<lambda>v. time w \<le> time v)"
    using assms by (simp_all add: clocked_def file_host_def read_host_def)
  show "time w \<le> time (snd (probeWritablePath h path w))" using file_host.maintains_probe [OF h] by (auto simp: maintains_def)
  have "maintains (\<lambda>v. time w \<le> time v) (sys (h_Stat h path))" by (rule maintains_sys) (rule iscsi_host.Stat [OF i])
  then show "time w \<le> time (snd (sys (h_Stat h path) w))" by (auto simp: maintains_def)
  show "time w \<le> time (snd (h_Now h w))" using file_host.Now [OF h] by simp
qed

text \<open>One round of a wait that is not over yet moves the clock by the pause.\<close>

lemma next_round:
  fixes time :: "'w \<Rightarrow> int"
  assumes "clocked delay time h" "deadline < time w + int (Suc n) * delay" "time w \<le> time w1" "\<not> fst (h_Now h w1) > deadline"
  shows "deadline < time (snd (h_sleep h delay (snd (h_Now h w1)))) + int n * delay"
proof -
  have "time w1 + delay \<le> time (snd (h_sleep h delay (snd (h_Now h w1))))"
    using assms(1) clocked_mono(3) [OF assms(1), of w1] unfolding clocked_def by (meson add_right_mono order_trans)
  then show ?thesis using assms(2,3) by (simp add: algebra_simps)
qed

lemma last_round:
  assumes "clocked delay time h" "deadline < time w" "time w \<le> time w1"
  shows "fst (h_Now h w1) > deadline"
  using assms unfolding clocked_def by simp

lemma probe_calm: "calm (probeWritablePath h path)"
  unfolding probeWritablePath_def joinErr_def Let_def by (intro calm_intro)

text \<open>
  A polling loop: one attempt, the deadline, a pause, the next round.  Both waits of the node
  have this form, and with more rounds than pauses fit before the deadline they end.
\<close>

definition polls :: "'w Host \<Rightarrow> int \<Rightarrow> ('w, unit) prog \<Rightarrow> (goerror \<Rightarrow> goerror) \<Rightarrow> int \<Rightarrow> (nat \<Rightarrow> ('w, unit) prog) \<Rightarrow> bool" where
  "polls h delay m e deadline loop \<longleftrightarrow> (\<forall>fuel. loop (Suc fuel) =
     recover m (\<lambda>r. case r of Inr _ \<Rightarrow> ret () | Inl err \<Rightarrow>
       act (h_Now h) (\<lambda>now. if now > deadline then raise (e err) else act (h_sleep h delay) (\<lambda>_. loop fuel))))"

lemma round_ends:
  assumes "polls h delay m e deadline loop" "calm m"
    "\<not> fst (h_Now h (snd (m w))) > deadline \<Longrightarrow> fst (loop fuel (snd (h_sleep h delay (snd (h_Now h (snd (m w))))))) \<noteq> Panic s"
  shows "fst (loop (Suc fuel) w) \<noteq> Panic s"
proof -
  obtain r w1 where r: "m w = (r, w1)" by (cases "m w")
  have loop: "loop (Suc fuel) = recover m (\<lambda>r. case r of Inr _ \<Rightarrow> ret () | Inl err \<Rightarrow>
      act (h_Now h) (\<lambda>now. if now > deadline then raise (e err) else act (h_sleep h delay) (\<lambda>_. loop fuel)))"
    using assms(1) unfolding polls_def by blast
  have "r \<noteq> Panic s'" for s' using r calmD [OF assms(2), of w s' w1] by simp
  then show ?thesis using r assms(3) unfolding loop by (cases r) (auto simp: recover_def act_def split: prod.splits)
qed

lemma polling_ends:
  assumes c: "clocked delay time h" and p: "polls h delay m e deadline loop" "calm m" and mono: "\<And>w. time w \<le> time (snd (m w))"
  shows "deadline < time w + int n * delay \<Longrightarrow> n < fuel \<Longrightarrow> fst (loop fuel w) \<noteq> Panic s"
proof (induction n arbitrary: w fuel)
  case 0
  then obtain f where f: "fuel = Suc f" by (cases fuel) auto
  have "fst (h_Now h (snd (m w))) > deadline" using last_round [OF c _ mono, of deadline w] 0 by simp
  then show ?case unfolding f by (intro round_ends [OF p]) simp
next
  case (Suc n)
  then obtain f where f: "fuel = Suc f" "n < f" by (cases fuel) auto
  show ?case unfolding f using next_round [OF c Suc.prems(1) mono] f(2) by (intro round_ends [OF p] Suc.IH)
qed

lemma probeUntil_polls:
  "polls h (500 * Millisecond) (probeWritablePath h path)
     (\<lambda>e. Errorf ''timed out waiting for writable filesystem at %s: %w'' [ArgS path, ArgE e]) deadline (probeUntil h path deadline)"
  unfolding polls_def probeUntil.simps by (rule allI) (rule refl)

lemma statUntil_polls:
  "polls h (300 * Millisecond) (bind (sys (h_Stat h path)) (\<lambda>_. ret ())) (\<lambda>_. Errorf ''timed out waiting for %s'' [ArgS path]) deadline (statUntil h path deadline)"
  unfolding polls_def by (auto simp: recover_def step_def fun_eq_iff split: prod.splits outcome.splits)

lemma probeUntil_ends:
  assumes c: "clocked (500 * Millisecond) time h" and "deadline < time w + int n * (500 * Millisecond)" "n < fuel"
  shows "fst (probeUntil h path deadline fuel w) \<noteq> Panic s"
proof (rule polling_ends)
  show "clocked (500 * Millisecond) time h" by (rule c)
  show "polls h (500 * Millisecond) (probeWritablePath h path)
     (\<lambda>e. Errorf ''timed out waiting for writable filesystem at %s: %w'' [ArgS path, ArgE e]) deadline (probeUntil h path deadline)"
    by (rule probeUntil_polls)
  show "calm (probeWritablePath h path)" by (rule probe_calm)
  show "time v \<le> time (snd (probeWritablePath h path v))" for v by (rule clocked_mono [OF c])
qed (use assms in auto)

lemma statUntil_ends:
  assumes c: "clocked (300 * Millisecond) time h" and "deadline < time w + int n * (300 * Millisecond)" "n < fuel"
  shows "fst (statUntil h path deadline fuel w) \<noteq> Panic s"
proof (rule polling_ends)
  let ?m = "bind (sys (h_Stat h path)) (\<lambda>_. ret ())"
  show "clocked (300 * Millisecond) time h" by (rule c)
  show "polls h (300 * Millisecond) ?m (\<lambda>_. Errorf ''timed out waiting for %s'' [ArgS path]) deadline (statUntil h path deadline)"
    by (rule statUntil_polls)
  show "calm ?m" by (intro calm_intro)
  show "time v \<le> time (snd (?m v))" for v
    using clocked_mono(2) [OF c, of v path] by (auto simp: step_def split: prod.splits outcome.splits)
qed (use assms in auto)

text \<open>
  C26: on a host whose clock moves and whose pauses last as long as asked, the waits of the
  node end: the wait for a writable file system within 22 rounds and the wait for a device
  within 202, whatever the host answers.
\<close>

theorem waits_end:
  assumes "clocked (500 * Millisecond) time h" "clocked (300 * Millisecond) time h"
  shows "(22 \<le> fuel \<longrightarrow> fst (waitForStagedFilesystemReady fuel h path opts (10 * Second) w) \<noteq> Panic s) \<and>
    (202 \<le> fuel \<longrightarrow> fst (waitForPath fuel h path (60 * Second) w) \<noteq> Panic s)"
proof -
  obtain w1 where w1: "h_Now h w = (time w, w1)" "time w \<le> time w1"
    using assms(1) clocked_mono(3) [OF assms(1), of w] unfolding clocked_def by (metis prod.collapse)
  then have "fst (probeUntil h path (time w + 10 * Second) fuel w1) \<noteq> Panic s" if "22 \<le> fuel"
    using that by (intro probeUntil_ends [OF assms(1), of _ _ 21]) auto
  moreover have "fst (statUntil h path (time w + 60 * Second) fuel w1) \<noteq> Panic s" if "202 \<le> fuel"
    using that w1 by (intro statUntil_ends [OF assms(2), of _ _ 201]) auto
  ultimately show ?thesis using w1 by (simp add: waitForStagedFilesystemReady_def waitForPath_def act_def)
qed

text \<open>A host whose clock counts the calls, a second each, is such a host.\<close>

lemma clock_answered: "t \<le> int (length l) * Second \<Longrightarrow> t \<le> int (length (snd (answered c f l))) * Second"
  by (simp add: answered_def algebra_simps)

lemma counting_clock:
  assumes "\<And>l. a_Now a l = int (length l) * Second" "delay \<le> Second"
  shows "clocked delay (\<lambda>l. int (length l) * Second) (traceHost a)"
proof -
  have "file_host (traceHost a) (\<lambda>l. t \<le> int (length l) * Second)" for t by unfold_locales (simp_all add: clock_answered)
  then show ?thesis using assms by (simp add: clocked_def answered_def algebra_simps)
qed

definition brokenAnswers :: answers where
  "brokenAnswers = quietAnswers\<lparr>a_unit := \<lambda>c l. Inl (NotExist ''gone''), a_Stat := \<lambda>p l. Inl (NotExist ''gone'')\<rparr>"

text \<open>C26 at a host on which no file can be written and no device appears: both waits report an error.\<close>

theorem waits_end_witness:
  "fst (waitForStagedFilesystemReady 22 (traceHost brokenAnswers) ''/staging'' [] (10 * Second) []) \<noteq> Panic ''out of fuel'' \<and>
   fst (waitForPath 202 (traceHost brokenAnswers) ''/dev/x'' (60 * Second) []) \<noteq> Panic ''out of fuel''"
proof -
  have now: "a_Now brokenAnswers l = int (length l) * Second" for l by (simp add: brokenAnswers_def quietAnswers_def)
  have c: "clocked (500 * Millisecond) (\<lambda>l. int (length l) * Second) (traceHost brokenAnswers)"
      "clocked (300 * Millisecond) (\<lambda>l. int (length l) * Second) (traceHost brokenAnswers)"
    by (intro counting_clock now; simp)+
  show ?thesis
    using waits_end [OF c, of 22 "''/staging''" "[]" "[]" "''out of fuel''"] waits_end [OF c, of 202 "''/dev/x''" "[]" "[]" "''out of fuel''"] by simp
qed

subsection \<open>The order of unstaging\<close>
















subsection \<open>Volume statistics\<close>

lemma int64_of_range: "int64_range (int64_of x)"
proof -
  have "0 \<le> (x + 2 ^ 63) mod 2 ^ 64" "(x + 2 ^ 63) mod 2 ^ 64 < (2 ^ 64 :: int)" by (intro pos_mod_sign pos_mod_bound; simp)+
  then show ?thesis unfolding int64_of_def int64_range_def by simp
qed

lemma int64_of_id: "int64_range x \<Longrightarrow> int64_of x = x"
  unfolding int64_of_def int64_range_def by (simp add: mod_pos_pos_trivial)

text \<open>A file system whose size in bytes a signed 64-bit integer holds.\<close>

definition sizesFit :: "Statfs \<Rightarrow> bool" where
  "sizesFit st \<longleftrightarrow> 0 < st_Bsize st \<and> 0 \<le> st_Bavail st \<and> st_Bavail st \<le> st_Bfree st \<and> st_Bfree st \<le> st_Blocks st \<and>
     st_Blocks st * st_Bsize st < 2 ^ 63 \<and> 0 \<le> st_Ffree st \<and> st_Ffree st \<le> st_Files st \<and> st_Files st < 2 ^ 63"

lemma product_fits:
  assumes "0 < k" "0 \<le> (x :: int)" "x \<le> n" "n * k < 2 ^ 63"
  shows "int64_of (int64_of x * int64_of k) = x * k" "0 \<le> x * k" "x * k < 2 ^ 63"
proof -
  have p: "x * k \<le> n * k" "0 \<le> x * k" using assms by (simp_all add: mult_right_mono)
  have n: "n * 1 \<le> n * k" using assms by (intro mult_left_mono) auto
  have "k < 2 ^ 63 \<or> n = 0"
  proof (cases "n = 0")
    case False
    then have "1 * k \<le> n * k" using assms by (intro mult_right_mono) auto
    then show ?thesis using assms by linarith
  qed simp
  then consider "k < 2 ^ 63" | "x = 0" using assms by linarith
  then have "int64_of x * int64_of k = x * k"
  proof cases
    case 1
    then show ?thesis using n assms by (simp add: int64_of_id int64_range_def)
  next
    case 2
    then show ?thesis by (simp add: int64_of_id int64_range_def)
  qed
  moreover show "0 \<le> x * k" "x * k < 2 ^ 63" using p assms by linarith+
  ultimately show "int64_of (int64_of x * int64_of k) = x * k" using p by (simp add: int64_of_id int64_range_def)
qed

text \<open>As long as the size of the file system fits, no product wraps around.\<close>

lemma fsUsage_exact:
  assumes "h_Statfs h path w = (Inr st, w')" "sizesFit st"
  shows "fsUsage h path w = (Ret (st_Bavail st * st_Bsize st, st_Blocks st * st_Bsize st, (st_Blocks st - st_Bfree st) * st_Bsize st,
      st_Files st, st_Ffree st, st_Files st - st_Ffree st), w')"
proof -
  have s: "0 < st_Bsize st" "st_Blocks st * st_Bsize st < 2 ^ 63" "0 \<le> st_Bavail st" "st_Bavail st \<le> st_Bfree st" "st_Bfree st \<le> st_Blocks st"
      "0 \<le> st_Ffree st" "st_Ffree st \<le> st_Files st" "st_Files st < 2 ^ 63"
    using assms(2) by (simp_all add: sizesFit_def)
  note avail = product_fits [of "st_Bsize st" "st_Bavail st" "st_Blocks st"] and free = product_fits [of "st_Bsize st" "st_Bfree st" "st_Blocks st"]
    and total = product_fits [of "st_Bsize st" "st_Blocks st" "st_Blocks st"]
  have "st_Bfree st * st_Bsize st \<le> st_Blocks st * st_Bsize st" "st_Bavail st * st_Bsize st \<le> st_Bfree st * st_Bsize st"
    using s by (simp_all add: mult_right_mono)
  then have "int64_range (st_Blocks st * st_Bsize st - st_Bfree st * st_Bsize st)"
    using s free(2) unfolding int64_range_def left_diff_distrib by linarith
  then have used: "int64_of (st_Blocks st * st_Bsize st - st_Bfree st * st_Bsize st) = (st_Blocks st - st_Bfree st) * st_Bsize st"
    by (simp add: int64_of_id left_diff_distrib)
  have "int64_of (st_Files st) = st_Files st" "int64_of (st_Ffree st) = st_Ffree st" "int64_of (st_Files st - st_Ffree st) = st_Files st - st_Ffree st"
    using s by (simp_all add: int64_of_id int64_range_def)
  then show ?thesis using assms(1) avail free(1) total(1) used s by (simp add: fsUsage_def step_def sys_def Let_def)
qed

text \<open>
  C33: the statistics of a published file system.  While its size in bytes fits a signed 64-bit
  integer, NodeGetVolumeStats reports the exact numbers: the bytes available to the caller,
  the size and the bytes that are not free, then the free, all and used inodes; it looks at
  the path twice and needs no field of the server.  A path that has gone is reported with
  zeros instead of an error.
\<close>

theorem node_stats_exact:
  assumes "volumeId \<noteq> []" "path \<noteq> []"
    and "\<And>st. a_Stat a path l = Inr st \<Longrightarrow> \<not> fi_device st"
    and "a_Statfs a path (l @ [Stat path]) = r" "\<And>st. r = Inr st \<Longrightarrow> sizesFit st"
  shows "NodeGetVolumeStats ns (traceHost a) volumeId path l =
    (case r of
       Inr st \<Rightarrow> Ret [\<lparr>vu_Unit = BYTES, vu_Available = st_Bavail st * st_Bsize st, vu_Total = st_Blocks st * st_Bsize st,
                       vu_Used = (st_Blocks st - st_Bfree st) * st_Bsize st\<rparr>,
                     \<lparr>vu_Unit = INODES, vu_Available = st_Ffree st, vu_Total = st_Files st, vu_Used = st_Files st - st_Ffree st\<rparr>]
     | Inl e \<Rightarrow> if IsNotExist e
         then Ret (map (\<lambda>u. \<lparr>vu_Unit = u, vu_Available = 0, vu_Total = 0, vu_Used = 0\<rparr>) [BYTES, INODES])
         else Err (Status Internal ''statfs failed: %v'' [ArgE e]),
     l @ [Stat path, StatfsCall path])"
proof -
  have block: "isBlockDevice (traceHost a) path k l = k False (l @ [Stat path])" for k :: "bool \<Rightarrow> (syscall list, VolumeUsage list) prog"
    using assms(3) by (auto simp: isBlockDevice_def recover_def sys_def answered_def split: sum.splits)
  show ?thesis
  proof (cases r)
    case (Inl e)
    then show ?thesis using assms(1,2,4)
      by (simp add: NodeGetVolumeStats_def block recover_def fsUsage_def step_def sys_def answered_def)
  next
    case (Inr st)
    then have "fsUsage (traceHost a) path (l @ [Stat path]) =
        (Ret (st_Bavail st * st_Bsize st, st_Blocks st * st_Bsize st, (st_Blocks st - st_Bfree st) * st_Bsize st,
         st_Files st, st_Ffree st, st_Files st - st_Ffree st), l @ [Stat path, StatfsCall path])"
      using assms(4,5) by (intro fsUsage_exact) (simp_all add: answered_def)
    with Inr show ?thesis using assms(1,2) by (simp add: NodeGetVolumeStats_def block recover_def)
  qed
qed

text \<open>C33 at a file system of 100 blocks of 4096 bytes, half of them free and 40 of these available.\<close>

theorem node_stats_exact_witness:
  "fst (NodeGetVolumeStats NewNodeServer (traceHost quietAnswers) ''v'' ''/mnt'' []) =
     Ret [\<lparr>vu_Unit = BYTES, vu_Available = 163840, vu_Total = 409600, vu_Used = 204800\<rparr>,
          \<lparr>vu_Unit = INODES, vu_Available = 5, vu_Total = 10, vu_Used = 5\<rparr>]"
  by (subst node_stats_exact [where r = "Inr \<lparr>st_Bsize = 4096, st_Blocks = 100, st_Bfree = 50, st_Bavail = 40, st_Files = 10, st_Ffree = 5\<rparr>"])
    (auto simp: quietAnswers_def sizesFit_def)

subsection \<open>Calls before the first \<^verbatim>\<open>init\<close>\<close>

lemma serverAfter_calls:
  "foldl serverAfter ns cs = (if list_ex reachesInit cs then initServer ns else ns)"
  by (induction cs arbitrary: ns) (auto simp: serverAfter_def initServer_def)

text \<open>
  C34: three calls use the mounter or the executor without running \<^verbatim>\<open>init\<close>.  On a server no
  earlier call has initialised, publishing a file share panics with a nil pointer once the
  target directory is made and before anything is mounted, and so do the statistics of a
  block device; after a call that has reached \<^verbatim>\<open>init\<close> the share is bound to the target, read-only
  exactly when asked for, and the size of the device is read by \<^verbatim>\<open>blockdev\<close>.
\<close>

theorem uninitialised_server_panics:
  assumes "ns = foldl serverAfter NewNodeServer calls"
    and "npb_VolumeId req \<noteq> []" "npb_TargetPath req \<noteq> []" "npb_StagingTargetPath req \<noteq> []"
    and "npb_VolumeCapability req \<notin> {None, Some BlockAccess}"
    and "publishProtocol (npb_PublishContext req) (npb_VolumeContext req) (npb_VolumeId req) \<in> {ProtocolNFS, ProtocolSMB}"
    and "a_unit a (MkdirAll (npb_TargetPath req)) l = Inr ()"
    and "a_Stat a path l = Inr st" "fi_device st" "path \<noteq> []"
    and "a_command a ''blockdev'' [''--getsize64'', path] (l @ [Stat path]) = (out, None)" "ParseInt (TrimSpace out) = Some n"
  shows "NodePublishVolume fuel ns (traceHost a) req l =
      (if list_ex reachesInit calls
       then let m = Mount (npb_StagingTargetPath req) (npb_TargetPath req) [] (if npb_Readonly req then [''bind'', ''ro''] else [''bind'']) [];
                l1 = l @ [MkdirAll (npb_TargetPath req)]
            in (case a_unit a m l1 of Inr _ \<Rightarrow> Ret () | Inl e \<Rightarrow> Err (Status Internal ''bind-mount publish failed: %v'' [ArgE e]), l1 @ [m])
       else (Panic nilPanic, l @ [MkdirAll (npb_TargetPath req)])) \<and>
    NodeGetVolumeStats ns (traceHost a) (npb_VolumeId req) path l =
      (if list_ex reachesInit calls
       then (Ret [\<lparr>vu_Unit = BYTES, vu_Available = n, vu_Total = n, vu_Used = 0\<rparr>], l @ [Stat path, Run ''blockdev'' [''--getsize64'', path]])
       else (Panic nilPanic, l @ [Stat path]))"
proof -
  have ns: "ns_mounter ns = list_ex reachesInit calls" "ns_exec ns = list_ex reachesInit calls"
    using assms(1) by (simp_all add: serverAfter_calls NewNodeServer_def initServer_def)
  have publish: "NodePublishVolume fuel ns (traceHost a) req =
      publishFileShare ns (traceHost a) req (publishProtocol (npb_PublishContext req) (npb_VolumeContext req) (npb_VolumeId req))"
    using assms(2-6) by (auto simp: NodePublishVolume_def)
  have "publishFileShare ns (traceHost a) req p l =
      (if list_ex reachesInit calls
       then let m = Mount (npb_StagingTargetPath req) (npb_TargetPath req) [] (if npb_Readonly req then [''bind'', ''ro''] else [''bind'']) [];
                l1 = l @ [MkdirAll (npb_TargetPath req)]
            in (case a_unit a m l1 of Inr _ \<Rightarrow> Ret () | Inl e \<Rightarrow> Err (Status Internal ''bind-mount publish failed: %v'' [ArgE e]), l1 @ [m])
       else (Panic nilPanic, l @ [MkdirAll (npb_TargetPath req)]))" for p
    using assms(4,5,7) ns
    by (auto simp: publishFileShare_def mountPrepared_def step_def sys_def answered_def bindOptions_def Let_def split: sum.splits)
  moreover have "NodeGetVolumeStats ns (traceHost a) (npb_VolumeId req) path l =
      (if list_ex reachesInit calls
       then (Ret [\<lparr>vu_Unit = BYTES, vu_Available = n, vu_Total = n, vu_Used = 0\<rparr>], l @ [Stat path, Run ''blockdev'' [''--getsize64'', path]])
       else (Panic nilPanic, l @ [Stat path]))"
    using assms(2,8-12) ns by (simp add: NodeGetVolumeStats_def isBlockDevice_def recover_def act_def sys_def answered_def)
  ultimately show ?thesis by (simp add: publish)
qed

definition demoBlockAnswers :: answers where
  "demoBlockAnswers = quietAnswers\<lparr>a_Stat := (\<lambda>p l. Inr \<lparr>fi_device = True\<rparr>), a_command := (\<lambda>c args l. (''1024'', None))\<rparr>"

definition demoSharePublish :: NodePublishRequest where
  "demoSharePublish = \<lparr>npb_VolumeId = ''v'', npb_StagingTargetPath = ''/stage'', npb_TargetPath = ''/target'',
     npb_VolumeCapability = Some (MountAccess [] []), npb_Readonly = True, npb_PublishContext = Map.empty,
     npb_VolumeContext = [''protocol'' \<mapsto> ''smb'']\<rparr>"

text \<open>C34 at a fresh server and at one that has expanded a volume, with the block device a host reports.\<close>

theorem uninitialised_server_panics_witness:
  "NodePublishVolume 0 NewNodeServer (traceHost demoBlockAnswers) demoSharePublish [] = (Panic nilPanic, [MkdirAll ''/target'']) \<and>
   NodePublishVolume 0 (initServer NewNodeServer) (traceHost demoBlockAnswers) demoSharePublish [] =
     (Ret (), [MkdirAll ''/target'', Mount ''/stage'' ''/target'' [] [''bind'', ''ro''] []]) \<and>
   NodeGetVolumeStats NewNodeServer (traceHost demoBlockAnswers) ''v'' ''/dev/x'' [] = (Panic nilPanic, [Stat ''/dev/x''])"
proof -
  have protocol: "publishProtocol (npb_PublishContext demoSharePublish) (npb_VolumeContext demoSharePublish) (npb_VolumeId demoSharePublish)
      \<in> {ProtocolNFS, ProtocolSMB}"
    by code_simp
  have size: "ParseInt (TrimSpace ''1024'') = Some 1024" by code_simp
  have fields: "npb_VolumeId demoSharePublish = ''v''" "npb_TargetPath demoSharePublish = ''/target''"
      "npb_StagingTargetPath demoSharePublish = ''/stage''" "npb_VolumeCapability demoSharePublish = Some (MountAccess [] [])" "npb_Readonly demoSharePublish"
    by (simp_all add: demoSharePublish_def)
  have answers: "a_unit demoBlockAnswers = (\<lambda>c l. Inr ())" "a_Stat demoBlockAnswers = (\<lambda>p l. Inr \<lparr>fi_device = True\<rparr>)"
      "a_command demoBlockAnswers = (\<lambda>c args l. (''1024'', None))"
    by (simp_all add: demoBlockAnswers_def quietAnswers_def)
  have calls: "foldl serverAfter NewNodeServer [] = NewNodeServer" "foldl serverAfter NewNodeServer [ExpandCall ''v'' ''/p''] = initServer NewNodeServer"
      "list_ex reachesInit [ExpandCall ''v'' ''/p'']"
    by (simp_all add: serverAfter_def)
  note run = uninitialised_server_panics [where a = demoBlockAnswers and l = "[]" and req = demoSharePublish and path = "''/dev/x''" and fuel = 0,
      unfolded fields answers, OF refl _ _ _ _ protocol [unfolded fields] refl refl _ _ refl size]
  show ?thesis using run [of "[]"] run [of "[ExpandCall ''v'' ''/p'']"] unfolding calls by (simp add: fields answers Let_def)
qed

end
