(* ===== verification/PowerShell.thy ===== *)
theory PowerShell
  imports GoCodec
begin

text \<open>
  The PowerShell text that the Windows backend sends, as a list of pieces: program text,
  single-quoted values, double-quoted messages and numbers.  In the source a piece \<open>Str x\<close> is
  \<^verbatim>\<open>'%s'\<close> with the argument \<^verbatim>\<open>escapePS(x)\<close> of \<^verbatim>\<open>pkg/iscsi/backend_winrm.go\<close>, or a constant
  literal.

  What PowerShell reads is a function of its quoting rules.  Their single quotes are the
  apostrophe and, as \<^verbatim>\<open>about_Quoting_Rules\<close> documents, typographic ones, which are a parameter
  of the reader: two quotes in a row inside a single-quoted literal stand for one.
\<close>

abbreviation sq :: char where "sq \<equiv> CHR 0x27"

definition escapePS :: "string \<Rightarrow> string" where
  "escapePS s = concat (map (\<lambda>c. if c = sq then [sq, sq] else [c]) s)"

datatype psPiece = Code string | Str string | Msg string | Num int

abbreviation NL :: psPiece where "NL \<equiv> Code [CHR 0x0A]"

fun pieceText :: "psPiece \<Rightarrow> string" where
  "pieceText (Code t) = t"
| "pieceText (Str x) = [sq] @ escapePS x @ [sq]"
| "pieceText (Msg t) = [dq] @ t @ [dq]"
| "pieceText (Num i) = Itoa i"

definition renderPS :: "psPiece list \<Rightarrow> string" where
  "renderPS ps = concat (map pieceText ps)"

subsection \<open>How PowerShell reads quotes\<close>

datatype psTok = Ch char | SLit string | DLit string

text \<open>The characters U+2018 to U+201B.\<close>

definition typographicQuotes :: "string list" where
  "typographicQuotes = [[CHR 0xE2, CHR 0x80, CHR 0x98], [CHR 0xE2, CHR 0x80, CHR 0x99],
     [CHR 0xE2, CHR 0x80, CHR 0x9A], [CHR 0xE2, CHR 0x80, CHR 0x9B]]"

definition quoteAt :: "string list \<Rightarrow> string \<Rightarrow> string option" where
  "quoteAt extra s = first_match ([sq] # extra) s"

function psSingle :: "string list \<Rightarrow> string \<Rightarrow> (string \<times> string) option" where
  "psSingle extra s =
     (case quoteAt extra s of
        Some q \<Rightarrow>
          (case quoteAt extra (drop (length q) s) of
             Some q' \<Rightarrow> prepend q' (psSingle extra (drop (length q') (drop (length q) s)))
           | None \<Rightarrow> Some ([], drop (length q) s))
      | None \<Rightarrow> (case s of [] \<Rightarrow> None | c # cs \<Rightarrow> prepend [c] (psSingle extra cs)))"
  by pat_completeness auto
termination
proof (relation "measure (\<lambda>(extra, s). length s)")
  fix extra s q q' assume "quoteAt extra s = Some q" "quoteAt extra (drop (length q) s) = Some q'"
  then show "((extra, drop (length q') (drop (length q) s)), (extra, s)) \<in> measure (\<lambda>(extra, s). length s)"
    using first_match_SomeD [of "[sq] # extra" s q] by (cases q; cases s) (auto simp: quoteAt_def)
qed auto

declare psSingle.simps [simp del]

fun psDouble :: "string \<Rightarrow> (string \<times> string) option" where
  "psDouble [] = None"
| "psDouble [c] = (if c = dq then Some ([], []) else None)"
| "psDouble (c # d # cs) =
     (if c = dq then (if d = dq then prepend [dq] (psDouble cs) else Some ([], d # cs))
      else prepend [c] (psDouble (d # cs)))"

lemma prepend_SomeD: "prepend p r = Some (v, t) \<Longrightarrow> \<exists>v'. r = Some (v', t)"
  by (auto simp: prepend_def split: option.splits prod.splits)

lemma psSingle_shorter: "psSingle extra s = Some (v, r) \<Longrightarrow> length r \<le> length s"
proof (induction extra s arbitrary: v r rule: psSingle.induct)
  case (1 extra s)
  show ?case
  proof (cases "quoteAt extra s")
    case None
    then have "(case s of [] \<Rightarrow> None | c # cs \<Rightarrow> prepend [c] (psSingle extra cs)) = Some (v, r)"
      using "1.prems" by (simp add: psSingle.simps [of extra s])
    then obtain c cs v' where "s = c # cs" "psSingle extra cs = Some (v', r)" by (cases s) (auto dest!: prepend_SomeD)
    then show ?thesis using "1.IH"(1) [OF None] by fastforce
  next
    case (Some q)
    show ?thesis
    proof (cases "quoteAt extra (drop (length q) s)")
      case None
      then have "r = drop (length q) s" using "1.prems" Some by (simp add: psSingle.simps [of extra s])
      then show ?thesis by simp
    next
      case q': (Some q')
      then obtain v' where "psSingle extra (drop (length q') (drop (length q) s)) = Some (v', r)"
        using "1.prems" Some by (auto simp: psSingle.simps [of extra s] dest!: prepend_SomeD)
      then show ?thesis using "1.IH"(2) [OF Some q'] by fastforce
    qed
  qed
qed

lemma psDouble_shorter: "psDouble s = Some (v, r) \<Longrightarrow> length r \<le> length s"
  by (induction s arbitrary: v r rule: psDouble.induct) (fastforce split: if_splits dest!: prepend_SomeD)+

function psTokens :: "string list \<Rightarrow> string \<Rightarrow> psTok list option" where
  "psTokens extra s =
     (case quoteAt extra s of
        Some q \<Rightarrow> (case psSingle extra (drop (length q) s) of
          None \<Rightarrow> None | Some (v, r) \<Rightarrow> map_option (Cons (SLit v)) (psTokens extra r))
      | None \<Rightarrow> (case s of
          [] \<Rightarrow> Some []
        | c # cs \<Rightarrow>
            if c = dq then (case psDouble cs of None \<Rightarrow> None | Some (v, r) \<Rightarrow> map_option (Cons (DLit v)) (psTokens extra r))
            else map_option (Cons (Ch c)) (psTokens extra cs)))"
  by pat_completeness auto
termination
proof (relation "measure (\<lambda>(extra, s). length s)")
  fix extra s q p v r assume "quoteAt extra s = Some q" "psSingle extra (drop (length q) s) = Some p" "(v, r) = p"
  then show "((extra, r), (extra, s)) \<in> measure (\<lambda>(extra, s). length s)"
    using first_match_SomeD [of "[sq] # extra" s q] psSingle_shorter [of extra "drop (length q) s" v r]
    by (cases q; cases s) (auto simp: quoteAt_def)
next
  fix extra s c cs p v r assume "s = c # cs" "psDouble cs = Some p" "(v, r) = p"
  then show "((extra, r), (extra, s)) \<in> measure (\<lambda>(extra, s). length s)"
    using psDouble_shorter [of cs v r] by auto
qed auto

declare psTokens.simps [simp del]

subsection \<open>Values stay values\<close>

text \<open>
  The pieces a script may consist of: program text without quotes, and after a literal
  something that is not a quote.  The program text of the scripts is ASCII but for one arrow in
  a comment.
\<close>

definition codeOk :: "string \<Rightarrow> bool" where
  "codeOk t \<longleftrightarrow> list_all (\<lambda>c. c \<noteq> sq \<and> c \<noteq> dq \<and> c \<noteq> CHR 0x80) t \<and> (t = [] \<or> last t \<noteq> CHR 0xE2)"

fun unquoted :: "psPiece list \<Rightarrow> bool" where
  "unquoted [] = True"
| "unquoted (Code t # ps) = (t \<noteq> [])"
| "unquoted (Num i # ps) = True"
| "unquoted (Str x # ps) = False"
| "unquoted (Msg t # ps) = False"

fun wellQuoted :: "psPiece list \<Rightarrow> bool" where
  "wellQuoted [] = True"
| "wellQuoted (Code t # ps) = (codeOk t \<and> wellQuoted ps)"
| "wellQuoted (Num i # ps) = wellQuoted ps"
| "wellQuoted (Str x # ps) = (unquoted ps \<and> wellQuoted ps)"
| "wellQuoted (Msg t # ps) = (dq \<notin> set t \<and> unquoted ps \<and> wellQuoted ps)"

fun pieceToks :: "psPiece \<Rightarrow> psTok list" where
  "pieceToks (Code t) = map Ch t"
| "pieceToks (Str x) = [SLit x]"
| "pieceToks (Msg t) = [DLit t]"
| "pieceToks (Num i) = map Ch (Itoa i)"

definition scriptToks :: "psPiece list \<Rightarrow> psTok list" where
  "scriptToks ps = concat (map pieceToks ps)"

fun pieceValues :: "psPiece \<Rightarrow> string list" where
  "pieceValues (Str x) = [x]"
| "pieceValues _ = []"

definition scriptValues :: "psPiece list \<Rightarrow> string list" where
  "scriptValues ps = concat (map pieceValues ps)"

text \<open>A value without the quotes that \<^verbatim>\<open>escapePS\<close> does not know.\<close>

definition cleanFor :: "string list \<Rightarrow> string \<Rightarrow> bool" where
  "cleanFor extra x \<longleftrightarrow> list_all (\<lambda>e. \<not> Contains x e) extra"

lemma escapePS_simps [simp]:
  "escapePS [] = []"
  "escapePS (c # cs) = (if c = sq then sq # sq # escapePS cs else c # escapePS cs)"
  by (simp_all add: escapePS_def)

lemma prefix_escaped: "HasPrefix (escapePS x @ sq # r) e \<Longrightarrow> sq \<notin> set e \<Longrightarrow> HasPrefix x e"
proof (induction e arbitrary: x)
  case (Cons a e)
  show ?case
  proof (cases x)
    case Nil
    then show ?thesis using Cons.prems by simp
  next
    case x: (Cons c cs)
    then have "c = a" "HasPrefix (escapePS cs @ sq # r) e" using Cons.prems by (simp_all split: if_splits)
    then show ?thesis using x Cons.IH [of cs] Cons.prems(2) by simp
  qed
qed simp

lemma typographic_no_sq: "e \<in> set typographicQuotes \<Longrightarrow> sq \<notin> set e"
  by (auto simp: typographicQuotes_def)

lemma quoteAt_sq [simp]: "quoteAt extra (sq # s) = Some [sq]"
  by (simp add: quoteAt_def first_match_def HasPrefix_Cons)

lemma quoteAt_None:
  "quoteAt extra s = None \<longleftrightarrow> \<not> HasPrefix s [sq] \<and> (\<forall>e \<in> set extra. e \<noteq> [] \<longrightarrow> \<not> HasPrefix s e)"
  by (auto simp: quoteAt_def first_match_def find_None_iff)

lemma cleanFor_Cons: "cleanFor extra (c # cs) \<Longrightarrow> cleanFor extra cs"
  unfolding cleanFor_def list_all_iff Contains_iff by (metis append_Cons)

lemma quoteAt_value:
  assumes "set extra \<subseteq> set typographicQuotes" "cleanFor extra (c # cs)" "c \<noteq> sq"
  shows "quoteAt extra (c # escapePS cs @ sq # r) = None"
proof -
  have "\<not> HasPrefix (c # escapePS cs @ sq # r) e" if "e \<in> set extra" for e
  proof
    assume "HasPrefix (c # escapePS cs @ sq # r) e"
    then have "HasPrefix (c # cs) e"
      using prefix_escaped [of "c # cs" r e] typographic_no_sq [of e] that assms by auto
    then have "Contains (c # cs) e" unfolding Contains_iff HasPrefix_iff by (metis append_Nil)
    then show False using that assms(2) by (simp add: cleanFor_def list_all_iff)
  qed
  then show ?thesis using assms(3) by (auto simp: quoteAt_None HasPrefix_Cons)
qed

text \<open>The literal of a value is read as the value.\<close>

lemma psSingle_escape:
  assumes "set extra \<subseteq> set typographicQuotes" "quoteAt extra r = None"
  shows "cleanFor extra x \<Longrightarrow> psSingle extra (escapePS x @ sq # r) = Some (x, r)"
proof (induction x)
  case Nil
  show ?case using assms(2) by (subst psSingle.simps) simp
next
  case (Cons c cs)
  then have IH: "psSingle extra (escapePS cs @ sq # r) = Some (cs, r)" using cleanFor_Cons by blast
  show ?case
  proof (cases "c = sq")
    case True
    then show ?thesis using IH by (subst psSingle.simps) (simp add: prepend_def)
  next
    case False
    then show ?thesis using IH quoteAt_value [OF assms(1) Cons.prems] by (subst psSingle.simps) (simp add: prepend_def)
  qed
qed

lemma quoteAt_code:
  assumes "set extra \<subseteq> set typographicQuotes" "codeOk (c # t)"
  shows "quoteAt extra (c # t @ r) = None"
proof -
  have "\<not> HasPrefix (c # t @ r) e" if "e \<in> set extra" for e
  proof -
    have "e \<in> set typographicQuotes" using that assms(1) by blast
    then obtain x where "e = [CHR 0xE2, CHR 0x80, x]" by (auto simp: typographicQuotes_def)
    then show ?thesis using assms(2) by (cases t) (auto simp: codeOk_def)
  qed
  then show ?thesis using assms(2) by (auto simp: quoteAt_None codeOk_def)
qed

lemma psTokens_code:
  assumes "set extra \<subseteq> set typographicQuotes"
  shows "codeOk t \<Longrightarrow> psTokens extra (t @ r) = map_option (append (map Ch t)) (psTokens extra r)"
proof (induction t)
  case Nil
  show ?case by (simp add: option.map_ident)
next
  case (Cons c t)
  then have "codeOk t" "c \<noteq> dq" by (auto simp: codeOk_def split: if_splits)
  then show ?case
    using Cons quoteAt_code [OF assms Cons.prems, of r]
    by (subst psTokens.simps) (cases "psTokens extra r", simp_all)
qed

lemma psDouble_text: "dq \<notin> set t \<Longrightarrow> \<not> HasPrefix r [dq] \<Longrightarrow> psDouble (t @ dq # r) = Some (t, r)"
proof (induction t)
  case Nil
  then show ?case by (cases r) auto
next
  case (Cons c t)
  then show ?case by (cases "t @ dq # r") (auto simp: prepend_def)
qed

lemma codeOk_Itoa: "codeOk (Itoa i)" "Itoa i \<noteq> []"
proof -
  have "c \<noteq> sq \<and> c \<noteq> dq \<and> c \<noteq> CHR 0x80 \<and> c \<noteq> CHR 0xE2" if "c \<in> set (Itoa i)" for c
    using Itoa_chars [OF that] by (auto simp: byte_def)
  then show "codeOk (Itoa i)" by (auto simp: codeOk_def list_all_iff)
qed simp

lemma unquoted_render:
  assumes "set extra \<subseteq> set typographicQuotes" "unquoted ps" "wellQuoted ps"
  shows "quoteAt extra (renderPS ps) = None" "\<not> HasPrefix (renderPS ps) [dq]"
proof -
  consider "ps = []" | c t ps' where "ps = Code (c # t) # ps'" "codeOk (c # t)" | i ps' where "ps = Num i # ps'"
    using assms(2,3) by (cases ps rule: unquoted.cases) (auto simp: neq_Nil_conv)
  then have "quoteAt extra (renderPS ps) = None \<and> \<not> HasPrefix (renderPS ps) [dq]"
  proof cases
    case 1
    then show ?thesis by (simp_all add: renderPS_def quoteAt_None)
  next
    case 2
    then show ?thesis
      using quoteAt_code [OF assms(1) 2(2)] by (auto simp: renderPS_def codeOk_def)
  next
    case 3
    obtain c t where "Itoa i = c # t" "codeOk (c # t)" using codeOk_Itoa [of i] by (cases "Itoa i") auto
    then show ?thesis
      using 3 quoteAt_code [OF assms(1)] by (auto simp: renderPS_def codeOk_def)
  qed
  then show "quoteAt extra (renderPS ps) = None" "\<not> HasPrefix (renderPS ps) [dq]" by simp_all
qed

text \<open>PowerShell reads a script as its pieces, every value as one literal.\<close>

lemma psTokens_render:
  assumes "set extra \<subseteq> set typographicQuotes"
  shows "wellQuoted ps \<Longrightarrow> list_all (cleanFor extra) (scriptValues ps) \<Longrightarrow> psTokens extra (renderPS ps) = Some (scriptToks ps)"
proof (induction ps)
  case Nil
  have "quoteAt extra [] = None" by (simp add: quoteAt_None)
  then have "psTokens extra [] = Some []" by (subst psTokens.simps) simp
  then show ?case by (simp add: renderPS_def scriptToks_def)
next
  case (Cons p ps)
  have ps: "wellQuoted ps" using Cons.prems(1) by (cases p) auto
  have IH: "psTokens extra (renderPS ps) = Some (scriptToks ps)" using Cons ps by (simp add: scriptValues_def)
  have r: "renderPS (p # ps) = pieceText p @ renderPS ps" and s: "scriptToks (p # ps) = pieceToks p @ scriptToks ps"
    by (simp_all add: renderPS_def scriptToks_def)
  show ?case
  proof (cases p)
    case (Code t)
    then show ?thesis unfolding r s using Cons.prems(1) IH by (simp add: psTokens_code [OF assms])
  next
    case (Num i)
    then show ?thesis unfolding r s using IH by (simp add: psTokens_code [OF assms] codeOk_Itoa)
  next
    case (Str x)
    then have "quoteAt extra (renderPS ps) = None" using unquoted_render(1) [OF assms] Cons.prems(1) by simp
    then have "psSingle extra (escapePS x @ sq # renderPS ps) = Some (x, renderPS ps)"
      using psSingle_escape [OF assms] Cons.prems(2) Str by (simp add: scriptValues_def)
    then show ?thesis unfolding r s using IH Str by (subst psTokens.simps) simp
  next
    case (Msg t)
    then have "psDouble (t @ dq # renderPS ps) = Some (t, renderPS ps)"
      using unquoted_render(2) [OF assms] Cons.prems(1) by (simp add: psDouble_text)
    moreover have "quoteAt extra (dq # t @ dq # renderPS ps) = None"
      using assms by (auto simp: quoteAt_None typographicQuotes_def)
    ultimately show ?thesis unfolding r s using IH Msg by (subst psTokens.simps) simp
  qed
qed

lemma wellQuoted_append: "wellQuoted ps \<Longrightarrow> wellQuoted qs \<Longrightarrow> unquoted qs \<Longrightarrow> wellQuoted (ps @ qs)"
proof (induction ps)
  case (Cons p ps)
  have "unquoted ps \<Longrightarrow> unquoted (ps @ qs)" using Cons.prems(3) by (cases ps rule: unquoted.cases) auto
  then show ?case using Cons by (cases p) auto
qed simp

end
