(* ===== verification/WinRMScripts.thy ===== *)
theory WinRMScripts
  imports Driver PowerShell
begin

text \<open>
  The PowerShell scripts of \<^verbatim>\<open>pkg/iscsi/backend_winrm.go\<close>, one definition for each script, with
  the arguments of the \<^verbatim>\<open>Sprintf\<close> that makes it.
\<close>

subsection \<open>The frame of every script\<close>

text \<open>\<open>import\<close> is the module import of the backend, the rest of the text is fixed.\<close>

definition ps_frame :: "string \<Rightarrow> psPiece list \<Rightarrow> psPiece list" where
  \<open>ps_frame import script =
     [Code ''$ErrorActionPreference='', Str ''Stop'', Code ''; ''] @
     [Code import] @
     [Code ''; $IscsiTargetComputerName='', Str ''localhost'', Code ''; function Resolve-CsiVHDXParentPath([string]$ParentDir) { $path = $ParentDir; if ([string]::IsNullOrWhiteSpace($path)) { $path = [Environment]::GetEnvironmentVariable('', Str ''CSI_VHDX_PARENT_PATH'', Code '', '', Str ''Machine'', Code '') }; if ([string]::IsNullOrWhiteSpace($path)) { $path = [Environment]::GetEnvironmentVariable('', Str ''CSI_VHDX_PARENT_PATH'', Code '', '', Str ''Process'', Code '') }; if ([string]::IsNullOrWhiteSpace($path)) { $systemDrive = $env:SystemDrive; if ([string]::IsNullOrWhiteSpace($systemDrive)) { $systemDrive = '', Str ''C:'', Code '' }; $path = $systemDrive.TrimEnd('', Str [bsl], Code '') + '', Str ([bsl] @ ''iSCSIVirtualDisks''), Code '' }; New-Item -ItemType Directory -Force -Path $path | Out-Null; return (Get-Item -LiteralPath $path).FullName.TrimEnd([char[]]@('', Str [bsl], Code '','', Str ''/'', Code ('')) }; function Get-MappedIscsiTargets([string]$Path) { @(Get-IscsiServerTarget -ComputerName $IscsiTargetComputerName -ErrorAction SilentlyContinue | ForEach-Object { $target = $_; @($target.LunMappings) | Where-Object { $_.Path -eq $Path } | ForEach-Object { [pscustomobject]@'' @ ''{ TargetName=[string]$target.TargetName; TargetIQN=[string]$target.TargetIqn } } }) }; function Get-MappedIscsiTargetNames([string]$Path) { @(Get-MappedIscsiTargets -Path $Path | ForEach-Object { $_.TargetName }) }; function Get-IscsiInitiatorIQNValues($InitiatorIds) { @($InitiatorIds | ForEach-Object { $raw = ''), Str [], Code ''; if ($_ -is [string]) { $raw = $_ } elseif ($_.PSObject.Properties['', Str ''IQN'', Code ''] -and $_.IQN) { $raw = $_.IQN } elseif ($_.PSObject.Properties['', Str ''Value'', Code ''] -and $_.Method -eq '', Str ''Iqn'', Code '') { $raw = $_.Value }; if (-not [string]::IsNullOrWhiteSpace($raw)) { if ($raw -like '', Str ''IQN:*'', Code '') { $raw.Substring(4) } else { $raw } } }) }; try { $result = & { ''] @
     script @
     [Code '' }; $result | ConvertTo-Json -Compress -Depth 6 } catch { Write-Error $_; exit 1 }'']\<close>

definition ps_ValidateConnection :: "psPiece list" where
  \<open>ps_ValidateConnection =
     [Code (''@'' @ ''{ ok=$true; computerName=[string]$env:COMPUTERNAME; userName=[string][Security.Principal.WindowsIdentity]::GetCurrent().Name }'')]\<close>

subsection \<open>iSCSI targets and virtual disks\<close>

definition ps_EnsureTarget :: "string \<Rightarrow> string \<Rightarrow> psPiece list" where
  \<open>ps_EnsureTarget targetName targetIQN =
     [NL,
      Code ''$targetName = '', Str targetName, NL,
      Code ''$targetIQN = '', Str targetIQN, NL,
      Code ''$t = Get-IscsiServerTarget -ComputerName $IscsiTargetComputerName -TargetName $targetName -ErrorAction SilentlyContinue'', NL,
      Code ''if (-not $t) {'', NL,
      Code ''  $t = New-IscsiServerTarget -ComputerName $IscsiTargetComputerName -TargetName $targetName'', NL,
      Code ''}'', NL,
      Code ''if (-not [string]::IsNullOrWhiteSpace($targetIQN) -and [string]$t.TargetIqn -ne $targetIQN) {'', NL,
      Code ''  $t = Set-IscsiServerTarget -ComputerName $IscsiTargetComputerName -TargetName $targetName -TargetIqn $targetIQN -PassThru'', NL,
      Code ''  if (-not $t) {'', NL,
      Code ''    $t = Get-IscsiServerTarget -ComputerName $IscsiTargetComputerName -TargetName $targetName'', NL,
      Code ''  }'', NL,
      Code ''}'', NL,
      Code (''@'' @ ''{ targetName=[string]$t.TargetName; targetIQN=[string]$t.TargetIqn }'')]\<close>

definition ps_ConfigureTargetChap :: "string \<Rightarrow> TargetChapOptions \<Rightarrow> psPiece list" where
  \<open>ps_ConfigureTargetChap targetName opts =
     [NL,
      Code ''$targetName = '', Str targetName, NL,
      Code (''$params = @'' @ ''{ ComputerName=$IscsiTargetComputerName; TargetName=$targetName }''), NL,
      Code ''if (-not [string]::IsNullOrWhiteSpace('', Str (ChapUser opts), Code '')) {'', NL,
      Code ''  $chapSecret = ConvertTo-SecureString -String '', Str (ChapSecret opts), Code '' -AsPlainText -Force'', NL,
      Code ''  $params.EnableChap = $true'', NL,
      Code ''  $params.Chap = [pscredential]::new('', Str (ChapUser opts), Code '', $chapSecret)'', NL,
      Code ''}'', NL,
      Code ''if (-not [string]::IsNullOrWhiteSpace('', Str (ReverseChapUser opts), Code '')) {'', NL,
      Code ''  $reverseChapSecret = ConvertTo-SecureString -String '', Str (ReverseChapSecret opts), Code '' -AsPlainText -Force'', NL,
      Code ''  $params.EnableReverseChap = $true'', NL,
      Code ''  $params.ReverseChap = [pscredential]::new('', Str (ReverseChapUser opts), Code '', $reverseChapSecret)'', NL,
      Code ''}'', NL,
      Code ''Set-IscsiServerTarget @params | Out-Null'', NL,
      Code (''@'' @ ''{ ok = $true }''), NL]\<close>

definition ps_CreateVirtualDisk :: "string \<Rightarrow> string \<Rightarrow> int \<Rightarrow> psPiece list" where
  \<open>ps_CreateVirtualDisk name parentDir sizeBytes =
     [NL,
      Code ''$parentDir = Resolve-CsiVHDXParentPath '', Str parentDir, NL,
      Code ''$path = Join-Path -Path $parentDir -ChildPath ('', Str name, Code '' + '', Str ''.vhdx'', Code '')'', NL,
      Code ''if (-not (Test-Path -LiteralPath $path)) {'', NL,
      Code ''  New-IscsiVirtualDisk -ComputerName $IscsiTargetComputerName -Path $path -SizeBytes '', Num sizeBytes, Code '' | Out-Null'', NL,
      Code ''}'', NL,
      Code ''$vd = Get-IscsiVirtualDisk -ComputerName $IscsiTargetComputerName -Path $path'', NL,
      Code (''@'' @ ''{ path = $path; sizeBytes = [int64]$vd.Size }''), NL]\<close>

definition ps_MapDiskToTarget :: "string \<Rightarrow> string \<Rightarrow> psPiece list" where
  \<open>ps_MapDiskToTarget targetName vhdxPath =
     [NL,
      Code ''$vd = Get-IscsiVirtualDisk -ComputerName $IscsiTargetComputerName -Path '', Str vhdxPath, NL,
      Code ''$mappedTargets = @(Get-MappedIscsiTargetNames -Path '', Str vhdxPath, Code '')'', NL,
      Code ''if ($mappedTargets -notcontains '', Str targetName, Code '') {'', NL,
      Code ''  Add-IscsiVirtualDiskTargetMapping -ComputerName $IscsiTargetComputerName -TargetName '', Str targetName, Code '' -Path '', Str vhdxPath, Code '' | Out-Null'', NL,
      Code ''}'', NL,
      Code (''# Single-disk target '' @ [CHR 0xE2] @ [CHR 0x86] @ [CHR 0x92] @ '' LUN 0''), NL,
      Code (''@'' @ ''{ lun = 0 }''), NL]\<close>

definition ps_UnmapDiskFromTarget :: "string \<Rightarrow> string \<Rightarrow> psPiece list" where
  \<open>ps_UnmapDiskFromTarget targetName vhdxPath =
     [NL,
      Code ''$targetName = '', Str targetName, NL,
      Code ''$path = '', Str vhdxPath, NL,
      Code ''$target = Get-IscsiServerTarget -ComputerName $IscsiTargetComputerName -TargetName $targetName -ErrorAction SilentlyContinue'', NL,
      Code ''if ($target -and @($target.LunMappings | Where-Object { $_.Path -eq $path }).Count -gt 0) {'', NL,
      Code ''  Remove-IscsiVirtualDiskTargetMapping -ComputerName $IscsiTargetComputerName -TargetName $targetName -Path $path -ErrorAction Stop'', NL,
      Code ''  $target = Get-IscsiServerTarget -ComputerName $IscsiTargetComputerName -TargetName $targetName -ErrorAction SilentlyContinue'', NL,
      Code ''  if ($target -and @($target.LunMappings | Where-Object { $_.Path -eq $path }).Count -gt 0) {'', NL,
      Code ''    throw '', Msg (''failed to remove iSCSI target mapping '$targetName' -> '$path'' @ [sq]), NL,
      Code ''  }'', NL,
      Code ''}'', NL,
      Code (''@'' @ ''{ ok = $true }''), NL]\<close>

definition ps_DeleteVirtualDisk :: "string \<Rightarrow> psPiece list" where
  \<open>ps_DeleteVirtualDisk vhdxPath =
     [NL,
      Code ''$path = '', Str vhdxPath, NL,
      Code ''if (Get-IscsiVirtualDisk -ComputerName $IscsiTargetComputerName -Path $path -ErrorAction SilentlyContinue) {'', NL,
      Code ''  Remove-IscsiVirtualDisk -ComputerName $IscsiTargetComputerName -Path $path -ErrorAction Stop'', NL,
      Code ''}'', NL,
      Code ''if (Test-Path -LiteralPath $path) {'', NL,
      Code ''  Remove-Item -LiteralPath $path -Force -ErrorAction Stop'', NL,
      Code ''}'', NL,
      Code ''if (Test-Path -LiteralPath $path) {'', NL,
      Code ''  throw '', Msg (''failed to delete iSCSI virtual disk file '$path'' @ [sq]), NL,
      Code ''}'', NL,
      Code (''@'' @ ''{ ok = $true }''), NL]\<close>

definition ps_LookupTargetNameByIQN :: "string \<Rightarrow> psPiece list" where
  \<open>ps_LookupTargetNameByIQN targetIQN =
     [NL,
      Code ''$targetIQN = '', Str targetIQN, NL,
      Code ''$target = @(Get-IscsiServerTarget -ComputerName $IscsiTargetComputerName -ErrorAction SilentlyContinue | Where-Object { [string]$_.TargetIqn -eq $targetIQN } | Select-Object -First 1)[0]'', NL,
      Code ''if ($target) {'', NL,
      Code (''  @'' @ ''{ targetName=[string]$target.TargetName }''), NL,
      Code ''} else {'', NL,
      Code (''  @'' @ ''{ targetName=''), Str [], Code '' }'', NL,
      Code ''}'', NL]\<close>

definition ps_DeleteTarget :: "string \<Rightarrow> psPiece list" where
  \<open>ps_DeleteTarget targetName =
     [NL,
      Code ''$targetName = '', Str targetName, NL,
      Code ''$target = Get-IscsiServerTarget -ComputerName $IscsiTargetComputerName -TargetName $targetName -ErrorAction SilentlyContinue'', NL,
      Code ''if ($target) {'', NL,
      Code ''  if (@($target.LunMappings).Count -gt 0) {'', NL,
      Code ''    throw '', Msg ''cannot delete iSCSI target '$targetName' because it still has LUN mappings'', NL,
      Code ''  }'', NL,
      Code ''  Remove-IscsiServerTarget -ComputerName $IscsiTargetComputerName -TargetName $targetName -Confirm:$false -ErrorAction Stop | Out-Null'', NL,
      Code ''  if (Get-IscsiServerTarget -ComputerName $IscsiTargetComputerName -TargetName $targetName -ErrorAction SilentlyContinue) {'', NL,
      Code ''    throw '', Msg (''failed to delete iSCSI target '$targetName'' @ [sq]), NL,
      Code ''  }'', NL,
      Code ''}'', NL,
      Code (''@'' @ ''{ ok = $true }''), NL]\<close>

definition ps_GetVolumeByName :: "string \<Rightarrow> string \<Rightarrow> psPiece list" where
  \<open>ps_GetVolumeByName name parentDir =
     [NL,
      Code ''$parentDir = Resolve-CsiVHDXParentPath '', Str parentDir, NL,
      Code ''$path = Join-Path -Path $parentDir -ChildPath ('', Str name, Code '' + '', Str ''.vhdx'', Code '')'', NL,
      Code ''if (-not (Test-Path -LiteralPath $path)) {'', NL,
      Code (''  @'' @ ''{ exists=$false }''), NL,
      Code ''} else {'', NL,
      Code ''  $vd = Get-IscsiVirtualDisk -ComputerName $IscsiTargetComputerName -Path $path'', NL,
      Code ''  $targets = @(Get-MappedIscsiTargets -Path $path)'', NL,
      Code ''  $lun = if ($targets.Count -gt 0) { 0 } else { -1 }'', NL,
      Code ''  $targetName = '', Str [], NL,
      Code ''  $targetIQN = '', Str [], NL,
      Code ''  if ($targets.Count -gt 0) {'', NL,
      Code ''    $targetName = [string]$targets[0].TargetName'', NL,
      Code ''    $targetIQN = [string]$targets[0].TargetIQN'', NL,
      Code ''  }'', NL,
      Code (''  @'' @ ''{ exists=$true; path=$path; sizeBytes=[int64]$vd.Size; targetName=$targetName; targetIQN=$targetIQN; lun = $lun }''), NL,
      Code ''}'', NL]\<close>

definition ps_AllowInitiator :: "string \<Rightarrow> string \<Rightarrow> psPiece list" where
  \<open>ps_AllowInitiator targetName initiatorIQN =
     [NL,
      Code ''$t = Get-IscsiServerTarget -ComputerName $IscsiTargetComputerName -TargetName '', Str targetName, NL,
      Code ''$iqns = @(Get-IscsiInitiatorIQNValues $t.InitiatorIds)'', NL,
      Code ''if ($iqns -notcontains '', Str initiatorIQN, Code '') {'', NL,
      Code ''  $iqns = $iqns + '', Str initiatorIQN, NL,
      Code ''  $initiatorIds = @($iqns | % { if ($_ -like '', Str ''IQN:*'', Code '') { $_ } else { '', Str ''IQN:'', Code '' + $_ } })'', NL,
      Code ''  Set-IscsiServerTarget -ComputerName $IscsiTargetComputerName -TargetName '', Str targetName, Code '' -InitiatorIds $initiatorIds | Out-Null'', NL,
      Code ''}'', NL,
      Code (''@'' @ ''{ ok = $true }''), NL]\<close>

definition ps_DenyInitiator :: "string \<Rightarrow> string \<Rightarrow> psPiece list" where
  \<open>ps_DenyInitiator targetName initiatorIQN =
     [NL,
      Code ''$t = Get-IscsiServerTarget -ComputerName $IscsiTargetComputerName -TargetName '', Str targetName, Code '' -ErrorAction SilentlyContinue'', NL,
      Code ''if ($t) {'', NL,
      Code ''  $iqns = @(Get-IscsiInitiatorIQNValues $t.InitiatorIds) | Where-Object { $_ -ne '', Str initiatorIQN, Code '' }'', NL,
      Code ''  $initiatorIds = @($iqns | % { if ($_ -like '', Str ''IQN:*'', Code '') { $_ } else { '', Str ''IQN:'', Code '' + $_ } })'', NL,
      Code ''  Set-IscsiServerTarget -ComputerName $IscsiTargetComputerName -TargetName '', Str targetName, Code '' -InitiatorIds $initiatorIds | Out-Null'', NL,
      Code ''}'', NL,
      Code (''@'' @ ''{ ok = $true }''), NL]\<close>

definition ps_GetTargetInitiators :: "string \<Rightarrow> psPiece list" where
  \<open>ps_GetTargetInitiators targetName =
     [NL,
      Code ''$t = Get-IscsiServerTarget -ComputerName $IscsiTargetComputerName -TargetName '', Str targetName, Code '' -ErrorAction SilentlyContinue'', NL,
      Code (''if (-not $t) { @'' @ ''{ iqns=@() } } else { @'' @ ''{ iqns = @(Get-IscsiInitiatorIQNValues $t.InitiatorIds) } }''), NL]\<close>

definition ps_GetDirectoryFreeCapacity :: "string \<Rightarrow> psPiece list" where
  \<open>ps_GetDirectoryFreeCapacity parentDir =
     [NL,
      Code ''$parentDir = Resolve-CsiVHDXParentPath '', Str parentDir, NL,
      Code ''$item = Get-Item -LiteralPath $parentDir'', NL,
      Code ''$drive = $item.PSDrive.Name'', NL,
      Code ''$psd = Get-PSDrive -Name $drive'', NL,
      Code (''@'' @ ''{ free=[int64]$psd.Free }''), NL]\<close>

subsection \<open>Snapshots\<close>

definition fileShareShadowCopyPS :: "psPiece list" where
  \<open>fileShareShadowCopyPS =
     [NL,
      Code ''function Get-CsiShadowCopy([string]$ShadowId) {'', NL,
      Code ''  @(Get-CimInstance -ClassName Win32_ShadowCopy -ErrorAction SilentlyContinue | Where-Object { $_.ID -eq $ShadowId } | Select-Object -First 1)[0]'', NL,
      Code ''}'', NL,
      Code ''function New-CsiShadowCopy([string]$VolumeRoot) {'', NL,
      Code (''  Invoke-CimMethod -ClassName Win32_ShadowCopy -MethodName Create -Arguments @'' @ ''{ Volume=$VolumeRoot; Context=''), Str ''ClientAccessible'', Code '' }'', NL,
      Code ''}'', NL,
      Code ''function Remove-CsiShadowCopy([string]$ShadowId) {'', NL,
      Code ''  $shadow = Get-CsiShadowCopy $ShadowId'', NL,
      Code ''  if ($shadow) { $shadow | Remove-CimInstance -ErrorAction SilentlyContinue | Out-Null }'', NL,
      Code ''}'', NL,
      Code ''function Join-CsiShadowPath([string]$DeviceObject, [string]$RelativePath) {'', NL,
      Code ''  $root = $DeviceObject.TrimEnd('', Str [bsl], Code '')'', NL,
      Code ''  if ([string]::IsNullOrWhiteSpace($RelativePath)) { return ($root + '', Str [bsl], Code '') }'', NL,
      Code ''  return ($root + '', Str [bsl], Code '' + $RelativePath.TrimStart('', Str [bsl], Code ''))'', NL,
      Code ''}'', NL]\<close>

definition ps_CreateSnapshot :: "string \<Rightarrow> string \<Rightarrow> psPiece list" where
  \<open>ps_CreateSnapshot vhdxPath description =
     [NL,
      Code ''$description = '', Str description, NL,
      Code ''$null = Checkpoint-IscsiVirtualDisk -ComputerName $IscsiTargetComputerName -OriginalPath '', Str vhdxPath, Code '' -Description $description'', NL,
      Code ''$g = $null'', NL,
      Code ''for ($i = 0; $i -lt 20; $i++) {'', NL,
      Code ''  $g = Get-IscsiVirtualDiskSnapshot -ComputerName $IscsiTargetComputerName -OriginalPath '', Str vhdxPath, Code '' -ErrorAction SilentlyContinue |'', NL,
      Code ''    Where-Object { $_.Description -eq $description } |'', NL,
      Code ''    Sort-Object CreationTime -Descending |'', NL,
      Code ''    Select-Object -First 1'', NL,
      Code ''  if ($g) { break }'', NL,
      Code ''  Start-Sleep -Milliseconds 250'', NL,
      Code ''}'', NL,
      Code ''if (-not $g) {'', NL,
      Code ''  throw '', Msg ''Snapshot was not found after Checkpoint-IscsiVirtualDisk completed.'', NL,
      Code ''}'', NL,
      Code ''$createdAt = (Get-Date).ToUniversalTime().ToString('', Str ''o'', Code '')'', NL,
      Code ''if ($null -ne $g.CreationTime) {'', NL,
      Code ''  $createdAt = $g.CreationTime.ToUniversalTime().ToString('', Str ''o'', Code '')'', NL,
      Code ''}'', NL,
      Code (''@'' @ ''{''), NL,
      Code ''  snapshotId   = [string]$g.SnapshotId'', NL,
      Code ''  originalPath = '', Str vhdxPath, NL,
      Code ''  description  = $g.Description'', NL,
      Code ''  createdAt    = $createdAt'', NL,
      Code ''  sizeBytes    = 0'', NL,
      Code ''}'', NL]\<close>

definition ps_DeleteShadowCopy :: "string \<Rightarrow> psPiece list" where
  \<open>ps_DeleteShadowCopy shadowID =
     [NL] @
     fileShareShadowCopyPS @
     [NL,
      Code ''Remove-CsiShadowCopy '', Str shadowID, NL,
      Code (''@'' @ ''{ ok=$true }''), NL]\<close>

definition ps_DeleteSnapshot :: "string \<Rightarrow> psPiece list" where
  \<open>ps_DeleteSnapshot snapshotID =
     [NL] @
     fileShareShadowCopyPS @
     [NL,
      Code ''$snapshotID = '', Str snapshotID, NL,
      Code ''$snapshotGuid = [guid]::Empty'', NL,
      Code ''if ([guid]::TryParse($snapshotID, [ref]$snapshotGuid) -and (Get-IscsiVirtualDiskSnapshot -ComputerName $IscsiTargetComputerName -SnapshotId $snapshotID -ErrorAction SilentlyContinue)) {'', NL,
      Code ''  Remove-IscsiVirtualDiskSnapshot -ComputerName $IscsiTargetComputerName -SnapshotId $snapshotID -ErrorAction SilentlyContinue'', NL,
      Code ''} elseif (Test-Path -LiteralPath $snapshotID -PathType Leaf) {'', NL,
      Code ''  $meta = Get-Content -LiteralPath $snapshotID -Raw | ConvertFrom-Json'', NL,
      Code ''  if ($meta.snapshotType -eq '', Str ''vss'', Code '' -and $meta.shadowId) {'', NL,
      Code ''    Remove-CsiShadowCopy ([string]$meta.shadowId)'', NL,
      Code ''  }'', NL,
      Code ''  Remove-Item -LiteralPath $snapshotID -Force -ErrorAction SilentlyContinue'', NL,
      Code ''} elseif (Test-Path -LiteralPath $snapshotID -PathType Container) {'', NL,
      Code ''  Remove-Item -LiteralPath $snapshotID -Recurse -Force -ErrorAction SilentlyContinue'', NL,
      Code ''}'', NL,
      Code (''@'' @ ''{ ok=$true }''), NL]\<close>

definition ps_ListSnapshots :: "string \<Rightarrow> psPiece list" where
  \<open>ps_ListSnapshots vhdxPath =
     [NL,
      Code ''$sn = @(Get-IscsiVirtualDiskSnapshot -ComputerName $IscsiTargetComputerName -OriginalPath '', Str vhdxPath, Code '' -ErrorAction SilentlyContinue |'', NL,
      Code (''  Select-Object @'' @ ''{n=''), Str ''snapshotId'', Code '';e={$_.SnapshotId.ToString()}},'', NL,
      Code (''                @'' @ ''{n=''), Str ''originalPath'', Code '';e={'', Str vhdxPath, Code ''}},'', NL,
      Code (''                @'' @ ''{n=''), Str ''description'', Code '';e={$_.Description}},'', NL,
      Code (''                @'' @ ''{n=''), Str ''createdAt'', Code '';e={if ($null -ne $_.CreationTime) { $_.CreationTime.ToUniversalTime().ToString('', Str ''o'', Code '') } else { (Get-Date).ToUniversalTime().ToString('', Str ''o'', Code '') }}},'', NL,
      Code (''                @'' @ ''{n=''), Str ''sizeBytes'', Code '';e={0}})'', NL,
      Code (''@'' @ ''{ snapshots=$sn }''), NL]\<close>

definition ps_ExportSnapshotAsVirtualDisk :: "string \<Rightarrow> psPiece list" where
  \<open>ps_ExportSnapshotAsVirtualDisk snapshotID =
     [NL,
      Code ''$vd = Export-IscsiVirtualDiskSnapshot -ComputerName $IscsiTargetComputerName -SnapshotId '', Str snapshotID, NL,
      Code (''@'' @ ''{ path = $vd.Path }''), NL]\<close>

subsection \<open>Expansion and queries\<close>

definition ps_ResizeVirtualDisk :: "string \<Rightarrow> int \<Rightarrow> psPiece list" where
  \<open>ps_ResizeVirtualDisk vhdxPath newSizeBytes =
     [NL,
      Code ''Resize-IscsiVirtualDisk -ComputerName $IscsiTargetComputerName -Path '', Str vhdxPath, Code '' -SizeBytes '', Num newSizeBytes, Code '' | Out-Null'', NL,
      Code ''$vd = Get-IscsiVirtualDisk -ComputerName $IscsiTargetComputerName -Path '', Str vhdxPath, NL,
      Code (''@'' @ ''{ sizeBytes=[int64]$vd.Size }''), NL]\<close>

definition ps_GetVolumeInfo :: "string \<Rightarrow> psPiece list" where
  \<open>ps_GetVolumeInfo vhdxPath =
     [NL,
      Code ''if (-not (Test-Path -LiteralPath '', Str vhdxPath, Code '')) {'', NL,
      Code (''  @'' @ ''{ path=''), Str [], Code ''; sizeBytes=0; targets=@(); lun=$null }'', NL,
      Code ''} else {'', NL,
      Code ''  $vd = Get-IscsiVirtualDisk -ComputerName $IscsiTargetComputerName -Path '', Str vhdxPath, NL,
      Code ''  $targets = @(Get-MappedIscsiTargetNames -Path '', Str vhdxPath, Code '')'', NL,
      Code ''  $lun = if ($targets.Count -gt 0) { 0 } else { $null }'', NL,
      Code (''  @'' @ ''{ path=''), Str vhdxPath, Code ''; sizeBytes=[int64]$vd.Size; targets=$targets; lun=$lun }'', NL,
      Code ''}'', NL]\<close>

end
