(* ===== verification/FileShareScripts.thy ===== *)
theory FileShareScripts
  imports WinRMScripts
begin

text \<open>
  The PowerShell scripts of \<^verbatim>\<open>pkg/iscsi/backend_fileshare.go\<close>, and the handle of a shadow copy
  that one of them reads (\<^verbatim>\<open>backend_winrm.go\<close>).
\<close>

record fileShareSnapshotHandle =
  fsh_SnapshotType :: string
  fsh_ShadowID :: string
  fsh_ShadowDeviceObject :: string
  fsh_ShadowPath :: string
  fsh_SourceRelativePath :: string
  fsh_OriginalPath :: string
  fsh_Description :: string
  fsh_CreatedAt :: int
  fsh_SizeBytes :: int

subsection \<open>Constant parts\<close>

definition fileShareCopyPS :: "psPiece list" where
  \<open>fileShareCopyPS =
     [Code ''function Copy-CsiDirectoryMirror($s,$d){New-Item -ItemType Directory -Path $d -Force|Out-Null;robocopy $s $d /MIR /R:1 /W:1 /NFL /NDL /NJH /NJS /NP|Out-Null;$c=$LASTEXITCODE;$global:LASTEXITCODE=0;if($c -gt 7){throw '', Msg ''robocopy failed with exit code $c'', Code ''}}'']\<close>

definition fileShareCopyItemPS :: "psPiece list" where
  \<open>fileShareCopyItemPS =
     [Code ''function Copy-CsiDirectoryTree($s,$d){New-Item -ItemType Directory -Path $d -Force|Out-Null;@(Get-ChildItem -LiteralPath $s -Force -ErrorAction Stop)|ForEach-Object{Copy-Item -LiteralPath $_.FullName -Destination $d -Recurse -Force -ErrorAction Stop}}'']\<close>

definition fileShareVHDXPS :: "psPiece list" where
  \<open>fileShareVHDXPS =
     [NL,
      Code ''function Get-CsiAccessPath([string]$Path) {'', NL,
      Code ''  if ([string]::IsNullOrWhiteSpace($Path)) { return '', Str [], Code '' }'', NL,
      Code ''  $full = [System.IO.Path]::GetFullPath($Path)'', NL,
      Code ''  if (-not $full.EndsWith('', Str [bsl], Code '')) { $full += '', Str [bsl], Code '' }'', NL,
      Code ''  return $full'', NL,
      Code ''}'', NL,
      Code ''function Get-CsiPartitionByAccessPath([string]$Path) {'', NL,
      Code ''  $accessPath = Get-CsiAccessPath $Path'', NL,
      Code ''  if ([string]::IsNullOrWhiteSpace($accessPath)) { return $null }'', NL,
      Code ''  @(Get-Partition -ErrorAction SilentlyContinue | Where-Object { @($_.AccessPaths) -contains $accessPath } | Select-Object -First 1)[0]'', NL,
      Code ''}'', NL,
      Code ''function Test-CsiPartitionAccessPath([string]$Path) {'', NL,
      Code ''  $null -ne (Get-CsiPartitionByAccessPath $Path)'', NL,
      Code ''}'', NL,
      Code ''function Expand-CsiPartitionToDisk([object]$Partition) {'', NL,
      Code ''  if (-not $Partition) { return }'', NL,
      Code ''  $supported = Get-PartitionSupportedSize -DiskNumber $Partition.DiskNumber -PartitionNumber $Partition.PartitionNumber -ErrorAction SilentlyContinue'', NL,
      Code ''  if ($supported -and [int64]$supported.SizeMax -gt [int64]$Partition.Size) {'', NL,
      Code ''    Resize-Partition -DiskNumber $Partition.DiskNumber -PartitionNumber $Partition.PartitionNumber -Size $supported.SizeMax -ErrorAction Stop'', NL,
      Code ''  }'', NL,
      Code ''}'', NL,
      Code ''function Mount-CsiFileShareVirtualDisk([string]$VhdxPath, [string]$MountPath) {'', NL,
      Code ''  New-Item -ItemType Directory -Path $MountPath -Force | Out-Null'', NL,
      Code ''  $image = Get-DiskImage -ImagePath $VhdxPath -ErrorAction SilentlyContinue'', NL,
      Code ''  if (-not $image -or -not $image.Attached) {'', NL,
      Code ''    Mount-DiskImage -ImagePath $VhdxPath -PassThru -ErrorAction Stop | Out-Null'', NL,
      Code ''  }'', NL,
      Code ''  $disk = Get-DiskImage -ImagePath $VhdxPath -ErrorAction Stop | Get-Disk -ErrorAction Stop'', NL,
      Code ''  if ($disk.IsOffline) { Set-Disk -Number $disk.Number -IsOffline $false -ErrorAction Stop }'', NL,
      Code ''  if ($disk.IsReadOnly) { Set-Disk -Number $disk.Number -IsReadOnly $false -ErrorAction Stop }'', NL,
      Code ''  if ($disk.PartitionStyle -eq '', Str ''RAW'', Code '') {'', NL,
      Code ''    Initialize-Disk -Number $disk.Number -PartitionStyle GPT -ErrorAction Stop'', NL,
      Code ''  }'', NL,
      Code ''  $partition = @(Get-Partition -DiskNumber $disk.Number -ErrorAction SilentlyContinue | Where-Object { $_.Type -ne '', Str ''Reserved'', Code '' } | Sort-Object PartitionNumber | Select-Object -First 1)[0]'', NL,
      Code ''  if (-not $partition) {'', NL,
      Code ''    $partition = New-Partition -DiskNumber $disk.Number -UseMaximumSize -ErrorAction Stop'', NL,
      Code ''  }'', NL,
      Code ''  $volume = $partition | Get-Volume -ErrorAction SilentlyContinue'', NL,
      Code ''  if (-not $volume -or [string]::IsNullOrWhiteSpace($volume.FileSystem)) {'', NL,
      Code ''    Format-Volume -Partition $partition -FileSystem NTFS -NewFileSystemLabel '', Str ''CSIFileShare'', Code '' -Confirm:$false -Force -ErrorAction Stop | Out-Null'', NL,
      Code ''  }'', NL,
      Code ''  $partition = Get-Partition -DiskNumber $disk.Number -PartitionNumber $partition.PartitionNumber -ErrorAction Stop'', NL,
      Code ''  Expand-CsiPartitionToDisk $partition'', NL,
      Code ''  $partition = Get-Partition -DiskNumber $disk.Number -PartitionNumber $partition.PartitionNumber -ErrorAction Stop'', NL,
      Code ''  $accessPath = Get-CsiAccessPath $MountPath'', NL,
      Code ''  if (@($partition.AccessPaths) -notcontains $accessPath) {'', NL,
      Code ''    Add-PartitionAccessPath -DiskNumber $disk.Number -PartitionNumber $partition.PartitionNumber -AccessPath $accessPath -ErrorAction Stop'', NL,
      Code ''  }'', NL,
      Code ''}'', NL,
      Code ''function Dismount-CsiFileShareVirtualDisk([string]$VhdxPath, [string]$MountPath) {'', NL,
      Code ''  $accessPath = Get-CsiAccessPath $MountPath'', NL,
      Code ''  $partition = Get-CsiPartitionByAccessPath $MountPath'', NL,
      Code ''  if ($partition) {'', NL,
      Code ''    Remove-PartitionAccessPath -DiskNumber $partition.DiskNumber -PartitionNumber $partition.PartitionNumber -AccessPath $accessPath -ErrorAction Stop'', NL,
      Code ''    $partition = Get-Partition -DiskNumber $partition.DiskNumber -PartitionNumber $partition.PartitionNumber -ErrorAction SilentlyContinue'', NL,
      Code ''    if ($partition -and @($partition.AccessPaths) -contains $accessPath) {'', NL,
      Code ''      throw '', Msg (''failed to remove partition access path '$accessPath'' @ [sq]), NL,
      Code ''    }'', NL,
      Code ''  }'', NL,
      Code ''  $image = Get-DiskImage -ImagePath $VhdxPath -ErrorAction SilentlyContinue'', NL,
      Code ''  if ($image -and $image.Attached) {'', NL,
      Code ''    Dismount-DiskImage -ImagePath $VhdxPath -ErrorAction Stop'', NL,
      Code ''    $image = Get-DiskImage -ImagePath $VhdxPath -ErrorAction SilentlyContinue'', NL,
      Code ''    if ($image -and $image.Attached) {'', NL,
      Code ''      throw '', Msg (''failed to dismount file-share virtual disk '$VhdxPath'' @ [sq]), NL,
      Code ''    }'', NL,
      Code ''  }'', NL,
      Code ''  if ($MountPath -and (Test-Path -LiteralPath $MountPath)) {'', NL,
      Code ''    Remove-Item -LiteralPath $MountPath -Force -ErrorAction Stop'', NL,
      Code ''    if (Test-Path -LiteralPath $MountPath) {'', NL,
      Code ''      throw '', Msg (''failed to delete file-share mount path '$MountPath'' @ [sq]), NL,
      Code ''    }'', NL,
      Code ''  }'', NL,
      Code ''}'', NL]\<close>

subsection \<open>Arrays, booleans and optional parameters\<close>

text \<open>\<^verbatim>\<open>strings.Join\<close> of texts that are themselves pieces.\<close>

fun joinPieces :: "psPiece list \<Rightarrow> psPiece list list \<Rightarrow> psPiece list" where
  "joinPieces sep [] = []"
| "joinPieces sep [x] = x"
| "joinPieces sep (x # y # xs) = x @ sep @ joinPieces sep (y # xs)"

definition psStringArray :: "string list \<Rightarrow> psPiece list" where
  "psStringArray values =
     (let cleaned = filter (\<lambda>v. v \<noteq> []) (map TrimSpace values) in
      if cleaned = [] then [Code ''@()'']
      else [Code ''@(''] @ joinPieces [Code '',''] (map (\<lambda>v. [Str v]) cleaned) @ [Code '')''])"

definition psBoolLiteral :: "bool \<Rightarrow> psPiece list" where
  "psBoolLiteral value = [Code (if value then ''$true'' else ''$false'')]"

text \<open>One line of parameters, when the option is set.\<close>

definition whenSet :: "'a option \<Rightarrow> ('a \<Rightarrow> psPiece list) \<Rightarrow> psPiece list list" where
  "whenSet o' f = (case o' of None \<Rightarrow> [] | Some x \<Rightarrow> [f x])"

definition nonZero :: "'a \<Rightarrow> 'a \<Rightarrow> 'a option" where
  "nonZero zero x = (if x = zero then None else Some x)"

definition nfsShareParamsScript :: "NfsShareOptions \<Rightarrow> psPiece list" where
  "nfsShareParamsScript opt = joinPieces [NL, Code ''  '']
     (whenSet (nonZero [] (nfs_Authentication opt)) (\<lambda>a. [Code ''$params.Authentication = ''] @ psStringArray a) @
      whenSet (nfs_AnonymousUID opt) (\<lambda>i. [Code ''$params.AnonymousUid = '', Num i]) @
      whenSet (nfs_AnonymousGID opt) (\<lambda>i. [Code ''$params.AnonymousGid = '', Num i]) @
      whenSet (nonZero [] (nfs_LanguageEncoding opt)) (\<lambda>s. [Code ''$params.LanguageEncoding = '', Str s]) @
      whenSet (nfs_EnableAnonymousAccess opt) (\<lambda>b. [Code ''$params.EnableAnonymousAccess = ''] @ psBoolLiteral b) @
      whenSet (nfs_EnableUnmappedAccess opt) (\<lambda>b. [Code ''$params.EnableUnmappedAccess = ''] @ psBoolLiteral b))"

definition smbShareParamsScript :: "SmbShareOptions \<Rightarrow> psPiece list" where
  "smbShareParamsScript opt = joinPieces [NL, Code ''  '']
     (whenSet (nonZero [] (smb_NoAccess opt)) (\<lambda>a. [Code ''$params.NoAccess = ''] @ psStringArray a) @
      whenSet (nonZero [] (smb_Description opt)) (\<lambda>s. [Code ''$params.Description = '', Str s]) @
      whenSet (smb_EncryptData opt) (\<lambda>b. [Code ''$params.EncryptData = ''] @ psBoolLiteral b) @
      whenSet (smb_CompressData opt) (\<lambda>b.
        [Code ''if ((Get-Command New-SmbShare).Parameters.ContainsKey('', Str ''CompressData'', Code '')) { $params.CompressData = ''] @
        psBoolLiteral b @ [Code '' }'']) @
      whenSet (smb_ContinuouslyAvailable opt) (\<lambda>b. [Code ''$params.ContinuouslyAvailable = ''] @ psBoolLiteral b) @
      whenSet (nonZero [] (smb_CachingMode opt)) (\<lambda>s. [Code ''$params.CachingMode = '', Str s]) @
      whenSet (nonZero [] (smb_FolderEnumerationMode opt)) (\<lambda>s. [Code ''$params.FolderEnumerationMode = '', Str s]) @
      whenSet (nonZero 0 (smb_ConcurrentUserLimit opt)) (\<lambda>i. [Code ''$params.ConcurrentUserLimit = '', Num i]))"


subsection \<open>Shares\<close>

definition ps_MountFileShareVirtualDisk :: "string \<Rightarrow> string \<Rightarrow> psPiece list" where
  \<open>ps_MountFileShareVirtualDisk vhdxPath mountPath =
     [NL] @
     fileShareVHDXPS @
     [NL,
      Code ''Mount-CsiFileShareVirtualDisk '', Str vhdxPath, Code '' '', Str mountPath, NL,
      Code (''@'' @ ''{ ok=$true }''), NL]\<close>

definition ps_UnmountFileShareVirtualDisk :: "string \<Rightarrow> string \<Rightarrow> psPiece list" where
  \<open>ps_UnmountFileShareVirtualDisk vhdxPath mountPath =
     [NL] @
     fileShareVHDXPS @
     [NL,
      Code ''Dismount-CsiFileShareVirtualDisk '', Str vhdxPath, Code '' '', Str mountPath, NL,
      Code (''@'' @ ''{ ok=$true }''), NL]\<close>

definition ps_CreateNfsShare :: "string \<Rightarrow> string \<Rightarrow> int \<Rightarrow> string list \<Rightarrow> string \<Rightarrow> string \<Rightarrow> bool \<Rightarrow> NfsShareOptions \<Rightarrow> psPiece list" where
  \<open>ps_CreateNfsShare name parentDir sizeBytes clients permission clientType allowRootAccess opt =
     [NL,
      Code ''Import-Module NFS -ErrorAction Stop'', NL,
      Code ''$name = '', Str name, NL,
      Code ''$path = Join-Path -Path '', Str parentDir, Code '' -ChildPath $name'', NL,
      Code ''New-Item -ItemType Directory -Path $path -Force | Out-Null'', NL,
      Code ''$share = Get-NfsShare -Name $name -ErrorAction SilentlyContinue'', NL,
      Code ''if (-not $share) {'', NL,
      Code (''  $params = @'' @ ''{ Name=$name; Path=$path; Permission=''), Str permission, Code ''; AllowRootAccess=''] @
     psBoolLiteral allowRootAccess @
     [Code '' }'', NL,
      Code ''  ''] @
     nfsShareParamsScript opt @
     [NL,
      Code ''  New-NfsShare @params | Out-Null'', NL,
      Code ''}'', NL,
      Code ''$clients = ''] @
     psStringArray clients @
     [NL,
      Code ''foreach ($client in $clients) {'', NL,
      Code ''  Grant-NfsSharePermission -Name $name -ClientName $client -ClientType '', Str clientType, Code '' -Permission '', Str permission, Code '' -AllowRootAccess ''] @
     psBoolLiteral allowRootAccess @
     [Code '' -ErrorAction SilentlyContinue | Out-Null'', NL,
      Code ''}'', NL,
      Code (''@'' @ ''{ name=$name; protocol=''), Str ''nfs'', Code ''; nfsServer=$env:COMPUTERNAME; nfsExportPath=('', Str ''/'', Code '' + $name); vhdxPath=$path; sizeBytes=[int64]0; capacityBytes=[int64]'', Num sizeBytes, Code '' }'', NL]\<close>

definition ps_GetNfsShare :: "string \<Rightarrow> string \<Rightarrow> psPiece list" where
  \<open>ps_GetNfsShare name parentDir =
     [NL,
      Code ''Import-Module NFS -ErrorAction Stop'', NL,
      Code ''$name = '', Str name, NL,
      Code ''$path = Join-Path -Path '', Str parentDir, Code '' -ChildPath $name'', NL,
      Code ''$share = Get-NfsShare -Name $name -ErrorAction SilentlyContinue'', NL,
      Code ''if (-not $share) {'', NL,
      Code (''  @'' @ ''{ exists=$false }''), NL,
      Code ''} else {'', NL,
      Code ''  $cap = [int64]0'', NL,
      Code ''  $metaPath = Join-Path -Path $share.Path -ChildPath '', Str ''.csi-volume.json'', NL,
      Code ''  if (Test-Path -LiteralPath $metaPath) { $cap = [int64]((Get-Content -LiteralPath $metaPath -Raw | ConvertFrom-Json).capacityBytes) }'', NL,
      Code (''  @'' @ ''{ exists=$true; name=$name; protocol=''), Str ''nfs'', Code ''; nfsServer=$env:COMPUTERNAME; nfsExportPath=('', Str ''/'', Code '' + $name); vhdxPath=$share.Path; sizeBytes=[int64]0; capacityBytes=$cap }'', NL,
      Code ''}'', NL]\<close>

definition ps_DeleteNfsShare :: "string \<Rightarrow> string \<Rightarrow> psPiece list" where
  \<open>ps_DeleteNfsShare name path =
     [NL,
      Code ''Import-Module NFS -ErrorAction Stop'', NL] @
     fileShareVHDXPS @
     [NL,
      Code ''$name = '', Str name, NL,
      Code ''$path = '', Str path, NL,
      Code ''$share = Get-NfsShare -Name $name -ErrorAction SilentlyContinue'', NL,
      Code ''if ($share -and -not $path) {'', NL,
      Code ''  $path = $share.Path'', NL,
      Code ''}'', NL,
      Code ''if ($share) {'', NL,
      Code ''  Remove-NfsShare -Name $name -Confirm:$false -ErrorAction Stop'', NL,
      Code ''  if (Get-NfsShare -Name $name -ErrorAction SilentlyContinue) {'', NL,
      Code ''    throw '', Msg (''failed to delete NFS share '$name'' @ [sq]), NL,
      Code ''  }'', NL,
      Code ''}'', NL,
      Code ''if ($path -and (Test-Path -LiteralPath $path)) {'', NL,
      Code ''  if (Get-Command Remove-FsrmQuota -ErrorAction SilentlyContinue) {'', NL,
      Code ''    if (Get-FsrmQuota -Path $path -ErrorAction SilentlyContinue) {'', NL,
      Code ''      Remove-FsrmQuota -Path $path -Confirm:$false -ErrorAction Stop | Out-Null'', NL,
      Code ''      if (Get-FsrmQuota -Path $path -ErrorAction SilentlyContinue) {'', NL,
      Code ''        throw '', Msg (''failed to delete quota for NFS share path '$path'' @ [sq]), NL,
      Code ''      }'', NL,
      Code ''    }'', NL,
      Code ''  }'', NL,
      Code ''  if (-not (Test-CsiPartitionAccessPath $path)) {'', NL,
      Code ''    Remove-Item -LiteralPath $path -Recurse -Force -ErrorAction Stop'', NL,
      Code ''    if (Test-Path -LiteralPath $path) {'', NL,
      Code ''      throw '', Msg (''failed to delete NFS share path '$path'' @ [sq]), NL,
      Code ''    }'', NL,
      Code ''  } else {'', NL,
      Code ''    throw '', Msg ''cannot delete NFS share path '$path' because it is still mounted'', NL,
      Code ''  }'', NL,
      Code ''}'', NL,
      Code (''@'' @ ''{ ok=$true }''), NL]\<close>

definition ps_CreateSmbShare :: "string \<Rightarrow> string \<Rightarrow> int \<Rightarrow> string list \<Rightarrow> string list \<Rightarrow> string list \<Rightarrow> SmbShareOptions \<Rightarrow> psPiece list" where
  \<open>ps_CreateSmbShare name parentDir sizeBytes fullAccess changeAccess readAccess opt =
     [NL,
      Code ''Import-Module SmbShare -ErrorAction Stop'', NL,
      Code ''$name = '', Str name, NL,
      Code ''$path = Join-Path -Path '', Str parentDir, Code '' -ChildPath $name'', NL,
      Code ''New-Item -ItemType Directory -Path $path -Force | Out-Null'', NL,
      Code ''$share = Get-SmbShare -Name $name -ErrorAction SilentlyContinue'', NL,
      Code ''if (-not $share) {'', NL,
      Code (''  $params = @'' @ ''{ Name=$name; Path=$path }''), NL,
      Code ''  $full = ''] @
     psStringArray fullAccess @
     [NL,
      Code ''  $change = ''] @
     psStringArray changeAccess @
     [NL,
      Code ''  $read = ''] @
     psStringArray readAccess @
     [NL,
      Code ''  if ($full.Count -gt 0) { $params.FullAccess = $full }'', NL,
      Code ''  if ($change.Count -gt 0) { $params.ChangeAccess = $change }'', NL,
      Code ''  if ($read.Count -gt 0) { $params.ReadAccess = $read }'', NL,
      Code ''  ''] @
     smbShareParamsScript opt @
     [NL,
      Code ''  New-SmbShare @params | Out-Null'', NL,
      Code ''}'', NL,
      Code (''@'' @ ''{ name=$name; protocol=''), Str ''smb'', Code ''; smbServer=$env:COMPUTERNAME; smbShareName=$name; vhdxPath=$path; sizeBytes=[int64]0; capacityBytes=[int64]'', Num sizeBytes, Code '' }'', NL]\<close>

definition ps_GetSmbShare :: "string \<Rightarrow> psPiece list" where
  \<open>ps_GetSmbShare name =
     [NL,
      Code ''Import-Module SmbShare -ErrorAction Stop'', NL,
      Code ''$name = '', Str name, NL,
      Code ''$share = Get-SmbShare -Name $name -ErrorAction SilentlyContinue'', NL,
      Code ''if (-not $share) {'', NL,
      Code (''  @'' @ ''{ exists=$false }''), NL,
      Code ''} else {'', NL,
      Code ''  $cap = [int64]0'', NL,
      Code ''  $metaPath = Join-Path -Path $share.Path -ChildPath '', Str ''.csi-volume.json'', NL,
      Code ''  if (Test-Path -LiteralPath $metaPath) { $cap = [int64]((Get-Content -LiteralPath $metaPath -Raw | ConvertFrom-Json).capacityBytes) }'', NL,
      Code (''  @'' @ ''{ exists=$true; name=$name; protocol=''), Str ''smb'', Code ''; smbServer=$env:COMPUTERNAME; smbShareName=$name; vhdxPath=$share.Path; sizeBytes=[int64]0; capacityBytes=$cap }'', NL,
      Code ''}'', NL]\<close>

definition ps_DeleteSmbShare :: "string \<Rightarrow> string \<Rightarrow> psPiece list" where
  \<open>ps_DeleteSmbShare name path =
     [NL,
      Code ''Import-Module SmbShare -ErrorAction Stop'', NL] @
     fileShareVHDXPS @
     [NL,
      Code ''$name = '', Str name, NL,
      Code ''$path = '', Str path, NL,
      Code ''$share = Get-SmbShare -Name $name -ErrorAction SilentlyContinue'', NL,
      Code ''if ($share -and -not $path) {'', NL,
      Code ''  $path = $share.Path'', NL,
      Code ''}'', NL,
      Code ''if ($share) {'', NL,
      Code ''  Remove-SmbShare -Name $name -Force -ErrorAction Stop'', NL,
      Code ''  if (Get-SmbShare -Name $name -ErrorAction SilentlyContinue) {'', NL,
      Code ''    throw '', Msg (''failed to delete SMB share '$name'' @ [sq]), NL,
      Code ''  }'', NL,
      Code ''}'', NL,
      Code ''if ($path -and (Test-Path -LiteralPath $path)) {'', NL,
      Code ''  if (Get-Command Remove-FsrmQuota -ErrorAction SilentlyContinue) {'', NL,
      Code ''    if (Get-FsrmQuota -Path $path -ErrorAction SilentlyContinue) {'', NL,
      Code ''      Remove-FsrmQuota -Path $path -Confirm:$false -ErrorAction Stop | Out-Null'', NL,
      Code ''      if (Get-FsrmQuota -Path $path -ErrorAction SilentlyContinue) {'', NL,
      Code ''        throw '', Msg (''failed to delete quota for SMB share path '$path'' @ [sq]), NL,
      Code ''      }'', NL,
      Code ''    }'', NL,
      Code ''  }'', NL,
      Code ''  if (-not (Test-CsiPartitionAccessPath $path)) {'', NL,
      Code ''    Remove-Item -LiteralPath $path -Recurse -Force -ErrorAction Stop'', NL,
      Code ''    if (Test-Path -LiteralPath $path) {'', NL,
      Code ''      throw '', Msg (''failed to delete SMB share path '$path'' @ [sq]), NL,
      Code ''    }'', NL,
      Code ''  } else {'', NL,
      Code ''    throw '', Msg ''cannot delete SMB share path '$path' because it is still mounted'', NL,
      Code ''  }'', NL,
      Code ''}'', NL,
      Code (''@'' @ ''{ ok=$true }''), NL]\<close>

definition ps_ResizeFileShare :: "string \<Rightarrow> int \<Rightarrow> psPiece list" where
  \<open>ps_ResizeFileShare path newSizeBytes =
     [NL,
      Code ''$path = '', Str path, NL,
      Code ''$bytes = [int64]'', Num newSizeBytes, NL,
      Code ''New-Item -ItemType Directory -Path $path -Force | Out-Null'', NL,
      Code ''$quotaEnforced = $false'', NL,
      Code ''if (Get-Command New-FsrmQuota -ErrorAction SilentlyContinue) {'', NL,
      Code ''  Import-Module FileServerResourceManager -ErrorAction SilentlyContinue'', NL,
      Code ''  try {'', NL,
      Code ''    $quota = Get-FsrmQuota -Path $path -ErrorAction SilentlyContinue'', NL,
      Code ''    if ($quota) { Set-FsrmQuota -Path $path -Size $bytes -ErrorAction Stop | Out-Null } else { New-FsrmQuota -Path $path -Size $bytes -ErrorAction Stop | Out-Null }'', NL,
      Code ''    $quotaEnforced = $true'', NL,
      Code ''  } catch { $quotaEnforced = $false }'', NL,
      Code ''}'', NL,
      Code (''@'' @ ''{ capacityBytes=$bytes; quotaEnforced=[bool]$quotaEnforced; updatedAt=(Get-Date).ToUniversalTime().ToString(''), Str ''o'', Code '') } | ConvertTo-Json -Compress | Set-Content -LiteralPath (Join-Path -Path $path -ChildPath '', Str ''.csi-volume.json'', Code '') -Encoding UTF8'', NL,
      Code (''@'' @ ''{ capacityBytes=$bytes }''), NL]\<close>

definition ps_RestoreShadowCopy :: "fileShareSnapshotHandle \<Rightarrow> string \<Rightarrow> psPiece list" where
  \<open>ps_RestoreShadowCopy handle destinationPath =
     [NL] @
     fileShareCopyItemPS @
     [NL] @
     fileShareShadowCopyPS @
     [NL,
      Code ''$shadowID = '', Str (fsh_ShadowID handle), NL,
      Code ''$sourceRelativePath = '', Str (fsh_SourceRelativePath handle), NL,
      Code ''$storedShadowPath = '', Str (fsh_ShadowPath handle), NL,
      Code ''$shadow = Get-CsiShadowCopy $shadowID'', NL,
      Code ''if (-not $shadow) {'', NL,
      Code ''  throw '', Msg ''file-share VSS snapshot was not found: $shadowID'', NL,
      Code ''}'', NL,
      Code ''if (-not [string]::IsNullOrWhiteSpace($sourceRelativePath)) {'', NL,
      Code ''  $sourcePath = Join-CsiShadowPath ([string]$shadow.DeviceObject) $sourceRelativePath'', NL,
      Code ''} else {'', NL,
      Code ''  $sourcePath = $storedShadowPath'', NL,
      Code ''}'', NL,
      Code ''if (-not (Test-Path -LiteralPath $sourcePath -PathType Container)) {'', NL,
      Code ''  throw '', Msg ''file-share snapshot path not found: $sourcePath'', NL,
      Code ''}'', NL,
      Code ''Copy-CsiDirectoryTree $sourcePath '', Str destinationPath, NL,
      Code (''@'' @ ''{ ok=$true }''), NL]\<close>

definition ps_RestoreSnapshotAsFileShare :: "string \<Rightarrow> string \<Rightarrow> psPiece list" where
  \<open>ps_RestoreSnapshotAsFileShare snapshotID destinationPath =
     [NL] @
     fileShareCopyPS @
     [NL] @
     fileShareCopyItemPS @
     [NL] @
     fileShareShadowCopyPS @
     [NL,
      Code ''$snapshotID = '', Str snapshotID, NL,
      Code ''$sourcePath = $snapshotID'', NL,
      Code ''$isVssSnapshot = $false'', NL,
      Code ''if (Test-Path -LiteralPath $snapshotID -PathType Leaf) {'', NL,
      Code ''  $meta = Get-Content -LiteralPath $snapshotID -Raw | ConvertFrom-Json'', NL,
      Code ''  if ($meta.snapshotType -eq '', Str ''vss'', Code '') {'', NL,
      Code ''    $isVssSnapshot = $true'', NL,
      Code ''    $shadow = Get-CsiShadowCopy ([string]$meta.shadowId)'', NL,
      Code ''    if (-not $shadow) {'', NL,
      Code ''      throw '', Msg ''file-share VSS snapshot was not found: $($meta.shadowId)'', NL,
      Code ''    }'', NL,
      Code ''    $sourcePath = [string]$meta.shadowPath'', NL,
      Code ''    if ([string]::IsNullOrWhiteSpace($sourcePath) -and $meta.sourceRelativePath) {'', NL,
      Code ''      $sourcePath = Join-CsiShadowPath ([string]$shadow.DeviceObject) ([string]$meta.sourceRelativePath)'', NL,
      Code ''    }'', NL,
      Code ''  } elseif ($meta.snapshotId) {'', NL,
      Code ''    $sourcePath = [string]$meta.snapshotId'', NL,
      Code ''  }'', NL,
      Code ''}'', NL,
      Code ''if (-not (Test-Path -LiteralPath $sourcePath -PathType Container)) {'', NL,
      Code ''  throw '', Msg ''file-share snapshot path not found: $sourcePath'', NL,
      Code ''}'', NL,
      Code ''if ($isVssSnapshot) {'', NL,
      Code ''  Copy-CsiDirectoryTree $sourcePath '', Str destinationPath, NL,
      Code ''} else {'', NL,
      Code ''  Copy-CsiDirectoryMirror $sourcePath '', Str destinationPath, NL,
      Code ''}'', NL,
      Code (''@'' @ ''{ ok=$true }''), NL]\<close>

end
