(* ===== verification/WinRM.thy ===== *)
theory WinRM
  imports FileShareScripts GoJson BackendInterface
begin

text \<open>
  The backend on a Windows host: \<^verbatim>\<open>pkg/iscsi/backend_winrm.go\<close> and
  \<^verbatim>\<open>pkg/iscsi/backend_fileshare.go\<close>.  Every method renders a PowerShell script, has it run over
  WinRM and decodes the JSON the script prints.

  The WinRM package is a parameter: a client made from endpoint, credentials and
  authentication, and the run of a command with a standard input.  What the host does is the
  world \<open>'w\<close> of the run.
\<close>

subsection \<open>The WinRM package\<close>

datatype winrmTransport = DefaultTransport | ClientNTLM

text \<open>
  A run ends because the context is done, or with the output of the command, its exit code
  and an error.
\<close>

datatype psAnswer = Cancelled goerror | Answered (stdout: string) (stderr: string) (exitCode: int) (runErr: "goerror option")

text \<open>
  The timeout is the one the backend adds to the caller's context, if it does.  The hook of the
  tests, \<^verbatim>\<open>psRunner\<close>, is never set in the driver.
\<close>

record ('c, 'w) WinRMLib =
  wl_NewClient :: "WinRMEndpoint option \<Rightarrow> string \<Rightarrow> string \<Rightarrow> winrmTransport \<Rightarrow> 'c result"
  wl_Run :: "'c \<Rightarrow> int option \<Rightarrow> string \<Rightarrow> string \<Rightarrow> 'w \<Rightarrow> psAnswer \<times> 'w"

subsection \<open>Running a script\<close>

definition endpointURL :: "WinRMBackend option \<Rightarrow> string" where
  "endpointURL b =
     (case Option.bind b wb_Endpoint of
        None \<Rightarrow> ''<nil>''
      | Some ep \<Rightarrow>
          (let scheme = (if ep_HTTPS ep then ''https'' else ''http'');
               host = (if TrimSpace (ep_Host ep) = [] then ''<empty-host>'' else TrimSpace (ep_Host ep))
           in scheme @ ''://'' @ JoinHostPort host (Itoa (ep_Port ep)) @ ''/wsman''))"

definition clientParameters :: "WinRMBackend \<Rightarrow> winrmTransport result" where
  "clientParameters b =
     (let auth = normalizeWinRMAuth (wb_Auth b) in
      if auth = ''basic'' then Inr DefaultTransport
      else if auth = ''ntlm'' then Inr ClientNTLM
      else Inl (Errorf ''unsupported WinRM auth mode %q; supported values are basic and ntlm'' [ArgS (wb_Auth b)]))"

definition moduleImport :: "WinRMBackend \<Rightarrow> string" where
  "moduleImport b = (if wb_PSModuleImport b = [] then ''Import-Module IscsiTarget'' else wb_PSModuleImport b)"

definition unmarshal :: "(json \<Rightarrow> 'a option) \<Rightarrow> string \<Rightarrow> 'a result" where
  "unmarshal dec data = (case Option.bind (parseJSON data) dec of None \<Rightarrow> Inl (Foreign ''json.Unmarshal'') | Some x \<Rightarrow> Inr x)"

fun runOutcome :: "(json \<Rightarrow> 'a option) \<Rightarrow> psAnswer \<Rightarrow> 'a result" where
  "runOutcome dec (Cancelled e) = Inl (Errorf ''winrm run failed: context canceled: %w'' [ArgE e])"
| "runOutcome dec (Answered out err code (Some e)) = Inl (Errorf ''winrm run failed: %w; stderr=%s'' [ArgE e, ArgS err])"
| "runOutcome dec (Answered out err code None) =
     (if code \<noteq> 0 then Inl (Errorf ''winrm run failed: exit code %d; stderr=%s'' [ArgI code, ArgS err])
      else if TrimSpace out \<noteq> [] then
        (case unmarshal dec out of
           Inl e \<Rightarrow> Inl (Errorf ''json unmarshal failed: %w; raw=%s'' [ArgE e, ArgS out])
         | Inr x \<Rightarrow> Inr x)
      else Inl (Errorf ''winrm run failed: expected JSON output but stdout was empty; stderr=%s'' [ArgS err]))"

definition psText :: "WinRMBackend \<Rightarrow> psPiece list \<Rightarrow> string" where
  "psText b script = renderPS (ps_frame (moduleImport b) script)"

definition runPS :: "int option \<Rightarrow> ('c, 'w) WinRMLib \<Rightarrow> WinRMBackend \<Rightarrow> psPiece list \<Rightarrow> (json \<Rightarrow> 'a option) \<Rightarrow> ('w, 'a) io" where
  "runPS timeout lib b script dec =
     check (clientParameters b) (\<lambda>params.
     call (\<lambda>w. (wl_NewClient lib (wb_Endpoint b) (wb_User b) (wb_Pass b) params, w))
          (\<lambda>e. Errorf ''winrm.NewClient: %w'' [ArgE e]) (\<lambda>client w.
       let (answer, w') = wl_Run lib client timeout ''Invoke-Expression ([Console]::In.ReadToEnd())'' (psText b script) w
       in (runOutcome dec answer, w')))"

subsection \<open>What the scripts print\<close>

text \<open>
  The struct a method decodes into, by the names and types of its fields; its value gives
  every field of a type by name.  A time is decoded from its unescaped text.
\<close>

datatype goKind = KString | KBool | KInt64 | KInt32 | KInt32Ptr | KStrings | KTime

record psOut =
  o_str :: "string \<Rightarrow> string"
  o_bool :: "string \<Rightarrow> bool"
  o_int :: "string \<Rightarrow> int"
  o_ptr :: "string \<Rightarrow> int option"
  o_strs :: "string \<Rightarrow> string list"

definition zeroOut :: psOut where
  "zeroOut = \<lparr>o_str = (\<lambda>_. []), o_bool = (\<lambda>_. False), o_int = (\<lambda>_. 0), o_ptr = (\<lambda>_. None), o_strs = (\<lambda>_. [])\<rparr>"

definition decTime :: "json \<Rightarrow> int \<Rightarrow> int option" where
  "decTime v old = (case v of JStr s \<Rightarrow> parseRFC3339 s | JNull \<Rightarrow> Some old | _ \<Rightarrow> None)"

fun decKind :: "goKind \<Rightarrow> string \<Rightarrow> json \<Rightarrow> psOut \<Rightarrow> psOut option" where
  "decKind KString f v out = map_option (\<lambda>x. out\<lparr>o_str := (o_str out)(f := x)\<rparr>) (decStr v (o_str out f))"
| "decKind KBool f v out = map_option (\<lambda>x. out\<lparr>o_bool := (o_bool out)(f := x)\<rparr>) (decBool v (o_bool out f))"
| "decKind KInt64 f v out = map_option (\<lambda>x. out\<lparr>o_int := (o_int out)(f := x)\<rparr>) (decInt64 v (o_int out f))"
| "decKind KInt32 f v out = map_option (\<lambda>x. out\<lparr>o_int := (o_int out)(f := x)\<rparr>) (decInt32 v (o_int out f))"
| "decKind KTime f v out = map_option (\<lambda>x. out\<lparr>o_int := (o_int out)(f := x)\<rparr>) (decTime v (o_int out f))"
| "decKind KInt32Ptr f v out = map_option (\<lambda>x. out\<lparr>o_ptr := (o_ptr out)(f := x)\<rparr>) (decInt32Ptr v (o_ptr out f))"
| "decKind KStrings f v out = map_option (\<lambda>x. out\<lparr>o_strs := (o_strs out)(f := x)\<rparr>) (decStrSlice v (o_strs out f))"

type_synonym goStruct = "(string \<times> goKind) list"

definition decOut :: "goStruct \<Rightarrow> json \<Rightarrow> psOut \<Rightarrow> psOut option" where
  "decOut spec = decStruct (map fst spec) (\<lambda>f. decKind (the (map_of spec f)) f)"

abbreviation decNew :: "goStruct \<Rightarrow> json \<Rightarrow> psOut option" where
  "decNew spec v \<equiv> decOut spec v zeroOut"

text \<open>The elements of a slice, decoded into the elements that are there.\<close>

fun decElems :: "(json \<Rightarrow> 'a \<Rightarrow> 'a option) \<Rightarrow> 'a \<Rightarrow> json list \<Rightarrow> 'a list \<Rightarrow> 'a list option" where
  "decElems dec zero [] old = Some []"
| "decElems dec zero (v # vs) old =
     Option.bind (dec v (case old of [] \<Rightarrow> zero | x # _ \<Rightarrow> x)) (\<lambda>x. map_option (Cons x) (decElems dec zero vs (drop 1 old)))"

definition snapshotStruct :: goStruct where
  "snapshotStruct = [(''snapshotId'', KString), (''originalPath'', KString), (''description'', KString),
     (''createdAt'', KTime), (''sizeBytes'', KInt64)]"

definition decSnapshots :: "json \<Rightarrow> psOut list option" where
  "decSnapshots v = decStruct [''snapshots'']
     (\<lambda>f v' old. case v' of JArr vs \<Rightarrow> decElems (decOut snapshotStruct) zeroOut vs old | JNull \<Rightarrow> Some [] | _ \<Rightarrow> None) v []"

definition snapshotOf :: "psOut \<Rightarrow> SnapshotInfo" where
  "snapshotOf out =
     \<lparr>si_SnapshotID = o_str out ''snapshotId'', si_OriginalPath = o_str out ''originalPath'', si_SourceVolume = [],
      si_Description = o_str out ''description'', si_CreatedAt = o_int out ''createdAt'',
      si_SizeBytes = o_int out ''sizeBytes'', si_ReadyToUse = False\<rparr>"

subsection \<open>Handles of shadow copies\<close>

abbreviation fileShareSnapshotIDPrefix :: string where "fileShareSnapshotIDPrefix \<equiv> ''vss://''"

definition snapshotHandleStruct :: goStruct where
  "snapshotHandleStruct = [(''snapshotType'', KString), (''shadowId'', KString), (''shadowDeviceObject'', KString),
     (''shadowPath'', KString), (''sourceRelativePath'', KString), (''originalPath'', KString),
     (''description'', KString), (''createdAt'', KTime), (''sizeBytes'', KInt64)]"

definition snapshotHandleOf :: "psOut \<Rightarrow> fileShareSnapshotHandle" where
  "snapshotHandleOf out =
     \<lparr>fsh_SnapshotType = o_str out ''snapshotType'', fsh_ShadowID = o_str out ''shadowId'',
      fsh_ShadowDeviceObject = o_str out ''shadowDeviceObject'', fsh_ShadowPath = o_str out ''shadowPath'',
      fsh_SourceRelativePath = o_str out ''sourceRelativePath'', fsh_OriginalPath = o_str out ''originalPath'',
      fsh_Description = o_str out ''description'', fsh_CreatedAt = o_int out ''createdAt'',
      fsh_SizeBytes = o_int out ''sizeBytes''\<rparr>"

text \<open>\<open>None\<close> for an identifier that is no handle (\<^verbatim>\<open>ok\<close> false).\<close>

definition decodeFileShareSnapshotHandle :: "string \<Rightarrow> fileShareSnapshotHandle result option" where
  "decodeFileShareSnapshotHandle snapshotID =
     (if \<not> HasPrefix snapshotID fileShareSnapshotIDPrefix then None
      else Some (case b64Decode (TrimPrefix snapshotID fileShareSnapshotIDPrefix) of
        None \<Rightarrow> Inl (Errorf ''invalid file-share snapshot handle: %w'' [ArgE (Foreign ''base64'')])
      | Some data \<Rightarrow>
          (case unmarshal (decNew snapshotHandleStruct) data of
             Inl e \<Rightarrow> Inl (Errorf ''invalid file-share snapshot handle: %w'' [ArgE e])
           | Inr out \<Rightarrow>
               (let h0 = snapshotHandleOf out;
                    h = (if TrimSpace (fsh_SnapshotType h0) = [] then h0\<lparr>fsh_SnapshotType := ''vss''\<rparr> else h0)
                in if \<not> EqualFold (fsh_SnapshotType h) ''vss'' then
                     Inl (Errorf ''unsupported file-share snapshot type %q'' [ArgS (fsh_SnapshotType h)])
                   else if TrimSpace (fsh_ShadowID h) = [] then
                     Inl (Errorf ''file-share snapshot handle is missing shadowId'' [])
                   else Inr h))))"

subsection \<open>Targets and virtual disks\<close>

text \<open>A script whose output is a \<^verbatim>\<open>map[string]any\<close> that is dropped.\<close>

definition wr_do :: "('c, 'w) WinRMLib \<Rightarrow> WinRMBackend \<Rightarrow> psPiece list \<Rightarrow> ('w, unit) io" where
  "wr_do lib b script = runPS None lib b script decAnyMap"

text \<open>A script whose output is a struct.\<close>

definition wr_get :: "('c, 'w) WinRMLib \<Rightarrow> WinRMBackend \<Rightarrow> psPiece list \<Rightarrow> goStruct \<Rightarrow> (psOut \<Rightarrow> ('w, 'a) io) \<Rightarrow> ('w, 'a) io" where
  "wr_get lib b script spec k = call (runPS None lib b script (decNew spec)) id k"

definition wr_EnsureTarget :: "('c, 'w) WinRMLib \<Rightarrow> WinRMBackend \<Rightarrow> string \<Rightarrow> string \<Rightarrow> ('w, string) io" where
  "wr_EnsureTarget lib b targetName0 targetIQN0 =
     (let targetName = TrimSpace targetName0; targetIQN = TrimSpace targetIQN0 in
      if targetName = [] then fail (Errorf ''target name is required'' [])
      else wr_get lib b (ps_EnsureTarget targetName targetIQN) [(''targetName'', KString), (''targetIQN'', KString)] (\<lambda>out.
        if TrimSpace (o_str out ''targetIQN'') = [] then fail (Errorf ''target %q has no TargetIqn'' [ArgS targetName])
        else return (o_str out ''targetIQN'')))"

definition wr_ConfigureTargetChap :: "('c, 'w) WinRMLib \<Rightarrow> WinRMBackend \<Rightarrow> string \<Rightarrow> TargetChapOptions \<Rightarrow> ('w, unit) io" where
  "wr_ConfigureTargetChap lib b targetName0 opts =
     (let targetName = TrimSpace targetName0 in
      if targetName = [] then fail (Errorf ''target name is required'' [])
      else if \<not> Enabled opts then return ()
      else wr_do lib b (ps_ConfigureTargetChap targetName opts))"

definition wr_CreateVirtualDisk :: "('c, 'w) WinRMLib \<Rightarrow> WinRMBackend \<Rightarrow> string \<Rightarrow> string \<Rightarrow> int \<Rightarrow> ('w, string \<times> int) io" where
  "wr_CreateVirtualDisk lib b name parentDir sizeBytes =
     wr_get lib b (ps_CreateVirtualDisk name parentDir sizeBytes) [(''path'', KString), (''sizeBytes'', KInt64)] (\<lambda>out.
       return (o_str out ''path'', o_int out ''sizeBytes''))"

definition wr_MapDiskToTarget :: "('c, 'w) WinRMLib \<Rightarrow> WinRMBackend \<Rightarrow> string \<Rightarrow> string \<Rightarrow> ('w, int) io" where
  "wr_MapDiskToTarget lib b targetName vhdxPath =
     wr_get lib b (ps_MapDiskToTarget targetName vhdxPath) [(''lun'', KInt32)] (\<lambda>out. return (o_int out ''lun''))"

definition wr_UnmapDiskFromTarget :: "('c, 'w) WinRMLib \<Rightarrow> WinRMBackend \<Rightarrow> string \<Rightarrow> string \<Rightarrow> ('w, unit) io" where
  "wr_UnmapDiskFromTarget lib b targetName vhdxPath = wr_do lib b (ps_UnmapDiskFromTarget targetName vhdxPath)"

definition wr_DeleteVirtualDisk :: "('c, 'w) WinRMLib \<Rightarrow> WinRMBackend \<Rightarrow> string \<Rightarrow> ('w, unit) io" where
  "wr_DeleteVirtualDisk lib b vhdxPath = wr_do lib b (ps_DeleteVirtualDisk vhdxPath)"

definition wr_LookupTargetNameByIQN :: "('c, 'w) WinRMLib \<Rightarrow> WinRMBackend \<Rightarrow> string \<Rightarrow> ('w, string) io" where
  "wr_LookupTargetNameByIQN lib b targetIQN0 =
     (let targetIQN = TrimSpace targetIQN0 in
      if targetIQN = [] then return []
      else wr_get lib b (ps_LookupTargetNameByIQN targetIQN) [(''targetName'', KString)] (\<lambda>out.
        return (TrimSpace (o_str out ''targetName''))))"

definition wr_DeleteTarget :: "('c, 'w) WinRMLib \<Rightarrow> WinRMBackend \<Rightarrow> string \<Rightarrow> ('w, unit) io" where
  "wr_DeleteTarget lib b targetName0 =
     (let targetName = TrimSpace targetName0 in
      if targetName = [] then return () else wr_do lib b (ps_DeleteTarget targetName))"

text \<open>The LUN of a volume that does not exist is -1.\<close>

definition wr_GetVolumeByName :: "('c, 'w) WinRMLib \<Rightarrow> WinRMBackend \<Rightarrow> string \<Rightarrow> string \<Rightarrow> ('w, VolumeByName) io" where
  "wr_GetVolumeByName lib b name parentDir =
     wr_get lib b (ps_GetVolumeByName name parentDir)
       [(''exists'', KBool), (''path'', KString), (''sizeBytes'', KInt64), (''targetName'', KString),
        (''targetIQN'', KString), (''lun'', KInt32)] (\<lambda>out.
       if \<not> o_bool out ''exists'' then return (zeroVolumeByName\<lparr>vbn_lun := -1\<rparr>)
       else return \<lparr>vbn_exists = o_bool out ''exists'', vbn_vhdxPath = o_str out ''path'', vbn_sizeBytes = o_int out ''sizeBytes'',
         vbn_targetName = o_str out ''targetName'', vbn_targetIQN = o_str out ''targetIQN'', vbn_lun = o_int out ''lun''\<rparr>)"

definition wr_AllowInitiator :: "('c, 'w) WinRMLib \<Rightarrow> WinRMBackend \<Rightarrow> string \<Rightarrow> string \<Rightarrow> ('w, unit) io" where
  "wr_AllowInitiator lib b targetName initiatorIQN = wr_do lib b (ps_AllowInitiator targetName initiatorIQN)"

definition wr_DenyInitiator :: "('c, 'w) WinRMLib \<Rightarrow> WinRMBackend \<Rightarrow> string \<Rightarrow> string \<Rightarrow> ('w, unit) io" where
  "wr_DenyInitiator lib b targetName initiatorIQN = wr_do lib b (ps_DenyInitiator targetName initiatorIQN)"

definition wr_GetTargetInitiators :: "('c, 'w) WinRMLib \<Rightarrow> WinRMBackend \<Rightarrow> string \<Rightarrow> ('w, string list) io" where
  "wr_GetTargetInitiators lib b targetName =
     wr_get lib b (ps_GetTargetInitiators targetName) [(''iqns'', KStrings)] (\<lambda>out. return (o_strs out ''iqns''))"

definition wr_GetDirectoryFreeCapacity :: "('c, 'w) WinRMLib \<Rightarrow> WinRMBackend \<Rightarrow> string \<Rightarrow> ('w, int) io" where
  "wr_GetDirectoryFreeCapacity lib b parentDir =
     wr_get lib b (ps_GetDirectoryFreeCapacity parentDir) [(''free'', KInt64)] (\<lambda>out. return (o_int out ''free''))"

subsection \<open>Snapshots\<close>

definition isVirtualDisk :: "string \<Rightarrow> bool" where
  "isVirtualDisk vhdxPath = HasSuffix (ToLower (TrimSpace vhdxPath)) ''.vhdx''"

definition wr_CreateSnapshot :: "('c, 'w) WinRMLib \<Rightarrow> WinRMBackend \<Rightarrow> string \<Rightarrow> string \<Rightarrow> ('w, SnapshotInfo) io" where
  "wr_CreateSnapshot lib b vhdxPath description =
     (if \<not> isVirtualDisk vhdxPath then
        fail (Errorf ''directory-backed file-share snapshots are not supported; use a VHDX-backed NFS/SMB driver'' [])
      else wr_get lib b (ps_CreateSnapshot vhdxPath description)
        [(''snapshotId'', KString), (''snapshotType'', KString), (''shadowId'', KString), (''shadowDeviceObject'', KString),
         (''shadowPath'', KString), (''sourceRelativePath'', KString), (''originalPath'', KString), (''description'', KString),
         (''createdAt'', KTime), (''sizeBytes'', KInt64)] (\<lambda>out. return (snapshotOf out)))"

definition wr_DeleteSnapshot :: "('c, 'w) WinRMLib \<Rightarrow> WinRMBackend \<Rightarrow> string \<Rightarrow> ('w, unit) io" where
  "wr_DeleteSnapshot lib b snapshotID =
     (case decodeFileShareSnapshotHandle snapshotID of
        Some r \<Rightarrow> check r (\<lambda>handle. wr_do lib b (ps_DeleteShadowCopy (fsh_ShadowID handle)))
      | None \<Rightarrow> wr_do lib b (ps_DeleteSnapshot snapshotID))"

definition wr_ListSnapshots :: "('c, 'w) WinRMLib \<Rightarrow> WinRMBackend \<Rightarrow> string \<Rightarrow> ('w, SnapshotInfo list) io" where
  "wr_ListSnapshots lib b vhdxPath =
     (if isVirtualDisk vhdxPath then
        call (runPS None lib b (ps_ListSnapshots vhdxPath) decSnapshots) id (\<lambda>outs. return (map snapshotOf outs))
      else return [])"

definition wr_ExportSnapshotAsVirtualDisk :: "('c, 'w) WinRMLib \<Rightarrow> WinRMBackend \<Rightarrow> string \<Rightarrow> ('w, string) io" where
  "wr_ExportSnapshotAsVirtualDisk lib b snapshotID =
     wr_get lib b (ps_ExportSnapshotAsVirtualDisk snapshotID) [(''path'', KString)] (\<lambda>out. return (o_str out ''path''))"

subsection \<open>Expansion and queries\<close>

definition wr_ResizeVirtualDisk :: "('c, 'w) WinRMLib \<Rightarrow> WinRMBackend \<Rightarrow> string \<Rightarrow> int \<Rightarrow> ('w, int) io" where
  "wr_ResizeVirtualDisk lib b vhdxPath newSizeBytes =
     wr_get lib b (ps_ResizeVirtualDisk vhdxPath newSizeBytes) [(''sizeBytes'', KInt64)] (\<lambda>out. return (o_int out ''sizeBytes''))"

definition wr_GetVolumeInfo :: "('c, 'w) WinRMLib \<Rightarrow> WinRMBackend \<Rightarrow> string \<Rightarrow> ('w, VolumeInfo) io" where
  "wr_GetVolumeInfo lib b vhdxPath =
     wr_get lib b (ps_GetVolumeInfo vhdxPath)
       [(''path'', KString), (''sizeBytes'', KInt64), (''targets'', KStrings), (''lun'', KInt32Ptr)] (\<lambda>out.
       return (zeroVolumeInfo\<lparr>vi_VHDXPath := o_str out ''path'', vi_SizeBytes := o_int out ''sizeBytes'',
         vi_Targets := o_strs out ''targets'', vi_LUN := LunInt32Ptr (o_ptr out ''lun'')\<rparr>))"

text \<open>
  \<^verbatim>\<open>Validate\<close> and \<^verbatim>\<open>ValidateConnection\<close>; \<open>deadline\<close> says whether the context has one.  Without
  one the timeout of the backend is added.
\<close>

definition ValidateConnection :: "('c, 'w) WinRMLib \<Rightarrow> WinRMBackend option \<Rightarrow> bool \<Rightarrow> ('w, unit) io" where
  "ValidateConnection lib receiver deadline =
     (case receiver of
        None \<Rightarrow> fail (Errorf ''WinRM backend is nil'' [])
      | Some b \<Rightarrow>
          if wb_Endpoint b = None then fail (Errorf ''WinRM endpoint is nil'' [])
          else (let timeout = (if deadline then None else Some (if wb_Timeout b \<le> 0 then 60 * Second else wb_Timeout b)) in
            call (runPS timeout lib b ps_ValidateConnection
                    (decNew [(''ok'', KBool), (''computerName'', KString), (''userName'', KString)]))
                 (\<lambda>e. Errorf ''WinRM connection validation failed for %s: %w'' [ArgS (endpointURL receiver), ArgE e]) (\<lambda>out.
              if \<not> o_bool out ''ok'' then
                fail (Errorf ''WinRM connection validation failed for %s: remote probe returned ok=false'' [ArgS (endpointURL receiver)])
              else return ())))"

subsection \<open>File shares\<close>

definition wr_MountFileShareVirtualDisk :: "('c, 'w) WinRMLib \<Rightarrow> WinRMBackend \<Rightarrow> string \<Rightarrow> string \<Rightarrow> ('w, unit) io" where
  "wr_MountFileShareVirtualDisk lib b vhdxPath mountPath = wr_do lib b (ps_MountFileShareVirtualDisk vhdxPath mountPath)"

definition wr_UnmountFileShareVirtualDisk :: "('c, 'w) WinRMLib \<Rightarrow> WinRMBackend \<Rightarrow> string \<Rightarrow> string \<Rightarrow> ('w, unit) io" where
  "wr_UnmountFileShareVirtualDisk lib b vhdxPath mountPath = wr_do lib b (ps_UnmountFileShareVirtualDisk vhdxPath mountPath)"

definition wr_ResizeFileShare :: "('c, 'w) WinRMLib \<Rightarrow> WinRMBackend \<Rightarrow> string \<Rightarrow> int \<Rightarrow> ('w, int) io" where
  "wr_ResizeFileShare lib b path newSizeBytes =
     wr_get lib b (ps_ResizeFileShare path newSizeBytes) [(''capacityBytes'', KInt64)] (\<lambda>out. return (o_int out ''capacityBytes''))"

text \<open>The size of a new share is set with its quota, when one is asked for.\<close>

definition sizeShare :: "('c, 'w) WinRMLib \<Rightarrow> WinRMBackend \<Rightarrow> psOut \<Rightarrow> int \<Rightarrow> (int \<Rightarrow> ('w, 'a) io) \<Rightarrow> ('w, 'a) io" where
  "sizeShare lib b out sizeBytes k =
     (if sizeBytes > 0 then call (wr_ResizeFileShare lib b (o_str out ''vhdxPath'') sizeBytes) id k
      else k (o_int out ''capacityBytes''))"

definition firstNfsShareOptions :: "NfsShareOptions list \<Rightarrow> NfsShareOptions" where
  "firstNfsShareOptions opts =
     (case opts of
        [] \<Rightarrow> \<lparr>nfs_ClientType = [], nfs_Permission = [], nfs_AllowRootAccess = None, nfs_Authentication = [],
              nfs_MountAuthentication = [], nfs_AnonymousUID = None, nfs_AnonymousGID = None, nfs_LanguageEncoding = [],
              nfs_EnableAnonymousAccess = None, nfs_EnableUnmappedAccess = None\<rparr>
      | opt # _ \<Rightarrow> opt)"

definition firstSmbShareOptions :: "SmbShareOptions list \<Rightarrow> SmbShareOptions" where
  "firstSmbShareOptions opts =
     (case opts of
        [] \<Rightarrow> \<lparr>smb_NoAccess = [], smb_Description = [], smb_EncryptData = None, smb_CompressData = None,
              smb_ContinuouslyAvailable = None, smb_CachingMode = [], smb_FolderEnumerationMode = [],
              smb_ConcurrentUserLimit = 0\<rparr>
      | opt # _ \<Rightarrow> opt)"

definition nfsVolumeOf :: "psOut \<Rightarrow> int \<Rightarrow> VolumeInfo" where
  "nfsVolumeOf out capacity =
     zeroVolumeInfo\<lparr>vi_VolumeName := o_str out ''name'', vi_Protocol := ProtocolNFS, vi_NfsServer := o_str out ''nfsServer'',
       vi_NfsExportPath := o_str out ''nfsExportPath'', vi_VHDXPath := o_str out ''vhdxPath'',
       vi_SharePath := o_str out ''vhdxPath'', vi_SizeBytes := o_int out ''sizeBytes'', vi_CapacityBytes := capacity\<rparr>"

definition smbVolumeOf :: "psOut \<Rightarrow> int \<Rightarrow> VolumeInfo" where
  "smbVolumeOf out capacity =
     zeroVolumeInfo\<lparr>vi_VolumeName := o_str out ''name'', vi_Protocol := ProtocolSMB, vi_SmbServer := o_str out ''smbServer'',
       vi_SmbShareName := o_str out ''smbShareName'', vi_VHDXPath := o_str out ''vhdxPath'',
       vi_SharePath := o_str out ''vhdxPath'', vi_SizeBytes := o_int out ''sizeBytes'', vi_CapacityBytes := capacity\<rparr>"

text \<open>What is granted when the options do not say.\<close>

definition nfsPermission :: "NfsShareOptions \<Rightarrow> string" where
  "nfsPermission opt = (let p = TrimSpace (nfs_Permission opt) in if p = [] then ''readwrite'' else p)"

definition nfsClientType :: "NfsShareOptions \<Rightarrow> string" where
  "nfsClientType opt = (let t = TrimSpace (nfs_ClientType opt) in if t = [] then ''host'' else t)"

definition nfsAllowRoot :: "NfsShareOptions \<Rightarrow> bool" where
  "nfsAllowRoot opt = (case nfs_AllowRootAccess opt of None \<Rightarrow> True | Some v \<Rightarrow> v)"

definition smbGrants :: "string list \<Rightarrow> string list \<Rightarrow> string list \<Rightarrow> string list \<times> string list" where
  "smbGrants fullAccess changeAccess readAccess =
     (if fullAccess = [] \<and> changeAccess = [] \<and> readAccess = [] then ([''Administrators''], [''Everyone''])
      else (fullAccess, changeAccess))"

definition wr_CreateNfsShare :: "('c, 'w) WinRMLib \<Rightarrow> WinRMBackend \<Rightarrow> string \<Rightarrow> string \<Rightarrow> int \<Rightarrow> string list \<Rightarrow> NfsShareOptions list \<Rightarrow> ('w, VolumeInfo) io" where
  "wr_CreateNfsShare lib b name parentDir sizeBytes clients opts =
     (let opt = firstNfsShareOptions opts in
      wr_get lib b (ps_CreateNfsShare name parentDir sizeBytes (if clients = [] then [''*''] else clients)
          (nfsPermission opt) (nfsClientType opt) (nfsAllowRoot opt) opt)
        [(''name'', KString), (''protocol'', KString), (''nfsServer'', KString), (''nfsExportPath'', KString),
         (''vhdxPath'', KString), (''sizeBytes'', KInt64), (''capacityBytes'', KInt64)] (\<lambda>out.
        sizeShare lib b out sizeBytes (\<lambda>capacity. return (nfsVolumeOf out capacity))))"

definition wr_GetNfsShare :: "('c, 'w) WinRMLib \<Rightarrow> WinRMBackend \<Rightarrow> string \<Rightarrow> string \<Rightarrow> ('w, bool \<times> VolumeInfo) io" where
  "wr_GetNfsShare lib b name parentDir =
     wr_get lib b (ps_GetNfsShare name parentDir)
       [(''exists'', KBool), (''name'', KString), (''nfsServer'', KString), (''nfsExportPath'', KString),
        (''vhdxPath'', KString), (''sizeBytes'', KInt64), (''capacityBytes'', KInt64)] (\<lambda>out.
       if \<not> o_bool out ''exists'' then return (False, zeroVolumeInfo)
       else return (True, nfsVolumeOf out (o_int out ''capacityBytes'')))"

definition wr_DeleteNfsShare :: "('c, 'w) WinRMLib \<Rightarrow> WinRMBackend \<Rightarrow> string \<Rightarrow> string \<Rightarrow> ('w, unit) io" where
  "wr_DeleteNfsShare lib b name path = wr_do lib b (ps_DeleteNfsShare name path)"

definition wr_CreateSmbShare :: "('c, 'w) WinRMLib \<Rightarrow> WinRMBackend \<Rightarrow> string \<Rightarrow> string \<Rightarrow> int \<Rightarrow> string list \<Rightarrow> string list \<Rightarrow> string list \<Rightarrow> SmbShareOptions list \<Rightarrow> ('w, VolumeInfo) io" where
  "wr_CreateSmbShare lib b name parentDir sizeBytes full change readAccess opts =
     (let (fullAccess, changeAccess) = smbGrants full change readAccess in
      wr_get lib b (ps_CreateSmbShare name parentDir sizeBytes fullAccess changeAccess readAccess (firstSmbShareOptions opts))
        [(''name'', KString), (''smbServer'', KString), (''smbShareName'', KString), (''vhdxPath'', KString),
         (''sizeBytes'', KInt64), (''capacityBytes'', KInt64)] (\<lambda>out.
        sizeShare lib b out sizeBytes (\<lambda>capacity. return (smbVolumeOf out capacity))))"

definition wr_GetSmbShare :: "('c, 'w) WinRMLib \<Rightarrow> WinRMBackend \<Rightarrow> string \<Rightarrow> string \<Rightarrow> ('w, bool \<times> VolumeInfo) io" where
  "wr_GetSmbShare lib b name parentDir =
     wr_get lib b (ps_GetSmbShare name)
       [(''exists'', KBool), (''name'', KString), (''smbServer'', KString), (''smbShareName'', KString),
        (''vhdxPath'', KString), (''sizeBytes'', KInt64), (''capacityBytes'', KInt64)] (\<lambda>out.
       if \<not> o_bool out ''exists'' then return (False, zeroVolumeInfo)
       else return (True, smbVolumeOf out (o_int out ''capacityBytes'')))"

definition wr_DeleteSmbShare :: "('c, 'w) WinRMLib \<Rightarrow> WinRMBackend \<Rightarrow> string \<Rightarrow> string \<Rightarrow> ('w, unit) io" where
  "wr_DeleteSmbShare lib b name path = wr_do lib b (ps_DeleteSmbShare name path)"

definition wr_RestoreSnapshotAsFileShare :: "('c, 'w) WinRMLib \<Rightarrow> WinRMBackend \<Rightarrow> string \<Rightarrow> string \<Rightarrow> ('w, unit) io" where
  "wr_RestoreSnapshotAsFileShare lib b snapshotID destinationPath =
     (case decodeFileShareSnapshotHandle snapshotID of
        Some r \<Rightarrow> check r (\<lambda>handle. wr_do lib b (ps_RestoreShadowCopy handle destinationPath))
      | None \<Rightarrow> wr_do lib b (ps_RestoreSnapshotAsFileShare snapshotID destinationPath))"

subsection \<open>The backend\<close>

definition winRMBackend :: "('c, 'w) WinRMLib \<Rightarrow> WinRMBackend \<Rightarrow> 'w Backend" where
  "winRMBackend lib b =
     \<lparr>b_EnsureTarget = wr_EnsureTarget lib b,
      b_ConfigureTargetChap = wr_ConfigureTargetChap lib b,
      b_CreateVirtualDisk = wr_CreateVirtualDisk lib b,
      b_MapDiskToTarget = wr_MapDiskToTarget lib b,
      b_UnmapDiskFromTarget = wr_UnmapDiskFromTarget lib b,
      b_DeleteVirtualDisk = wr_DeleteVirtualDisk lib b,
      b_LookupTargetNameByIQN = wr_LookupTargetNameByIQN lib b,
      b_DeleteTarget = wr_DeleteTarget lib b,
      b_GetVolumeByName = wr_GetVolumeByName lib b,
      b_AllowInitiator = wr_AllowInitiator lib b,
      b_DenyInitiator = wr_DenyInitiator lib b,
      b_GetDirectoryFreeCapacity = wr_GetDirectoryFreeCapacity lib b,
      b_CreateSnapshot = wr_CreateSnapshot lib b,
      b_DeleteSnapshot = wr_DeleteSnapshot lib b,
      b_ListSnapshots = wr_ListSnapshots lib b,
      b_ExportSnapshotAsVirtualDisk = wr_ExportSnapshotAsVirtualDisk lib b,
      b_ResizeVirtualDisk = wr_ResizeVirtualDisk lib b,
      b_GetVolumeInfo = wr_GetVolumeInfo lib b,
      b_GetTargetInitiators = wr_GetTargetInitiators lib b,
      b_CreateNfsShare = wr_CreateNfsShare lib b,
      b_GetNfsShare = wr_GetNfsShare lib b,
      b_DeleteNfsShare = wr_DeleteNfsShare lib b,
      b_CreateSmbShare = wr_CreateSmbShare lib b,
      b_GetSmbShare = wr_GetSmbShare lib b,
      b_DeleteSmbShare = wr_DeleteSmbShare lib b,
      b_ResizeFileShare = wr_ResizeFileShare lib b,
      b_RestoreSnapshotAsFileShare = wr_RestoreSnapshotAsFileShare lib b,
      b_MountFileShareVirtualDisk = wr_MountFileShareVirtualDisk lib b,
      b_UnmountFileShareVirtualDisk = wr_UnmountFileShareVirtualDisk lib b\<rparr>"


end
