(* ===== verification/ScriptQuoting.thy ===== *)
theory ScriptQuoting
  imports WinRM
begin

text \<open>
  The scripts of the Windows backend are well quoted: PowerShell reads every one of them as the
  program text of the source with each value as one literal.
\<close>

named_theorems quoted \<open>scripts and parts of scripts that are well quoted\<close>

subsection \<open>Parts\<close>

lemma codeOk_simps:
  "codeOk []"
  "codeOk (c # t) \<longleftrightarrow> c \<noteq> sq \<and> c \<noteq> dq \<and> c \<noteq> CHR 0x80 \<and> (t = [] \<longrightarrow> c \<noteq> CHR 0xE2) \<and> codeOk t"
  by (auto simp: codeOk_def)

lemma unquoted_append: "unquoted ps \<Longrightarrow> ps \<noteq> [] \<Longrightarrow> unquoted (ps @ qs)"
  by (cases ps rule: unquoted.cases) auto

lemma quoted_VHDXPS [quoted]: "wellQuoted fileShareVHDXPS" by code_simp

lemma quoted_ShadowCopyPS [quoted]: "wellQuoted fileShareShadowCopyPS" by code_simp

lemma quoted_CopyPS [quoted]: "wellQuoted fileShareCopyPS" by code_simp

lemma quoted_CopyItemPS [quoted]: "wellQuoted fileShareCopyItemPS" by code_simp

lemma unquoted_blocks:
  "unquoted (fileShareVHDXPS @ qs)" "unquoted (fileShareShadowCopyPS @ qs)"
  "unquoted (fileShareCopyPS @ qs)" "unquoted (fileShareCopyItemPS @ qs)" "unquoted (NL # qs)"
  by (simp_all add: fileShareVHDXPS_def fileShareShadowCopyPS_def fileShareCopyPS_def fileShareCopyItemPS_def)

lemma quoted_bool [quoted]: "wellQuoted (psBoolLiteral v)" "unquoted (psBoolLiteral v @ qs)"
  by (simp_all add: psBoolLiteral_def codeOk_def)

text \<open>Lines that start with program text, joined by a separator of program text.\<close>

lemma joined_lines:
  assumes "wellQuoted sep" "unquoted sep" "sep \<noteq> []"
  shows "list_all (\<lambda>x. wellQuoted x \<and> unquoted x \<and> x \<noteq> []) xs \<Longrightarrow>
    wellQuoted (joinPieces sep xs) \<and> unquoted (joinPieces sep xs)"
proof (induction xs)
  case (Cons x xs)
  show ?case
  proof (cases xs)
    case (Cons y ys)
    then have "wellQuoted (joinPieces sep xs)" using Cons.IH Cons.prems by simp
    moreover have "unquoted (joinPieces sep xs)" using Cons.IH Cons.prems by simp
    ultimately show ?thesis using Cons Cons.prems assms
      by (auto intro!: wellQuoted_append unquoted_append)
  qed (use Cons.prems in simp)
qed simp

lemma quoted_values: "wellQuoted (joinPieces [Code '',''] (map (\<lambda>v. [Str v]) vs))"
proof (induction vs)
  case (Cons v vs)
  then show ?case by (cases vs) (auto simp: codeOk_def)
qed simp

lemma quoted_array [quoted]: "wellQuoted (psStringArray vs)" "unquoted (psStringArray vs @ qs)"
  by (simp_all add: psStringArray_def Let_def codeOk_def wellQuoted_append quoted_values)

subsection \<open>Scripts\<close>

lemma quoted_ValidateConnection [quoted]: "wellQuoted ps_ValidateConnection"
  unfolding ps_ValidateConnection_def by code_simp

lemma quoted_EnsureTarget [quoted]: "wellQuoted (ps_EnsureTarget targetName targetIQN)"
  unfolding ps_EnsureTarget_def by code_simp

lemma quoted_ConfigureTargetChap [quoted]: "wellQuoted (ps_ConfigureTargetChap targetName opts)"
  unfolding ps_ConfigureTargetChap_def by code_simp

lemma quoted_CreateVirtualDisk [quoted]: "wellQuoted (ps_CreateVirtualDisk name parentDir sizeBytes)"
  unfolding ps_CreateVirtualDisk_def by code_simp

lemma quoted_MapDiskToTarget [quoted]: "wellQuoted (ps_MapDiskToTarget targetName vhdxPath)"
  unfolding ps_MapDiskToTarget_def by code_simp

lemma quoted_UnmapDiskFromTarget [quoted]: "wellQuoted (ps_UnmapDiskFromTarget targetName vhdxPath)"
  unfolding ps_UnmapDiskFromTarget_def by code_simp

lemma quoted_DeleteVirtualDisk [quoted]: "wellQuoted (ps_DeleteVirtualDisk vhdxPath)"
  unfolding ps_DeleteVirtualDisk_def by code_simp

lemma quoted_LookupTargetNameByIQN [quoted]: "wellQuoted (ps_LookupTargetNameByIQN targetIQN)"
  unfolding ps_LookupTargetNameByIQN_def by code_simp

lemma quoted_DeleteTarget [quoted]: "wellQuoted (ps_DeleteTarget targetName)"
  unfolding ps_DeleteTarget_def by code_simp

lemma quoted_GetVolumeByName [quoted]: "wellQuoted (ps_GetVolumeByName name parentDir)"
  unfolding ps_GetVolumeByName_def by code_simp

lemma quoted_AllowInitiator [quoted]: "wellQuoted (ps_AllowInitiator targetName initiatorIQN)"
  unfolding ps_AllowInitiator_def by code_simp

lemma quoted_DenyInitiator [quoted]: "wellQuoted (ps_DenyInitiator targetName initiatorIQN)"
  unfolding ps_DenyInitiator_def by code_simp

lemma quoted_GetTargetInitiators [quoted]: "wellQuoted (ps_GetTargetInitiators targetName)"
  unfolding ps_GetTargetInitiators_def by code_simp

lemma quoted_GetDirectoryFreeCapacity [quoted]: "wellQuoted (ps_GetDirectoryFreeCapacity parentDir)"
  unfolding ps_GetDirectoryFreeCapacity_def by code_simp

lemma quoted_CreateSnapshot [quoted]: "wellQuoted (ps_CreateSnapshot vhdxPath description)"
  unfolding ps_CreateSnapshot_def by code_simp

lemma quoted_DeleteShadowCopy [quoted]: "wellQuoted (ps_DeleteShadowCopy shadowID)"
  unfolding ps_DeleteShadowCopy_def by (intro wellQuoted_append quoted unquoted_blocks; code_simp)

lemma quoted_DeleteSnapshot [quoted]: "wellQuoted (ps_DeleteSnapshot snapshotID)"
  unfolding ps_DeleteSnapshot_def by (intro wellQuoted_append quoted unquoted_blocks; code_simp)

lemma quoted_ListSnapshots [quoted]: "wellQuoted (ps_ListSnapshots vhdxPath)"
  unfolding ps_ListSnapshots_def by code_simp

lemma quoted_ExportSnapshotAsVirtualDisk [quoted]: "wellQuoted (ps_ExportSnapshotAsVirtualDisk snapshotID)"
  unfolding ps_ExportSnapshotAsVirtualDisk_def by code_simp

lemma quoted_ResizeVirtualDisk [quoted]: "wellQuoted (ps_ResizeVirtualDisk vhdxPath newSizeBytes)"
  unfolding ps_ResizeVirtualDisk_def by code_simp

lemma quoted_GetVolumeInfo [quoted]: "wellQuoted (ps_GetVolumeInfo vhdxPath)"
  unfolding ps_GetVolumeInfo_def by code_simp

lemma quoted_MountFileShareVirtualDisk [quoted]: "wellQuoted (ps_MountFileShareVirtualDisk vhdxPath mountPath)"
  unfolding ps_MountFileShareVirtualDisk_def by (intro wellQuoted_append quoted unquoted_blocks; code_simp)

lemma quoted_UnmountFileShareVirtualDisk [quoted]: "wellQuoted (ps_UnmountFileShareVirtualDisk vhdxPath mountPath)"
  unfolding ps_UnmountFileShareVirtualDisk_def by (intro wellQuoted_append quoted unquoted_blocks; code_simp)

lemma quoted_GetNfsShare [quoted]: "wellQuoted (ps_GetNfsShare name parentDir)"
  unfolding ps_GetNfsShare_def by code_simp

lemma quoted_DeleteNfsShare [quoted]: "wellQuoted (ps_DeleteNfsShare name path)"
  unfolding ps_DeleteNfsShare_def by (intro wellQuoted_append quoted unquoted_blocks; code_simp)

lemma quoted_GetSmbShare [quoted]: "wellQuoted (ps_GetSmbShare name)"
  unfolding ps_GetSmbShare_def by code_simp

lemma quoted_DeleteSmbShare [quoted]: "wellQuoted (ps_DeleteSmbShare name path)"
  unfolding ps_DeleteSmbShare_def by (intro wellQuoted_append quoted unquoted_blocks; code_simp)

lemma quoted_ResizeFileShare [quoted]: "wellQuoted (ps_ResizeFileShare path newSizeBytes)"
  unfolding ps_ResizeFileShare_def by code_simp

lemma quoted_RestoreShadowCopy [quoted]: "wellQuoted (ps_RestoreShadowCopy handle destinationPath)"
  unfolding ps_RestoreShadowCopy_def by (intro wellQuoted_append quoted unquoted_blocks; code_simp)

lemma quoted_RestoreSnapshotAsFileShare [quoted]: "wellQuoted (ps_RestoreSnapshotAsFileShare snapshotID destinationPath)"
  unfolding ps_RestoreSnapshotAsFileShare_def by (intro wellQuoted_append quoted unquoted_blocks; code_simp)

text \<open>The optional parameters of a share: no line, or lines that start with program text.\<close>

lemma quoted_lines:
  assumes "list_all (\<lambda>x. wellQuoted x \<and> unquoted x \<and> x \<noteq> []) xs"
  shows "wellQuoted (joinPieces [NL, Code ''  ''] xs)" "unquoted (joinPieces [NL, Code ''  ''] xs @ NL # qs)"
proof -
  have "wellQuoted (joinPieces [NL, Code ''  ''] xs) \<and> unquoted (joinPieces [NL, Code ''  ''] xs)"
    using assms by (intro joined_lines) (auto simp: codeOk_def)
  then show "wellQuoted (joinPieces [NL, Code ''  ''] xs)" "unquoted (joinPieces [NL, Code ''  ''] xs @ NL # qs)"
    using unquoted_append [of "joinPieces [NL, Code ''  ''] xs"] by (cases "joinPieces [NL, Code ''  ''] xs = []"; simp)+
qed

lemma lines_whenSet:
  "(\<And>x. wellQuoted (f x) \<and> unquoted (f x) \<and> f x \<noteq> []) \<Longrightarrow> list_all (\<lambda>x. wellQuoted x \<and> unquoted x \<and> x \<noteq> []) (whenSet o' f)"
  by (auto simp: whenSet_def split: option.splits)

lemma quoted_nfsShareParams [quoted]:
  "wellQuoted (nfsShareParamsScript opt)" "unquoted (nfsShareParamsScript opt @ NL # qs)"
  unfolding nfsShareParamsScript_def list_all_append
  by (rule quoted_lines, simp only: list_all_append, intro conjI lines_whenSet,
      simp_all add: codeOk_def psBoolLiteral_def wellQuoted_append quoted)+

lemma quoted_smbShareParams [quoted]:
  "wellQuoted (smbShareParamsScript opt)" "unquoted (smbShareParamsScript opt @ NL # qs)"
  unfolding smbShareParamsScript_def list_all_append
  by (rule quoted_lines, simp only: list_all_append, intro conjI lines_whenSet,
      simp_all add: codeOk_def psBoolLiteral_def wellQuoted_append quoted)+

lemma quoted_CreateNfsShare [quoted]:
  "wellQuoted (ps_CreateNfsShare name parentDir sizeBytes clients permission clientType allowRootAccess opt)"
  unfolding ps_CreateNfsShare_def
  by (simp add: wellQuoted_append quoted codeOk_simps)

lemma quoted_CreateSmbShare [quoted]:
  "wellQuoted (ps_CreateSmbShare name parentDir sizeBytes fullAccess changeAccess readAccess opt)"
  unfolding ps_CreateSmbShare_def
  by (simp add: wellQuoted_append quoted codeOk_simps)

subsection \<open>What the backend may send\<close>

inductive backendScript :: "psPiece list \<Rightarrow> bool" where
  ValidateConnection: "backendScript ps_ValidateConnection"
| EnsureTarget: "backendScript (ps_EnsureTarget targetName targetIQN)"
| ConfigureTargetChap: "backendScript (ps_ConfigureTargetChap targetName opts)"
| CreateVirtualDisk: "backendScript (ps_CreateVirtualDisk name parentDir sizeBytes)"
| MapDiskToTarget: "backendScript (ps_MapDiskToTarget targetName vhdxPath)"
| UnmapDiskFromTarget: "backendScript (ps_UnmapDiskFromTarget targetName vhdxPath)"
| DeleteVirtualDisk: "backendScript (ps_DeleteVirtualDisk vhdxPath)"
| LookupTargetNameByIQN: "backendScript (ps_LookupTargetNameByIQN targetIQN)"
| DeleteTarget: "backendScript (ps_DeleteTarget targetName)"
| GetVolumeByName: "backendScript (ps_GetVolumeByName name parentDir)"
| AllowInitiator: "backendScript (ps_AllowInitiator targetName initiatorIQN)"
| DenyInitiator: "backendScript (ps_DenyInitiator targetName initiatorIQN)"
| GetTargetInitiators: "backendScript (ps_GetTargetInitiators targetName)"
| GetDirectoryFreeCapacity: "backendScript (ps_GetDirectoryFreeCapacity parentDir)"
| CreateSnapshot: "backendScript (ps_CreateSnapshot vhdxPath description)"
| DeleteShadowCopy: "backendScript (ps_DeleteShadowCopy shadowID)"
| DeleteSnapshot: "backendScript (ps_DeleteSnapshot snapshotID)"
| ListSnapshots: "backendScript (ps_ListSnapshots vhdxPath)"
| ExportSnapshotAsVirtualDisk: "backendScript (ps_ExportSnapshotAsVirtualDisk snapshotID)"
| ResizeVirtualDisk: "backendScript (ps_ResizeVirtualDisk vhdxPath newSizeBytes)"
| GetVolumeInfo: "backendScript (ps_GetVolumeInfo vhdxPath)"
| MountFileShareVirtualDisk: "backendScript (ps_MountFileShareVirtualDisk vhdxPath mountPath)"
| UnmountFileShareVirtualDisk: "backendScript (ps_UnmountFileShareVirtualDisk vhdxPath mountPath)"
| CreateNfsShare: "backendScript (ps_CreateNfsShare name parentDir sizeBytes clients permission clientType allowRootAccess opt)"
| GetNfsShare: "backendScript (ps_GetNfsShare name parentDir)"
| DeleteNfsShare: "backendScript (ps_DeleteNfsShare name path)"
| CreateSmbShare: "backendScript (ps_CreateSmbShare name parentDir sizeBytes fullAccess changeAccess readAccess opt)"
| GetSmbShare: "backendScript (ps_GetSmbShare name)"
| DeleteSmbShare: "backendScript (ps_DeleteSmbShare name path)"
| ResizeFileShare: "backendScript (ps_ResizeFileShare path newSizeBytes)"
| RestoreShadowCopy: "backendScript (ps_RestoreShadowCopy handle destinationPath)"
| RestoreSnapshotAsFileShare: "backendScript (ps_RestoreSnapshotAsFileShare snapshotID destinationPath)"

lemma backendScript_quoted: "backendScript s \<Longrightarrow> wellQuoted s"
  by (induction rule: backendScript.induct) (rule quoted)+

lemma quoted_frame: "codeOk import \<Longrightarrow> wellQuoted s \<Longrightarrow> wellQuoted (ps_frame import s)"
  unfolding ps_frame_def by (simp add: wellQuoted_append codeOk_simps)

text \<open>
  Whatever a value is, PowerShell reads the script as the program text of the source and the
  value as one literal, if no value contains a quote of \<open>extra\<close>, which the escaping does not
  double.
\<close>

lemma frame_values: "scriptValues (ps_frame import s) =
    scriptValues (ps_frame [] []) @ scriptValues s"
  by (simp add: scriptValues_def ps_frame_def)

lemma clean_frame: "set extra \<subseteq> set typographicQuotes \<Longrightarrow> list_all (cleanFor extra) (scriptValues (ps_frame [] []))"
proof -
  assume "set extra \<subseteq> set typographicQuotes"
  moreover have "list_all (\<lambda>v. CHR 0xE2 \<notin> set v) (scriptValues (ps_frame [] []))" by code_simp
  ultimately show ?thesis
    by (fastforce simp: cleanFor_def list_all_iff Contains_iff typographicQuotes_def)
qed

lemma script_read:
  assumes "backendScript s" "codeOk import" "set extra \<subseteq> set typographicQuotes" "list_all (cleanFor extra) (scriptValues s)"
  shows "psTokens extra (renderPS (ps_frame import s)) = Some (scriptToks (ps_frame import s))"
  using assms psTokens_render [OF assms(3) quoted_frame [OF assms(2) backendScript_quoted [OF assms(1)]]] clean_frame [OF assms(3)]
  by (simp add: frame_values [of import s])

subsection \<open>Quotes that are not escaped\<close>

lemma unquoted_start:
  assumes "set extra \<subseteq> set typographicQuotes" "unquoted (ps @ qs)" "wellQuoted (ps @ qs)" "ps \<noteq> []"
  shows "quoteAt extra (renderPS ps @ r) = None" "\<not> HasPrefix (renderPS ps @ r) [dq]"
proof -
  obtain p ps' where ps: "ps = p # ps'" using assms(4) by (cases ps) auto
  then have "codeOk (pieceText p) \<and> pieceText p \<noteq> []" using assms(2,3) codeOk_Itoa by (cases p) auto
  then obtain c t where p: "pieceText p = c # t" "codeOk (c # t)" by (cases "pieceText p") auto
  then show "quoteAt extra (renderPS ps @ r) = None" "\<not> HasPrefix (renderPS ps @ r) [dq]"
    using quoteAt_code [OF assms(1) p(2)] ps by (auto simp: renderPS_def codeOk_def)
qed

text \<open>The tokens of a script up to one of its values.\<close>

lemma psTokens_upto:
  assumes "set extra \<subseteq> set typographicQuotes"
  shows "wellQuoted (ps @ Str x # qs) \<Longrightarrow> list_all (cleanFor extra) (scriptValues ps) \<Longrightarrow>
    psTokens extra (renderPS ps @ sq # r) = map_option (append (scriptToks ps)) (psTokens extra (sq # r))"
proof (induction ps)
  case Nil
  then show ?case by (simp add: renderPS_def scriptToks_def option.map_ident)
next
  case (Cons p ps)
  have wq: "wellQuoted (ps @ Str x # qs)" using Cons.prems(1) by (cases p) auto
  have IH: "psTokens extra (renderPS ps @ sq # r) = map_option (append (scriptToks ps)) (psTokens extra (sq # r))"
    using Cons.IH [OF wq] Cons.prems(2) by (simp add: scriptValues_def)
  have r: "renderPS (p # ps) = pieceText p @ renderPS ps" and s: "scriptToks (p # ps) = pieceToks p @ scriptToks ps"
    by (simp_all add: renderPS_def scriptToks_def)
  have start: "unquoted (ps @ Str x # qs) \<Longrightarrow> quoteAt extra (renderPS ps @ sq # r) = None"
    "unquoted (ps @ Str x # qs) \<Longrightarrow> \<not> HasPrefix (renderPS ps @ sq # r) [dq]"
    using unquoted_start [OF assms _ wq] by (cases "ps = []"; simp)+
  show ?case
  proof (cases p)
    case (Code t)
    then show ?thesis unfolding r s using Cons.prems(1) IH
      by (cases "psTokens extra (sq # r)") (simp_all add: psTokens_code [OF assms])
  next
    case (Num i)
    then show ?thesis unfolding r s using IH
      by (cases "psTokens extra (sq # r)") (simp_all add: psTokens_code [OF assms] codeOk_Itoa)
  next
    case (Str y)
    then have "psSingle extra (escapePS y @ sq # renderPS ps @ sq # r) = Some (y, renderPS ps @ sq # r)"
      using psSingle_escape [OF assms start(1)] Cons.prems by (simp add: scriptValues_def)
    then show ?thesis unfolding r s using IH Str
      by (subst psTokens.simps) (cases "psTokens extra (sq # r)"; simp)
  next
    case (Msg t)
    then have "psDouble (t @ dq # renderPS ps @ sq # r) = Some (t, renderPS ps @ sq # r)"
      using psDouble_text [OF _ start(2)] Cons.prems by simp
    moreover have "quoteAt extra (dq # u) = None" for u
      using assms by (auto simp: quoteAt_None typographicQuotes_def)
    ultimately show ?thesis unfolding r s using IH Msg
      by (subst psTokens.simps) (cases "psTokens extra (sq # r)"; simp)
  qed
qed

lemma quoteAt_typographic: "q \<in> set typographicQuotes \<Longrightarrow> quoteAt typographicQuotes (q @ s) = Some q"
  by (auto simp: typographicQuotes_def quoteAt_def first_match_def)

lemma escapePS_id: "sq \<notin> set x \<Longrightarrow> escapePS x = x"
  by (induction x) auto

text \<open>A literal with program text between typographic quotes ends before the program text.\<close>

lemma literal_breaks:
  assumes "q \<in> set typographicQuotes" "codeOk t" "t \<noteq> []" "quoteAt typographicQuotes r = None"
  shows "psTokens typographicQuotes (pieceText (Str (q @ t @ q)) @ r) =
    map_option (append ([SLit []] @ map Ch t @ [SLit []])) (psTokens typographicQuotes r)"
proof -
  let ?X = typographicQuotes
  have esc: "escapePS (q @ t @ q) = q @ t @ q"
    using assms(1,2) typographic_no_sq by (intro escapePS_id) (auto simp: codeOk_def list_all_iff)
  obtain c t' where t: "t = c # t'" using assms(3) by (cases t) auto
  have "quoteAt ?X (t @ u) = None" for u using quoteAt_code [of ?X c t' u] assms(2) t by simp
  then have one: "psSingle ?X (q @ t @ u) = Some ([], t @ u)" for u
    using quoteAt_typographic [OF assms(1)] by (subst psSingle.simps) simp
  have "psSingle ?X (sq # r) = Some ([], r)" using assms(4) by (subst psSingle.simps) simp
  then have two: "psTokens ?X (q @ sq # r) = map_option (Cons (SLit [])) (psTokens ?X r)"
    using quoteAt_typographic [OF assms(1)] by (subst psTokens.simps) simp
  have "psTokens ?X (sq # q @ t @ q @ sq # r) = map_option (Cons (SLit [])) (psTokens ?X (t @ q @ sq # r))"
    using one by (subst psTokens.simps) simp
  then show ?thesis
    using esc two by (cases "psTokens ?X r") (simp_all add: psTokens_code [OF order_refl assms(2)])
qed


lemma wellQuoted_suffix: "wellQuoted (A @ B) \<Longrightarrow> wellQuoted B"
proof (induction A)
  case (Cons p A)
  then show ?case by (cases p) auto
qed simp

lemma frame_split: "\<exists>F G. \<forall>s. ps_frame import s = F @ s @ G"
  by (intro exI allI) (simp only: ps_frame_def append_assoc [symmetric])

end
