(* ===== verification/WinRMProofs.thy ===== *)
theory WinRMProofs
  imports ScriptQuoting ControllerRefinement
begin

text \<open>
  Correctness of the Windows backend: which texts it sends and how PowerShell reads them, when
  a run succeeds, and what the methods make of the answers.
\<close>

subsection \<open>The texts that are sent\<close>

text \<open>A WinRM package that also records the standard input of every run.\<close>

definition recorded :: "('c, 'w) WinRMLib \<Rightarrow> ('c, 'w \<times> string list) WinRMLib" where
  "recorded lib =
     \<lparr>wl_NewClient = wl_NewClient lib,
      wl_Run = (\<lambda>c t cmd inp wl. let (a, w') = wl_Run lib c t cmd inp (fst wl) in (a, (w', snd wl @ [inp])))\<rparr>"

definition sentScripts :: "WinRMBackend \<Rightarrow> 'w \<times> string list \<Rightarrow> bool" where
  "sentScripts b wl \<longleftrightarrow> (\<forall>t \<in> set (snd wl). \<exists>s. backendScript s \<and> t = psText b s)"

lemma keeps_runPS [keeps_intro]: "backendScript s \<Longrightarrow> keeps (sentScripts b) (runPS t (recorded lib) b s dec)"
  unfolding runPS_def
  by (intro keeps_intro) (auto simp: keeps_def sentScripts_def recorded_def split: prod.splits)

lemma keeps_wr_do [keeps_intro]: "backendScript s \<Longrightarrow> keeps (sentScripts b) (wr_do (recorded lib) b s)"
  unfolding wr_do_def by (rule keeps_runPS)

lemma keeps_wr_get [keeps_intro]:
  "backendScript s \<Longrightarrow> (\<And>out. keeps (sentScripts b) (k out)) \<Longrightarrow> keeps (sentScripts b) (wr_get (recorded lib) b s spec k)"
  unfolding wr_get_def by (intro keeps_intro)

lemmas wr_defs =
  wr_EnsureTarget_def wr_ConfigureTargetChap_def wr_CreateVirtualDisk_def wr_MapDiskToTarget_def
  wr_UnmapDiskFromTarget_def wr_DeleteVirtualDisk_def wr_LookupTargetNameByIQN_def wr_DeleteTarget_def
  wr_GetVolumeByName_def wr_AllowInitiator_def wr_DenyInitiator_def wr_GetTargetInitiators_def
  wr_GetDirectoryFreeCapacity_def wr_CreateSnapshot_def wr_DeleteSnapshot_def wr_ListSnapshots_def
  wr_ExportSnapshotAsVirtualDisk_def wr_ResizeVirtualDisk_def wr_GetVolumeInfo_def
  wr_MountFileShareVirtualDisk_def wr_UnmountFileShareVirtualDisk_def wr_ResizeFileShare_def sizeShare_def
  wr_CreateNfsShare_def wr_GetNfsShare_def wr_DeleteNfsShare_def wr_CreateSmbShare_def wr_GetSmbShare_def
  wr_DeleteSmbShare_def wr_RestoreSnapshotAsFileShare_def

interpretation sends: backend_invariant "sentScripts b" "winRMBackend (recorded lib) b" for b lib
  by (unfold_locales; simp only: winRMBackend_def Backend.simps wr_defs Let_def; intro keeps_intro backendScript.intros)


text \<open>
  C12: whatever requests the controller serves, every text it sends to the host is one of the
  backend's scripts, and PowerShell reads it as the program text of the source with every
  value as one literal: whatever the values contain, if apostrophes are the only quotes
  (\<open>extra = []\<close>), and otherwise if no value contains one of the other quotes.
\<close>

theorem scripts_keep_values:
  assumes "(rpcStep d (winRMBackend (recorded lib) b))\<^sup>*\<^sup>* (w, []) (w', sent)" "text \<in> set sent"
    and "codeOk (moduleImport b)"
  shows "\<exists>s. backendScript s \<and> text = psText b s \<and>
    psTokens [] text = Some (scriptToks (ps_frame (moduleImport b) s)) \<and>
    (\<forall>extra. set extra \<subseteq> set typographicQuotes \<longrightarrow> list_all (cleanFor extra) (scriptValues s) \<longrightarrow>
       psTokens extra text = Some (scriptToks (ps_frame (moduleImport b) s)))"
proof -
  have "sentScripts b (w', sent)"
    using sends.rpcs_keep [OF assms(1)] by (simp add: sentScripts_def)
  then obtain s where s: "backendScript s" "text = psText b s" using assms(2) by (auto simp: sentScripts_def)
  have read: "psTokens extra text = Some (scriptToks (ps_frame (moduleImport b) s))"
    if "set extra \<subseteq> set typographicQuotes" "list_all (cleanFor extra) (scriptValues s)" for extra
    unfolding s(2) psText_def using script_read [OF s(1) assms(3) that] .
  have "psTokens [] text = Some (scriptToks (ps_frame (moduleImport b) s))"
    by (rule read) (simp_all add: cleanFor_def list_all_iff)
  then show ?thesis using s read by blast
qed

text \<open>A host that answers every script with the same object.\<close>

definition demoLib :: "(unit, unit) WinRMLib" where
  "demoLib = \<lparr>wl_NewClient = (\<lambda>_ _ _ _. Inr ()), wl_Run = (\<lambda>_ _ _ _ w. (Answered ''{}'' [] 0 None, w))\<rparr>"

definition demoWinRM :: WinRMBackend where
  "demoWinRM = NewWinRMBackend ''storage'' 5985 False True ''user'' ''pass'' 0"

definition demoDir :: string where
  "demoDir = ''C:'' @ [bsl] @ ''O'' @ [sq] @ ''Brien''"

abbreviation demoText :: string where
  "demoText \<equiv> psText demoWinRM (ps_GetDirectoryFreeCapacity demoDir)"

lemma zeroOut_simps [simp]:
  "o_str zeroOut f = []" "o_bool zeroOut f = False" "o_int zeroOut f = 0" "o_ptr zeroOut f = None" "o_strs zeroOut f = []"
  by (simp_all add: zeroOut_def)

lemma demo_run:
  "runPS t (recorded demoLib) demoWinRM s dec ((), l) = (runOutcome dec (Answered ''{}'' [] 0 None), ((), l @ [psText demoWinRM s]))"
proof -
  have "clientParameters demoWinRM = Inr DefaultTransport" by code_simp
  then show ?thesis by (simp add: runPS_def call_def recorded_def demoLib_def)
qed

lemma demo_outcome: "runOutcome (decNew spec) (Answered ''{}'' [] 0 None) = Inr zeroOut"
proof -
  have "parseJSON ''{}'' = Some (JObj [])" "TrimSpace ''{}'' \<noteq> []" by code_simp+
  then show ?thesis by (simp add: unmarshal_def decOut_def decStruct_def)
qed

lemma demo_served:
  "rpcStep (NewDriver ''node'' ''unix://csi.sock'') (winRMBackend (recorded demoLib) demoWinRM) ((), []) ((), [demoText])"
proof (rule rpcStep.GetCapacity)
  let ?params = "[''vhdxParentPath'' \<mapsto> demoDir]"
  have "protocolFromParams (Some (NewDriver ''node'' ''unix://csi.sock'' :: 'a driver)) ?params = Inr ProtocolISCSI" by code_simp
  moreover have "orEmpty (getStringParam ?params ''shareParentPath'') = []" by code_simp
  moreover have "orEmpty (getStringParam ?params ''vhdxParentPath'') = demoDir" by code_simp
  moreover have "validateWindowsPathParam ''shareParentPath'' [] False = Inr ()" by code_simp
  moreover have "validateWindowsPathParam ''vhdxParentPath'' demoDir False = Inr ()" by code_simp
  ultimately show "GetCapacity (NewDriver ''node'' ''unix://csi.sock'' :: 'a driver) (winRMBackend (recorded demoLib) demoWinRM) ?params ((), []) = (Inr 0, ((), [demoText]))"
    by (simp add: GetCapacity_def winRMBackend_def wr_GetDirectoryFreeCapacity_def wr_get_def call_def
        demo_run demo_outcome del: runOutcome.simps)
qed

text \<open>
  C12 at a request for the free capacity of a directory whose name contains an apostrophe.
\<close>

theorem scripts_keep_values_witness:
  "\<exists>s. backendScript s \<and> demoText = psText demoWinRM s \<and>
     psTokens [] demoText = Some (scriptToks (ps_frame (moduleImport demoWinRM) s))"
proof -
  have "codeOk (moduleImport demoWinRM)" by code_simp
  then show ?thesis
    using scripts_keep_values [OF r_into_rtranclp [where r = "rpcStep _ _", OF demo_served], of demoText] by auto
qed

text \<open>
  C13: program text between typographic quotes, sent as a target's name, is read as program
  text.
\<close>

theorem typographic_quote_breaks_out:
  assumes "q \<in> set typographicQuotes" "codeOk t" "t \<noteq> []" "codeOk (moduleImport b)"
  shows "\<exists>A B. (\<forall>name. ps_frame (moduleImport b) (ps_DeleteTarget name) = A @ [Str name] @ B) \<and>
    psTokens typographicQuotes (psText b (ps_DeleteTarget (q @ t @ q))) =
      Some (scriptToks A @ [SLit []] @ map Ch t @ [SLit []] @ scriptToks B)"
proof -
  let ?X = typographicQuotes and ?f = "\<lambda>name. ps_frame (moduleImport b) (ps_DeleteTarget name)"
  obtain F G where FG: "\<And>s. ps_frame (moduleImport b) s = F @ s @ G" using frame_split [of "moduleImport b"] by auto
  define A B where "A = F @ [NL, Code ''$targetName = '']" and "B = drop 3 (ps_DeleteTarget []) @ G"
  have f: "?f name = A @ Str name # B" for name
    unfolding FG A_def B_def by (simp add: ps_DeleteTarget_def numeral_3_eq_3)
  have wq: "wellQuoted (A @ Str x # B)" for x
    using quoted_frame [OF assms(4) quoted_DeleteTarget, of x] unfolding f .
  have "list_all (cleanFor ?X) (scriptValues (?f []))"
    using clean_frame [of ?X] by (simp add: frame_values [of _ "ps_DeleteTarget []"]) (code_simp)
  then have clean: "list_all (cleanFor ?X) (scriptValues A)" "list_all (cleanFor ?X) (scriptValues B)"
    unfolding f by (simp_all add: scriptValues_def)
  have B: "wellQuoted B" "unquoted B" using wellQuoted_suffix [OF wq [of "[]"]] by simp_all
  have start: "psTokens ?X (renderPS A @ sq # r) = map_option (append (scriptToks A)) (psTokens ?X (sq # r))" for r
    using psTokens_upto [OF order_refl wq clean(1)] .
  have "psTokens ?X (psText b (ps_DeleteTarget (q @ t @ q))) =
      map_option (append (scriptToks A)) (psTokens ?X (pieceText (Str (q @ t @ q)) @ renderPS B))"
    unfolding psText_def f using start by (simp add: renderPS_def)
  also have "\<dots> = Some (scriptToks A @ [SLit []] @ map Ch t @ [SLit []] @ scriptToks B)"
    using literal_breaks [OF assms(1-3) unquoted_render(1) [OF order_refl B(2,1)]] psTokens_render [OF order_refl B(1) clean(2)]
    by simp
  finally show ?thesis using f by auto
qed

text \<open>
  C13 at a name that stops the host.
\<close>

theorem typographic_quote_breaks_out_witness:
  "\<exists>A B. (\<forall>name. ps_frame (moduleImport demoWinRM) (ps_DeleteTarget name) = A @ [Str name] @ B) \<and>
    psTokens typographicQuotes (psText demoWinRM (ps_DeleteTarget
        ([CHR 0xE2, CHR 0x80, CHR 0x99] @ ''; Stop-Computer; '' @ [CHR 0xE2, CHR 0x80, CHR 0x99]))) =
      Some (scriptToks A @ [SLit []] @ map Ch ''; Stop-Computer; '' @ [SLit []] @ scriptToks B)"
proof (rule typographic_quote_breaks_out)
  show "codeOk (moduleImport demoWinRM)" "codeOk ''; Stop-Computer; ''" by code_simp+
qed (simp_all add: typographicQuotes_def)

subsection \<open>When a run succeeds\<close>

lemma runPS_ok_iff:
  "runPS t lib b s dec w = (Inr x, w') \<longleftrightarrow>
     (\<exists>params client out err.
        clientParameters b = Inr params \<and> wl_NewClient lib (wb_Endpoint b) (wb_User b) (wb_Pass b) params = Inr client \<and>
        wl_Run lib client t ''Invoke-Expression ([Console]::In.ReadToEnd())'' (psText b s) w = (Answered out err 0 None, w') \<and>
        TrimSpace out \<noteq> [] \<and> unmarshal dec out = Inr x)"
proof -
  have outcome: "runOutcome dec a = Inr x \<longleftrightarrow>
      (\<exists>out err. a = Answered out err 0 None \<and> TrimSpace out \<noteq> [] \<and> unmarshal dec out = Inr x)" for a
    by (cases "(dec, a)" rule: runOutcome.cases) (auto split: sum.splits)
  show ?thesis
    unfolding runPS_def check_ok_iff call_ok_iff by (auto simp: outcome Let_def split_def prod_eq_iff)
qed

text \<open>
  C14: a script succeeds exactly if the authentication mode is supported, the client can be made
  and the run ends before the context does, without an error, with exit code zero and with a
  JSON document the caller can decode.
\<close>

theorem run_succeeds_iff:
  "runPS t lib b s dec w = (Inr x, w') \<longleftrightarrow>
     (\<exists>params client out err.
        clientParameters b = Inr params \<and> wl_NewClient lib (wb_Endpoint b) (wb_User b) (wb_Pass b) params = Inr client \<and>
        wl_Run lib client t ''Invoke-Expression ([Console]::In.ReadToEnd())'' (psText b s) w = (Answered out err 0 None, w') \<and>
        TrimSpace out \<noteq> [] \<and> unmarshal dec out = Inr x)"
  by (rule runPS_ok_iff)

subsection \<open>Reading what a script prints\<close>

text \<open>
  The JSON value of a field, and that two structs agree on a field.  A hashtable is printed in
  no particular order.
\<close>

fun fieldJson :: "goKind \<Rightarrow> psOut \<Rightarrow> string \<Rightarrow> json" where
  "fieldJson KString out f = JStr (o_str out f)"
| "fieldJson KBool out f = JBool (o_bool out f)"
| "fieldJson KInt32Ptr out f = (case o_ptr out f of None \<Rightarrow> JNull | Some i \<Rightarrow> JNum (Itoa i))"
| "fieldJson KStrings out f = JArr (map JStr (o_strs out f))"
| "fieldJson _ out f = JNum (Itoa (o_int out f))"

fun sameField :: "goKind \<Rightarrow> string \<Rightarrow> psOut \<Rightarrow> psOut \<Rightarrow> bool" where
  "sameField KString f a b = (o_str a f = o_str b f)"
| "sameField KBool f a b = (o_bool a f = o_bool b f)"
| "sameField KInt32Ptr f a b = (o_ptr a f = o_ptr b f)"
| "sameField KStrings f a b = (o_strs a f = o_strs b f)"
| "sameField _ f a b = (o_int a f = o_int b f)"

fun fits :: "goKind \<Rightarrow> psOut \<Rightarrow> string \<Rightarrow> bool" where
  "fits KInt64 out f = int64_range (o_int out f)"
| "fits KInt32 out f = int32_range (o_int out f)"
| "fits KInt32Ptr out f = (case o_ptr out f of None \<Rightarrow> True | Some i \<Rightarrow> int32_range i)"
| "fits KTime out f = False"
| "fits KString out f = utf8Valid (o_str out f)"
| "fits KStrings out f = list_all utf8Valid (o_strs out f)"
| "fits KBool out f = True"

lemma decStrs_map: "decStrs (map JStr ss) old = Some ss"
  by (induction ss arbitrary: old) auto

lemma decKind_frame: "decKind k f v a = Some b \<Longrightarrow> g \<noteq> f \<Longrightarrow> sameField k' g a b"
  by (cases k; cases k') auto

lemma decKind_json: "fits k out f \<Longrightarrow> \<exists>b. decKind k f (fieldJson k out f) a = Some b \<and> sameField k f out b"
  by (cases k) (auto simp: decInt64_def decInt32Ptr_def decStrSlice_def decStrs_map int32_int64 split: option.splits)

lemma sameField_trans: "sameField k f a b \<Longrightarrow> sameField k f b c \<Longrightarrow> sameField k f a c"
  by (cases k) auto

lemma sameField_refl [simp]: "sameField k f a a"
  by (cases k) auto

lemma decMembers_json:
  assumes "\<forall>kv \<in> set kvs. \<exists>k. map_of spec (fst kv) = Some k \<and> snd kv = fieldJson k out (fst kv) \<and> fits k out (fst kv)" "distinct (map fst kvs)"
  shows "\<exists>b. decMembers (map fst spec) (\<lambda>f. decKind (the (map_of spec f)) f) kvs a = Some b \<and>
    (\<forall>f k. map_of spec f = Some k \<longrightarrow> sameField k f (if f \<in> fst ` set kvs then out else a) b)"
  using assms
proof (induction kvs arbitrary: a)
  case (Cons gv kvs)
  obtain g v where gv: "gv = (g, v)" by (cases gv)
  then obtain k where k: "map_of spec g = Some k" "v = fieldJson k out g" "fits k out g" using Cons.prems(1) by auto
  then obtain b where b: "decKind k g v a = Some b" "sameField k g out b" using decKind_json by blast
  obtain c where c: "decMembers (map fst spec) (\<lambda>f. decKind (the (map_of spec f)) f) kvs b = Some c"
    "\<And>f k. map_of spec f = Some k \<Longrightarrow> sameField k f (if f \<in> fst ` set kvs then out else b) c"
    using Cons.IH [of b] Cons.prems by auto
  have "fieldOf (map fst spec) g = Some g"
    using k(1) by (force simp: fieldOf_def dest: map_of_SomeD)
  then have "decMembers (map fst spec) (\<lambda>f. decKind (the (map_of spec f)) f) (gv # kvs) a = Some c"
    using b(1) c(1) k(1) gv by simp
  moreover have "sameField k' f (if f \<in> fst ` set (gv # kvs) then out else a) c" if "map_of spec f = Some k'" for f k'
  proof (cases "f = g")
    case True
    then show ?thesis using c(2) [OF that] that k b(2) Cons.prems(2) gv by (auto intro: sameField_trans)
  next
    case False
    then have "f \<in> fst ` set (gv # kvs) \<longleftrightarrow> f \<in> fst ` set kvs" using gv by simp
    then show ?thesis using c(2) [OF that] sameField_trans [OF decKind_frame [OF b(1) False], of k' c] by presburger
  qed
  ultimately show ?case by blast
qed simp

text \<open>The text of a struct, in any order of its members, is decoded to the struct.\<close>

definition printed :: "goStruct \<Rightarrow> psOut \<Rightarrow> (string \<times> json) list \<Rightarrow> bool" where
  "printed spec out kvs \<longleftrightarrow> distinct (map fst kvs) \<and> fst ` set kvs = fst ` set spec \<and>
     (\<forall>kv \<in> set kvs. \<exists>k. map_of spec (fst kv) = Some k \<and> snd kv = fieldJson k out (fst kv) \<and> fits k out (fst kv))"

lemma plain_fieldJson: "fits k out f \<Longrightarrow> plain 9999 (fieldJson k out f)"
  by (cases k) (auto simp: list_all_iff split: option.splits)

lemma unmarshal_printed:
  assumes "printed spec out kvs" "\<forall>f \<in> fst ` set spec. utf8Valid f"
  shows "\<exists>b. unmarshal (\<lambda>v. decOut spec v a) (jsonText (JObj kvs)) = Inr b \<and> (\<forall>f k. map_of spec f = Some k \<longrightarrow> sameField k f out b)"
proof -
  have "utf8Valid (fst kv) \<and> plain (10000 - 1) (snd kv)" if "kv \<in> set kvs" for kv
  proof -
    have "\<exists>k. map_of spec (fst kv) = Some k \<and> snd kv = fieldJson k out (fst kv) \<and> fits k out (fst kv)"
      using assms(1) that by (simp add: printed_def)
    then obtain k where "snd kv = fieldJson k out (fst kv)" "fits k out (fst kv)" by (elim exE conjE)
    then have "plain 9999 (snd kv)" using plain_fieldJson by simp
    moreover have "fst kv \<in> fst ` set spec" using assms(1) imageI [OF that, of fst] by (simp add: printed_def)
    ultimately show ?thesis using bspec [OF assms(2)] by simp
  qed
  then have "plain 10000 (JObj kvs)" by simp
  then have p: "parseJSON (jsonText (JObj kvs)) = Some (JObj kvs)" using parseJSON_text [of kvs "[]"] by (simp add: skipWS_def)
  obtain b where b: "decMembers (map fst spec) (\<lambda>f. decKind (the (map_of spec f)) f) kvs a = Some b"
    "\<And>f k. map_of spec f = Some k \<Longrightarrow> sameField k f (if f \<in> fst ` set kvs then out else a) b"
    using decMembers_json [of kvs spec out a] assms(1) unfolding printed_def by auto
  have "sameField k f out b" if "map_of spec f = Some k" for f k
  proof -
    have "f \<in> fst ` set spec" using imageI [OF map_of_SomeD [OF that], of fst] by simp
    then have "f \<in> fst ` set kvs" using assms(1) by (simp add: printed_def)
    then show ?thesis using b(2) [OF that] by simp
  qed
  then show ?thesis using p b(1) by (simp add: unmarshal_def decOut_def decStruct_def)
qed


text \<open>
  C15: if the host prints an existing volume, in any order of the members, the backend returns
  exactly that volume.
\<close>

theorem printed_volume_is_read:
  assumes "clientParameters b = Inr params" "wl_NewClient lib (wb_Endpoint b) (wb_User b) (wb_Pass b) params = Inr client"
    and "wl_Run lib client None ''Invoke-Expression ([Console]::In.ReadToEnd())'' (psText b (ps_GetVolumeByName name dir)) w =
      (Answered (jsonText (JObj kvs)) err 0 None, w')"
    and "distinct (map fst kvs)"
      "set kvs = {(''exists'', JBool True), (''path'', JStr (vbn_vhdxPath v)), (''sizeBytes'', JNum (Itoa (vbn_sizeBytes v))),
        (''targetName'', JStr (vbn_targetName v)), (''targetIQN'', JStr (vbn_targetIQN v)), (''lun'', JNum (Itoa (vbn_lun v)))}"
    and "vbn_exists v" "int64_range (vbn_sizeBytes v)" "int32_range (vbn_lun v)"
      "utf8Valid (vbn_vhdxPath v)" "utf8Valid (vbn_targetName v)" "utf8Valid (vbn_targetIQN v)"
  shows "wr_GetVolumeByName lib b name dir w = (Inr v, w')"
proof -
  let ?spec = "[(''exists'', KBool), (''path'', KString), (''sizeBytes'', KInt64), (''targetName'', KString),
        (''targetIQN'', KString), (''lun'', KInt32)]"
  let ?out = "zeroOut\<lparr>o_str := (o_str zeroOut)(''path'' := vbn_vhdxPath v, ''targetName'' := vbn_targetName v, ''targetIQN'' := vbn_targetIQN v),
    o_bool := (o_bool zeroOut)(''exists'' := True), o_int := (o_int zeroOut)(''sizeBytes'' := vbn_sizeBytes v, ''lun'' := vbn_lun v)\<rparr>"
  have "fst ` set kvs = fst ` set ?spec" unfolding assms(5) by auto
  then have "printed ?spec ?out kvs" unfolding printed_def using assms by auto
  then obtain out where out: "unmarshal (decNew ?spec) (jsonText (JObj kvs)) = Inr out"
    "\<And>f k. map_of ?spec f = Some k \<Longrightarrow> sameField k f ?out out"
    using unmarshal_printed [of ?spec ?out kvs zeroOut] by (auto simp: utf8Valid_ascii byte_def)
  have "TrimSpace (jsonText (JObj kvs)) \<noteq> []" by (rule TrimSpace_nonblank [of "CHR ''{''"]) (simp_all add: graphic_def byte_def)
  then have "runPS None lib b (ps_GetVolumeByName name dir) (decNew ?spec) w = (Inr out, w')"
    unfolding runPS_ok_iff using assms(1-3) out(1) by blast
  moreover have "o_bool out ''exists''" "o_str out ''path'' = vbn_vhdxPath v" "o_int out ''sizeBytes'' = vbn_sizeBytes v"
    "o_str out ''targetName'' = vbn_targetName v" "o_str out ''targetIQN'' = vbn_targetIQN v" "o_int out ''lun'' = vbn_lun v"
    using out(2) [of "''exists''"] out(2) [of "''path''"] out(2) [of "''sizeBytes''"] out(2) [of "''targetName''"]
      out(2) [of "''targetIQN''"] out(2) [of "''lun''"] by simp_all
  ultimately show ?thesis using assms(6) by (simp add: wr_GetVolumeByName_def wr_get_def call_def)
qed


text \<open>
  C15 at a volume whose members the host prints in another order than the struct has them.
\<close>

definition demoPrinted :: VolumeByName where
  "demoPrinted = \<lparr>vbn_exists = True, vbn_vhdxPath = ''C:/v.vhdx'', vbn_sizeBytes = 1073741824, vbn_targetName = ''t'',
     vbn_targetIQN = ''iqn.1991-05.com.microsoft:t'', vbn_lun = 0\<rparr>"

definition demoMembers :: "(string \<times> json) list" where
  "demoMembers = [(''lun'', JNum (Itoa 0)), (''targetIQN'', JStr ''iqn.1991-05.com.microsoft:t''), (''exists'', JBool True),
     (''sizeBytes'', JNum (Itoa 1073741824)), (''path'', JStr ''C:/v.vhdx''), (''targetName'', JStr ''t'')]"

theorem printed_volume_is_read_witness:
  "wr_GetVolumeByName (demoLib\<lparr>wl_Run := (\<lambda>_ _ _ _ w. (Answered (jsonText (JObj demoMembers)) [] 0 None, w))\<rparr>)
     demoWinRM ''v'' ''C:/'' () = (Inr demoPrinted, ())"
proof (rule printed_volume_is_read [where kvs = demoMembers and client = "()" and err = "[]"])
  show "clientParameters demoWinRM = Inr DefaultTransport" by code_simp
  show "utf8Valid (vbn_vhdxPath demoPrinted)" "utf8Valid (vbn_targetName demoPrinted)" "utf8Valid (vbn_targetIQN demoPrinted)"
    by code_simp+
  show "distinct (map fst demoMembers)" by (simp add: demoMembers_def)
  show "set demoMembers = {(''exists'', JBool True), (''path'', JStr (vbn_vhdxPath demoPrinted)), (''sizeBytes'', JNum (Itoa (vbn_sizeBytes demoPrinted))),
        (''targetName'', JStr (vbn_targetName demoPrinted)), (''targetIQN'', JStr (vbn_targetIQN demoPrinted)), (''lun'', JNum (Itoa (vbn_lun demoPrinted)))}"
    by (simp add: demoMembers_def demoPrinted_def insert_commute)
qed (simp_all add: demoLib_def demoPrinted_def int64_range_def int32_range_def del: jsonText.simps)

subsection \<open>New shares\<close>

text \<open>What a successful run adds to the record.\<close>

lemma recorded_ok:
  "runPS t (recorded lib) b s dec (w, sent) = (Inr x, (w', sent')) \<Longrightarrow> sent' = sent @ [psText b s]"
  by (auto simp: runPS_ok_iff recorded_def Let_def split_def)

lemma recorded_get_ok:
  assumes "wr_get (recorded lib) b s spec k (w, sent) = (Inr x, (w', sent'))"
  obtains out w1 where "k out (w1, sent @ [psText b s]) = (Inr x, (w', sent'))"
  using assms unfolding wr_get_def call_ok_iff by (metis old.prod.exhaust recorded_ok)

lemma recorded_size_ok:
  assumes "sizeShare (recorded lib) b out sz k (w, sent) = (Inr x, (w', sent'))"
  obtains c w1 where
    "k c (w1, sent @ (if sz > 0 then [psText b (ps_ResizeFileShare (o_str out ''vhdxPath'') sz)] else [])) = (Inr x, (w', sent'))"
proof (cases "sz > 0")
  case True
  then obtain c w1 sent1 where c: "wr_ResizeFileShare (recorded lib) b (o_str out ''vhdxPath'') sz (w, sent) = (Inr c, (w1, sent1))"
    "k c (w1, sent1) = (Inr x, (w', sent'))"
    using assms by (auto simp: sizeShare_def call_ok_iff)
  then have "sent1 = sent @ [psText b (ps_ResizeFileShare (o_str out ''vhdxPath'') sz)]"
    unfolding wr_ResizeFileShare_def by (auto elim!: recorded_get_ok)
  then show ?thesis using that c(2) True by simp
qed (use assms that in \<open>auto simp: sizeShare_def\<close>)

text \<open>
  C16: a new share is made by one script, with the defaults of the source for what is not
  given, and sized by a second one, on the path the first one reported, if a size was asked
  for.
\<close>

theorem share_created_then_sized:
  "(wr_CreateNfsShare (recorded lib) b name dir sz clients opts (w, sent) = (Inr v, (w', sent')) \<longrightarrow>
      (let opt = firstNfsShareOptions opts in
       sent' = sent @ [psText b (ps_CreateNfsShare name dir sz (if clients = [] then [''*''] else clients)
                 (nfsPermission opt) (nfsClientType opt) (nfsAllowRoot opt) opt)] @
               (if sz > 0 then [psText b (ps_ResizeFileShare (vi_SharePath v) sz)] else []))) \<and>
   (wr_CreateSmbShare (recorded lib) b name dir sz full change rd sopts (w, sent) = (Inr v, (w', sent')) \<longrightarrow>
      (let (full', change') = smbGrants full change rd in
       sent' = sent @ [psText b (ps_CreateSmbShare name dir sz full' change' rd (firstSmbShareOptions sopts))] @
               (if sz > 0 then [psText b (ps_ResizeFileShare (vi_SharePath v) sz)] else [])))"
  unfolding wr_CreateNfsShare_def wr_CreateSmbShare_def Let_def split_def
  by (auto elim!: recorded_get_ok recorded_size_ok simp: nfsVolumeOf_def smbVolumeOf_def)


text \<open>
  C16 at an NFS share of one byte.
\<close>

theorem share_created_then_sized_witness:
  "\<exists>v. wr_CreateNfsShare (recorded demoLib) demoWinRM ''s'' ''C:/'' 1 [] [] ((), []) =
     (Inr v, ((), [psText demoWinRM (ps_CreateNfsShare ''s'' ''C:/'' 1 [''*''] ''readwrite'' ''host'' True (firstNfsShareOptions [])),
                   psText demoWinRM (ps_ResizeFileShare (vi_SharePath v) 1)]))"
proof -
  obtain v sent' where run: "wr_CreateNfsShare (recorded demoLib) demoWinRM ''s'' ''C:/'' 1 [] [] ((), []) = (Inr v, ((), sent'))"
    by (simp add: wr_CreateNfsShare_def wr_get_def call_def sizeShare_def wr_ResizeFileShare_def demo_run demo_outcome
        Let_def del: runOutcome.simps)
  have opt: "nfsPermission (firstNfsShareOptions []) = ''readwrite''" "nfsClientType (firstNfsShareOptions []) = ''host''"
    "nfsAllowRoot (firstNfsShareOptions [])" by code_simp+
  show ?thesis
    using share_created_then_sized [of demoLib demoWinRM "''s''" "''C:/''" 1 "[]" "[]" "()" "[]" v "()" sent'] run opt
    by (simp add: Let_def)
qed

end
