(* ===== verification/Kubernetes.thy ===== *)
theory Kubernetes
  imports Controller GoPath
begin

text \<open>
  The built-in Kubernetes controllers, \<^verbatim>\<open>pkg/iscsi/internal_kubernetes.go\<close>: the provisioner, which
  makes a volume for a claim and deletes the volume of a persistent volume that is released,
  and the attacher, which publishes and unpublishes volumes for volume attachments.

  Of the Kubernetes objects the fields the code reads or writes are kept; a deletion
  timestamp is whether it is set, a quantity its value.  The API client, the caches of the
  informers and the helpers of client-go are the record \<open>Kube\<close>, a parameter like the backend.
\<close>

subsection \<open>Objects\<close>

record SecretReference =
  sr_Name :: string
  sr_Namespace :: string

record TypedObjectReference =
  ref_APIGroup :: "string option"
  ref_Kind :: string
  ref_Name :: string
  ref_Namespace :: "string option"

record PersistentVolumeClaim =
  pvc_Namespace :: string
  pvc_Name :: string
  pvc_UID :: string
  pvc_Deleting :: bool
  pvc_Annotations :: smap
  pvc_VolumeName :: string
  pvc_StorageClassName :: "string option"
  pvc_VolumeMode :: "string option"
  pvc_AccessModes :: "string list"
  pvc_StorageRequest :: "int option"
  pvc_DataSource :: "TypedObjectReference option"
  pvc_DataSourceRef :: "TypedObjectReference option"

record StorageClass =
  sc_Name :: string
  sc_Provisioner :: string
  sc_Parameters :: smap
  sc_ReclaimPolicy :: "string option"
  sc_MountOptions :: "string list"
  sc_VolumeBindingMode :: "string option"

record CSIPersistentVolumeSource =
  csi_Driver :: string
  csi_VolumeHandle :: string
  csi_FSType :: string
  csi_VolumeAttributes :: smap
  csi_ControllerPublishSecretRef :: "SecretReference option"
  csi_NodeStageSecretRef :: "SecretReference option"
  csi_NodePublishSecretRef :: "SecretReference option"
  csi_ControllerExpandSecretRef :: "SecretReference option"

record ClaimReference =
  claim_Namespace :: string
  claim_Name :: string
  claim_UID :: string

record PersistentVolume =
  pv_Name :: string
  pv_Finalizers :: "string list"
  pv_Deleting :: bool
  pv_Phase :: string
  pv_Capacity :: int
  pv_AccessModes :: "string list"
  pv_ReclaimPolicy :: string
  pv_StorageClassName :: string
  pv_MountOptions :: "string list"
  pv_VolumeMode :: "string option"
  pv_ClaimRef :: "ClaimReference option"
  pv_CSI :: "CSIPersistentVolumeSource option"

record VolumeAttachment =
  va_Name :: string
  va_Finalizers :: "string list"
  va_Deleting :: bool
  va_Attacher :: string
  va_PersistentVolumeName :: "string option"
  va_NodeName :: string
  va_Attached :: bool
  va_AttachmentMetadata :: smap

record CSINode =
  cn_Name :: string
  cn_Drivers :: "(string \<times> string) list"

record 'w Kube =
  k_GetStorageClass :: "string \<Rightarrow> ('w, StorageClass) io"
  k_GetPV :: "string \<Rightarrow> ('w, PersistentVolume) io"
  k_CreatePV :: "PersistentVolume \<Rightarrow> ('w, unit) io"
  k_UpdatePV :: "PersistentVolume \<Rightarrow> ('w, unit) io"
  k_DeletePV :: "string \<Rightarrow> ('w, unit) io"
  k_GetPVC :: "string \<Rightarrow> string \<Rightarrow> ('w, PersistentVolumeClaim) io"
  k_GetVA :: "string \<Rightarrow> ('w, VolumeAttachment) io"
  k_UpdateVA :: "VolumeAttachment \<Rightarrow> ('w, unit) io"
  k_UpdateVAStatus :: "VolumeAttachment \<Rightarrow> ('w, unit) io"
  k_GetSecret :: "string \<Rightarrow> string \<Rightarrow> ('w, smap) io"
  l_GetPV :: "string \<Rightarrow> ('w, PersistentVolume) io"
  l_GetPVC :: "string \<Rightarrow> string \<Rightarrow> ('w, PersistentVolumeClaim) io"
  l_GetVA :: "string \<Rightarrow> ('w, VolumeAttachment) io"
  l_ListVAs :: "('w, VolumeAttachment list) io"
  l_GetCSINode :: "string \<Rightarrow> ('w, CSINode) io"
  IsNotFound :: "goerror \<Rightarrow> bool"
  IsAlreadyExists :: "goerror \<Rightarrow> bool"
  MetaNamespaceKeyFunc :: "string \<Rightarrow> string \<Rightarrow> string result"
  SplitMetaNamespaceKey :: "string \<Rightarrow> (string \<times> string) result"

abbreviation pvProtectionFinalizer :: string where
  "pvProtectionFinalizer \<equiv> ''windows-storage.csi.windows.microsoft.com/pv-protection''"
abbreviation vaProtectionFinalizer :: string where
  "vaProtectionFinalizer \<equiv> ''windows-storage.csi.windows.microsoft.com/volumeattachment-protection''"
abbreviation selectedNodeAnnotation :: string where "selectedNodeAnnotation \<equiv> ''volume.kubernetes.io/selected-node''"
abbreviation csiParamPrefix :: string where "csiParamPrefix \<equiv> ''csi.storage.k8s.io/''"
abbreviation internalProvisionerPVKeyPrefix :: string where "internalProvisionerPVKeyPrefix \<equiv> ''pv/''"
abbreviation internalProvisionerPVCKeyPrefix :: string where "internalProvisionerPVCKeyPrefix \<equiv> ''pvc/''"

text \<open>The string constants of \<^verbatim>\<open>k8s.io/api\<close> the code compares with.\<close>

abbreviation PersistentVolumeReclaimDelete :: string where "PersistentVolumeReclaimDelete \<equiv> ''Delete''"
abbreviation VolumeReleased :: string where "VolumeReleased \<equiv> ''Released''"
abbreviation VolumeBindingWaitForFirstConsumer :: string where "VolumeBindingWaitForFirstConsumer \<equiv> ''WaitForFirstConsumer''"
abbreviation PersistentVolumeFilesystem :: string where "PersistentVolumeFilesystem \<equiv> ''Filesystem''"
abbreviation PersistentVolumeBlock :: string where "PersistentVolumeBlock \<equiv> ''Block''"

subsection \<open>Configuration\<close>

definition kubernetesDefaults :: "InternalKubernetesConfig \<Rightarrow> DriverMode \<Rightarrow> InternalKubernetesConfig" where
  "kubernetesDefaults cfg mode =
     (let cfg1 = (if ik_ResyncPeriod cfg \<le> 0 then cfg\<lparr>ik_ResyncPeriod := 5 * Second\<rparr> else cfg) in
      if ik_LivenessPort cfg1 = 0 then
        cfg1\<lparr>ik_LivenessPort := (if mode = DriverModeController then 29752 else 29753)\<rparr>
      else cfg1)"

text \<open>The registration service of a node; its calls into the system are a parameter.\<close>

record 'w RegistrarHost =
  rh_Remove :: "string \<Rightarrow> ('w, unit) io"
  rh_MkdirAll :: "string \<Rightarrow> ('w, unit) io"
  rh_ListenUnix :: "string \<Rightarrow> ('w, unit) io"

record PluginInfo =
  pi_Type :: string
  pi_Name :: string
  pi_Endpoint :: string
  pi_SupportedVersions :: "string list"

definition registrationGetInfo :: "string \<Rightarrow> string \<Rightarrow> PluginInfo" where
  "registrationGetInfo driverName' endpoint =
     \<lparr>pi_Type = ''CSIPlugin'', pi_Name = driverName', pi_Endpoint = endpoint, pi_SupportedVersions = [''1.0.0'']\<rparr>"

text \<open>The server that is started answers with the driver's name and the trimmed path.\<close>

definition startInternalNodeRegistrar :: "'w RegistrarHost \<Rightarrow> 'd driver \<Rightarrow> string \<Rightarrow> ('w, PluginInfo) io" where
  "startInternalNodeRegistrar h d path0 =
     (let path = TrimSpace path0; socketPath = JoinPath [''/registration'', d_name d @ ''-reg.sock''] in
      if path = [] then fail (Errorf ''kubelet registration path is required'' [])
      else attempt (rh_Remove h socketPath) (\<lambda>r.
        if (case r of Inl e \<Rightarrow> \<not> IsNotExist e | Inr _ \<Rightarrow> False) then
          fail (Errorf ''remove stale registration socket %q: %w'' [ArgS socketPath, ArgE (projl r)])
        else call (rh_MkdirAll h (Dir socketPath)) (\<lambda>e. Errorf ''create registration socket directory: %w'' [ArgE e]) (\<lambda>_.
             call (rh_ListenUnix h socketPath) (\<lambda>e. Errorf ''listen on registration socket %q: %w'' [ArgS socketPath, ArgE e]) (\<lambda>_.
               return (registrationGetInfo (d_name d) path)))))"

text \<open>What \<^verbatim>\<open>startInternalKubernetes\<close> starts, in order; making the API client may fail.\<close>

datatype kubeStart =
    HealthServer int
  | ControllerReconcilers InternalKubernetesConfig
  | NodeRegistrar PluginInfo
  | KubeFatal string goerror

definition startInternalKubernetes :: "unit result \<Rightarrow> 'w RegistrarHost \<Rightarrow> 'd driver \<Rightarrow> ('w, kubeStart list) io" where
  "startInternalKubernetes newClient h d =
     (let cfg = kubernetesDefaults (d_internalKubernetes d) (d_mode d);
          health = (if ik_LivenessPort cfg > 0 then [HealthServer (ik_LivenessPort cfg)] else []) in
      if \<not> ik_Enabled cfg then return []
      else if d_mode d = DriverModeController then
        return (health @ (case newClient of
            Inl e \<Rightarrow> [KubeFatal ''create Kubernetes client for built-in CSI controllers: %v'' e]
          | Inr _ \<Rightarrow> [ControllerReconcilers cfg]))
      else if d_mode d = DriverModeNode then
        attempt (startInternalNodeRegistrar h d (ik_KubeletRegistrationPath cfg)) (\<lambda>r.
          return (health @ (case r of
              Inl e \<Rightarrow> [KubeFatal ''start built-in CSI node registrar: %v'' e]
            | Inr info \<Rightarrow> [NodeRegistrar info])))
      else return health)"

subsection \<open>Queue keys\<close>

text \<open>An event carries an object or the last known state of a deleted one.\<close>

datatype eventObject =
    EventPV PersistentVolume
  | EventPVC PersistentVolumeClaim
  | EventVA VolumeAttachment
  | EventCSINode CSINode
  | EventOther

datatype event = Object eventObject | DeletedFinalStateUnknown eventObject

fun eventObj :: "event \<Rightarrow> eventObject" where
  "eventObj (Object obj) = obj"
| "eventObj (DeletedFinalStateUnknown obj) = obj"

definition persistentVolumeFromEventObject :: "event \<Rightarrow> PersistentVolume option" where
  "persistentVolumeFromEventObject e = (case eventObj e of EventPV pv \<Rightarrow> Some pv | _ \<Rightarrow> None)"

definition persistentVolumeClaimFromEventObject :: "event \<Rightarrow> PersistentVolumeClaim option" where
  "persistentVolumeClaimFromEventObject e = (case eventObj e of EventPVC pvc \<Rightarrow> Some pvc | _ \<Rightarrow> None)"

definition volumeAttachmentFromEventObject :: "event \<Rightarrow> VolumeAttachment option" where
  "volumeAttachmentFromEventObject e = (case eventObj e of EventVA va \<Rightarrow> Some va | _ \<Rightarrow> None)"

definition csiNodeFromEventObject :: "event \<Rightarrow> CSINode option" where
  "csiNodeFromEventObject e = (case eventObj e of EventCSINode n \<Rightarrow> Some n | _ \<Rightarrow> None)"

text \<open>The keys an event adds to a queue.\<close>

definition enqueueProvisionerPV :: "event \<Rightarrow> string list" where
  "enqueueProvisionerPV e =
     (case persistentVolumeFromEventObject e of
        None \<Rightarrow> []
      | Some pv \<Rightarrow> if pv_Name pv = [] then [] else [internalProvisionerPVKeyPrefix @ pv_Name pv])"

definition enqueueProvisionerPVC :: "'w Kube \<Rightarrow> event \<Rightarrow> string list" where
  "enqueueProvisionerPVC k e =
     (case persistentVolumeClaimFromEventObject e of
        None \<Rightarrow> []
      | Some pvc \<Rightarrow>
          (case MetaNamespaceKeyFunc k (pvc_Namespace pvc) (pvc_Name pvc) of
             Inl _ \<Rightarrow> []
           | Inr key \<Rightarrow> [internalProvisionerPVCKeyPrefix @ key]))"

definition enqueueProvisionerPVForVolumeAttachment :: "'d driver \<Rightarrow> event \<Rightarrow> string list" where
  "enqueueProvisionerPVForVolumeAttachment d e =
     (case volumeAttachmentFromEventObject e of
        None \<Rightarrow> []
      | Some va \<Rightarrow>
          if va_Attacher va \<noteq> d_name d then []
          else (case va_PersistentVolumeName va of
                  None \<Rightarrow> []
                | Some n \<Rightarrow> if TrimSpace n = [] then [] else [internalProvisionerPVKeyPrefix @ TrimSpace n]))"

definition enqueueAttacherVolumeAttachment :: "'d driver \<Rightarrow> event \<Rightarrow> string list" where
  "enqueueAttacherVolumeAttachment d e =
     (case volumeAttachmentFromEventObject e of
        None \<Rightarrow> []
      | Some va \<Rightarrow> if va_Attacher va \<noteq> d_name d \<or> va_Name va = [] then [] else [va_Name va])"

definition enqueueAttacherVolumeAttachmentsForCSINode :: "'d driver \<Rightarrow> 'w Kube \<Rightarrow> event \<Rightarrow> ('w, string list) io" where
  "enqueueAttacherVolumeAttachmentsForCSINode d k e =
     (case csiNodeFromEventObject e of
        None \<Rightarrow> return []
      | Some n \<Rightarrow>
          if cn_Name n = [] then return []
          else attempt (l_ListVAs k) (\<lambda>r. case r of
                 Inl _ \<Rightarrow> return []
               | Inr vas \<Rightarrow> return (map va_Name (filter (\<lambda>va. va_Attacher va = d_name d \<and> va_NodeName va = cn_Name n) vas))))"


subsection \<open>From claims to requests and volumes\<close>

definition persistentVolumeNameForClaim :: "PersistentVolumeClaim \<Rightarrow> string" where
  "persistentVolumeNameForClaim pvc = ''pvc-'' @ pvc_UID pvc"

definition storageClassNameForPVC :: "PersistentVolumeClaim \<Rightarrow> string" where
  "storageClassNameForPVC pvc = (case pvc_StorageClassName pvc of None \<Rightarrow> [] | Some n \<Rightarrow> TrimSpace n)"

definition requestedStorageBytes :: "PersistentVolumeClaim \<Rightarrow> int" where
  "requestedStorageBytes pvc = (case pvc_StorageRequest pvc of None \<Rightarrow> 0 | Some q \<Rightarrow> q)"

definition createVolumeParameters :: "smap \<Rightarrow> smap" where
  "createVolumeParameters params = (\<lambda>key. if HasPrefix key csiParamPrefix then None else params key)"

text \<open>The controller looks at the access mode of a capability only.\<close>

datatype accessType = BlockVolume | MountVolume (fsType: string) (mountFlags: "string list")

record csiCapability =
  cap_AccessMode :: access_mode
  cap_AccessType :: accessType

definition volumeCapability :: "string option \<Rightarrow> string list \<Rightarrow> string \<Rightarrow> string list \<Rightarrow> csiCapability" where
  "volumeCapability mode accessModes fs mountOptions =
     \<lparr>cap_AccessMode =
        (case accessModes of
           [] \<Rightarrow> SINGLE_NODE_WRITER
         | m # _ \<Rightarrow> if m = ''ReadOnlyMany'' then MULTI_NODE_READER_ONLY
                    else if m = ''ReadWriteMany'' then MULTI_NODE_MULTI_WRITER
                    else if m = ''ReadWriteOncePod'' then SINGLE_NODE_SINGLE_WRITER
                    else SINGLE_NODE_WRITER),
      cap_AccessType = (if mode = Some PersistentVolumeBlock then BlockVolume else MountVolume fs mountOptions)\<rparr>"

text \<open>The first value that is not blank, trimmed.\<close>

definition firstParam :: "smap \<Rightarrow> string list \<Rightarrow> string" where
  "firstParam params keys =
     (case find (\<lambda>key. TrimSpace (mget params key) \<noteq> []) keys of None \<Rightarrow> [] | Some key \<Rightarrow> TrimSpace (mget params key))"

definition fsTypeForStorageClass :: "StorageClass \<Rightarrow> string" where
  "fsTypeForStorageClass sc = firstParam (sc_Parameters sc) [csiParamPrefix @ ''fstype'', ''fsType'', ''fstype'']"

definition volumeCapabilitiesForPVC :: "PersistentVolumeClaim \<Rightarrow> StorageClass \<Rightarrow> csiCapability list" where
  "volumeCapabilitiesForPVC pvc sc =
     [volumeCapability (pvc_VolumeMode pvc) (pvc_AccessModes pvc) (fsTypeForStorageClass sc) (sc_MountOptions sc)]"

definition volumeCapabilityForPV :: "PersistentVolume \<Rightarrow> csiCapability" where
  "volumeCapabilityForPV pv =
     volumeCapability (pv_VolumeMode pv) (pv_AccessModes pv)
       (case pv_CSI pv of None \<Rightarrow> [] | Some csi \<Rightarrow> csi_FSType csi) (pv_MountOptions pv)"

definition reclaimPolicyForStorageClass :: "StorageClass \<Rightarrow> string" where
  "reclaimPolicyForStorageClass sc =
     (case sc_ReclaimPolicy sc of None \<Rightarrow> PersistentVolumeReclaimDelete | Some p \<Rightarrow> p)"

definition pvcDataSourceRef :: "PersistentVolumeClaim \<Rightarrow> TypedObjectReference option" where
  "pvcDataSourceRef pvc =
     (case pvc_DataSourceRef pvc of
        Some ref \<Rightarrow> Some ref
      | None \<Rightarrow> map_option (\<lambda>ref. ref\<lparr>ref_Namespace := None\<rparr>) (pvc_DataSource pvc))"

text \<open>\<^verbatim>\<open>strings.NewReplacer\<close>: at every place the first old text that matches is replaced.\<close>

fun replacer :: "(string \<times> string) list \<Rightarrow> string \<Rightarrow> string" where
  "replacer pairs [] = []"
| "replacer pairs (c # cs) =
     (case find (\<lambda>p. fst p \<noteq> [] \<and> HasPrefix (c # cs) (fst p)) pairs of
        None \<Rightarrow> c # replacer pairs cs
      | Some p \<Rightarrow> snd p @ replacer pairs (drop (length (fst p) - 1) cs))"

definition expandSecretTemplate :: "string \<Rightarrow> string \<Rightarrow> string \<Rightarrow> string \<Rightarrow> string" where
  "expandSecretTemplate v pvcNamespace pvcName pvName =
     replacer [(''${pvc.namespace}'', pvcNamespace), (''${pvc.name}'', pvcName), (''${pv.name}'', pvName)] v"

definition secretRefForOperation :: "smap \<Rightarrow> string \<Rightarrow> string \<Rightarrow> string \<Rightarrow> string \<Rightarrow> SecretReference option" where
  "secretRefForOperation params operation pvcNamespace pvcName pvName =
     (let name = firstParam params [csiParamPrefix @ operation @ ''-secret-name'', csiParamPrefix @ ''secret-name''];
          namespace0 = firstParam params [csiParamPrefix @ operation @ ''-secret-namespace'', csiParamPrefix @ ''secret-namespace''];
          namespace = (if namespace0 = [] then pvcNamespace else namespace0) in
      if name = [] then None
      else Some \<lparr>sr_Name = expandSecretTemplate name pvcNamespace pvcName pvName,
                 sr_Namespace = expandSecretTemplate namespace pvcNamespace pvcName pvName\<rparr>)"

definition secretDataFromRef :: "'w Kube \<Rightarrow> SecretReference option \<Rightarrow> ('w, smap) io" where
  "secretDataFromRef k ref =
     (case ref of
        None \<Rightarrow> return Map.empty
      | Some r \<Rightarrow>
          if TrimSpace (sr_Name r) = [] then return Map.empty
          else call (k_GetSecret k (sr_Namespace r) (sr_Name r))
                 (\<lambda>e. Errorf ''get Secret %s/%s: %w'' [ArgS (sr_Namespace r), ArgS (sr_Name r), ArgE e]) return)"

definition secretDataForOperation :: "'w Kube \<Rightarrow> smap \<Rightarrow> string \<Rightarrow> string \<Rightarrow> string \<Rightarrow> string \<Rightarrow> ('w, smap) io" where
  "secretDataForOperation k params operation pvcNamespace pvcName pvName =
     secretDataFromRef k (secretRefForOperation params operation pvcNamespace pvcName pvName)"

definition persistentVolumeForClaim :: "string \<Rightarrow> PersistentVolumeClaim \<Rightarrow> StorageClass \<Rightarrow> string \<Rightarrow> Volume \<Rightarrow> PersistentVolume" where
  "persistentVolumeForClaim driverName' pvc sc pvName volume =
     (let reclaimPolicy = reclaimPolicyForStorageClass sc;
          secretRef = (\<lambda>operation. secretRefForOperation (sc_Parameters sc) operation (pvc_Namespace pvc) (pvc_Name pvc) pvName) in
      \<lparr>pv_Name = pvName,
       pv_Finalizers = (if reclaimPolicy = PersistentVolumeReclaimDelete then [pvProtectionFinalizer] else []),
       pv_Deleting = False, pv_Phase = [],
       pv_Capacity = vol_CapacityBytes volume,
       pv_AccessModes = pvc_AccessModes pvc,
       pv_ReclaimPolicy = reclaimPolicy,
       pv_StorageClassName = sc_Name sc,
       pv_MountOptions = sc_MountOptions sc,
       pv_VolumeMode = Some (case pvc_VolumeMode pvc of None \<Rightarrow> PersistentVolumeFilesystem | Some m \<Rightarrow> m),
       pv_ClaimRef = Some \<lparr>claim_Namespace = pvc_Namespace pvc, claim_Name = pvc_Name pvc, claim_UID = pvc_UID pvc\<rparr>,
       pv_CSI = Some
         \<lparr>csi_Driver = driverName', csi_VolumeHandle = vol_VolumeId volume, csi_FSType = fsTypeForStorageClass sc,
          csi_VolumeAttributes = vol_VolumeContext volume,
          csi_ControllerPublishSecretRef = secretRef ''controller-publish'',
          csi_NodeStageSecretRef = secretRef ''node-stage'',
          csi_NodePublishSecretRef = secretRef ''node-publish'',
          csi_ControllerExpandSecretRef = secretRef ''controller-expand''\<rparr>\<rparr>)"

definition volumeContentSourceForPVC :: "'w Kube \<Rightarrow> string \<Rightarrow> PersistentVolumeClaim \<Rightarrow> ('w, content_source option) io" where
  "volumeContentSourceForPVC k driverName' pvc =
     (case pvcDataSourceRef pvc of
        None \<Rightarrow> return None
      | Some ref \<Rightarrow>
          if TrimSpace (ref_Name ref) = [] then return None
          else (let group = TrimSpace (orEmpty (ref_APIGroup ref));
                    kind = TrimSpace (ref_Kind ref);
                    refNamespace = TrimSpace (orEmpty (ref_Namespace ref));
                    namespace = (if refNamespace = [] then pvc_Namespace pvc else refNamespace) in
            if namespace \<noteq> pvc_Namespace pvc then
              fail (Errorf ''PVC %s/%s dataSourceRef %s/%s is cross-namespace; built-in provisioner only supports same-namespace data sources''
                     [ArgS (pvc_Namespace pvc), ArgS (pvc_Name pvc), ArgS kind, ArgS (ref_Name ref)])
            else if group = [] \<and> kind = ''PersistentVolumeClaim'' then
              call (k_GetPVC k namespace (ref_Name ref))
                   (\<lambda>e. Errorf ''get source PVC %s/%s: %w'' [ArgS namespace, ArgS (ref_Name ref), ArgE e]) (\<lambda>sourcePVC.
              if TrimSpace (pvc_VolumeName sourcePVC) = [] then
                fail (Errorf ''source PVC %s/%s is not bound'' [ArgS namespace, ArgS (ref_Name ref)])
              else call (k_GetPV k (pvc_VolumeName sourcePVC))
                     (\<lambda>e. Errorf ''get source PersistentVolume %q: %w'' [ArgS (pvc_VolumeName sourcePVC), ArgE e]) (\<lambda>sourcePV.
                case pv_CSI sourcePV of
                  None \<Rightarrow> fail (Errorf ''source PersistentVolume %q is not a CSI volume for driver %q'' [ArgS (pv_Name sourcePV), ArgS driverName'])
                | Some csi \<Rightarrow>
                    if csi_Driver csi \<noteq> driverName' \<or> TrimSpace (csi_VolumeHandle csi) = [] then
                      fail (Errorf ''source PersistentVolume %q is not a CSI volume for driver %q'' [ArgS (pv_Name sourcePV), ArgS driverName'])
                    else return (Some (FromOther (csi_VolumeHandle csi)))))
            else if group = ''snapshot.storage.k8s.io'' \<and> kind = ''VolumeSnapshot'' then
              fail (Errorf ''VolumeSnapshot dataSource %s/%s is not supported by the built-in provisioner yet; create snapshots through the CSI snapshot API or provision a new empty PVC''
                     [ArgS namespace, ArgS (ref_Name ref)])
            else fail (Errorf ''PVC %s/%s has unsupported dataSource kind=%q apiGroup=%q''
                   [ArgS (pvc_Namespace pvc), ArgS (pvc_Name pvc), ArgS kind, ArgS group])))"

subsection \<open>Finalizers\<close>

definition hasString :: "string list \<Rightarrow> string \<Rightarrow> bool" where
  "hasString values needle \<longleftrightarrow> needle \<in> set values"

definition removeString :: "string list \<Rightarrow> string \<Rightarrow> string list" where
  "removeString values needle = filter (\<lambda>v. v \<noteq> needle) values"

text \<open>The texts that are not blank, each once, in the order of their first places.\<close>

fun uniqueFrom :: "string list \<Rightarrow> string list \<Rightarrow> string list" where
  "uniqueFrom seen [] = []"
| "uniqueFrom seen (v # vs) =
     (if TrimSpace v = [] \<or> v \<in> set seen then uniqueFrom seen vs else v # uniqueFrom (v # seen) vs)"

definition uniqueStrings :: "string list \<Rightarrow> string list" where
  "uniqueStrings values = uniqueFrom [] values"

definition updatePVFinalizers :: "'w Kube \<Rightarrow> PersistentVolume \<Rightarrow> string list \<Rightarrow> ('w, unit) io" where
  "updatePVFinalizers k pv finalizers =
     call (k_UpdatePV k (pv\<lparr>pv_Finalizers := uniqueStrings finalizers\<rparr>))
          (\<lambda>e. Errorf ''update PersistentVolume finalizers %q: %w'' [ArgS (pv_Name pv), ArgE e]) return"

definition updateVAFinalizers :: "'w Kube \<Rightarrow> VolumeAttachment \<Rightarrow> string list \<Rightarrow> ('w, unit) io" where
  "updateVAFinalizers k va finalizers =
     call (k_UpdateVA k (va\<lparr>va_Finalizers := uniqueStrings finalizers\<rparr>))
          (\<lambda>e. Errorf ''update VolumeAttachment finalizers %q: %w'' [ArgS (va_Name va), ArgE e]) return"

subsection \<open>The provisioner\<close>

definition provisionRequest :: "PersistentVolumeClaim \<Rightarrow> StorageClass \<Rightarrow> smap \<Rightarrow> content_source option \<Rightarrow> CreateVolumeRequest" where
  "provisionRequest pvc sc secrets source =
     \<lparr>cvr_Name = persistentVolumeNameForClaim pvc,
      cvr_CapacityRange = Some \<lparr>cr_required = requestedStorageBytes pvc, cr_limit = 0\<rparr>,
      cvr_VolumeCapabilities = map cap_AccessMode (volumeCapabilitiesForPVC pvc sc),
      cvr_Parameters = createVolumeParameters (sc_Parameters sc),
      cvr_Secrets = secrets,
      cvr_VolumeContentSource = source\<rparr>"

text \<open>The volume was made; publish it as a persistent volume or delete it again.\<close>

definition publishPV :: "'w Backend \<Rightarrow> 'w Kube \<Rightarrow> PersistentVolume \<Rightarrow> Volume \<Rightarrow> ('w, unit) io" where
  "publishPV b k pv volume =
     attempt (k_CreatePV k pv) (\<lambda>r. case r of
       Inr _ \<Rightarrow> return ()
     | Inl e \<Rightarrow>
         if IsAlreadyExists k e then return ()
         else if vol_VolumeId volume \<noteq> [] then
           call (DeleteVolume b (vol_VolumeId volume))
                (\<lambda>re. Errorf ''create PersistentVolume %q: %w (rollback DeleteVolume %q failed: %v)''
                        [ArgS (pv_Name pv), ArgE e, ArgS (vol_VolumeId volume), ArgE re]) (\<lambda>_.
             fail (Errorf ''create PersistentVolume %q: %w'' [ArgS (pv_Name pv), ArgE e]))
         else fail (Errorf ''create PersistentVolume %q: %w'' [ArgS (pv_Name pv), ArgE e]))"

definition provisionClaim :: "'d driver \<Rightarrow> 'w Backend \<Rightarrow> 'w Kube \<Rightarrow> PersistentVolumeClaim \<Rightarrow> StorageClass \<Rightarrow> ('w, unit) io" where
  "provisionClaim d b k pvc sc =
     (let pvName = persistentVolumeNameForClaim pvc in
      call (secretDataForOperation k (sc_Parameters sc) ''provisioner'' (pvc_Namespace pvc) (pvc_Name pvc) pvName) id (\<lambda>secrets.
      call (volumeContentSourceForPVC k (d_name d) pvc) id (\<lambda>source.
      call (CreateVolume d b (provisionRequest pvc sc secrets source)) (\<lambda>e. Errorf ''CreateVolume: %w'' [ArgE e]) (\<lambda>volume.
        publishPV b k (persistentVolumeForClaim (d_name d) pvc sc pvName volume) volume))))"

definition reconcilePersistentVolumeClaim :: "'d driver \<Rightarrow> 'w Backend \<Rightarrow> 'w Kube \<Rightarrow> PersistentVolumeClaim \<Rightarrow> ('w, unit) io" where
  "reconcilePersistentVolumeClaim d b k pvc =
     (let scName = storageClassNameForPVC pvc; pvName = persistentVolumeNameForClaim pvc in
      if pvc_Deleting pvc \<or> pvc_VolumeName pvc \<noteq> [] then return ()
      else if scName = [] then return ()
      else call (k_GetStorageClass k scName) (\<lambda>e. Errorf ''get StorageClass %q: %w'' [ArgS scName, ArgE e]) (\<lambda>sc.
        if sc_Provisioner sc \<noteq> d_name d then return ()
        else if sc_VolumeBindingMode sc = Some VolumeBindingWaitForFirstConsumer \<and>
                TrimSpace (mget (pvc_Annotations pvc) selectedNodeAnnotation) = [] then return ()
        else attempt (k_GetPV k pvName) (\<lambda>r. case r of
               Inr _ \<Rightarrow> return ()
             | Inl e \<Rightarrow>
                 if \<not> IsNotFound k e then fail (Errorf ''get PersistentVolume %q: %w'' [ArgS pvName, ArgE e])
                 else provisionClaim d b k pvc sc)))"

definition volumeAttachmentExistsForPV :: "'d driver \<Rightarrow> 'w Kube \<Rightarrow> string \<Rightarrow> ('w, bool) io" where
  "volumeAttachmentExistsForPV d k pvName =
     call (l_ListVAs k) (\<lambda>e. Errorf ''list cached VolumeAttachments for PersistentVolume %q: %w'' [ArgS pvName, ArgE e]) (\<lambda>vas.
       return (list_ex (\<lambda>va. va_Attacher va = d_name d \<and>
         (case va_PersistentVolumeName va of None \<Rightarrow> False | Some n \<Rightarrow> TrimSpace n = pvName)) vas))"

text \<open>The backend volume is deleted first, then the finalizer, then the object.\<close>

definition deletePV :: "'w Backend \<Rightarrow> 'w Kube \<Rightarrow> PersistentVolume \<Rightarrow> string \<Rightarrow> ('w, unit) io" where
  "deletePV b k pv volumeID =
     call (DeleteVolume b volumeID) (\<lambda>e. Errorf ''DeleteVolume: %w'' [ArgE e]) (\<lambda>_.
     call (if hasString (pv_Finalizers pv) pvProtectionFinalizer
           then updatePVFinalizers k pv (removeString (pv_Finalizers pv) pvProtectionFinalizer) else return ()) id (\<lambda>_.
     if pv_Deleting pv then return ()
     else attempt (k_DeletePV k (pv_Name pv)) (\<lambda>r. case r of
            Inl e \<Rightarrow> if IsNotFound k e then return () else fail (Errorf ''delete PersistentVolume %q: %w'' [ArgS (pv_Name pv), ArgE e])
          | Inr _ \<Rightarrow> return ())))"

definition reconcilePersistentVolumeDeletion :: "'d driver \<Rightarrow> 'w Backend \<Rightarrow> 'w Kube \<Rightarrow> PersistentVolume \<Rightarrow> ('w, unit) io" where
  "reconcilePersistentVolumeDeletion d b k pv =
     (case pv_CSI pv of
        None \<Rightarrow> return ()
      | Some csi \<Rightarrow>
          if csi_Driver csi \<noteq> d_name d then return ()
          else if \<not> pv_Deleting pv \<and> pv_Phase pv \<noteq> VolumeReleased then return ()
          else if pv_ReclaimPolicy pv \<noteq> PersistentVolumeReclaimDelete then
            (if pv_Deleting pv \<and> hasString (pv_Finalizers pv) pvProtectionFinalizer
             then updatePVFinalizers k pv (removeString (pv_Finalizers pv) pvProtectionFinalizer) else return ())
          else if csi_VolumeHandle csi = [] then fail (Errorf ''PV %q is missing CSI volume handle'' [ArgS (pv_Name pv)])
          else call (volumeAttachmentExistsForPV d k (pv_Name pv)) id (\<lambda>hasAttachment.
            if hasAttachment then return () else deletePV b k pv (csi_VolumeHandle csi)))"

text \<open>A cached object, or nothing when it is gone.\<close>

definition cached :: "'w Kube \<Rightarrow> ('w, 'a) io \<Rightarrow> (goerror \<Rightarrow> goerror) \<Rightarrow> ('w, 'b) io \<Rightarrow> ('a \<Rightarrow> ('w, 'b) io) \<Rightarrow> ('w, 'b) io" where
  "cached k m f gone found =
     attempt m (\<lambda>r. case r of Inr x \<Rightarrow> found x | Inl e \<Rightarrow> if IsNotFound k e then gone else fail (f e))"

definition reconcileInternalProvisioner :: "'d driver \<Rightarrow> 'w Backend \<Rightarrow> 'w Kube \<Rightarrow> string \<Rightarrow> ('w, unit) io" where
  "reconcileInternalProvisioner d b k key =
     (if HasPrefix key internalProvisionerPVKeyPrefix then
        (let pvName = TrimSpace (TrimPrefix key internalProvisionerPVKeyPrefix) in
         if pvName = [] then return ()
         else cached k (l_GetPV k pvName) (\<lambda>e. Errorf ''get cached PersistentVolume %q: %w'' [ArgS pvName, ArgE e]) (return ())
                (reconcilePersistentVolumeDeletion d b k))
      else if HasPrefix key internalProvisionerPVCKeyPrefix then
        (let nsName = TrimPrefix key internalProvisionerPVCKeyPrefix in
         case SplitMetaNamespaceKey k nsName of
           Inl e \<Rightarrow> fail (Errorf ''split PersistentVolumeClaim key %q: %w'' [ArgS nsName, ArgE e])
         | Inr (namespace, name) \<Rightarrow>
             cached k (l_GetPVC k namespace name) (\<lambda>e. Errorf ''get cached PersistentVolumeClaim %q: %w'' [ArgS nsName, ArgE e]) (return ())
               (reconcilePersistentVolumeClaim d b k))
      else fail (Errorf ''unknown provisioner queue key %q'' [ArgS key]))"

subsection \<open>The attacher\<close>

definition csiNodeIDForVolumeAttachment :: "'d driver \<Rightarrow> 'w Kube \<Rightarrow> VolumeAttachment \<Rightarrow> ('w, string) io" where
  "csiNodeIDForVolumeAttachment d k va =
     (let nodeName = TrimSpace (va_NodeName va) in
      if nodeName = [] then fail (Errorf ''VolumeAttachment %q is missing nodeName'' [ArgS (va_Name va)])
      else call (l_GetCSINode k nodeName) (\<lambda>e. Errorf ''get cached CSINode %q: %w'' [ArgS nodeName, ArgE e]) (\<lambda>csiNode.
        case find (\<lambda>driver. fst driver = d_name d) (cn_Drivers csiNode) of
          None \<Rightarrow> fail (Errorf ''CSINode %q does not contain driver %q'' [ArgS nodeName, ArgS (d_name d)])
        | Some driver \<Rightarrow>
            if TrimSpace (snd driver) = [] then
              fail (Errorf ''CSINode %q driver %q has empty nodeID'' [ArgS nodeName, ArgS (d_name d)])
            else return (TrimSpace (snd driver))))"

definition detachVolume :: "'d driver \<Rightarrow> 'w Backend \<Rightarrow> 'w Kube \<Rightarrow> VolumeAttachment \<Rightarrow> CSIPersistentVolumeSource \<Rightarrow> ('w, unit) io" where
  "detachVolume d b k va csi =
     (if \<not> hasString (va_Finalizers va) vaProtectionFinalizer then return ()
      else call (csiNodeIDForVolumeAttachment d k va) id (\<lambda>nodeID.
           call (ControllerUnpublishVolume b (csi_VolumeHandle csi) nodeID) (\<lambda>e. Errorf ''ControllerUnpublishVolume: %w'' [ArgE e]) (\<lambda>_.
             updateVAFinalizers k va (removeString (va_Finalizers va) vaProtectionFinalizer))))"

text \<open>The attachment with the finalizer, read again after the update.\<close>

definition protectVA :: "'w Kube \<Rightarrow> VolumeAttachment \<Rightarrow> ('w, VolumeAttachment) io" where
  "protectVA k va =
     (if hasString (va_Finalizers va) vaProtectionFinalizer then return va
      else call (updateVAFinalizers k va (va_Finalizers va @ [vaProtectionFinalizer])) id (\<lambda>_. k_GetVA k (va_Name va)))"

definition attachVolume :: "'d driver \<Rightarrow> 'w Backend \<Rightarrow> 'w Kube \<Rightarrow> VolumeAttachment \<Rightarrow> PersistentVolume \<Rightarrow> CSIPersistentVolumeSource \<Rightarrow> ('w, unit) io" where
  "attachVolume d b k va0 pv csi =
     (if va_Attached va0 then return ()
      else call (protectVA k va0) id (\<lambda>va.
           call (secretDataFromRef k (csi_ControllerPublishSecretRef csi)) id (\<lambda>secrets.
           call (csiNodeIDForVolumeAttachment d k va) id (\<lambda>nodeID.
           call (ControllerPublishVolume d b
                  \<lparr>pub_VolumeId = csi_VolumeHandle csi, pub_NodeId = nodeID,
                   pub_VolumeCapability = cap_AccessMode (volumeCapabilityForPV pv), pub_Secrets = secrets\<rparr>)
                (\<lambda>e. Errorf ''ControllerPublishVolume: %w'' [ArgE e]) (\<lambda>publishContext.
           call (k_UpdateVAStatus k (va\<lparr>va_Attached := True, va_AttachmentMetadata := publishContext\<rparr>))
                (\<lambda>e. Errorf ''update VolumeAttachment status %q: %w'' [ArgS (va_Name va), ArgE e]) return)))))"

definition reconcileVolumeAttachment :: "'d driver \<Rightarrow> 'w Backend \<Rightarrow> 'w Kube \<Rightarrow> VolumeAttachment \<Rightarrow> ('w, unit) io" where
  "reconcileVolumeAttachment d b k va =
     (let pvName = TrimSpace (orEmpty (va_PersistentVolumeName va)) in
      if pvName = [] then return ()
      else cached k (l_GetPV k pvName) (\<lambda>e. Errorf ''get cached PersistentVolume %q: %w'' [ArgS pvName, ArgE e])
        (if va_Deleting va \<and> hasString (va_Finalizers va) vaProtectionFinalizer
         then updateVAFinalizers k va (removeString (va_Finalizers va) vaProtectionFinalizer) else return ())
        (\<lambda>pv. case pv_CSI pv of
           None \<Rightarrow> return ()
         | Some csi \<Rightarrow>
             if csi_Driver csi \<noteq> d_name d then return ()
             else if va_Deleting va then detachVolume d b k va csi
             else attachVolume d b k va pv csi))"

definition reconcileInternalAttacher :: "'d driver \<Rightarrow> 'w Backend \<Rightarrow> 'w Kube \<Rightarrow> string \<Rightarrow> ('w, unit) io" where
  "reconcileInternalAttacher d b k key =
     (let vaName = TrimSpace key in
      if vaName = [] then return ()
      else cached k (l_GetVA k vaName) (\<lambda>e. Errorf ''get cached VolumeAttachment %q: %w'' [ArgS vaName, ArgE e]) (return ())
        (\<lambda>va. if va_Attacher va \<noteq> d_name d then return () else reconcileVolumeAttachment d b k va))"

subsection \<open>The workers\<close>

text \<open>
  A worker handles the keys its queue hands out until the queue is shut down.  \<open>cancelled\<close>
  says whether the context is done.  What it tells the queue about each key is recorded.
\<close>

datatype queueCall = AddRateLimited string | Forget string | Done string

definition workKey :: "(string \<Rightarrow> ('w, unit) io) \<Rightarrow> ('w \<Rightarrow> bool) \<Rightarrow> string \<Rightarrow> 'w \<Rightarrow> queueCall list \<times> 'w" where
  "workKey reconcile cancelled key w =
     (case reconcile key w of
        (Inl e, w') \<Rightarrow> ((if cancelled w' then [Forget key] else [AddRateLimited key]) @ [Done key], w')
      | (Inr _, w') \<Rightarrow> ([Forget key, Done key], w'))"

fun runWorker :: "(string \<Rightarrow> ('w, unit) io) \<Rightarrow> ('w \<Rightarrow> bool) \<Rightarrow> string list \<Rightarrow> 'w \<Rightarrow> queueCall list \<times> 'w" where
  "runWorker reconcile cancelled [] w = ([], w)"
| "runWorker reconcile cancelled (key # keys) w =
     (let (calls, w1) = workKey reconcile cancelled key w;
          (calls', w2) = runWorker reconcile cancelled keys w1
      in (calls @ calls', w2))"

definition runInternalProvisioner :: "'d driver \<Rightarrow> 'w Backend \<Rightarrow> 'w Kube \<Rightarrow> ('w \<Rightarrow> bool) \<Rightarrow> string list \<Rightarrow> 'w \<Rightarrow> queueCall list \<times> 'w" where
  "runInternalProvisioner d b k = runWorker (reconcileInternalProvisioner d b k)"

definition runInternalAttacher :: "'d driver \<Rightarrow> 'w Backend \<Rightarrow> 'w Kube \<Rightarrow> ('w \<Rightarrow> bool) \<Rightarrow> string list \<Rightarrow> 'w \<Rightarrow> queueCall list \<times> 'w" where
  "runInternalAttacher d b k = runWorker (reconcileInternalAttacher d b k)"

subsection \<open>Events\<close>

text \<open>
  The handlers \<^verbatim>\<open>startInternalControllerReconcilers\<close> registers: the keys for the provisioner and
  for the attacher.  There is no handler for the deletion of a CSI node.
\<close>

datatype handlerFunc = AddFunc | UpdateFunc | DeleteFunc

datatype informer = PVInformer | PVCInformer | VAInformer | CSINodeInformer

definition controllerEvent ::
  "InternalKubernetesConfig \<Rightarrow> 'd driver \<Rightarrow> 'w Kube \<Rightarrow> informer \<Rightarrow> handlerFunc \<Rightarrow> event \<Rightarrow> ('w, string list \<times> string list) io"
where
  "controllerEvent cfg d k i h e =
     (case i of
        PVInformer \<Rightarrow> return (enqueueProvisionerPV e, [])
      | PVCInformer \<Rightarrow> return (enqueueProvisionerPVC k e, [])
      | VAInformer \<Rightarrow> return (enqueueProvisionerPVForVolumeAttachment d e,
                             if ik_ControllerPublish cfg then enqueueAttacherVolumeAttachment d e else [])
      | CSINodeInformer \<Rightarrow>
          if h \<noteq> DeleteFunc \<and> ik_ControllerPublish cfg
          then call (enqueueAttacherVolumeAttachmentsForCSINode d k e) id (\<lambda>keys. return ([], keys)) else return ([], []))"

end
