(* ===== verification/KubernetesProofs.thy ===== *)
theory KubernetesProofs
  imports Kubernetes ControllerProofs
begin

text \<open>
  Correctness of the built-in Kubernetes controllers: what they write to the cluster and
  after which requests to the controller service, how workers treat failures, which keys
  reach which reconciler, and that a volume is attached as it was provisioned.
\<close>

subsection \<open>Reading the cluster\<close>

text \<open>
  A property that every backend method and every read of the cluster keeps; so does what a
  reconciler does before it writes.
\<close>

locale kube_reader = backend_invariant P B for P :: "'w \<Rightarrow> bool" and B :: "'w Backend" +
  fixes K :: "'w Kube"
  assumes reads_StorageClass: "\<And>n. keeps P (k_GetStorageClass K n)"
    and reads_PV: "\<And>n. keeps P (k_GetPV K n)"
    and reads_PVC: "\<And>ns n. keeps P (k_GetPVC K ns n)"
    and reads_VA: "\<And>n. keeps P (k_GetVA K n)"
    and reads_Secret: "\<And>ns n. keeps P (k_GetSecret K ns n)"
    and lists_PV: "\<And>n. keeps P (l_GetPV K n)"
    and lists_PVC: "\<And>ns n. keeps P (l_GetPVC K ns n)"
    and lists_VA: "\<And>n. keeps P (l_GetVA K n)"
    and lists_VAs: "keeps P (l_ListVAs K)"
    and lists_CSINode: "\<And>n. keeps P (l_GetCSINode K n)"
begin

lemmas readers [keeps_intro] = reads_StorageClass reads_PV reads_PVC reads_VA reads_Secret
  lists_PV lists_PVC lists_VA lists_VAs lists_CSINode

lemma keeps_secretDataFromRef [keeps_intro]: "keeps P (secretDataFromRef K ref)"
  unfolding secretDataFromRef_def by (intro keeps_intro)

lemma keeps_secretDataForOperation [keeps_intro]: "keeps P (secretDataForOperation K params opn ns n pvn)"
  unfolding secretDataForOperation_def by (intro keeps_intro)

lemma keeps_volumeContentSourceForPVC [keeps_intro]: "keeps P (volumeContentSourceForPVC K n pvc)"
  unfolding volumeContentSourceForPVC_def Let_def by (intro keeps_intro)

lemma keeps_volumeAttachmentExistsForPV [keeps_intro]: "keeps P (volumeAttachmentExistsForPV d K n)"
  unfolding volumeAttachmentExistsForPV_def by (intro keeps_intro)

lemma keeps_csiNodeIDForVolumeAttachment [keeps_intro]: "keeps P (csiNodeIDForVolumeAttachment d K va)"
  unfolding csiNodeIDForVolumeAttachment_def Let_def by (intro keeps_intro)

end

subsection \<open>A cluster that records what is written\<close>

datatype kubeWrite =
    CreatePV PersistentVolume
  | UpdatePV PersistentVolume
  | DeletePV string
  | UpdateVA VolumeAttachment
  | UpdateVAStatus VolumeAttachment

definition onFst :: "('w, 'a) io \<Rightarrow> ('w \<times> 'l, 'a) io" where
  "onFst m wl = (let (r, w') = m (fst wl) in (r, (w', snd wl)))"

definition writing :: "kubeWrite \<Rightarrow> ('w, 'a) io \<Rightarrow> ('w \<times> kubeWrite list, 'a) io" where
  "writing x m wl = (let (r, w') = m (fst wl) in (r, (w', snd wl @ [x])))"

definition loggedKube :: "'w Kube \<Rightarrow> ('w \<times> kubeWrite list) Kube" where
  "loggedKube k =
     \<lparr>k_GetStorageClass = (\<lambda>n. onFst (k_GetStorageClass k n)),
      k_GetPV = (\<lambda>n. onFst (k_GetPV k n)),
      k_CreatePV = (\<lambda>pv. writing (CreatePV pv) (k_CreatePV k pv)),
      k_UpdatePV = (\<lambda>pv. writing (UpdatePV pv) (k_UpdatePV k pv)),
      k_DeletePV = (\<lambda>n. writing (DeletePV n) (k_DeletePV k n)),
      k_GetPVC = (\<lambda>ns n. onFst (k_GetPVC k ns n)),
      k_GetVA = (\<lambda>n. onFst (k_GetVA k n)),
      k_UpdateVA = (\<lambda>va. writing (UpdateVA va) (k_UpdateVA k va)),
      k_UpdateVAStatus = (\<lambda>va. writing (UpdateVAStatus va) (k_UpdateVAStatus k va)),
      k_GetSecret = (\<lambda>ns n. onFst (k_GetSecret k ns n)),
      l_GetPV = (\<lambda>n. onFst (l_GetPV k n)),
      l_GetPVC = (\<lambda>ns n. onFst (l_GetPVC k ns n)),
      l_GetVA = (\<lambda>n. onFst (l_GetVA k n)),
      l_ListVAs = onFst (l_ListVAs k),
      l_GetCSINode = (\<lambda>n. onFst (l_GetCSINode k n)),
      IsNotFound = IsNotFound k,
      IsAlreadyExists = IsAlreadyExists k,
      MetaNamespaceKeyFunc = MetaNamespaceKeyFunc k,
      SplitMetaNamespaceKey = SplitMetaNamespaceKey k\<rparr>"

definition liftBackend :: "'w Backend \<Rightarrow> ('w \<times> kubeWrite list) Backend" where
  "liftBackend b =
     \<lparr>b_EnsureTarget = (\<lambda>a0 a1. onFst (b_EnsureTarget b a0 a1)),
      b_ConfigureTargetChap = (\<lambda>a0 a1. onFst (b_ConfigureTargetChap b a0 a1)),
      b_CreateVirtualDisk = (\<lambda>a0 a1 a2. onFst (b_CreateVirtualDisk b a0 a1 a2)),
      b_MapDiskToTarget = (\<lambda>a0 a1. onFst (b_MapDiskToTarget b a0 a1)),
      b_UnmapDiskFromTarget = (\<lambda>a0 a1. onFst (b_UnmapDiskFromTarget b a0 a1)),
      b_DeleteVirtualDisk = (\<lambda>a0. onFst (b_DeleteVirtualDisk b a0)),
      b_LookupTargetNameByIQN = (\<lambda>a0. onFst (b_LookupTargetNameByIQN b a0)),
      b_DeleteTarget = (\<lambda>a0. onFst (b_DeleteTarget b a0)),
      b_GetVolumeByName = (\<lambda>a0 a1. onFst (b_GetVolumeByName b a0 a1)),
      b_AllowInitiator = (\<lambda>a0 a1. onFst (b_AllowInitiator b a0 a1)),
      b_DenyInitiator = (\<lambda>a0 a1. onFst (b_DenyInitiator b a0 a1)),
      b_GetDirectoryFreeCapacity = (\<lambda>a0. onFst (b_GetDirectoryFreeCapacity b a0)),
      b_CreateSnapshot = (\<lambda>a0 a1. onFst (b_CreateSnapshot b a0 a1)),
      b_DeleteSnapshot = (\<lambda>a0. onFst (b_DeleteSnapshot b a0)),
      b_ListSnapshots = (\<lambda>a0. onFst (b_ListSnapshots b a0)),
      b_ExportSnapshotAsVirtualDisk = (\<lambda>a0. onFst (b_ExportSnapshotAsVirtualDisk b a0)),
      b_ResizeVirtualDisk = (\<lambda>a0 a1. onFst (b_ResizeVirtualDisk b a0 a1)),
      b_GetVolumeInfo = (\<lambda>a0. onFst (b_GetVolumeInfo b a0)),
      b_GetTargetInitiators = (\<lambda>a0. onFst (b_GetTargetInitiators b a0)),
      b_CreateNfsShare = (\<lambda>a0 a1 a2 a3 a4. onFst (b_CreateNfsShare b a0 a1 a2 a3 a4)),
      b_GetNfsShare = (\<lambda>a0 a1. onFst (b_GetNfsShare b a0 a1)),
      b_DeleteNfsShare = (\<lambda>a0 a1. onFst (b_DeleteNfsShare b a0 a1)),
      b_CreateSmbShare = (\<lambda>a0 a1 a2 a3 a4 a5 a6. onFst (b_CreateSmbShare b a0 a1 a2 a3 a4 a5 a6)),
      b_GetSmbShare = (\<lambda>a0 a1. onFst (b_GetSmbShare b a0 a1)),
      b_DeleteSmbShare = (\<lambda>a0 a1. onFst (b_DeleteSmbShare b a0 a1)),
      b_ResizeFileShare = (\<lambda>a0 a1. onFst (b_ResizeFileShare b a0 a1)),
      b_RestoreSnapshotAsFileShare = (\<lambda>a0 a1. onFst (b_RestoreSnapshotAsFileShare b a0 a1)),
      b_MountFileShareVirtualDisk = (\<lambda>a0 a1. onFst (b_MountFileShareVirtualDisk b a0 a1)),
      b_UnmountFileShareVirtualDisk = (\<lambda>a0 a1. onFst (b_UnmountFileShareVirtualDisk b a0 a1))\<rparr>"

lemma loggedKube_sel [simp]:
    "k_GetStorageClass (loggedKube k) = (\<lambda>n. onFst (k_GetStorageClass k n))"
    "k_GetPV (loggedKube k) = (\<lambda>n. onFst (k_GetPV k n))"
    "k_CreatePV (loggedKube k) = (\<lambda>pv. writing (CreatePV pv) (k_CreatePV k pv))"
    "k_UpdatePV (loggedKube k) = (\<lambda>pv. writing (UpdatePV pv) (k_UpdatePV k pv))"
    "k_DeletePV (loggedKube k) = (\<lambda>n. writing (DeletePV n) (k_DeletePV k n))"
    "k_GetPVC (loggedKube k) = (\<lambda>ns n. onFst (k_GetPVC k ns n))"
    "k_GetVA (loggedKube k) = (\<lambda>n. onFst (k_GetVA k n))"
    "k_UpdateVA (loggedKube k) = (\<lambda>va. writing (UpdateVA va) (k_UpdateVA k va))"
    "k_UpdateVAStatus (loggedKube k) = (\<lambda>va. writing (UpdateVAStatus va) (k_UpdateVAStatus k va))"
    "k_GetSecret (loggedKube k) = (\<lambda>ns n. onFst (k_GetSecret k ns n))"
    "l_GetPV (loggedKube k) = (\<lambda>n. onFst (l_GetPV k n))"
    "l_GetPVC (loggedKube k) = (\<lambda>ns n. onFst (l_GetPVC k ns n))"
    "l_GetVA (loggedKube k) = (\<lambda>n. onFst (l_GetVA k n))"
    "l_ListVAs (loggedKube k) = onFst (l_ListVAs k)"
    "l_GetCSINode (loggedKube k) = (\<lambda>n. onFst (l_GetCSINode k n))"
    "IsNotFound (loggedKube k) = IsNotFound k"
    "IsAlreadyExists (loggedKube k) = IsAlreadyExists k"
    "MetaNamespaceKeyFunc (loggedKube k) = MetaNamespaceKeyFunc k"
    "SplitMetaNamespaceKey (loggedKube k) = SplitMetaNamespaceKey k"
  by (simp_all add: loggedKube_def)

lemma keeps_onFst: "keeps (\<lambda>wl. snd wl = l) (onFst m)"
  by (auto simp: keeps_def onFst_def split: prod.splits)

interpretation quiet: kube_reader "\<lambda>wl. snd wl = l" "liftBackend b" "loggedKube k" for l b k
  by unfold_locales (simp_all add: liftBackend_def keeps_onFst)

text \<open>What was written before is still there after a part that only reads.\<close>

lemma quietD: "(\<And>l. keeps (\<lambda>wl. snd wl = l) m) \<Longrightarrow> m (w, l) = (r, (w', l')) \<Longrightarrow> l' = l"
  unfolding keeps_def by (metis snd_conv)

lemma callE:
  assumes "call m f k w = (r, w')"
  obtains (err) e where "m w = (Inl e, w')" "r = Inl (f e)"
    | (ok) x w1 where "m w = (Inr x, w1)" "k x w1 = (r, w')"
  using assms by (auto simp: call_def split: prod.splits sum.splits)

lemma attemptE:
  assumes "attempt m k w = (r, w')"
  obtains x w1 where "m w = (x, w1)" "k x w1 = (r, w')"
  using assms by (auto simp: attempt_def split: prod.splits)

text \<open>A call of a part that only reads.\<close>

lemma quiet_callE:
  assumes "call m f k (w, l) = (r, (w', l'))" "\<And>l. keeps (\<lambda>wl. snd wl = l) m"
  obtains (err) e where "m (w, l) = (Inl e, (w', l))" "l' = l" "r = Inl (f e)"
    | (ok) x w1 where "m (w, l) = (Inr x, (w1, l))" "k x (w1, l) = (r, (w', l'))"
  using assms(1)
proof (cases rule: callE)
  case (err e)
  with that(1) quietD [OF assms(2) err(1)] show ?thesis by simp
next
  case (ok x wl)
  obtain w1 l1 where wl: "wl = (w1, l1)" by (cases wl)
  with that(2) ok quietD [OF assms(2) ok(1)[unfolded wl]] show ?thesis by simp
qed

lemma sim_onFst: "sim fst (onFst m) m"
  by (auto simp: sim_def onFst_def split: prod.splits)

interpretation lifted: backend_simulation fst "liftBackend b" b for b
  by unfold_locales (simp_all add: liftBackend_def sim_onFst)

lemma lifted_run: "sim fst m n \<Longrightarrow> m (w, l) = (r, (w', l')) \<Longrightarrow> n w = (r, w')"
  by (auto dest: simD [of fst m n "(w, l)"])

lemmas lifted_DeleteVolume = lifted_run [OF lifted.sim_DeleteVolume]
lemmas lifted_CreateVolume = lifted_run [OF lifted.sim_CreateVolume]
lemmas lifted_Publish = lifted_run [OF lifted.sim_ControllerPublishVolume]
lemmas lifted_Unpublish = lifted_run [OF lifted.sim_ControllerUnpublishVolume]

lemma writing_run: "writing x m (w, l) = (r, (w', l')) \<Longrightarrow> l' = l @ [x] \<and> m w = (r, w')"
  by (auto simp: writing_def split: prod.splits)

lemma onFst_run: "onFst m (w, l) = (r, (w', l')) \<Longrightarrow> l' = l \<and> m w = (r, w')"
  by (auto simp: onFst_def split: prod.splits)

lemma updatePV_run:
  "updatePVFinalizers (loggedKube k) pv fs (w, l) = (r, (w', l')) \<Longrightarrow> l' = l @ [UpdatePV (pv\<lparr>pv_Finalizers := uniqueStrings fs\<rparr>)]"
  unfolding updatePVFinalizers_def by (auto elim!: callE dest!: writing_run)

lemma updateVA_run:
  "updateVAFinalizers (loggedKube k) va fs (w, l) = (r, (w', l')) \<Longrightarrow> l' = l @ [UpdateVA (va\<lparr>va_Finalizers := uniqueStrings fs\<rparr>)]"
  unfolding updateVAFinalizers_def by (auto elim!: callE dest!: writing_run)

lemma attachmentExists_run:
  assumes "volumeAttachmentExistsForPV d (loggedKube k) n (w, l) = (Inr a, (w', l'))"
  obtains vas where "l' = l" "l_ListVAs k w = (Inr vas, w')"
    "a = list_ex (\<lambda>va. va_Attacher va = d_name d \<and> (case va_PersistentVolumeName va of None \<Rightarrow> False | Some m \<Rightarrow> TrimSpace m = n)) vas"
  using assms unfolding volumeAttachmentExistsForPV_def by (auto elim!: callE dest!: onFst_run)

subsection \<open>A small cluster\<close>

text \<open>
  For the concrete instances below: one class, one claim of it and one released volume.  The
  cluster has no persistent volume and refuses to create one.
\<close>

definition demoClass :: StorageClass where
  "demoClass = \<lparr>sc_Name = ''iscsi'', sc_Provisioner = driverName, sc_Parameters = [''targetPortal'' \<mapsto> ''10.0.0.1''],
     sc_ReclaimPolicy = None, sc_MountOptions = [], sc_VolumeBindingMode = None\<rparr>"

definition demoClaim :: PersistentVolumeClaim where
  "demoClaim = \<lparr>pvc_Namespace = ''default'', pvc_Name = ''data'', pvc_UID = ''1'', pvc_Deleting = False, pvc_Annotations = Map.empty,
     pvc_VolumeName = [], pvc_StorageClassName = Some ''iscsi'', pvc_VolumeMode = None, pvc_AccessModes = [''ReadWriteOnce''],
     pvc_StorageRequest = Some 1073741824, pvc_DataSource = None, pvc_DataSourceRef = None\<rparr>"


definition demoCSI :: CSIPersistentVolumeSource where
  "demoCSI = \<lparr>csi_Driver = driverName, csi_VolumeHandle = ''not a handle'', csi_FSType = [], csi_VolumeAttributes = Map.empty,
     csi_ControllerPublishSecretRef = None, csi_NodeStageSecretRef = None, csi_NodePublishSecretRef = None, csi_ControllerExpandSecretRef = None\<rparr>"

definition demoPV :: PersistentVolume where
  "demoPV = \<lparr>pv_Name = ''pvc-1'', pv_Finalizers = [pvProtectionFinalizer], pv_Deleting = False, pv_Phase = VolumeReleased, pv_Capacity = 0,
     pv_AccessModes = [''ReadWriteOnce''], pv_ReclaimPolicy = PersistentVolumeReclaimDelete, pv_StorageClassName = ''iscsi'',
     pv_MountOptions = [], pv_VolumeMode = None, pv_ClaimRef = None, pv_CSI = Some demoCSI\<rparr>"

definition demoVA :: VolumeAttachment where
  "demoVA = \<lparr>va_Name = ''csi-1'', va_Finalizers = [vaProtectionFinalizer], va_Deleting = True, va_Attacher = driverName,
     va_PersistentVolumeName = Some ''pvc-1'', va_NodeName = ''node-a'', va_Attached = False, va_AttachmentMetadata = Map.empty\<rparr>"

definition demoKube :: "unit Kube" where
  "demoKube =
     \<lparr>k_GetStorageClass = (\<lambda>n. return demoClass), k_GetPV = (\<lambda>n. fail (Foreign ''NotFound'')),
      k_CreatePV = (\<lambda>pv. fail (Foreign ''Forbidden'')), k_UpdatePV = (\<lambda>pv. return ()), k_DeletePV = (\<lambda>n. return ()),
      k_GetPVC = (\<lambda>ns n. return demoClaim), k_GetVA = (\<lambda>n. return demoVA), k_UpdateVA = (\<lambda>va. return ()),
      k_UpdateVAStatus = (\<lambda>va. return ()), k_GetSecret = (\<lambda>ns n. return Map.empty),
      l_GetPV = (\<lambda>n. return demoPV), l_GetPVC = (\<lambda>ns n. return demoClaim), l_GetVA = (\<lambda>n. return demoVA),
      l_ListVAs = return [], l_GetCSINode = (\<lambda>n. return \<lparr>cn_Name = n, cn_Drivers = [(driverName, ''iqn.1991-05.com.microsoft:a'')]\<rparr>),
      IsNotFound = (\<lambda>e. case e of Foreign t \<Rightarrow> t = ''NotFound'' | _ \<Rightarrow> False), IsAlreadyExists = (\<lambda>e. False),
      MetaNamespaceKeyFunc = (\<lambda>ns n. Inr (ns @ ''/'' @ n)), SplitMetaNamespaceKey = (\<lambda>key. Inr (''default'', ''data''))\<rparr>"

text \<open>The outcome of a run, as far as the evaluations below look at it.\<close>

abbreviation demoLog :: "('w \<times> kubeWrite list, 'a) io \<Rightarrow> 'w \<Rightarrow> kubeWrite list" where
  "demoLog m w \<equiv> snd (snd (m (w, [])))"

definition isCons :: "'a list \<Rightarrow> bool" where
  "isCons xs = (case xs of [] \<Rightarrow> False | _ # _ \<Rightarrow> True)"

lemma isConsD: "isCons xs \<Longrightarrow> xs \<noteq> []"
  by (auto simp: isCons_def)

lemma runE:
  assumes "isCons (demoLog m w)"
  obtains r w' l where "m (w, []) = (r, (w', l))" "l \<noteq> []"
  using assms by (cases "m (w, [])") (auto dest: isConsD)

subsection \<open>Deleting persistent volumes\<close>

abbreviation unprotected :: "PersistentVolume \<Rightarrow> PersistentVolume" where
  "unprotected pv \<equiv> pv\<lparr>pv_Finalizers := uniqueStrings (removeString (pv_Finalizers pv) pvProtectionFinalizer)\<rparr>"

lemma deletePV_run:
  assumes "deletePV (liftBackend b) (loggedKube k) pv vid (w, l) = (r, (w', l'))" "l' \<noteq> l"
  shows "\<exists>w1. DeleteVolume b vid w = (Inr (), w1)"
    "l' \<in> {l @ [UpdatePV (unprotected pv)], l @ [UpdatePV (unprotected pv), DeletePV (pv_Name pv)], l @ [DeletePV (pv_Name pv)]}"
proof -
  obtain w1 where del: "DeleteVolume (liftBackend b) vid (w, l) = (Inr (), (w1, l))"
    and rest: "call (if hasString (pv_Finalizers pv) pvProtectionFinalizer
           then updatePVFinalizers (loggedKube k) pv (removeString (pv_Finalizers pv) pvProtectionFinalizer) else return ()) id (\<lambda>_.
     if pv_Deleting pv then return ()
     else attempt (k_DeletePV (loggedKube k) (pv_Name pv)) (\<lambda>r. case r of
            Inl e \<Rightarrow> if IsNotFound (loggedKube k) e then return () else fail (Errorf ''delete PersistentVolume %q: %w'' [ArgS (pv_Name pv), ArgE e])
          | Inr _ \<Rightarrow> return ())) (w1, l) = (r, (w', l'))"
    using assms(2) by (cases rule: quiet_callE [OF assms(1)[unfolded deletePV_def] quiet.keeps_DeleteVolume]) auto
  show "\<exists>w1. DeleteVolume b vid w = (Inr (), w1)" using lifted_DeleteVolume [OF del] by blast
  show "l' \<in> {l @ [UpdatePV (unprotected pv)], l @ [UpdatePV (unprotected pv), DeletePV (pv_Name pv)], l @ [DeletePV (pv_Name pv)]}"
    using rest assms(2)
    by (auto elim!: callE attemptE dest!: updatePV_run writing_run split: if_splits sum.splits)
qed

text \<open>
  C18: whatever the cluster and the backend answer, a persistent volume is changed or deleted
  only if it is one of this driver and is being deleted or released.  If its policy is to
  delete, no attachment of this driver names it, and the backend volume was deleted before;
  the finalizer goes before the object.
\<close>

theorem pv_deleted_in_order:
  assumes "reconcilePersistentVolumeDeletion d (liftBackend b) (loggedKube k) pv (w, []) = (r, (w', written))" "written \<noteq> []"
  shows "\<exists>csi. pv_CSI pv = Some csi \<and> csi_Driver csi = d_name d \<and> (pv_Deleting pv \<or> pv_Phase pv = VolumeReleased) \<and>
    written \<in> {[UpdatePV (unprotected pv)], [UpdatePV (unprotected pv), DeletePV (pv_Name pv)], [DeletePV (pv_Name pv)]} \<and>
    (if pv_ReclaimPolicy pv = PersistentVolumeReclaimDelete then
       \<exists>vas w1 w2. l_ListVAs k w = (Inr vas, w1) \<and>
         \<not> list_ex (\<lambda>va. va_Attacher va = d_name d \<and>
             (case va_PersistentVolumeName va of None \<Rightarrow> False | Some n \<Rightarrow> TrimSpace n = pv_Name pv)) vas \<and>
         DeleteVolume b (csi_VolumeHandle csi) w1 = (Inr (), w2)
     else pv_Deleting pv \<and> written = [UpdatePV (unprotected pv)])"
proof -
  obtain csi where csi: "pv_CSI pv = Some csi" "csi_Driver csi = d_name d" "pv_Deleting pv \<or> pv_Phase pv = VolumeReleased"
    using assms unfolding reconcilePersistentVolumeDeletion_def by (auto split: option.splits if_splits)
  show ?thesis
  proof (cases "pv_ReclaimPolicy pv = PersistentVolumeReclaimDelete")
    case True
    then have "call (volumeAttachmentExistsForPV d (loggedKube k) (pv_Name pv)) id (\<lambda>hasAttachment.
        if hasAttachment then return () else deletePV (liftBackend b) (loggedKube k) pv (csi_VolumeHandle csi)) (w, []) = (r, (w', written))"
      using assms csi unfolding reconcilePersistentVolumeDeletion_def by (auto split: if_splits)
    then obtain w1 where one: "volumeAttachmentExistsForPV d (loggedKube k) (pv_Name pv) (w, []) = (Inr False, (w1, []))"
      and two: "deletePV (liftBackend b) (loggedKube k) pv (csi_VolumeHandle csi) (w1, []) = (r, (w', written))"
      using assms(2) by (cases rule: quiet_callE [OF _ quiet.keeps_volumeAttachmentExistsForPV]) (auto split: if_splits)
    show ?thesis
      using csi True deletePV_run [OF two assms(2)] by (rule_tac attachmentExists_run [OF one]) auto
  next
    case False
    then show ?thesis
      using assms csi unfolding reconcilePersistentVolumeDeletion_def
      by (auto dest!: updatePV_run split: if_splits)
  qed
qed

text \<open>C18 at a released volume.\<close>

theorem pv_deleted_in_order_witness:
  "\<exists>r w' written. reconcilePersistentVolumeDeletion demoDriver (liftBackend demoBackend) (loggedKube demoKube) demoPV ((), []) = (r, (w', written)) \<and>
     written \<in> {[UpdatePV (unprotected demoPV)], [UpdatePV (unprotected demoPV), DeletePV ''pvc-1''], [DeletePV ''pvc-1'']}"
proof -
  have "isCons (demoLog (reconcilePersistentVolumeDeletion demoDriver (liftBackend demoBackend) (loggedKube demoKube) demoPV) ())" by code_simp
  then obtain r w' l where run: "reconcilePersistentVolumeDeletion demoDriver (liftBackend demoBackend) (loggedKube demoKube) demoPV ((), []) = (r, (w', l))" "l \<noteq> []"
    by (rule runE)
  have "pv_Name demoPV = ''pvc-1''" by (simp add: demoPV_def)
  with run(1) pv_deleted_in_order [OF run] show ?thesis by (elim exE conjE) (intro exI conjI, assumption, simp)
qed

subsection \<open>Provisioning claims\<close>

lemma publishPV_run:
  assumes "publishPV (liftBackend b) (loggedKube k) pv volume (w, l) = (r, (w', l'))"
  shows "l' = l @ [CreatePV pv]"
    "case k_CreatePV k pv w of
       (Inr _, w1) \<Rightarrow> r = Inr () \<and> w' = w1
     | (Inl e, w1) \<Rightarrow>
         if IsAlreadyExists k e then r = Inr () \<and> w' = w1
         else isl r \<and> w' = (if vol_VolumeId volume = [] then w1 else snd (DeleteVolume b (vol_VolumeId volume) w1))"
proof -
  obtain x w1 where create: "k_CreatePV k pv w = (x, w1)" by (cases "k_CreatePV k pv w")
  then have written: "writing (CreatePV pv) (k_CreatePV k pv) (w, l) = (x, (w1, l @ [CreatePV pv]))" by (simp add: writing_def)
  note run = assms[unfolded publishPV_def, simplified, unfolded attempt_def, simplified written, simplified]
  have "l' = l @ [CreatePV pv] \<and>
    (case x of Inr _ \<Rightarrow> r = Inr () \<and> w' = w1
     | Inl e \<Rightarrow> if IsAlreadyExists k e then r = Inr () \<and> w' = w1
         else isl r \<and> w' = (if vol_VolumeId volume = [] then w1 else snd (DeleteVolume b (vol_VolumeId volume) w1)))"
  proof (cases "\<exists>e. x = Inl e \<and> \<not> IsAlreadyExists k e \<and> vol_VolumeId volume \<noteq> []")
    case True
    with run show ?thesis
      by (auto elim!: quiet_callE [OF _ quiet.keeps_DeleteVolume] dest!: lifted_DeleteVolume)
  next
    case False
    with run show ?thesis by (auto split: sum.splits if_splits)
  qed
  then show "l' = l @ [CreatePV pv]"
    "case k_CreatePV k pv w of
       (Inr _, w1) \<Rightarrow> r = Inr () \<and> w' = w1
     | (Inl e, w1) \<Rightarrow>
         if IsAlreadyExists k e then r = Inr () \<and> w' = w1
         else isl r \<and> w' = (if vol_VolumeId volume = [] then w1 else snd (DeleteVolume b (vol_VolumeId volume) w1))"
    using create by (auto split: sum.splits)
qed

lemma provisionClaim_run:
  assumes "provisionClaim d (liftBackend b) (loggedKube k) pvc sc (w, l) = (r, (w', l'))" "l' \<noteq> l"
  obtains secrets source volume w1 w2 where
    "CreateVolume d b (provisionRequest pvc sc secrets source) w1 = (Inr volume, w2)"
    "publishPV (liftBackend b) (loggedKube k)
       (persistentVolumeForClaim (d_name d) pvc sc (persistentVolumeNameForClaim pvc) volume) volume (w2, l) = (r, (w', l'))"
  using assms unfolding provisionClaim_def Let_def
  by (auto elim!: quiet_callE [OF _ quiet.keeps_secretDataForOperation] quiet_callE [OF _ quiet.keeps_volumeContentSourceForPVC]
      quiet_callE [OF _ quiet.keeps_CreateVolume] dest!: lifted_CreateVolume)

text \<open>
  C17: whatever the cluster and the backend answer, all that is written for a claim is one new
  persistent volume, made from the volume \<^verbatim>\<open>CreateVolume\<close> just returned for this claim, which must
  be unbound, live, and of a class of this driver.  If the cluster refuses it, the request
  fails and the backend volume is deleted again; if it exists already, all is well.
\<close>

theorem claim_published_or_undone:
  assumes "reconcilePersistentVolumeClaim d (liftBackend b) (loggedKube k) pvc (w, []) = (r, (w', written))" "written \<noteq> []"
  shows "\<exists>sc secrets source volume w1 w2.
    \<not> pvc_Deleting pvc \<and> pvc_VolumeName pvc = [] \<and> sc_Provisioner sc = d_name d \<and>
    CreateVolume d b (provisionRequest pvc sc secrets source) w1 = (Inr volume, w2) \<and>
    (let pv = persistentVolumeForClaim (d_name d) pvc sc (persistentVolumeNameForClaim pvc) volume in
     written = [CreatePV pv] \<and>
     (case k_CreatePV k pv w2 of
        (Inr _, w3) \<Rightarrow> r = Inr () \<and> w' = w3
      | (Inl e, w3) \<Rightarrow>
          if IsAlreadyExists k e then r = Inr () \<and> w' = w3
          else isl r \<and> w' = (if vol_VolumeId volume = [] then w3 else snd (DeleteVolume b (vol_VolumeId volume) w3))))"
proof -
  obtain sc w1 where claim: "\<not> pvc_Deleting pvc" "pvc_VolumeName pvc = []" "sc_Provisioner sc = d_name d"
    and run: "provisionClaim d (liftBackend b) (loggedKube k) pvc sc (w1, []) = (r, (w', written))"
    using assms unfolding reconcilePersistentVolumeClaim_def Let_def
    by (auto elim!: callE attemptE dest!: onFst_run split: if_splits sum.splits)
  from run assms(2) show ?thesis
  proof (cases rule: provisionClaim_run)
    case (1 secrets source volume w2 w3)
    from claim 1(1) publishPV_run [OF 1(2)] show ?thesis
      unfolding Let_def append_Nil by (intro exI conjI) assumption+
  qed
qed


text \<open>C17 at a claim whose persistent volume the cluster refuses.\<close>

theorem claim_published_or_undone_witness:
  "\<exists>r w' sc volume. reconcilePersistentVolumeClaim demoDriver (liftBackend demoBackend) (loggedKube demoKube) demoClaim ((), []) =
     (r, (w', [CreatePV (persistentVolumeForClaim (d_name demoDriver) demoClaim sc (persistentVolumeNameForClaim demoClaim) volume)]))"
proof -
  have "isCons (demoLog (reconcilePersistentVolumeClaim demoDriver (liftBackend demoBackend) (loggedKube demoKube) demoClaim) ())" by code_simp
  then obtain r w' l where run: "reconcilePersistentVolumeClaim demoDriver (liftBackend demoBackend) (loggedKube demoKube) demoClaim ((), []) = (r, (w', l))" "l \<noteq> []"
    by (rule runE)
  from claim_published_or_undone [OF run] run(1) show ?thesis unfolding Let_def by (elim exE conjE) (intro exI, simp)
qed

text \<open>
  The capability a volume is attached with is the one it was created with, whatever the
  claim leaves open.
\<close>

theorem attached_as_provisioned:
  "volumeCapabilitiesForPVC pvc sc = [volumeCapabilityForPV (persistentVolumeForClaim driverName' pvc sc pvName volume)]"
  by (auto simp: volumeCapabilitiesForPVC_def volumeCapabilityForPV_def persistentVolumeForClaim_def volumeCapability_def
      Let_def split: option.splits)





subsection \<open>Attaching\<close>

abbreviation unprotectedVA :: "VolumeAttachment \<Rightarrow> VolumeAttachment" where
  "unprotectedVA va \<equiv> va\<lparr>va_Finalizers := uniqueStrings (removeString (va_Finalizers va) vaProtectionFinalizer)\<rparr>"

abbreviation protectedVA :: "VolumeAttachment \<Rightarrow> VolumeAttachment" where
  "protectedVA va \<equiv> va\<lparr>va_Finalizers := uniqueStrings (va_Finalizers va @ [vaProtectionFinalizer])\<rparr>"

lemma find_map_of: "find (\<lambda>p. fst p = key) ps = Some p \<Longrightarrow> map_of ps key = Some (snd p)"
  by (induction ps) (auto split: if_splits)

text \<open>The node a volume is withdrawn from is the one the cached \<^verbatim>\<open>CSINode\<close> of the attachment names for this driver.\<close>

definition withdrawn :: "'d driver \<Rightarrow> 'w Backend \<Rightarrow> 'w Kube \<Rightarrow> VolumeAttachment \<Rightarrow> CSIPersistentVolumeSource \<Rightarrow> 'w \<Rightarrow> 'w \<Rightarrow> bool" where
  "withdrawn d b k va csi w w' \<longleftrightarrow> (\<exists>csiNode w1 nodeID.
     l_GetCSINode k (TrimSpace (va_NodeName va)) w = (Inr csiNode, w1) \<and>
     map_of (cn_Drivers csiNode) (d_name d) = Some nodeID \<and> TrimSpace nodeID \<noteq> [] \<and>
     ControllerUnpublishVolume b (csi_VolumeHandle csi) (TrimSpace nodeID) w1 = (Inr (), w'))"

lemma csiNodeID_run:
  assumes "csiNodeIDForVolumeAttachment d (loggedKube k) va (w, l) = (Inr nodeID, (w1, l1))"
  obtains csiNode name where "l_GetCSINode k (TrimSpace (va_NodeName va)) w = (Inr csiNode, w1)" "map_of (cn_Drivers csiNode) (d_name d) = Some name"
    "nodeID = TrimSpace name" "nodeID \<noteq> []"
  using assms unfolding csiNodeIDForVolumeAttachment_def Let_def
  by (auto elim!: callE dest!: onFst_run find_map_of split: if_splits option.splits)

lemma updateVA_world:
  "updateVAFinalizers (loggedKube k) va fs (w, l) = (r, (w', l')) \<Longrightarrow> w' = snd (k_UpdateVA k (va\<lparr>va_Finalizers := uniqueStrings fs\<rparr>) w)"
  unfolding updateVAFinalizers_def by (auto simp: writing_def elim!: callE split: prod.splits)

lemma detachVolume_run:
  assumes "detachVolume d (liftBackend b) (loggedKube k) va csi (w, l) = (r, (w', l'))" "l' \<noteq> l"
  shows "hasString (va_Finalizers va) vaProtectionFinalizer" "l' = l @ [UpdateVA (unprotectedVA va)]"
    "\<exists>w1. withdrawn d b k va csi w w1 \<and> w' = snd (k_UpdateVA k (unprotectedVA va) w1)"
proof -
  from assms obtain nodeID w1 w2 where has: "hasString (va_Finalizers va) vaProtectionFinalizer"
      and node: "csiNodeIDForVolumeAttachment d (loggedKube k) va (w, l) = (Inr nodeID, (w1, l))"
      and unpub: "ControllerUnpublishVolume b (csi_VolumeHandle csi) nodeID w1 = (Inr (), w2)"
      and upd: "updateVAFinalizers (loggedKube k) va (removeString (va_Finalizers va) vaProtectionFinalizer) (w2, l) = (r, (w', l'))"
    unfolding detachVolume_def
    by (auto elim!: quiet_callE [OF _ quiet.keeps_csiNodeIDForVolumeAttachment] quiet_callE [OF _ quiet.keeps_ControllerUnpublishVolume]
        dest!: lifted_Unpublish split: if_splits)
  show "hasString (va_Finalizers va) vaProtectionFinalizer" by (rule has)
  show "l' = l @ [UpdateVA (unprotectedVA va)]" by (rule updateVA_run [OF upd])
  from node obtain csiNode name where "l_GetCSINode k (TrimSpace (va_NodeName va)) w = (Inr csiNode, w1)"
      "map_of (cn_Drivers csiNode) (d_name d) = Some name" "nodeID = TrimSpace name" "nodeID \<noteq> []"
    by (rule csiNodeID_run)
  then have "withdrawn d b k va csi w w2" using unpub unfolding withdrawn_def by blast
  then show "\<exists>w1. withdrawn d b k va csi w w1 \<and> w' = snd (k_UpdateVA k (unprotectedVA va) w1)" using updateVA_world [OF upd] by blast
qed

text \<open>
  C20: for an attachment that is being deleted, all that is ever written is that our finalizer
  goes, and only when the persistent volume is gone or after the volume of its handle was
  withdrawn, without an error, from the node whose identifier the \<^verbatim>\<open>CSINode\<close> named in the attachment
  has for this driver.
\<close>

theorem finalizer_kept_until_unpublished:
  assumes "reconcileVolumeAttachment d (liftBackend b) (loggedKube k) va (w, []) = (r, (w', written))"
    "va_Deleting va" "written \<noteq> []"
  shows "hasString (va_Finalizers va) vaProtectionFinalizer \<and> written = [UpdateVA (unprotectedVA va)] \<and>
    (case l_GetPV k (TrimSpace (orEmpty (va_PersistentVolumeName va))) w of
       (Inl e, w1) \<Rightarrow> IsNotFound k e \<and> w' = snd (k_UpdateVA k (unprotectedVA va) w1)
     | (Inr pv, w1) \<Rightarrow> \<exists>csi w2. pv_CSI pv = Some csi \<and> csi_Driver csi = d_name d \<and> withdrawn d b k va csi w1 w2 \<and>
         w' = snd (k_UpdateVA k (unprotectedVA va) w2))"
proof -
  let ?name = "TrimSpace (orEmpty (va_PersistentVolumeName va))"
  obtain q w1 where pv: "l_GetPV k ?name w = (q, w1)" by (cases "l_GetPV k ?name w")
  have read: "l_GetPV (loggedKube k) ?name (w, []) = (q, (w1, []))" using pv by (simp add: onFst_def)
  have name: "?name \<noteq> []" using assms(1,3) by (auto simp: reconcileVolumeAttachment_def)
  show ?thesis
  proof (cases q)
    case (Inl e)
    then have e: "IsNotFound k e" "hasString (va_Finalizers va) vaProtectionFinalizer"
        and upd: "updateVAFinalizers (loggedKube k) va (removeString (va_Finalizers va) vaProtectionFinalizer) (w1, []) = (r, (w', written))"
      using assms read name by (auto simp: reconcileVolumeAttachment_def cached_def attempt_def Let_def split: if_splits)
    show ?thesis using e pv Inl updateVA_run [OF upd] updateVA_world [OF upd] by simp
  next
    case (Inr v)
    then obtain csi where c: "pv_CSI v = Some csi" "csi_Driver csi = d_name d"
        and run: "detachVolume d (liftBackend b) (loggedKube k) va csi (w1, []) = (r, (w', written))"
      using assms read name by (auto simp: reconcileVolumeAttachment_def cached_def attempt_def Let_def split: if_splits option.splits)
    show ?thesis using c pv Inr detachVolume_run [OF run assms(3)] by simp
  qed
qed

text \<open>C20 at an attachment that is being deleted.\<close>

theorem finalizer_kept_until_unpublished_witness:
  "\<exists>r w'. reconcileVolumeAttachment demoDriver (liftBackend demoBackend) (loggedKube demoKube) demoVA ((), []) =
     (r, (w', [UpdateVA (unprotectedVA demoVA)])) \<and>
     withdrawn demoDriver demoBackend demoKube demoVA demoCSI () ()"
proof -
  have "isCons (demoLog (reconcileVolumeAttachment demoDriver (liftBackend demoBackend) (loggedKube demoKube) demoVA) ())" by code_simp
  then obtain r w' l where run: "reconcileVolumeAttachment demoDriver (liftBackend demoBackend) (loggedKube demoKube) demoVA ((), []) = (r, (w', l))" "l \<noteq> []"
    by (rule runE)
  have "va_Deleting demoVA" by (simp add: demoVA_def)
  from finalizer_kept_until_unpublished [OF run(1) this run(2)] run(1) show ?thesis
    by (elim conjE) (intro exI [of _ r] exI [of _ w'], auto simp: demoKube_def demoPV_def)
qed

lemma protectVA_run:
  assumes "protectVA (loggedKube k) va (w, l) = (x, (w', l'))"
  shows "l' = l @ (if hasString (va_Finalizers va) vaProtectionFinalizer then [] else [UpdateVA (protectedVA va)])"
    "x = Inr va1 \<Longrightarrow> if hasString (va_Finalizers va) vaProtectionFinalizer then va1 = va \<and> w' = w
       else \<exists>w1. k_UpdateVA k (protectedVA va) w = (Inr (), w1) \<and> k_GetVA k (va_Name va) w1 = (Inr va1, w')"
  using assms unfolding protectVA_def updateVAFinalizers_def
  by (auto elim!: callE dest!: onFst_run writing_run split: if_splits)

text \<open>
  The rest of an attachment after the finalizer is there.
\<close>

lemma publish_run:
  assumes "call (secretDataFromRef (loggedKube k) (csi_ControllerPublishSecretRef csi)) id (\<lambda>secrets.
       call (csiNodeIDForVolumeAttachment d (loggedKube k) va) id (\<lambda>nodeID.
       call (ControllerPublishVolume d (liftBackend b)
              \<lparr>pub_VolumeId = csi_VolumeHandle csi, pub_NodeId = nodeID,
               pub_VolumeCapability = cap_AccessMode (volumeCapabilityForPV pv), pub_Secrets = secrets\<rparr>)
            (\<lambda>e. Errorf ''ControllerPublishVolume: %w'' [ArgE e]) (\<lambda>publishContext.
       call (k_UpdateVAStatus (loggedKube k) (va\<lparr>va_Attached := True, va_AttachmentMetadata := publishContext\<rparr>))
            (\<lambda>e. Errorf ''update VolumeAttachment status %q: %w'' [ArgS (va_Name va), ArgE e]) return))) (w, l) = (r, (w', l'))"
  shows "if l' = l then isl r
    else \<exists>req ctx w1 w2. pub_VolumeId req = csi_VolumeHandle csi \<and> pub_VolumeCapability req = cap_AccessMode (volumeCapabilityForPV pv) \<and>
           ControllerPublishVolume d b req w1 = (Inr ctx, w2) \<and>
           l' = l @ [UpdateVAStatus (va\<lparr>va_Attached := True, va_AttachmentMetadata := ctx\<rparr>)]"
  using assms
proof (cases rule: quiet_callE [OF _ quiet.keeps_secretDataFromRef, consumes 1, case_names err ok])
  case (ok secrets w1)
  from ok(2) show ?thesis
  proof (cases rule: quiet_callE [OF _ quiet.keeps_csiNodeIDForVolumeAttachment, consumes 1, case_names err ok])
    case (ok nodeID w2)
    from ok(2) show ?thesis
    proof (cases rule: quiet_callE [OF _ quiet.keeps_ControllerPublishVolume, consumes 1, case_names err ok])
      case (ok ctx w3)
      from ok(2) have "l' = l @ [UpdateVAStatus (va\<lparr>va_Attached := True, va_AttachmentMetadata := ctx\<rparr>)]"
        by (auto elim!: callE dest!: writing_run)
      with lifted_Publish [OF ok(1)] show ?thesis
        by (auto intro!: exI [of _ "\<lparr>pub_VolumeId = csi_VolumeHandle csi, pub_NodeId = nodeID,
               pub_VolumeCapability = cap_AccessMode (volumeCapabilityForPV pv), pub_Secrets = secrets\<rparr>"])
    qed simp
  qed simp
qed simp

text \<open>
  C19: for an attachment that is not being deleted, the first thing written is our finalizer,
  unless it is there already.  The attachment is reported as attached only after the volume
  was published with the capability of the persistent volume, and with the context that was
  returned.  Without such a report the reconciliation fails and is tried again.
\<close>

theorem attached_after_publish:
  assumes "attachVolume d (liftBackend b) (loggedKube k) va pv csi (w, []) = (r, (w', written))" "\<not> va_Attached va"
  shows "\<exists>va1 reported.
    written = (if hasString (va_Finalizers va) vaProtectionFinalizer then [] else [UpdateVA (protectedVA va)]) @ reported \<and>
    (if reported = [] then isl r
     else \<exists>req ctx w1 w2. pub_VolumeId req = csi_VolumeHandle csi \<and> pub_VolumeCapability req = cap_AccessMode (volumeCapabilityForPV pv) \<and>
       ControllerPublishVolume d b req w1 = (Inr ctx, w2) \<and>
       reported = [UpdateVAStatus (va1\<lparr>va_Attached := True, va_AttachmentMetadata := ctx\<rparr>)] \<and>
       (hasString (va_Finalizers va) vaProtectionFinalizer \<and> va1 = va \<or>
        (\<exists>w1 w2. k_GetVA k (va_Name va) w1 = (Inr va1, w2))))"
  using assms(1)[unfolded attachVolume_def if_not_P [OF assms(2)]]
proof (cases rule: callE)
  case (err e)
  with protectVA_run(1) [OF err(1)] show ?thesis by simp
next
  case (ok va1 wl)
  obtain w1 l1 where wl: "wl = (w1, l1)" by (cases wl)
  note start = protectVA_run [OF ok(1)[unfolded wl]] and rest = publish_run [OF ok(2)[unfolded wl]]
  show ?thesis
  proof (cases "written = l1")
    case True
    with start(1) rest show ?thesis by (intro exI [of _ va1] exI [of _ "[]"]) simp
  next
    case False
    with rest obtain req ctx w2 w3 where pub: "pub_VolumeId req = csi_VolumeHandle csi"
      "pub_VolumeCapability req = cap_AccessMode (volumeCapabilityForPV pv)" "ControllerPublishVolume d b req w2 = (Inr ctx, w3)"
      and "written = l1 @ [UpdateVAStatus (va1\<lparr>va_Attached := True, va_AttachmentMetadata := ctx\<rparr>)]"
      by (simp only: if_False) (elim exE conjE, rule that)
    with start(1) start(2) [OF refl] show ?thesis
      by (intro exI [of _ va1] exI [of _ "[UpdateVAStatus (va1\<lparr>va_Attached := True, va_AttachmentMetadata := ctx\<rparr>)]"])
         (auto split: if_splits)
  qed
qed


text \<open>C19 at a new attachment.\<close>

theorem attached_after_publish_witness:
  "\<exists>r w' reported. attachVolume demoDriver (liftBackend demoBackend) (loggedKube demoKube) (demoVA\<lparr>va_Finalizers := []\<rparr>) demoPV demoCSI ((), []) =
     (r, (w', UpdateVA (protectedVA (demoVA\<lparr>va_Finalizers := []\<rparr>)) # reported))"
proof -
  obtain r w' l where run: "attachVolume demoDriver (liftBackend demoBackend) (loggedKube demoKube) (demoVA\<lparr>va_Finalizers := []\<rparr>) demoPV demoCSI ((), []) = (r, (w', l))"
    by (metis prod.exhaust)
  have "\<not> va_Attached (demoVA\<lparr>va_Finalizers := []\<rparr>)" by (simp add: demoVA_def)
  from attached_after_publish [OF run this] run show ?thesis
    by (elim exE conjE) (intro exI, simp add: hasString_def)
qed

subsection \<open>Queues\<close>

text \<open>
  C21: an event about an attachment of this driver, its removal included, brings its
  persistent volume back to the provisioner, so that a deletion that waited for the
  attachment to go is taken up again.
\<close>

theorem attachment_event_revisits_volume:
  assumes "eventObj e = EventVA va" "va_Attacher va = d_name d" "va_PersistentVolumeName va = Some n" "TrimSpace n \<noteq> []"
    and "l_GetPV k (TrimSpace n) w = (Inr pv, w1)"
  shows "\<exists>key attaches. controllerEvent cfg d k VAInformer h e w = (Inr ([key], attaches), w) \<and>
    reconcileInternalProvisioner d b k key w = reconcilePersistentVolumeDeletion d b k pv w1"
  using assms
  by (simp add: controllerEvent_def enqueueProvisionerPVForVolumeAttachment_def volumeAttachmentFromEventObject_def
      reconcileInternalProvisioner_def cached_def attempt_def Let_def HasPrefix_def TrimPrefix_def)

text \<open>C21 at the removal of an attachment.\<close>

theorem attachment_event_revisits_volume_witness:
  "\<exists>key attaches. controllerEvent (d_internalKubernetes demoDriver) demoDriver demoKube VAInformer DeleteFunc
       (DeletedFinalStateUnknown (EventVA demoVA)) () = (Inr ([key], attaches), ()) \<and>
     reconcileInternalProvisioner demoDriver demoBackend demoKube key () =
     reconcilePersistentVolumeDeletion demoDriver demoBackend demoKube demoPV ()"
proof -
  have "d_name demoDriver = driverName" "TrimSpace ''pvc-1'' \<noteq> []" by code_simp+
  then show ?thesis
    by (intro attachment_event_revisits_volume [of _ demoVA _ "''pvc-1''"]) (simp_all add: demoVA_def demoKube_def)
qed

end
