(* ===== verification/CommandLine.thy ===== *)
theory CommandLine
  imports Kubernetes WinRM GoTime
begin

text \<open>
  The process: the flags and the node id of \<^verbatim>\<open>cmd/csiplugin/main.go\<close>, and the start of the two
  roles (\<^verbatim>\<open>driver.go\<close>, \<^verbatim>\<open>server.go\<close>).  Parsing the command line itself is package flag's; the
  model takes the values of the flags.  A \<^verbatim>\<open>klog.Fatalf\<close> while a role starts is the failure of
  that step.
\<close>

subsection \<open>Values from the environment\<close>

definition envBoolDefault :: "environment \<Rightarrow> string \<Rightarrow> bool \<Rightarrow> bool" where
  "envBoolDefault getenv name fallback =
     (let value = TrimSpace (getenv name) in
      if value = [] then fallback else (case ParseBool value of None \<Rightarrow> fallback | Some parsed \<Rightarrow> parsed))"

definition envIntDefault :: "environment \<Rightarrow> string \<Rightarrow> int \<Rightarrow> int" where
  "envIntDefault getenv name fallback =
     (let value = TrimSpace (getenv name) in
      if value = [] then fallback else (case Atoi value of None \<Rightarrow> fallback | Some parsed \<Rightarrow> parsed))"

definition envDurationDefault :: "environment \<Rightarrow> string \<Rightarrow> int \<Rightarrow> int" where
  "envDurationDefault getenv name fallback =
     (let value = TrimSpace (getenv name) in
      if value = [] then fallback else (case ParseDuration value of None \<Rightarrow> fallback | Some parsed \<Rightarrow> parsed))"

record flags =
  fl_endpoint :: string
  fl_nodeID :: string
  fl_nodeIDFile :: string
  fl_driverName :: string
  fl_mode :: string
  fl_debug :: bool
  fl_kubernetesIntegration :: bool
  fl_controllerPublish :: bool
  fl_livenessPort :: int
  fl_kubeletRegistrationPath :: string
  fl_kubernetesResyncPeriod :: int
  fl_leaderElectionEnabled :: bool
  fl_leaderElectionName :: string
  fl_leaderElectionNamespace :: string
  fl_leaderElectionIdentity :: string
  fl_leaderElectionLeaseDuration :: int
  fl_leaderElectionRenewDeadline :: int
  fl_leaderElectionRetryPeriod :: int

text \<open>The flags of a command line that gives none.\<close>

definition defaultFlags :: "environment \<Rightarrow> flags" where
  "defaultFlags getenv =
     \<lparr>fl_endpoint = ''unix:///csi/csi.sock'',
      fl_nodeID = getenv ''CSI_NODE_ID'',
      fl_nodeIDFile = getenv ''CSI_NODE_ID_FILE'',
      fl_driverName = getenv ''CSI_DRIVER_NAME'',
      fl_mode = getenv ''CSI_DRIVER_MODE'',
      fl_debug = envBoolDefault getenv ''CSI_DEBUG'' False,
      fl_kubernetesIntegration = envBoolDefault getenv ''CSI_KUBERNETES_INTEGRATION'' False,
      fl_controllerPublish = envBoolDefault getenv ''CSI_CONTROLLER_PUBLISH'' True,
      fl_livenessPort = envIntDefault getenv ''CSI_LIVENESS_PORT'' 0,
      fl_kubeletRegistrationPath = getenv ''CSI_KUBELET_REGISTRATION_PATH'',
      fl_kubernetesResyncPeriod = envDurationDefault getenv ''CSI_KUBERNETES_RESYNC_PERIOD'' (5 * Second),
      fl_leaderElectionEnabled = envBoolDefault getenv ''CSI_LEADER_ELECTION'' False,
      fl_leaderElectionName = getenv ''CSI_LEADER_ELECTION_NAME'',
      fl_leaderElectionNamespace = getenv ''CSI_LEADER_ELECTION_NAMESPACE'',
      fl_leaderElectionIdentity = getenv ''CSI_LEADER_ELECTION_IDENTITY'',
      fl_leaderElectionLeaseDuration = envDurationDefault getenv ''CSI_LEADER_ELECTION_LEASE_DURATION'' (15 * Second),
      fl_leaderElectionRenewDeadline = envDurationDefault getenv ''CSI_LEADER_ELECTION_RENEW_DEADLINE'' (10 * Second),
      fl_leaderElectionRetryPeriod = envDurationDefault getenv ''CSI_LEADER_ELECTION_RETRY_PERIOD'' (2 * Second)\<rparr>"

subsection \<open>The node id\<close>

definition trimNodeIDValue :: "string \<Rightarrow> string" where
  "trimNodeIDValue value = Trim (TrimSpace value) [CHR 0x22, CHR 0x27]"

fun nodeIDFromLines :: "string list \<Rightarrow> string" where
  "nodeIDFromLines [] = []"
| "nodeIDFromLines (l # ls) =
     (let line = TrimSpace l in
      if line = [] \<or> HasPrefix line ''#'' then nodeIDFromLines ls
      else (let (key, value, found) = Cut line ''='' in
        if found then
          (if ToLower (TrimSpace key) \<in> {''initiatorname'', ''nodeid'', ''node_id''} then trimNodeIDValue value
           else nodeIDFromLines ls)
        else trimNodeIDValue line))"

definition parseNodeIDContent :: "string \<Rightarrow> string" where
  "parseNodeIDContent content = nodeIDFromLines (splitOn (CHR 0x0A) content)"

definition errNodeIDNotFound :: goerror where
  "errNodeIDNotFound = Errorf ''no node id found'' []"

definition readNodeIDFile :: "(string \<Rightarrow> string result) \<Rightarrow> string \<Rightarrow> string result" where
  "readNodeIDFile ReadFile path =
     onOk (ReadFile path) (\<lambda>content.
       if parseNodeIDContent content \<noteq> [] then Inr (parseNodeIDContent content)
       else Inl (Errorf ''%w in %s'' [ArgE errNodeIDNotFound, ArgS path]))"

text \<open>\<^verbatim>\<open>errors.Is(err, errNodeIDNotFound)\<close>: only \<^verbatim>\<open>readNodeIDFile\<close> makes an error that wraps it.\<close>

definition isNodeIDNotFound :: "goerror \<Rightarrow> bool" where
  "isNodeIDNotFound e =
     (case e of Errorf f (ArgE inner # _) \<Rightarrow> f = ''%w in %s'' \<and> inner = errNodeIDNotFound | _ \<Rightarrow> False)"

definition resolveNodeID :: "(string \<Rightarrow> string result) \<Rightarrow> string \<Rightarrow> string \<Rightarrow> string \<Rightarrow> string result" where
  "resolveNodeID ReadFile explicitNodeID nodeIDFile0 fallbackNodeID0 =
     (let fallbackNodeID = TrimSpace fallbackNodeID0; nodeIDFile = TrimSpace nodeIDFile0 in
      if TrimSpace explicitNodeID \<noteq> [] then Inr (TrimSpace explicitNodeID)
      else if nodeIDFile = [] then Inr fallbackNodeID
      else (case readNodeIDFile ReadFile nodeIDFile of
              Inr resolved \<Rightarrow> Inr resolved
            | Inl e \<Rightarrow> if fallbackNodeID \<noteq> [] \<and> (IsNotExist e \<or> isNodeIDNotFound e) then Inr fallbackNodeID else Inl e))"

subsection \<open>The process\<close>

definition runOptions :: "flags \<Rightarrow> DriverMode \<Rightarrow> RunOptions" where
  "runOptions fl driverMode =
     \<lparr>ro_Mode = driverMode, ro_Debug = fl_debug fl,
      ro_InternalKubernetes =
        \<lparr>ik_Enabled = fl_kubernetesIntegration fl, ik_ControllerPublish = fl_controllerPublish fl,
         ik_LivenessPort = fl_livenessPort fl, ik_KubeletRegistrationPath = fl_kubeletRegistrationPath fl,
         ik_ResyncPeriod = fl_kubernetesResyncPeriod fl\<rparr>,
      ro_LeaderElection =
        \<lparr>le_Enabled = fl_leaderElectionEnabled fl, le_LeaseName = fl_leaderElectionName fl,
         le_LeaseNamespace = fl_leaderElectionNamespace fl, le_Identity = fl_leaderElectionIdentity fl,
         le_LeaseDuration = fl_leaderElectionLeaseDuration fl, le_RenewDeadline = fl_leaderElectionRenewDeadline fl,
         le_RetryPeriod = fl_leaderElectionRetryPeriod fl\<rparr>\<rparr>"

definition handle :: "environment \<Rightarrow> string result \<Rightarrow> (string \<Rightarrow> string result) \<Rightarrow> flags \<Rightarrow> 'd run_action" where
  "handle getenv hostname ReadFile fl =
     (case ParseDriverMode (fl_mode fl) of
        Inl e \<Rightarrow> Fatalf ''invalid --mode: %v'' [ArgE e]
      | Inr driverMode \<Rightarrow>
          (case resolveNodeID ReadFile (fl_nodeID fl) (fl_nodeIDFile fl) (getenv ''KUBE_NODE_NAME'') of
             Inl e \<Rightarrow> Fatalf ''invalid node id: %v'' [ArgE e]
           | Inr resolvedNodeID \<Rightarrow>
               if driverMode = DriverModeNode \<and> resolvedNodeID = [] then
                 Fatalf ''--nodeid, --nodeid-file, or KUBE_NODE_NAME is required in node mode'' []
               else (let d = (if fl_driverName fl \<noteq> [] then NewNamedDriver (fl_driverName fl) resolvedNodeID (fl_endpoint fl)
                              else NewDriver resolvedNodeID (fl_endpoint fl)) in
                 RunWithOptions getenv hostname d (runOptions fl driverMode))))"

definition runDirectory :: "environment \<Rightarrow> 'd driver \<Rightarrow> string" where
  "runDirectory getenv d =
     (let baseDir = TrimSpace (getenv ''CSI_DRIVER_RUN_DIR'') in
      JoinPath [if baseDir = [] then ''/var/run'' else baseDir, d_name d])"

subsection \<open>The server\<close>

datatype service = IdentityService | ControllerService | NodeService

record 'w ServerHost =
  sh_Remove :: "string \<Rightarrow> ('w, unit) io"
  sh_Listen :: "string \<Rightarrow> string \<Rightarrow> ('w, unit) io"
  sh_Serve :: "service list \<Rightarrow> ('w, unit) io"
  sh_IsServerStopped :: "goerror \<Rightarrow> bool"

definition serve :: "'w ServerHost \<Rightarrow> string \<Rightarrow> service list \<Rightarrow> ('w, unit) io" where
  "serve h endpoint services =
     check (ParseEndpoint endpoint) (\<lambda>(proto, addr0).
       let addr = (if proto = ''unix'' then ''/'' @ addr0 else addr0) in
       attempt (if proto = ''unix'' then sh_Remove h addr else return ()) (\<lambda>r.
         if (case r of Inl e \<Rightarrow> \<not> IsNotExist e | Inr _ \<Rightarrow> False) then
           fail (Errorf ''failed to remove %s, error: %w'' [ArgS addr, ArgE (projl r)])
         else call (sh_Listen h proto addr) (\<lambda>e. Errorf ''failed to listen: %w'' [ArgE e]) (\<lambda>_.
           attempt (sh_Serve h services) (\<lambda>r. case r of
             Inl e \<Rightarrow> if sh_IsServerStopped h e then return () else fail (Errorf ''failed to serve requests: %w'' [ArgE e])
           | Inr _ \<Rightarrow> return ()))))"

subsection \<open>Starting a role\<close>

text \<open>
  What a role started: the server's endpoint and services, the backend with whether it is
  behind the debug logger, and the built-in Kubernetes parts.
\<close>

record started =
  st_Endpoint :: string
  st_Services :: "service list"
  st_Backend :: "(WinRMBackend \<times> bool) option"
  st_Kubernetes :: "kubeStart list"

definition validateBackendStartup :: "('c, 'w) WinRMLib \<Rightarrow> WinRMBackend \<Rightarrow> ('w, unit) io" where
  "validateBackendStartup lib b = ValidateConnection lib (Some b) False"

definition serveController ::
  "environment \<Rightarrow> ('c, 'w) WinRMLib \<Rightarrow> unit result \<Rightarrow> 'w RegistrarHost \<Rightarrow> 'd driver \<Rightarrow> ('w, started) io"
where
  "serveController getenv lib newClient h d =
     call (\<lambda>w. (newWinRMBackendFromEnv getenv, w)) (\<lambda>e. Errorf ''failed to init WinRM backend: %v'' [ArgE e]) (\<lambda>b0.
       let b = b0\<lparr>wb_Debug := d_debug d\<rparr> in
       call (validateBackendStartup lib b) (\<lambda>e. Errorf ''failed to validate WinRM backend: %v'' [ArgE e]) (\<lambda>_.
       call (startInternalKubernetes newClient h d) id (\<lambda>kube.
         return \<lparr>st_Endpoint = d_endpoint d, st_Services = [IdentityService, ControllerService],
                 st_Backend = Some (b, d_debug d), st_Kubernetes = kube\<rparr>)))"

definition serveNode :: "unit result \<Rightarrow> 'w RegistrarHost \<Rightarrow> 'd driver \<Rightarrow> ('w, started) io" where
  "serveNode newClient h d =
     call (startInternalKubernetes newClient h d) id (\<lambda>kube.
       return \<lparr>st_Endpoint = d_endpoint d, st_Services = [IdentityService, NodeService], st_Backend = None, st_Kubernetes = kube\<rparr>)"

subsection \<open>Properties\<close>

lemma Trim_outside:
  assumes "\<forall>c\<in>set s. c \<notin> set cutset"
  shows "Trim s cutset = s"
proof -
  have "dropWhile (\<lambda>c. c \<in> set cutset) t = t" if "set t \<subseteq> set s" for t
    using assms that by (cases t) auto
  then show ?thesis by (simp add: Trim_def TrimLeft_def TrimRight_def)
qed

lemma trimNodeIDValue_plain: "\<forall>c\<in>set s. graphic c \<and> c \<notin> {CHR 0x22, CHR 0x27} \<Longrightarrow> trimNodeIDValue s = s"
  unfolding trimNodeIDValue_def using TrimSpace_graphic [of s] Trim_outside [of s "[CHR 0x22, CHR 0x27]"] by auto

lemma nodeIDFromLines_skip:
  "\<forall>l\<in>set skipped. TrimSpace l = [] \<or> HasPrefix (TrimSpace l) ''#'' \<Longrightarrow> nodeIDFromLines (skipped @ ls) = nodeIDFromLines ls"
  by (induction skipped) auto

lemma splitOn_lines:
  "\<forall>l\<in>set ls. d \<notin> set l \<Longrightarrow> splitOn d (concat (map (\<lambda>l. l @ [d]) ls) @ s) = ls @ splitOn d s"
  by (induction ls) (auto simp: splitOn_append)

lemma nodeIDFromLines_initiator:
  assumes "\<forall>c\<in>set iqn. graphic c \<and> c \<notin> {CHR 0x22, CHR 0x27}"
  shows "nodeIDFromLines ((''InitiatorName='' @ iqn) # ls) = iqn"
proof -
  have "list_all graphic ''InitiatorName=''" by code_simp
  then have trim: "TrimSpace (''InitiatorName='' @ iqn) = ''InitiatorName='' @ iqn"
    using assms by (intro TrimSpace_graphic) (auto simp: list_all_iff)
  have cut: "Cut (''InitiatorName='' @ iqn) ''='' = (''InitiatorName'', iqn, True)"
    using Cut_char_append [of "CHR ''=''" "''InitiatorName''" iqn] by simp
  have key: "ToLower (TrimSpace ''InitiatorName'') = ''initiatorname''" by code_simp
  show ?thesis
    using trimNodeIDValue_plain [OF assms] key trim cut by (simp add: HasPrefix_def)
qed

text \<open>
  C25: from a file as open-iscsi writes it, blank lines and comments and then the initiator
  name, the node id is read to be that name, whatever follows.
\<close>

theorem initiator_file_node_id:
  assumes "\<forall>c\<in>set iqn. graphic c \<and> c \<notin> {CHR 0x22, CHR 0x27}" "iqn \<noteq> []"
    and "\<forall>l\<in>set comments. CHR 0x0A \<notin> set l \<and> (TrimSpace l = [] \<or> HasPrefix (TrimSpace l) ''#'')"
    and "ReadFile path = Inr (concat (map (\<lambda>l. l @ [CHR 0x0A]) comments) @ ''InitiatorName='' @ iqn @ CHR 0x0A # rest)"
  shows "readNodeIDFile ReadFile path = Inr iqn"
proof -
  have plain: "\<forall>l\<in>set comments. CHR 0x0A \<notin> set l"
    and skipped: "\<forall>l\<in>set comments. TrimSpace l = [] \<or> HasPrefix (TrimSpace l) ''#''"
    using assms(3) by blast+
  have "\<not> graphic (CHR 0x0A)" by code_simp
  then have "CHR 0x0A \<notin> set (''InitiatorName='' @ iqn)" using assms(1) by auto
  then have "splitOn (CHR 0x0A) (''InitiatorName='' @ iqn @ CHR 0x0A # rest) = (''InitiatorName='' @ iqn) # splitOn (CHR 0x0A) rest"
    using splitOn_append [of "CHR 0x0A" "''InitiatorName='' @ iqn" rest] by simp
  then have "parseNodeIDContent (concat (map (\<lambda>l. l @ [CHR 0x0A]) comments) @ ''InitiatorName='' @ iqn @ CHR 0x0A # rest) = iqn"
    unfolding parseNodeIDContent_def using nodeIDFromLines_initiator [OF assms(1)]
    by (simp only: splitOn_lines [OF plain] nodeIDFromLines_skip [OF skipped])
  with assms(2,4) show ?thesis by (simp add: readNodeIDFile_def)
qed

text \<open>C25 at a file with a comment.\<close>

theorem initiator_file_node_id_witness:
  "readNodeIDFile (\<lambda>p. Inr (''# generated'' @ [CHR 0x0A] @ ''InitiatorName=iqn.a:b'' @ [CHR 0x0A])) ''/f'' = Inr ''iqn.a:b''"
proof -
  have chars: "list_all (\<lambda>c. graphic c \<and> c \<notin> {CHR 0x22, CHR 0x27}) ''iqn.a:b''" by code_simp
  have comment: "list_all (\<lambda>l. CHR 0x0A \<notin> set l \<and> (TrimSpace l = [] \<or> HasPrefix (TrimSpace l) ''#'')) [''# generated'']" by code_simp
  show ?thesis
    by (rule initiator_file_node_id [of "''iqn.a:b''" "[''# generated'']" _ _ "[]"])
       (use chars comment in \<open>simp_all add: list_all_iff\<close>)
qed

lemma resolved_nodeID [simp]:
  "d_nodeID (NewNamedDriver name nodeID endpoint) = nodeID" "d_endpoint (NewNamedDriver name nodeID endpoint) = endpoint"
  "d_nodeID (NewDriver nodeID endpoint) = nodeID" "d_endpoint (NewDriver nodeID endpoint) = endpoint"
  by (simp_all add: NewNamedDriver_def NewDriver_def newNamedProtocolDriverWithShareBackend_def Let_def
      AddControllerServiceCapabilities_def AddVolumeCapabilityAccessModes_def split: prod.splits)

text \<open>
  C24: a process that serves the node role was asked for it, does so at the given endpoint,
  without an election, and under a node id that is not empty: the explicit one if it is
  given, otherwise that of the file or of the cluster.
\<close>

theorem node_role_has_id:
  assumes "handle getenv hostname ReadFile fl = ServeNode d"
  shows "ParseDriverMode (fl_mode fl) = Inr DriverModeNode \<and> d_endpoint d = fl_endpoint fl \<and> \<not> fl_leaderElectionEnabled fl \<and>
    d_nodeID d \<noteq> [] \<and>
    d_nodeID d = (if TrimSpace (fl_nodeID fl) \<noteq> [] then TrimSpace (fl_nodeID fl)
      else case readNodeIDFile ReadFile (TrimSpace (fl_nodeIDFile fl)) of
        Inr i \<Rightarrow> if TrimSpace (fl_nodeIDFile fl) = [] then TrimSpace (getenv ''KUBE_NODE_NAME'') else i
      | Inl _ \<Rightarrow> TrimSpace (getenv ''KUBE_NODE_NAME''))"
  using assms unfolding handle_def resolveNodeID_def RunWithOptions_def runControllerWithLeaderElection_def
  by (auto simp: Let_def runOptions_def split: sum.splits if_splits)

text \<open>C24 at a command line that names the node.\<close>

theorem node_role_has_id_witness:
  "\<exists>d. handle (\<lambda>_. []) (Inr ''h'') (\<lambda>_. Inl (NotExist [])) ((defaultFlags (\<lambda>_. []))\<lparr>fl_mode := ''node'', fl_nodeID := ''iqn.a:b''\<rparr>) =
     (ServeNode d :: unit run_action) \<and> d_nodeID d = ''iqn.a:b''"
proof -
  let ?fl = "(defaultFlags (\<lambda>_. []))\<lparr>fl_mode := ''node'', fl_nodeID := ''iqn.a:b''\<rparr>"
  let ?run = "handle (\<lambda>_. []) (Inr ''h'') (\<lambda>_. Inl (NotExist [])) ?fl :: unit run_action"
  have "case ?run of ServeNode _ \<Rightarrow> True | _ \<Rightarrow> False" by code_simp
  then obtain d where run: "?run = ServeNode d" by (auto split: run_action.splits)
  have "TrimSpace ''iqn.a:b'' = ''iqn.a:b''" by code_simp
  with run node_role_has_id [OF run] show ?thesis by simp
qed

text \<open>
  C23: a controller starts to serve only with a backend configured in the environment, after
  a probe of the host, run with a time limit, has answered that all is well.
\<close>

theorem controller_probes_first:
  assumes "serveController getenv lib newClient h d w = (Inr st, w')"
  shows "\<exists>b out w1. newWinRMBackendFromEnv getenv = Inr b \<and>
    st_Backend st = Some (b\<lparr>wb_Debug := d_debug d\<rparr>, d_debug d) \<and>
    runPS (Some (if wb_Timeout b \<le> 0 then 60 * Second else wb_Timeout b)) lib (b\<lparr>wb_Debug := d_debug d\<rparr>) ps_ValidateConnection
      (decNew [(''ok'', KBool), (''computerName'', KString), (''userName'', KString)]) w = (Inr out, w1) \<and> o_bool out ''ok'' \<and>
    startInternalKubernetes newClient h d w1 = (Inr (st_Kubernetes st), w')"
  using assms unfolding serveController_def validateBackendStartup_def ValidateConnection_def call_def
  by (auto simp: Let_def split: prod.splits sum.splits if_splits)

text \<open>C23 at a host that answers the probe.\<close>

definition demoEnv :: environment where
  "demoEnv k = (if k = ''WINRM_HOST'' then ''wss'' else if k = ''WINRM_USER'' then ''admin''
     else if k = ''WINRM_PASSWORD'' then ''pw'' else [])"

definition demoProbe :: "(unit, unit) WinRMLib" where
  "demoProbe = \<lparr>wl_NewClient = (\<lambda>_ _ _ _. Inr ()),
     wl_Run = (\<lambda>_ _ _ _ w. (Answered (''{'' @ [CHR 0x22] @ ''ok'' @ [CHR 0x22] @ '':true}'') [] 0 None, w))\<rparr>"

definition demoRegistrar :: "unit RegistrarHost" where
  "demoRegistrar = \<lparr>rh_Remove = (\<lambda>_. return ()), rh_MkdirAll = (\<lambda>_. return ()), rh_ListenUnix = (\<lambda>_. return ())\<rparr>"

definition demoController :: "unit driver" where
  "demoController = (NewDriver [] ''unix:///csi/csi.sock'')\<lparr>d_mode := DriverModeController\<rparr>"

theorem controller_probes_first_witness:
  "\<exists>st b. serveController demoEnv demoProbe (Inr ()) demoRegistrar demoController () = (Inr st, ()) \<and>
     newWinRMBackendFromEnv demoEnv = Inr b \<and> st_Backend st = Some (b\<lparr>wb_Debug := False\<rparr>, False)"
proof -
  let ?run = "serveController demoEnv demoProbe (Inr ()) demoRegistrar demoController ()"
  have "case ?run of (Inr _, _) \<Rightarrow> True | _ \<Rightarrow> False" by code_simp
  then obtain st where run: "?run = (Inr st, ())" by (auto split: prod.splits sum.splits)
  have "d_debug demoController = False" by code_simp
  with run controller_probes_first [OF run] show ?thesis by (elim exE conjE) (intro exI, simp)
qed

end
